(* ===== verification/Prelude.thy ===== *)
theory Prelude
  imports Main "HOL-Library.Char_ord" "HOL-Library.List_Lexorder"
begin

text \<open>
  Shared vocabulary of the development.

  \<^item> Effects. A handler that calls the Kubernetes API, a workspace Pod or the clock is a
    function from the history of events so far to a value and the extended history.  What the
    outside answers is a parameter (a function of the history), so nothing is assumed about it
    unless a theorem names the assumption.  \<open>ret\<close>, \<open>bindI\<close> and \<open>tryE\<close> compose
    handlers; \<open>tryE\<close> is Go's \<^verbatim>\<open>if err != nil { return err }\<close>.
  \<^item> Judgements on handlers, each with composition rules in a collection: \<open>wp\<close> (symbolic
    execution), \<open>emits\<close> (every event the handler adds satisfies a predicate), \<open>keeps\<close>
    (a history invariant is preserved) and \<open>runs\<close> (a relation between the result and the
    events added), with \<open>guarded\<close> for "no event of this kind before one of that kind".
  \<^item> Errors as Go values, with the classes \<^verbatim>\<open>apierrors.Is*\<close> distinguishes and the package
    variables \<^verbatim>\<open>errors.Is\<close> looks for (\<open>Sentinel\<close> carries the variable's name and the text
    of the error that wraps it).
\<close>

named_theorems wp_simps \<open>symbolic execution of handlers\<close>
named_theorems emits_rules \<open>which events a handler can add\<close>
named_theorems runs_rules \<open>result and added events of handlers\<close>
named_theorems keeps_rules \<open>history invariants of handlers\<close>

subsection \<open>Errors\<close>

datatype error =
    NotFound string
  | AlreadyExists string
  | Conflict string
  | Invalid string
  | BadRequest string
  | Err string
  | Sentinel string string

type_synonym 'a result = "error + 'a"

fun Error :: "error \<Rightarrow> string" where
  "Error (NotFound s) = s"
| "Error (AlreadyExists s) = s"
| "Error (Conflict s) = s"
| "Error (Invalid s) = s"
| "Error (BadRequest s) = s"
| "Error (Err s) = s"
| "Error (Sentinel _ s) = s"

fun IsNotFound :: "error \<Rightarrow> bool" where
  "IsNotFound (NotFound _) = True"
| "IsNotFound _ = False"

fun IsAlreadyExists :: "error \<Rightarrow> bool" where
  "IsAlreadyExists (AlreadyExists _) = True"
| "IsAlreadyExists _ = False"

fun IsConflict :: "error \<Rightarrow> bool" where
  "IsConflict (Conflict _) = True"
| "IsConflict _ = False"

fun IsInvalid :: "error \<Rightarrow> bool" where
  "IsInvalid (Invalid _) = True"
| "IsInvalid _ = False"

fun IsBadRequest :: "error \<Rightarrow> bool" where
  "IsBadRequest (BadRequest _) = True"
| "IsBadRequest _ = False"

fun errors_Is :: "error \<Rightarrow> error \<Rightarrow> bool" where
  "errors_Is (Sentinel v _) (Sentinel w _) = (v = w)"
| "errors_Is _ _ = False"

definition IgnoreNotFound :: "error option \<Rightarrow> error option" where
  "IgnoreNotFound e = (case e of Some x \<Rightarrow> if IsNotFound x then None else Some x | None \<Rightarrow> None)"

definition IgnoreAlreadyExists :: "error option \<Rightarrow> error option" where
  "IgnoreAlreadyExists e =
     (case e of Some x \<Rightarrow> if IsAlreadyExists x then None else Some x | None \<Rightarrow> None)"

definition as_result :: "error option \<Rightarrow> unit result" where
  "as_result e = (case e of Some x \<Rightarrow> Inl x | None \<Rightarrow> Inr ())"

lemma as_result_simps [simp]:
  "as_result None = Inr ()"
  "as_result (Some e) = Inl e"
  by (simp_all add: as_result_def)

lemma as_result_Inr_iff [simp]: "as_result e = Inr u \<longleftrightarrow> e = None"
  by (cases e) auto

lemma as_result_Inl_iff [simp]: "as_result e = Inl x \<longleftrightarrow> e = Some x"
  by (cases e) auto

lemma IgnoreNotFound_None [simp]: "IgnoreNotFound None = None"
  by (simp add: IgnoreNotFound_def)

lemma IgnoreNotFound_None_iff:
  "IgnoreNotFound e = None \<longleftrightarrow> e = None \<or> (\<exists>x. e = Some x \<and> IsNotFound x)"
  by (auto simp: IgnoreNotFound_def split: option.splits if_splits)

lemma IgnoreAlreadyExists_None [simp]: "IgnoreAlreadyExists None = None"
  by (simp add: IgnoreAlreadyExists_def)

lemma IgnoreAlreadyExists_None_iff:
  "IgnoreAlreadyExists e = None \<longleftrightarrow> e = None \<or> (\<exists>x. e = Some x \<and> IsAlreadyExists x)"
  by (auto simp: IgnoreAlreadyExists_def split: option.splits if_splits)

subsection \<open>Handlers over a history of events\<close>

type_synonym ('ev, 'a) io = "'ev list \<Rightarrow> 'a \<times> 'ev list"

definition ret :: "'a \<Rightarrow> ('ev, 'a) io" where
  "ret x = (\<lambda>h. (x, h))"

definition bindI :: "('ev, 'a) io \<Rightarrow> ('a \<Rightarrow> ('ev, 'b) io) \<Rightarrow> ('ev, 'b) io" where
  "bindI m f = (\<lambda>h. case m h of (x, h') \<Rightarrow> f x h')"

definition ok :: "'a \<Rightarrow> ('ev, 'a result) io" where
  "ok x = ret (Inr x)"

definition fail :: "error \<Rightarrow> ('ev, 'a result) io" where
  "fail e = ret (Inl e)"

definition tryE :: "('ev, 'a result) io \<Rightarrow> ('a \<Rightarrow> ('ev, 'b result) io) \<Rightarrow> ('ev, 'b result) io" where
  "tryE m f = bindI m (\<lambda>r. case r of Inl e \<Rightarrow> fail e | Inr x \<Rightarrow> f x)"

text \<open>One call to the outside: the answer is a function of the history, and the call with its
  answer is recorded.\<close>

definition call :: "('ev list \<Rightarrow> 'a) \<Rightarrow> ('a \<Rightarrow> 'ev) \<Rightarrow> ('ev, 'a) io" where
  "call answer ev = (\<lambda>h. (answer h, h @ [ev (answer h)]))"

text \<open>A read of something that leaves no trace, the clock for instance.\<close>

definition peek :: "('ev list \<Rightarrow> 'a) \<Rightarrow> ('ev, 'a) io" where
  "peek answer = (\<lambda>h. (answer h, h))"

text \<open>A loop that stops at the first error.\<close>

fun forE :: "'a list \<Rightarrow> ('a \<Rightarrow> ('ev, unit result) io) \<Rightarrow> ('ev, unit result) io" where
  "forE [] f = ok ()"
| "forE (x # xs) f = tryE (f x) (\<lambda>_. forE xs f)"

text \<open>A loop with an accumulator that stops at the first error.\<close>

fun foldE :: "('s \<Rightarrow> 'a \<Rightarrow> ('ev, 's result) io) \<Rightarrow> 's \<Rightarrow> 'a list \<Rightarrow> ('ev, 's result) io" where
  "foldE f s [] = ok s"
| "foldE f s (x # xs) = tryE (f s x) (\<lambda>s'. foldE f s' xs)"

subsubsection \<open>Symbolic execution\<close>

definition wp :: "('ev, 'a) io \<Rightarrow> ('a \<Rightarrow> 'ev list \<Rightarrow> bool) \<Rightarrow> 'ev list \<Rightarrow> bool" where
  "wp m Q h \<longleftrightarrow> (case m h of (x, h') \<Rightarrow> Q x h')"

lemma wpI: "Q (fst (m h)) (snd (m h)) \<Longrightarrow> wp m Q h"
  by (simp add: wp_def split_beta)

lemma wpD: "wp m Q h \<Longrightarrow> m h = (x, h') \<Longrightarrow> Q x h'"
  by (simp add: wp_def)

lemma wp_ret [wp_simps]: "wp (ret x) Q = Q x"
  by (simp add: fun_eq_iff wp_def ret_def)

lemma wp_ok [wp_simps]: "wp (ok x) Q = Q (Inr x)"
  by (simp add: ok_def wp_ret)

lemma wp_fail [wp_simps]: "wp (fail e) Q = Q (Inl e)"
  by (simp add: fail_def wp_ret)

lemma wp_bindI [wp_simps]: "wp (bindI m f) Q = wp m (\<lambda>x. wp (f x) Q)"
  by (simp add: fun_eq_iff wp_def bindI_def split: prod.splits)

lemma wp_tryE [wp_simps]:
  "wp (tryE m f) Q = wp m (\<lambda>r. case r of Inl e \<Rightarrow> Q (Inl e) | Inr x \<Rightarrow> wp (f x) Q)"
  by (simp add: fun_eq_iff tryE_def bindI_def wp_def fail_def ret_def split: prod.splits sum.splits)

lemma wp_call [wp_simps]: "wp (call a ev) Q = (\<lambda>h. Q (a h) (h @ [ev (a h)]))"
  by (simp add: fun_eq_iff wp_def call_def)

lemma wp_peek [wp_simps]: "wp (peek a) Q = (\<lambda>h. Q (a h) h)"
  by (simp add: fun_eq_iff wp_def peek_def)

lemma wp_if [wp_simps]: "wp (if b then m else n) Q = (if b then wp m Q else wp n Q)"
  by simp

lemma wp_case_option [wp_simps]:
  "wp (case x of None \<Rightarrow> m | Some y \<Rightarrow> f y) Q = (case x of None \<Rightarrow> wp m Q | Some y \<Rightarrow> wp (f y) Q)"
  by (simp split: option.splits)

lemma wp_case_sum [wp_simps]:
  "wp (case x of Inl e \<Rightarrow> f e | Inr y \<Rightarrow> g y) Q =
     (case x of Inl e \<Rightarrow> wp (f e) Q | Inr y \<Rightarrow> wp (g y) Q)"
  by (simp split: sum.splits)

lemma wp_case_prod [wp_simps]:
  "wp (case x of (a, b) \<Rightarrow> f a b) Q = (case x of (a, b) \<Rightarrow> wp (f a b) Q)"
  by (simp split: prod.splits)

lemma wp_Let [wp_simps]: "wp (let x = a in f x) Q = wp (f a) Q"
  by (simp add: Let_def)

lemma wp_mono: "wp m P h \<Longrightarrow> (\<And>x h'. P x h' \<Longrightarrow> Q x h') \<Longrightarrow> wp m Q h"
  by (simp add: wp_def split: prod.splits)

lemma wp_conj: "wp m (\<lambda>x h'. P x h' \<and> Q x h') h \<longleftrightarrow> wp m P h \<and> wp m Q h"
  by (simp add: wp_def split: prod.splits)

subsubsection \<open>Events a handler adds\<close>

definition emits :: "('ev \<Rightarrow> bool) \<Rightarrow> ('ev, 'a) io \<Rightarrow> bool" where
  "emits S m \<longleftrightarrow> (\<forall>h. \<exists>evs. snd (m h) = h @ evs \<and> list_all S evs)"

lemma emitsI: "(\<And>h. \<exists>evs. snd (m h) = h @ evs \<and> list_all S evs) \<Longrightarrow> emits S m"
  by (simp add: emits_def)

lemma emitsE:
  assumes "emits S m" and "m h = (x, h')"
  obtains evs where "h' = h @ evs" and "list_all S evs"
  using assms unfolding emits_def by (metis snd_conv)

lemma emits_wp: "emits S m \<Longrightarrow> wp m (\<lambda>_ h'. \<exists>evs. h' = h @ evs \<and> list_all S evs) h"
  unfolding emits_def wp_def by (auto split: prod.splits) (metis snd_conv)

lemma emits_mono: "emits S m \<Longrightarrow> (\<And>e. S e \<Longrightarrow> T e) \<Longrightarrow> emits T m"
  unfolding emits_def by (metis list_all_iff)

lemma emits_ret [emits_rules]: "emits S (ret x)"
  by (simp add: emits_def ret_def)

lemma emits_ok [emits_rules]: "emits S (ok x)"
  by (simp add: ok_def emits_ret)

lemma emits_fail [emits_rules]: "emits S (fail e)"
  by (simp add: fail_def emits_ret)

lemma emits_peek [emits_rules]: "emits S (peek a)"
  by (simp add: emits_def peek_def)

lemma emits_call [emits_rules]: "(\<And>x. S (ev x)) \<Longrightarrow> emits S (call a ev)"
  by (simp add: emits_def call_def)

lemma emits_bindI [emits_rules]:
  assumes m: "emits S m" and f: "\<And>x. emits S (f x)"
  shows "emits S (bindI m f)"
proof (rule emitsI)
  fix h
  obtain x h1 where mh: "m h = (x, h1)" by (cases "m h")
  obtain evs where e1: "h1 = h @ evs" "list_all S evs" by (rule emitsE [OF m mh])
  obtain y h2 where fh: "f x h1 = (y, h2)" by (cases "f x h1")
  obtain evs' where e2: "h2 = h1 @ evs'" "list_all S evs'" by (rule emitsE [OF f fh])
  show "\<exists>es. snd (bindI m f h) = h @ es \<and> list_all S es"
    using e1 e2 mh fh by (auto simp: bindI_def)
qed

lemma emits_tryE [emits_rules]:
  "emits S m \<Longrightarrow> (\<And>x. emits S (f x)) \<Longrightarrow> emits S (tryE m f)"
  unfolding tryE_def by (rule emits_bindI) (auto intro: emits_fail split: sum.splits)

lemma emits_if [emits_rules]:
  "(b \<Longrightarrow> emits S m) \<Longrightarrow> (\<not> b \<Longrightarrow> emits S n) \<Longrightarrow> emits S (if b then m else n)"
  by simp

lemma emits_case_option [emits_rules]:
  "(x = None \<Longrightarrow> emits S m) \<Longrightarrow> (\<And>y. x = Some y \<Longrightarrow> emits S (f y)) \<Longrightarrow>
   emits S (case x of None \<Rightarrow> m | Some y \<Rightarrow> f y)"
  by (cases x) auto

lemma emits_case_sum [emits_rules]:
  "(\<And>e. x = Inl e \<Longrightarrow> emits S (f e)) \<Longrightarrow> (\<And>y. x = Inr y \<Longrightarrow> emits S (g y)) \<Longrightarrow>
   emits S (case x of Inl e \<Rightarrow> f e | Inr y \<Rightarrow> g y)"
  by (cases x) auto

lemma emits_case_prod [emits_rules]:
  "(\<And>a b. x = (a, b) \<Longrightarrow> emits S (f a b)) \<Longrightarrow> emits S (case x of (a, b) \<Rightarrow> f a b)"
  by (cases x) auto

lemma emits_Let [emits_rules]: "emits S (f a) \<Longrightarrow> emits S (let x = a in f x)"
  by (simp add: Let_def)

lemma emits_forE [emits_rules]: "(\<And>x. x \<in> set xs \<Longrightarrow> emits S (f x)) \<Longrightarrow> emits S (forE xs f)"
  by (induction xs) (auto intro!: emits_ok emits_tryE)

lemma emits_foldE [emits_rules]: "(\<And>s x. emits S (f s x)) \<Longrightarrow> emits S (foldE f s xs)"
  by (induction xs arbitrary: s) (auto intro!: emits_ok emits_tryE)

text \<open>Two facts that carry most safety proofs: what a handler emits is all it adds, and a handler
  that emits no event of a kind adds none.\<close>

lemma emits_added:
  assumes "emits S m" and "m h = (x, h')" and "e \<in> set h'" and "e \<notin> set h"
  shows "S e"
  using assms by (auto elim!: emitsE simp: list_all_iff)

lemma emits_prefix: "emits S m \<Longrightarrow> m h = (x, h') \<Longrightarrow> \<exists>evs. h' = h @ evs"
  by (auto elim: emitsE)

subsubsection \<open>History invariants\<close>

definition keeps :: "('ev list \<Rightarrow> bool) \<Rightarrow> ('ev, 'a) io \<Rightarrow> bool" where
  "keeps I m \<longleftrightarrow> (\<forall>h. I h \<longrightarrow> I (snd (m h)))"

lemma keeps_ret [keeps_rules]: "keeps I (ret x)"
  by (simp add: keeps_def ret_def)

lemma keeps_ok [keeps_rules]: "keeps I (ok x)"
  by (simp add: ok_def keeps_ret)

lemma keeps_fail [keeps_rules]: "keeps I (fail e)"
  by (simp add: fail_def keeps_ret)

lemma keeps_bindI [keeps_rules]:
  "keeps I m \<Longrightarrow> (\<And>x. keeps I (f x)) \<Longrightarrow> keeps I (bindI m f)"
  by (fastforce simp: keeps_def bindI_def split: prod.splits)

lemma keeps_tryE [keeps_rules]:
  "keeps I m \<Longrightarrow> (\<And>x. keeps I (f x)) \<Longrightarrow> keeps I (tryE m f)"
  unfolding tryE_def by (rule keeps_bindI) (auto intro: keeps_fail split: sum.splits)

lemma keeps_emits:
  assumes "emits S m" and "\<And>h e. I h \<Longrightarrow> S e \<Longrightarrow> I (h @ [e])"
  shows "keeps I m"
proof -
  have app: "I h \<Longrightarrow> list_all S evs \<Longrightarrow> I (h @ evs)" for h evs
  proof (induction evs arbitrary: h)
    case (Cons e evs)
    then have "I (h @ [e])" using assms(2) by simp
    then show ?case using Cons.IH [of "h @ [e]"] Cons.prems by simp
  qed simp
  show ?thesis
    using assms(1) app unfolding keeps_def emits_def by metis
qed

subsubsection \<open>Result and added events\<close>

definition runs :: "('ev, 'a) io \<Rightarrow> 'ev list \<Rightarrow> ('a \<Rightarrow> 'ev list \<Rightarrow> bool) \<Rightarrow> bool" where
  "runs m h Q \<longleftrightarrow> (\<exists>evs. snd (m h) = h @ evs \<and> Q (fst (m h)) evs)"

lemma runsE:
  assumes "runs m h Q"
  obtains x evs where "m h = (x, h @ evs)" and "Q x evs"
  using assms unfolding runs_def by (metis prod.collapse)

lemma runsI: "m h = (x, h @ evs) \<Longrightarrow> Q x evs \<Longrightarrow> runs m h Q"
  by (auto simp: runs_def)

lemma runs_mono: "runs m h P \<Longrightarrow> (\<And>x evs. P x evs \<Longrightarrow> Q x evs) \<Longrightarrow> runs m h Q"
  by (auto simp: runs_def)

lemma runs_eq: "runs m' h Q \<Longrightarrow> m h = m' h \<Longrightarrow> runs m h Q"
  by (simp add: runs_def)

lemma runs_conj:
  assumes "runs m h P" and "runs m h Q"
  shows "runs m h (\<lambda>x evs. P x evs \<and> Q x evs)"
  using assms by (auto simp: runs_def)

lemma runs_ret [runs_rules]: "Q x [] \<Longrightarrow> runs (ret x) h Q"
  by (simp add: runs_def ret_def)

lemma runs_ok [runs_rules]: "Q (Inr x) [] \<Longrightarrow> runs (ok x) h Q"
  by (simp add: ok_def runs_ret)

lemma runs_fail [runs_rules]: "Q (Inl e) [] \<Longrightarrow> runs (fail e) h Q"
  by (simp add: fail_def runs_ret)

lemma runs_call [runs_rules]: "Q (a h) [ev (a h)] \<Longrightarrow> runs (call a ev) h Q"
  by (simp add: runs_def call_def)

lemma runs_peek [runs_rules]: "Q (a h) [] \<Longrightarrow> runs (peek a) h Q"
  by (simp add: runs_def peek_def)

lemma runs_bindI:
  assumes "runs m h P"
    and "\<And>x evs. P x evs \<Longrightarrow> runs (f x) (h @ evs) (\<lambda>y evs'. Q y (evs @ evs'))"
  shows "runs (bindI m f) h Q"
proof -
  obtain x evs where m: "m h = (x, h @ evs)" and P: "P x evs" by (rule runsE [OF assms(1)])
  obtain y evs' where "f x (h @ evs) = (y, (h @ evs) @ evs')" and "Q y (evs @ evs')"
    by (rule runsE [OF assms(2) [OF P]])
  then show ?thesis using m by (intro runsI [where x = y and evs = "evs @ evs'"]) (simp_all add: bindI_def)
qed

lemma runs_tryE:
  assumes "runs m h P"
    and "\<And>e evs. P (Inl e) evs \<Longrightarrow> Q (Inl e) evs"
    and "\<And>x evs. P (Inr x) evs \<Longrightarrow> runs (f x) (h @ evs) (\<lambda>y evs'. Q y (evs @ evs'))"
  shows "runs (tryE m f) h Q"
  unfolding tryE_def
proof (rule runs_bindI [OF assms(1)])
  fix r evs
  assume "P r evs"
  then show "runs (case r of Inl e \<Rightarrow> fail e | Inr x \<Rightarrow> f x) (h @ evs) (\<lambda>y evs'. Q y (evs @ evs'))"
    using assms(2,3) by (cases r) (auto intro!: runs_fail)
qed

lemma runs_emits:
  assumes "emits S m" and "\<And>x evs. list_all S evs \<Longrightarrow> Q x evs"
  shows "runs m h Q"
  using assms unfolding emits_def runs_def by metis

lemma runs_emits_bind:
  assumes "emits S m"
    and "\<And>x evs. list_all S evs \<Longrightarrow> runs (f x) (h @ evs) (\<lambda>y evs'. Q y (evs @ evs'))"
  shows "runs (bindI m f) h Q"
  by (rule runs_bindI [where P = "\<lambda>_. list_all S"]) (auto intro: runs_emits [OF assms(1)] assms(2))

lemma runs_emits_try:
  assumes "emits S m"
    and "\<And>e evs. list_all S evs \<Longrightarrow> Q (Inl e) evs"
    and "\<And>x evs. list_all S evs \<Longrightarrow> runs (f x) (h @ evs) (\<lambda>y evs'. Q y (evs @ evs'))"
  shows "runs (tryE m f) h Q"
  by (rule runs_tryE [where P = "\<lambda>_. list_all S"]) (auto intro: runs_emits [OF assms(1)] assms(2,3))

lemma runs_ret_iff [simp]: "runs (ret x) h Q \<longleftrightarrow> Q x []"
  by (simp add: runs_def ret_def)

lemma emits_runs: "emits S m \<longleftrightarrow> (\<forall>h. runs m h (\<lambda>_ evs. list_all S evs))"
  by (simp add: emits_def runs_def)

lemma runs_wp: "runs m h Q \<longleftrightarrow> wp m (\<lambda>x h'. \<exists>evs. h' = h @ evs \<and> Q x evs) h"
  by (auto simp: runs_def wp_def split: prod.splits)

text \<open>Ordering inside a run: every event is allowed by what came before it in the same run.\<close>

fun guarded :: "('ev list \<Rightarrow> 'ev \<Rightarrow> bool) \<Rightarrow> 'ev list \<Rightarrow> bool" where
  "guarded G [] = True"
| "guarded G (e # es) = (G [] e \<and> guarded (\<lambda>p. G (e # p)) es)"

lemma guarded_append [simp]:
  "guarded G (xs @ ys) \<longleftrightarrow> guarded G xs \<and> guarded (\<lambda>p. G (xs @ p)) ys"
  by (induction xs arbitrary: G) auto

lemma guardedD: "guarded G (xs @ e # ys) \<Longrightarrow> G xs e"
  by simp

lemma guarded_iff: "guarded G evs \<longleftrightarrow> (\<forall>xs e ys. evs = xs @ e # ys \<longrightarrow> G xs e)"
proof (induction evs arbitrary: G)
  case (Cons a evs)
  have "(\<forall>xs e ys. a # evs = xs @ e # ys \<longrightarrow> G xs e) \<longleftrightarrow>
      G [] a \<and> (\<forall>xs e ys. evs = xs @ e # ys \<longrightarrow> G (a # xs) e)"
    by (auto simp: Cons_eq_append_conv)
  then show ?case using Cons by simp
qed simp

lemma guarded_free: "list_all (\<lambda>e. \<forall>p. G p e) evs \<Longrightarrow> guarded G evs"
  by (simp add: guarded_iff list_all_iff)

lemma guarded_weaken: "guarded G evs \<Longrightarrow> (\<And>p e. G p e \<Longrightarrow> G' p e) \<Longrightarrow> guarded G' evs"
  by (simp add: guarded_iff)

lemma guarded_shift:
  assumes "guarded G evs" and "\<And>p q e. G p e \<Longrightarrow> G (q @ p) e"
  shows "guarded (\<lambda>p. G (xs @ p)) evs"
  using assms by (simp add: guarded_iff)

end
