(* ===== verification/GoStd.thy ===== *)
theory GoStd
  imports Prelude "HOL-Library.Sublist" "HOL-Library.Multiset"
begin

text \<open>
  What the program uses of Go's standard library.

  A Go string is its byte sequence.  Case mapping and white space are those of ASCII: the bytes
  of a multi-byte rune are left as they are (the one place where Go's Unicode tables would differ
  for the strings this program builds is a rune whose lower-case form is an ASCII letter, the
  Kelvin sign and the dotted capital I).  \<^verbatim>\<open>sort.Slice\<close> is an insertion sort, which is
  what Go runs for short slices; the lemmas of the locale \<open>slice_order\<close> show that the result
  does not depend on the algorithm where the order is total on the elements.
\<close>

subsection \<open>Strings\<close>

definition is_upper :: "char \<Rightarrow> bool" where
  "is_upper c \<longleftrightarrow> CHR ''A'' \<le> c \<and> c \<le> CHR ''Z''"

definition is_lower :: "char \<Rightarrow> bool" where
  "is_lower c \<longleftrightarrow> CHR ''a'' \<le> c \<and> c \<le> CHR ''z''"

definition is_digit :: "char \<Rightarrow> bool" where
  "is_digit c \<longleftrightarrow> CHR ''0'' \<le> c \<and> c \<le> CHR ''9''"

definition lower_char :: "char \<Rightarrow> char" where
  "lower_char c = (if is_upper c then char_of (of_char c + 32 :: nat) else c)"

definition ToLower :: "string \<Rightarrow> string" where
  "ToLower s = map lower_char s"

definition EqualFold :: "string \<Rightarrow> string \<Rightarrow> bool" where
  "EqualFold s t \<longleftrightarrow> ToLower s = ToLower t"

definition is_space :: "char \<Rightarrow> bool" where
  "is_space c \<longleftrightarrow> c \<in> {CHR '' '', CHR 0x09, CHR 0x0A, CHR 0x0B, CHR 0x0C, CHR 0x0D}"

definition TrimRightP :: "(char \<Rightarrow> bool) \<Rightarrow> string \<Rightarrow> string" where
  "TrimRightP p s = rev (dropWhile p (rev s))"

definition TrimP :: "(char \<Rightarrow> bool) \<Rightarrow> string \<Rightarrow> string" where
  "TrimP p s = TrimRightP p (dropWhile p s)"

definition TrimSpace :: "string \<Rightarrow> string" where
  "TrimSpace s = TrimP is_space s"

definition HasSuffix :: "string \<Rightarrow> string \<Rightarrow> bool" where
  "HasSuffix s t \<longleftrightarrow> suffix t s"

definition TrimSuffix :: "string \<Rightarrow> string \<Rightarrow> string" where
  "TrimSuffix s t = (if suffix t s then take (length s - length t) s else s)"

text \<open>\<^verbatim>\<open>regexp.ReplaceAllString\<close> for a pattern \<open>[class]+\<close>: every maximal run of
  the class becomes one occurrence of the replacement.\<close>

function replace_runs :: "(char \<Rightarrow> bool) \<Rightarrow> char \<Rightarrow> string \<Rightarrow> string" where
  "replace_runs p c [] = []"
| "replace_runs p c (x # xs) =
     (if p x then c # replace_runs p c (dropWhile p xs) else x # replace_runs p c xs)"
  by pat_completeness auto
termination
  by (relation "measure (\<lambda>(p, c, xs). length xs)")
     (auto simp: le_imp_less_Suc length_dropWhile_le)

text \<open>\<^verbatim>\<open>strings.Split\<close> with a one-byte separator, \<^verbatim>\<open>strings.Join\<close>,
  \<^verbatim>\<open>strings.Cut\<close> with a one-byte separator and \<^verbatim>\<open>strings.ReplaceAll\<close> of one
  byte by another.\<close>

fun Split :: "char \<Rightarrow> string \<Rightarrow> string list" where
  "Split sep [] = [[]]"
| "Split sep (x # xs) =
     (if x = sep then [] # Split sep xs
      else (case Split sep xs of [] \<Rightarrow> [[x]] | p # ps \<Rightarrow> (x # p) # ps))"

fun Join :: "string list \<Rightarrow> string \<Rightarrow> string" where
  "Join [] sep = []"
| "Join [x] sep = x"
| "Join (x # y # ys) sep = x @ sep @ Join (y # ys) sep"

definition Cut :: "string \<Rightarrow> char \<Rightarrow> string \<times> string \<times> bool" where
  "Cut s sep = (if sep \<in> set s
     then (takeWhile (\<lambda>c. c \<noteq> sep) s, tl (dropWhile (\<lambda>c. c \<noteq> sep) s), True)
     else (s, [], False))"

definition ReplaceAll :: "string \<Rightarrow> char \<Rightarrow> char \<Rightarrow> string" where
  "ReplaceAll s a b = map (\<lambda>c. if c = a then b else c) s"

text \<open>\<^verbatim>\<open>strings.Index\<close>: the suffix of \<open>s\<close> starting at the first occurrence of
  \<open>t\<close>, if there is one.\<close>

fun from_index :: "string \<Rightarrow> string \<Rightarrow> string option" where
  "from_index [] t = (if t = [] then Some [] else None)"
| "from_index (x # xs) t = (if prefix t (x # xs) then Some (x # xs) else from_index xs t)"

subsection \<open>strconv and fmt\<close>

definition digit_char :: "nat \<Rightarrow> char" where
  "digit_char d = char_of (48 + d)"

definition digit_value :: "char \<Rightarrow> nat" where
  "digit_value c = of_char c - 48"

fun decimal :: "nat \<Rightarrow> string" where
  "decimal n = (if n < 10 then [digit_char n] else decimal (n div 10) @ [digit_char (n mod 10)])"

declare decimal.simps [simp del]

definition Itoa :: "int \<Rightarrow> string" where
  "Itoa i = (if i < 0 then CHR ''-'' # decimal (nat (- i)) else decimal (nat i))"

definition max_int64 :: int where
  "max_int64 = 9223372036854775807"

definition min_int64 :: int where
  "min_int64 = - 9223372036854775808"

definition parse_digits :: "string \<Rightarrow> nat option" where
  "parse_digits s = (if s \<noteq> [] \<and> list_all is_digit s
     then Some (foldl (\<lambda>acc c. 10 * acc + digit_value c) 0 s) else None)"

text \<open>\<^verbatim>\<open>strconv.Atoi\<close>: \<open>None\<close> is the error, for a syntax error as for a value
  outside \<^verbatim>\<open>int64\<close>.\<close>

definition Atoi :: "string \<Rightarrow> int option" where
  "Atoi s =
     (let (neg, ds) = (case s of c # cs \<Rightarrow> if c = CHR ''-'' then (True, cs)
                                  else if c = CHR ''+'' then (False, cs) else (False, s)
                       | [] \<Rightarrow> (False, s))
      in case parse_digits ds of None \<Rightarrow> None
         | Some n \<Rightarrow> (let v = (if neg then - int n else int n)
                      in if min_int64 \<le> v \<and> v \<le> max_int64 then Some v else None))"

definition hex_digit :: "nat \<Rightarrow> char" where
  "hex_digit d = (if d < 10 then char_of (48 + d) else char_of (87 + d))"

text \<open>\<^verbatim>\<open>hex.EncodeToString\<close> of a byte list.\<close>

definition hex_encode :: "nat list \<Rightarrow> string" where
  "hex_encode bs = concat (map (\<lambda>b. [hex_digit (b div 16 mod 16), hex_digit (b mod 16)]) bs)"

text \<open>\<^verbatim>\<open>%q\<close>, \<^verbatim>\<open>strconv.Quote\<close>, on bytes: printable runes stand for
  themselves.\<close>

definition quote_char :: "char \<Rightarrow> string" where
  "quote_char c =
     (if c = CHR 0x22 then [CHR 0x5C, CHR 0x22]
      else if c = CHR 0x5C then [CHR 0x5C, CHR 0x5C]
      else if c = CHR 0x07 then [CHR 0x5C, CHR ''a'']
      else if c = CHR 0x08 then [CHR 0x5C, CHR ''b'']
      else if c = CHR 0x0C then [CHR 0x5C, CHR ''f'']
      else if c = CHR 0x0A then [CHR 0x5C, CHR ''n'']
      else if c = CHR 0x0D then [CHR 0x5C, CHR ''r'']
      else if c = CHR 0x09 then [CHR 0x5C, CHR ''t'']
      else if c = CHR 0x0B then [CHR 0x5C, CHR ''v'']
      else if (of_char c :: nat) < 32 \<or> (of_char c :: nat) = 127
        then [CHR 0x5C, CHR ''x'', hex_digit (of_char c div 16), hex_digit (of_char c mod 16)]
      else [c])"

definition Quote :: "string \<Rightarrow> string" where
  "Quote s = [CHR 0x22] @ concat (map quote_char s) @ [CHR 0x22]"

subsection \<open>sort.Slice\<close>

fun insert_by :: "('a \<Rightarrow> 'a \<Rightarrow> bool) \<Rightarrow> 'a \<Rightarrow> 'a list \<Rightarrow> 'a list" where
  "insert_by lt x [] = [x]"
| "insert_by lt x (y # ys) = (if lt x y then x # y # ys else y # insert_by lt x ys)"

definition sort_Slice :: "('a \<Rightarrow> 'a \<Rightarrow> bool) \<Rightarrow> 'a list \<Rightarrow> 'a list" where
  "sort_Slice lt xs = foldl (\<lambda>acc x. insert_by lt x acc) [] xs"

lemma mset_insert_by [simp]: "mset (insert_by lt x ys) = add_mset x (mset ys)"
  by (induction ys) auto

lemma mset_foldl_insert_by:
  "mset (foldl (\<lambda>acc x. insert_by lt x acc) acc xs) = mset acc + mset xs"
  by (induction xs arbitrary: acc) auto

lemma mset_sort_Slice [simp]: "mset (sort_Slice lt xs) = mset xs"
  by (simp add: sort_Slice_def mset_foldl_insert_by)

lemma set_sort_Slice [simp]: "set (sort_Slice lt xs) = set xs"
  by (metis mset_sort_Slice set_mset_mset)

lemma length_sort_Slice [simp]: "length (sort_Slice lt xs) = length xs"
  by (metis mset_sort_Slice size_mset)

lemma sort_Slice_Nil [simp]: "sort_Slice lt [] = []"
  by (simp add: sort_Slice_def)

lemma sort_Slice_eq_Nil_iff [simp]: "sort_Slice lt xs = [] \<longleftrightarrow> xs = []"
  by (metis length_0_conv length_sort_Slice)

text \<open>The order a caller hands to \<^verbatim>\<open>sort.Slice\<close>: a strict weak order, as the library
  asks for.\<close>

locale slice_order =
  fixes lt :: "'a \<Rightarrow> 'a \<Rightarrow> bool"
  assumes less_irrefl: "\<not> lt x x"
    and less_trans: "lt x y \<Longrightarrow> lt y z \<Longrightarrow> lt x z"
    and less_weak: "lt x z \<Longrightarrow> lt x y \<or> lt y z"
begin

lemma less_asym: "lt x y \<Longrightarrow> \<not> lt y x"
  using less_irrefl less_trans by blast

abbreviation in_order :: "'a list \<Rightarrow> bool" where
  "in_order \<equiv> sorted_wrt (\<lambda>x y. \<not> lt y x)"

lemma in_order_insert_by: "in_order ys \<Longrightarrow> in_order (insert_by lt x ys)"
proof (induction ys)
  case (Cons y ys)
  have set_ins: "set (insert_by lt x ys) = insert x (set ys)"
    by (metis mset_insert_by set_mset_add_mset_insert set_mset_mset)
  show ?case
  proof (cases "lt x y")
    case True
    have "\<not> lt z x" if "z \<in> set (y # ys)" for z
    proof
      assume zx: "lt z x"
      then have zy: "lt z y" using True less_trans by blast
      show False
        using that zy Cons.prems less_irrefl by auto
    qed
    then show ?thesis using True Cons.prems by auto
  next
    case False
    then show ?thesis using Cons set_ins by auto
  qed
qed simp

lemma in_order_sort_Slice: "in_order (sort_Slice lt xs)"
proof -
  have "in_order acc \<Longrightarrow> in_order (foldl (\<lambda>acc x. insert_by lt x acc) acc xs)" for acc
    by (induction xs arbitrary: acc) (auto intro: in_order_insert_by)
  then show ?thesis by (simp add: sort_Slice_def)
qed

lemma hd_sort_Slice_least: "xs \<noteq> [] \<Longrightarrow> x \<in> set xs \<Longrightarrow> \<not> lt x (hd (sort_Slice lt xs))"
proof -
  assume ne: "xs \<noteq> []" and x: "x \<in> set xs"
  obtain y ys where s: "sort_Slice lt xs = y # ys"
    using ne by (metis neq_Nil_conv sort_Slice_eq_Nil_iff)
  have "x \<in> set (y # ys)" using x s by (metis set_sort_Slice)
  moreover have "in_order (y # ys)" using in_order_sort_Slice [of xs] s by simp
  ultimately show ?thesis using s less_irrefl by auto
qed

lemma hd_sort_Slice_in: "xs \<noteq> [] \<Longrightarrow> hd (sort_Slice lt xs) \<in> set xs"
  by (metis hd_in_set set_sort_Slice sort_Slice_eq_Nil_iff)

text \<open>Where distinct elements never tie, the sorted slice is determined by its multiset, so any
  correct algorithm returns it.\<close>

lemma in_order_unique:
  assumes "mset xs = mset ys" and "in_order xs" and "in_order ys"
    and "\<And>a b. a \<in> set xs \<Longrightarrow> b \<in> set xs \<Longrightarrow> a \<noteq> b \<Longrightarrow> lt a b \<or> lt b a"
  shows "xs = ys"
  using assms
proof (induction xs arbitrary: ys)
  case Nil
  then show ?case by simp
next
  case (Cons x xs ys)
  then obtain y ys' where ys: "ys = y # ys'" by (cases ys) auto
  have sets: "set (x # xs) = set (y # ys')" using Cons.prems(1) ys by (metis set_mset_mset)
  have "x = y"
  proof (rule ccontr)
    assume ne: "x \<noteq> y"
    then have "y \<in> set xs" and "x \<in> set ys'" using sets by auto
    then have "\<not> lt y x" and "\<not> lt x y" using Cons.prems(2,3) ys by auto
    moreover have "lt x y \<or> lt y x"
      using Cons.prems(4) [of x y] \<open>y \<in> set xs\<close> ne by simp
    ultimately show False by blast
  qed
  moreover have "xs = ys'"
    using Cons.prems ys \<open>x = y\<close> by (intro Cons.IH) auto
  ultimately show ?case using ys by simp
qed

end

subsection \<open>Splitting and trimming\<close>

lemma Split_not_Nil [simp]: "Split c s \<noteq> []"
  by (cases s) (auto split: list.splits)

lemma Split_segment: "c \<notin> set s \<Longrightarrow> Split c s = [s]"
  by (induction s) auto

lemma Split_append: "Split c (s @ c # t) = Split c s @ Split c t"
  by (induction s) (auto split: list.splits)

lemma Split_Join: "segs \<noteq> [] \<Longrightarrow> \<forall>s \<in> set segs. c \<notin> set s \<Longrightarrow> Split c (Join segs [c]) = segs"
proof (induction segs "[c]" rule: Join.induct)
  case (3 x y ys)
  then have "Split c (Join (y # ys) [c]) = y # ys" by simp
  then show ?case using 3(3) Split_append [of c x "Join (y # ys) [c]"] by (simp add: Split_segment)
qed (auto simp: Split_segment)

lemma TrimSpace_id:
  assumes "s \<noteq> []" and "\<not> is_space (hd s)" and "\<not> is_space (List.last s)"
  shows "TrimSpace s = s"
proof -
  have "dropWhile is_space s = s" using assms by (cases s) auto
  moreover have "dropWhile is_space (rev s) = rev s"
    using assms by (cases s rule: rev_cases) auto
  ultimately show ?thesis by (simp add: TrimSpace_def TrimP_def TrimRightP_def)
qed

subsection \<open>Decimal numbers\<close>

lemma digit_char_ok: "d < 10 \<Longrightarrow> is_digit (digit_char d) \<and> digit_value (digit_char d) = d"
proof -
  assume "d < 10"
  then have "d \<in> {0, 1, 2, 3, 4, 5, 6, 7, 8, 9}" by auto
  then show ?thesis by (auto simp: is_digit_def digit_char_def digit_value_def less_eq_char_def)
qed

lemma decimal_digits: "decimal n \<noteq> [] \<and> list_all is_digit (decimal n) \<and>
  foldl (\<lambda>acc c. 10 * acc + digit_value c) 0 (decimal n) = n"
proof (induction n rule: decimal.induct)
  case (1 n)
  show ?case
  proof (cases "n < 10")
    case True
    then show ?thesis using digit_char_ok [OF True] by (subst decimal.simps) (simp add: decimal.simps)
  next
    case False
    then have "decimal n = decimal (n div 10) @ [digit_char (n mod 10)]"
      by (subst decimal.simps) simp
    then show ?thesis using 1 [OF False] digit_char_ok [of "n mod 10"] by simp
  qed
qed

lemma parse_decimal: "parse_digits (decimal n) = Some n"
  using decimal_digits [of n] by (simp add: parse_digits_def)

lemma Atoi_Itoa:
  assumes "0 \<le> i" and "i \<le> max_int64"
  shows "Atoi (Itoa i) = Some i"
proof -
  obtain c cs where d: "decimal (nat i) = c # cs" using decimal_digits [of "nat i"] by (cases "decimal (nat i)") auto
  have "is_digit c" using decimal_digits [of "nat i"] d by simp
  then have "c \<noteq> CHR ''-''" and "c \<noteq> CHR ''+''" by (auto simp: is_digit_def less_eq_char_def)
  then show ?thesis
    using assms parse_decimal [of "nat i"] d by (simp add: Atoi_def Itoa_def min_int64_def)
qed

end
