(* ===== verification/Sha256.thy ===== *)
theory Sha256
  imports GoStd "HOL-Library.Word"
begin

text \<open>
  \<^verbatim>\<open>crypto/sha256.Sum256\<close> on byte strings (FIPS 180-4), over 32-bit words.  The
  controller derives collision suffixes from it; the development needs its shape (32 bytes, each
  below 256) and a concrete function to evaluate.
\<close>

unbundle bit_operations_syntax

type_synonym u32 = "32 word"

text \<open>The constants of the standard are the first 32 bits of the fractional parts of roots of the
  first primes; they are computed here by bisection, one bit at a time.\<close>

definition first_primes :: "int list" where
  "first_primes =
    [2, 3, 5, 7, 11, 13, 17, 19, 23, 29, 31, 37, 41, 43, 47, 53,
     59, 61, 67, 71, 73, 79, 83, 89, 97, 101, 103, 107, 109, 113, 127, 131,
     137, 139, 149, 151, 157, 163, 167, 173, 179, 181, 191, 193, 197, 199, 211, 223,
     227, 229, 233, 239, 241, 251, 257, 263, 269, 271, 277, 281, 283, 293, 307, 311]"

fun root_bits :: "nat \<Rightarrow> int \<Rightarrow> nat \<Rightarrow> int \<Rightarrow> int" where
  "root_bits k n 0 r = r"
| "root_bits k n (Suc b) r = root_bits k n b (if (r + 2 ^ b) ^ k \<le> n then r + 2 ^ b else r)"

definition frac_root :: "nat \<Rightarrow> int \<Rightarrow> u32" where
  "frac_root k p = of_int (root_bits k (p * 2 ^ (32 * k)) 40 0)"

definition sha_K :: "u32 list" where
  "sha_K = map (frac_root 3) first_primes"

record sha_state =
  sha_a :: u32
  sha_b :: u32
  sha_c :: u32
  sha_d :: u32
  sha_e :: u32
  sha_f :: u32
  sha_g :: u32
  sha_h :: u32

definition sha_H0 :: sha_state where
  "sha_H0 = (let root = (\<lambda>i. frac_root 2 (first_primes ! i)) in
     \<lparr>sha_a = root 0, sha_b = root 1, sha_c = root 2, sha_d = root 3,
      sha_e = root 4, sha_f = root 5, sha_g = root 6, sha_h = root 7\<rparr>)"

definition rotr :: "nat \<Rightarrow> u32 \<Rightarrow> u32" where
  "rotr n x = drop_bit n x OR push_bit (32 - n) x"

definition sched_next :: "u32 list \<Rightarrow> u32" where
  "sched_next w =
     (let n = length w; w15 = w ! (n - 15); w2 = w ! (n - 2);
          s0 = rotr 7 w15 XOR rotr 18 w15 XOR drop_bit 3 w15;
          s1 = rotr 17 w2 XOR rotr 19 w2 XOR drop_bit 10 w2
      in w ! (n - 16) + s0 + w ! (n - 7) + s1)"

fun schedule :: "nat \<Rightarrow> u32 list \<Rightarrow> u32 list" where
  "schedule 0 w = w"
| "schedule (Suc n) w = schedule n (w @ [sched_next w])"

definition sha_round :: "sha_state \<Rightarrow> u32 \<times> u32 \<Rightarrow> sha_state" where
  "sha_round s kw =
     (let S1 = rotr 6 (sha_e s) XOR rotr 11 (sha_e s) XOR rotr 25 (sha_e s);
          ch = (sha_e s AND sha_f s) XOR (NOT (sha_e s) AND sha_g s);
          t1 = sha_h s + S1 + ch + fst kw + snd kw;
          S0 = rotr 2 (sha_a s) XOR rotr 13 (sha_a s) XOR rotr 22 (sha_a s);
          maj = (sha_a s AND sha_b s) XOR (sha_a s AND sha_c s) XOR (sha_b s AND sha_c s);
          t2 = S0 + maj
      in \<lparr>sha_a = t1 + t2, sha_b = sha_a s, sha_c = sha_b s, sha_d = sha_c s,
          sha_e = sha_d s + t1, sha_f = sha_e s, sha_g = sha_f s, sha_h = sha_g s\<rparr>)"

definition sha_chunk :: "sha_state \<Rightarrow> u32 list \<Rightarrow> sha_state" where
  "sha_chunk s ws =
     (let t = foldl sha_round s (zip sha_K (schedule 48 ws))
      in \<lparr>sha_a = sha_a s + sha_a t, sha_b = sha_b s + sha_b t, sha_c = sha_c s + sha_c t,
          sha_d = sha_d s + sha_d t, sha_e = sha_e s + sha_e t, sha_f = sha_f s + sha_f t,
          sha_g = sha_g s + sha_g t, sha_h = sha_h s + sha_h t\<rparr>)"

definition be_bytes :: "nat \<Rightarrow> nat \<Rightarrow> nat list" where
  "be_bytes k n = map (\<lambda>i. n div 256 ^ (k - 1 - i) mod 256) [0..<k]"

definition sha_pad :: "nat list \<Rightarrow> nat list" where
  "sha_pad m = (let l = length m; z = (119 - l mod 64) mod 64
                in m @ [128] @ replicate z 0 @ be_bytes 8 (8 * l))"

fun be_words :: "nat list \<Rightarrow> u32 list" where
  "be_words (a # b # c # d # r) =
     of_nat (((a * 256 + b) * 256 + c) * 256 + d) # be_words r"
| "be_words _ = []"

fun chunks_of :: "nat \<Rightarrow> u32 list \<Rightarrow> u32 list list" where
  "chunks_of 0 w = []"
| "chunks_of (Suc n) w = take 16 w # chunks_of n (drop 16 w)"

definition word_bytes :: "u32 \<Rightarrow> nat list" where
  "word_bytes w = be_bytes 4 (unat w)"

definition Sum256 :: "string \<Rightarrow> nat list" where
  "Sum256 m =
     (let ws = be_words (sha_pad (map of_char m));
          s = foldl sha_chunk sha_H0 (chunks_of (length ws div 16) ws)
      in concat (map word_bytes
           [sha_a s, sha_b s, sha_c s, sha_d s, sha_e s, sha_f s, sha_g s, sha_h s]))"

lemma length_be_bytes [simp]: "length (be_bytes k n) = k"
  by (simp add: be_bytes_def)

lemma be_bytes_lt: "b \<in> set (be_bytes k n) \<Longrightarrow> b < 256"
  by (auto simp: be_bytes_def)

lemma length_word_bytes [simp]: "length (word_bytes w) = 4"
  by (simp add: word_bytes_def)

lemma length_Sum256 [simp]: "length (Sum256 m) = 32"
  by (simp add: Sum256_def Let_def)

lemma Sum256_byte: "b \<in> set (Sum256 m) \<Longrightarrow> b < 256"
  by (auto simp: Sum256_def Let_def word_bytes_def dest: be_bytes_lt)

end
