(* ===== verification/Naming.thy ===== *)
theory Naming
  imports Sha256
begin

text \<open>
  Resource names and host names: \<^verbatim>\<open>controller/internal/controller/naming.go\<close>, the host
  label part of \<^verbatim>\<open>ingress_reconciler.go\<close>, and the gateway's own copy of the normalisation
  (\<^verbatim>\<open>gateway/internal/gateway/workspaces.go\<close>).  Shown: the result is always a DNS-1123
  label, the two copies agree, a derived name is free, and what the host labels do and do not keep
  apart.
\<close>

subsection \<open>naming.go\<close>

definition dnsLabelMaxLength :: int where
  "dnsLabelMaxLength = 63"

definition hashSuffixLength :: nat where
  "hashSuffixLength = 8"

abbreviation dash :: char where
  "dash \<equiv> CHR ''-''"

definition label_char :: "char \<Rightarrow> bool" where
  "label_char c \<longleftrightarrow> is_lower c \<or> is_digit c \<or> c = dash"

definition truncateDNSLabel :: "string \<Rightarrow> int \<Rightarrow> string" where
  "truncateDNSLabel s mx =
     (let mx = (if mx < 0 then 0 else mx);
          s = (if int (length s) > mx then take (nat mx) s else s)
      in TrimRightP (\<lambda>c. c = dash) s)"

definition sanitizeDNSLabel :: "string \<Rightarrow> string" where
  "sanitizeDNSLabel s =
     (let lower = ToLower s;
          replaced = replace_runs (\<lambda>c. \<not> label_char c) dash lower;
          collapsed = replace_runs (\<lambda>c. c = dash) dash replaced;
          trimmed = TrimP (\<lambda>c. c = dash) collapsed
      in truncateDNSLabel trimmed dnsLabelMaxLength)"

definition shortHash :: "string \<Rightarrow> string" where
  "shortHash s = take hashSuffixLength (hex_encode (Sum256 s))"

definition DeriveResourceName :: "string \<Rightarrow> (string \<Rightarrow> bool) \<Rightarrow> string result" where
  "DeriveResourceName branch taken =
     (let base = sanitizeDNSLabel branch;
          base = (if base = [] then ''ws'' else base)
      in if \<not> taken base then Inr base
         else (let sfx = ''-'' @ shortHash branch;
                   truncated = truncateDNSLabel base (dnsLabelMaxLength - int (length sfx));
                   candidate = truncated @ sfx
               in if taken candidate
                  then Inl (Err (''devplatform: could not derive a free resource name for branch ''
                         @ Quote branch @ '' (base '' @ Quote base @ '', candidate ''
                         @ Quote candidate @ '' already taken)''))
                  else Inr candidate))"

subsection \<open>ingress_reconciler.go: host labels\<close>

definition hostSuffixPreview :: string where
  "hostSuffixPreview = ''-preview''"

definition hostSuffixReport :: string where
  "hostSuffixReport = ''-report''"

definition hostLabelWithSuffix :: "string \<Rightarrow> string \<Rightarrow> string" where
  "hostLabelWithSuffix base sfx =
     truncateDNSLabel base (dnsLabelMaxLength - int (length sfx)) @ sfx"

record workspaceHostnames =
  Preview_host :: string
  Session_host :: string
  Report_host :: string

definition deriveWorkspaceHostnames :: "string \<Rightarrow> workspaceHostnames" where
  "deriveWorkspaceHostnames resourceName =
     \<lparr>Preview_host = hostLabelWithSuffix resourceName hostSuffixPreview,
      Session_host = resourceName,
      Report_host = hostLabelWithSuffix resourceName hostSuffixReport\<rparr>"

subsection \<open>gateway: the second copy of the normalisation\<close>

definition gw_sanitizeDNSLabel :: "string \<Rightarrow> string" where
  "gw_sanitizeDNSLabel s =
     (let lower = ToLower s;
          collapsed = replace_runs (\<lambda>c. c = dash) dash
                        (replace_runs (\<lambda>c. \<not> label_char c) dash lower);
          trimmed = TrimP (\<lambda>c. c = dash) collapsed
      in if length trimmed > 63 then TrimRightP (\<lambda>c. c = dash) (take 63 trimmed) else trimmed)"

subsection \<open>Specification\<close>

text \<open>A DNS-1123 label.\<close>

definition dns_label :: "string \<Rightarrow> bool" where
  "dns_label s \<longleftrightarrow> s \<noteq> [] \<and> length s \<le> 63 \<and> list_all label_char s \<and> hd s \<noteq> dash \<and> last s \<noteq> dash"

definition no_double_dash :: "string \<Rightarrow> bool" where
  "no_double_dash s \<longleftrightarrow> successively (\<lambda>a b. \<not> (a = dash \<and> b = dash)) s"

subsection \<open>Trimming and truncation\<close>

lemma TrimRightP_prefix: "prefix (TrimRightP p s) s"
  by (metis TrimRightP_def rev_rev_ident suffix_dropWhile suffix_to_prefix)

lemma length_TrimRightP: "length (TrimRightP p s) \<le> length s"
  by (metis TrimRightP_prefix prefix_length_le)

lemma set_TrimRightP: "set (TrimRightP p s) \<subseteq> set s"
  by (metis TrimRightP_prefix set_mono_prefix)

lemma last_TrimRightP: "TrimRightP p s \<noteq> [] \<Longrightarrow> \<not> p (last (TrimRightP p s))"
  by (simp add: TrimRightP_def last_rev hd_dropWhile)

lemma hd_TrimRightP: "TrimRightP p s \<noteq> [] \<Longrightarrow> hd (TrimRightP p s) = hd s"
  by (metis TrimRightP_prefix hd_append2 prefixE)

lemma TrimRightP_id: "s = [] \<or> \<not> p (last s) \<Longrightarrow> TrimRightP p s = s"
  by (cases s rule: rev_cases) (auto simp: TrimRightP_def)

lemma TrimP_last: "TrimP p s \<noteq> [] \<Longrightarrow> \<not> p (last (TrimP p s))"
  by (simp add: TrimP_def last_TrimRightP)

lemma TrimP_hd: "TrimP p s \<noteq> [] \<Longrightarrow> \<not> p (hd (TrimP p s))"
  by (metis TrimP_def TrimRightP_prefix hd_TrimRightP hd_dropWhile prefix_Nil)

lemma set_TrimP: "set (TrimP p s) \<subseteq> set s"
  using set_TrimRightP set_dropWhileD unfolding TrimP_def by fastforce

lemma length_truncateDNSLabel: "0 \<le> m \<Longrightarrow> int (length (truncateDNSLabel s m)) \<le> m"
  using length_TrimRightP [of "\<lambda>c. c = dash" "take (nat m) s"]
    length_TrimRightP [of "\<lambda>c. c = dash" s]
  by (auto simp: truncateDNSLabel_def Let_def)

lemma set_truncateDNSLabel: "set (truncateDNSLabel s m) \<subseteq> set s"
  using set_TrimRightP set_take_subset
  by (fastforce simp: truncateDNSLabel_def Let_def split: if_splits)

lemma last_truncateDNSLabel: "truncateDNSLabel s m \<noteq> [] \<Longrightarrow> last (truncateDNSLabel s m) \<noteq> dash"
  unfolding truncateDNSLabel_def Let_def by (metis (mono_tags, lifting) last_TrimRightP)

lemma hd_truncateDNSLabel: "truncateDNSLabel s m \<noteq> [] \<Longrightarrow> hd (truncateDNSLabel s m) = hd s"
  by (auto simp: truncateDNSLabel_def Let_def hd_TrimRightP split: if_splits)
     (metis TrimRightP_def dropWhile.simps(1) hd_take rev.simps(1) take_eq_Nil2 gr0I)+

lemma truncateDNSLabel_ne:
  assumes "s \<noteq> []" and "hd s \<noteq> dash" and "1 \<le> m"
  shows "truncateDNSLabel s m \<noteq> []"
proof -
  have "TrimRightP (\<lambda>c. c = dash) t \<noteq> []" if "t \<noteq> []" "hd t = hd s" for t
    using that assms(2) by (cases t) (auto simp: TrimRightP_def dropWhile_append1 dropWhile_eq_Nil_conv)
  moreover have "take (nat m) s \<noteq> []" and "hd (take (nat m) s) = hd s"
    using assms by auto
  ultimately show ?thesis using assms by (simp add: truncateDNSLabel_def Let_def)
qed

subsection \<open>Collapsing runs\<close>

lemma set_replace_runs: "set (replace_runs p c xs) \<subseteq> insert c {x \<in> set xs. \<not> p x}"
proof (induction p c xs rule: replace_runs.induct)
  case (2 p c x xs)
  have "set (replace_runs p c (dropWhile p xs)) \<subseteq> insert c {x \<in> set xs. \<not> p x}" if "p x"
    using "2.IH"(1) [OF that] set_dropWhileD [of _ p xs] by blast
  then show ?case using "2.IH"(2) by (cases "p x") auto
qed simp

lemma label_char_dash [simp]: "label_char dash"
  by (simp add: label_char_def)

lemma label_chars_replaced:
  "list_all label_char (replace_runs (\<lambda>c. \<not> label_char c) dash xs)"
  using set_replace_runs [of "\<lambda>c. \<not> label_char c" dash xs] by (auto simp: list_all_iff)

lemma hd_replace_runs_dropWhile:
  "replace_runs p c (dropWhile p xs) \<noteq> [] \<Longrightarrow> \<not> p (hd (replace_runs p c (dropWhile p xs)))"
proof (cases "dropWhile p xs")
  case (Cons y ys)
  then have "\<not> p y" by (metis hd_dropWhile list.distinct(1) list.sel(1))
  with Cons show ?thesis by simp
qed simp

lemma replace_runs_dash_successively:
  "successively (\<lambda>a b. \<not> (a = dash \<and> b = dash)) (replace_runs (\<lambda>c. c = dash) dash xs)"
proof (induction "\<lambda>c. c = dash" dash xs rule: replace_runs.induct)
  case (2 x xs)
  then show ?case
    using hd_replace_runs_dropWhile [of "\<lambda>c. c = dash" dash xs]
    by (auto simp: successively_Cons)
qed simp

lemma no_double_dash_prefix: "prefix s t \<Longrightarrow> no_double_dash t \<Longrightarrow> no_double_dash s"
  by (auto simp: no_double_dash_def successively_append_iff elim!: prefixE)

lemma no_double_dash_dropWhile: "no_double_dash s \<Longrightarrow> no_double_dash (dropWhile p s)"
  by (induction s) (auto simp: no_double_dash_def successively_Cons)

lemma truncateDNSLabel_prefix: "prefix (truncateDNSLabel s m) s"
proof -
  have "prefix (TrimRightP q t) s" if "prefix t s" for q t
    using that TrimRightP_prefix prefix_order.trans by blast
  then show ?thesis by (simp add: truncateDNSLabel_def Let_def take_is_prefix)
qed

text \<open>The string both copies of the normalisation truncate.\<close>

definition trimmed_label :: "string \<Rightarrow> string" where
  "trimmed_label s =
     TrimP (\<lambda>c. c = dash) (replace_runs (\<lambda>c. c = dash) dash
        (replace_runs (\<lambda>c. \<not> label_char c) dash (ToLower s)))"

lemma sanitizeDNSLabel_alt: "sanitizeDNSLabel s = truncateDNSLabel (trimmed_label s) 63"
  by (simp add: sanitizeDNSLabel_def trimmed_label_def Let_def dnsLabelMaxLength_def)

lemma trimmed_label_chars: "list_all label_char (trimmed_label s)"
proof -
  let ?r = "replace_runs (\<lambda>c. \<not> label_char c) dash (ToLower s)"
  have "set (trimmed_label s) \<subseteq> insert dash (set ?r)"
    using set_TrimP set_replace_runs [of "\<lambda>c. c = dash" dash ?r]
    unfolding trimmed_label_def by fastforce
  then show ?thesis using label_chars_replaced [of "ToLower s"] by (auto simp: list_all_iff)
qed

lemma trimmed_label_hd: "trimmed_label s \<noteq> [] \<Longrightarrow> hd (trimmed_label s) \<noteq> dash"
  using TrimP_hd unfolding trimmed_label_def by fastforce

lemma trimmed_label_last: "trimmed_label s \<noteq> [] \<Longrightarrow> last (trimmed_label s) \<noteq> dash"
  using TrimP_last unfolding trimmed_label_def by fastforce

lemma trimmed_label_no_double: "no_double_dash (trimmed_label s)"
  unfolding trimmed_label_def TrimP_def
  by (rule no_double_dash_prefix [OF TrimRightP_prefix], rule no_double_dash_dropWhile)
     (unfold no_double_dash_def, rule replace_runs_dash_successively)

lemma dns_label_truncate:
  assumes "list_all label_char s" and "s \<noteq> []" and "hd s \<noteq> dash" and "1 \<le> m" and "m \<le> 63"
  shows "dns_label (truncateDNSLabel s m)"
  unfolding dns_label_def
  using truncateDNSLabel_ne [OF assms(2,3,4)] length_truncateDNSLabel [of m s]
    set_truncateDNSLabel [of s m] last_truncateDNSLabel [of s m] hd_truncateDNSLabel [of s m] assms
  by (auto simp: list_all_iff)

lemma sanitizeDNSLabel_label:
  "sanitizeDNSLabel s = [] \<or> dns_label (sanitizeDNSLabel s)"
proof (cases "trimmed_label s = []")
  case True
  then show ?thesis by (simp add: sanitizeDNSLabel_alt truncateDNSLabel_def TrimRightP_def)
next
  case False
  then show ?thesis
    using dns_label_truncate [OF trimmed_label_chars False trimmed_label_hd [OF False], of 63]
    by (simp add: sanitizeDNSLabel_alt)
qed

lemma lower_char_label: "label_char c \<Longrightarrow> lower_char c = c"
  by (auto simp: label_char_def lower_char_def is_upper_def is_lower_def is_digit_def
      less_eq_char_def)

lemma ToLower_label: "list_all label_char s \<Longrightarrow> ToLower s = s"
  by (induction s) (auto simp: ToLower_def lower_char_label)

lemma replace_runs_id: "list_all (\<lambda>c. \<not> p c) s \<Longrightarrow> replace_runs p c s = s"
  by (induction s) auto

lemma replace_runs_dash_id: "no_double_dash s \<Longrightarrow> replace_runs (\<lambda>c. c = dash) dash s = s"
proof (induction s)
  case (Cons x s)
  have "x = dash \<Longrightarrow> dropWhile (\<lambda>c. c = dash) s = s"
    using Cons.prems by (cases s) (auto simp: no_double_dash_def)
  moreover have "no_double_dash s"
    using Cons.prems by (auto simp: no_double_dash_def successively_Cons)
  ultimately show ?case using Cons.IH by auto
qed simp

lemma TrimP_id: "s = [] \<or> \<not> p (hd s) \<and> \<not> p (last s) \<Longrightarrow> TrimP p s = s"
  by (cases s) (auto simp: TrimP_def TrimRightP_id)

lemma trimmed_label_id:
  assumes "dns_label s" and "no_double_dash s"
  shows "trimmed_label s = s"
proof -
  have lab: "list_all label_char s" and ends: "s = [] \<or> \<not> hd s = dash \<and> \<not> last s = dash"
    using assms by (auto simp: dns_label_def)
  have "replace_runs (\<lambda>c. \<not> label_char c) dash s = s"
    using lab by (intro replace_runs_id) simp
  then show ?thesis
    using lab ends assms(2)
    by (simp add: trimmed_label_def ToLower_label replace_runs_dash_id TrimP_id)
qed

lemma truncateDNSLabel_id:
  "int (length s) \<le> m \<Longrightarrow> s = [] \<or> last s \<noteq> dash \<Longrightarrow> truncateDNSLabel s m = s"
  by (auto simp: truncateDNSLabel_def Let_def TrimRightP_id)

subsection \<open>The collision suffix\<close>

lemma hex_digit_label: "d < 16 \<Longrightarrow> label_char (hex_digit d) \<and> hex_digit d \<noteq> dash"
proof -
  have all: "list_all (\<lambda>d. label_char (hex_digit d) \<and> hex_digit d \<noteq> dash) [0..<16]"
    by code_simp
  assume "d < 16"
  then have "d \<in> set [0..<16]" by simp
  then show ?thesis using all unfolding list_all_iff by blast
qed

lemma hex_encode_chars: "c \<in> set (hex_encode bs) \<Longrightarrow> label_char c \<and> c \<noteq> dash"
  by (auto simp: hex_encode_def hex_digit_label)

lemma length_hex_encode [simp]: "length (hex_encode bs) = 2 * length bs"
  by (induction bs) (auto simp: hex_encode_def)

lemma length_shortHash [simp]: "length (shortHash s) = 8"
  by (simp add: shortHash_def hashSuffixLength_def)

lemma shortHash_chars: "c \<in> set (shortHash s) \<Longrightarrow> label_char c \<and> c \<noteq> dash"
  unfolding shortHash_def by (meson hex_encode_chars in_set_takeD)

lemma shortHash_ne [simp]: "shortHash s \<noteq> []"
  by (metis length_shortHash list.size(3) numeral_neq_zero)

definition base_name :: "string \<Rightarrow> string" where
  "base_name branch = (if sanitizeDNSLabel branch = [] then ''ws'' else sanitizeDNSLabel branch)"

lemma dns_label_ws: "dns_label ''ws''"
  by (simp add: dns_label_def label_char_def is_lower_def less_eq_char_def)

lemma dns_label_base: "dns_label (base_name branch)"
  using sanitizeDNSLabel_label [of branch] dns_label_ws by (auto simp: base_name_def)

lemma dns_label_suffixed:
  assumes "dns_label s" and "sfx \<noteq> []" and "length sfx \<le> 62" and "last sfx \<noteq> dash"
    and "list_all label_char sfx"
  shows "dns_label (truncateDNSLabel s (63 - int (length sfx)) @ sfx)"
proof -
  let ?t = "truncateDNSLabel s (63 - int (length sfx))"
  have "dns_label ?t"
    using assms(1,3) by (intro dns_label_truncate) (auto simp: dns_label_def)
  moreover have "int (length ?t) \<le> 63 - int (length sfx)"
    using assms(3) by (intro length_truncateDNSLabel) simp
  ultimately show ?thesis
    using assms by (auto simp: dns_label_def)
qed

lemma dns_label_candidate:
  "dns_label (truncateDNSLabel (base_name b) (63 - int (length (''-'' @ shortHash b)))
     @ ''-'' @ shortHash b)"
proof (rule dns_label_suffixed [OF dns_label_base])
  have "last (shortHash b) \<in> set (shortHash b)" by simp
  then show "last (''-'' @ shortHash b) \<noteq> dash" using shortHash_chars [of _ b] by auto
  show "list_all label_char (''-'' @ shortHash b)"
    using shortHash_chars [of _ b] by (auto simp: list_all_iff)
qed auto

subsection \<open>Properties\<close>

text \<open>\<^verbatim>\<open>sanitizeDNSLabel\<close> (naming.go) returns the empty string or a DNS-1123 label:
  1 to 63 characters of \<open>[a-z0-9-]\<close>, no dash at either end and no two dashes in a row; and a
  result is left unchanged by sanitising it again.\<close>

theorem sanitizeDNSLabel_normal_form:
  "(sanitizeDNSLabel s = [] \<or> dns_label (sanitizeDNSLabel s) \<and> no_double_dash (sanitizeDNSLabel s))
   \<and> sanitizeDNSLabel (sanitizeDNSLabel s) = sanitizeDNSLabel s"
proof -
  have nd: "no_double_dash (sanitizeDNSLabel s)"
    unfolding sanitizeDNSLabel_alt
    by (rule no_double_dash_prefix [OF truncateDNSLabel_prefix trimmed_label_no_double])
  have idem: "sanitizeDNSLabel (sanitizeDNSLabel s) = sanitizeDNSLabel s"
  proof (cases "sanitizeDNSLabel s = []")
    case True
    have "sanitizeDNSLabel [] = []" by code_simp
    with True show ?thesis by simp
  next
    case False
    then have lab: "dns_label (sanitizeDNSLabel s)" using sanitizeDNSLabel_label by blast
    then have "trimmed_label (sanitizeDNSLabel s) = sanitizeDNSLabel s"
      using nd by (rule trimmed_label_id)
    moreover have "truncateDNSLabel (sanitizeDNSLabel s) 63 = sanitizeDNSLabel s"
      using lab by (intro truncateDNSLabel_id) (auto simp: dns_label_def)
    ultimately show ?thesis by (metis sanitizeDNSLabel_alt)
  qed
  show ?thesis using sanitizeDNSLabel_label nd idem by blast
qed

lemma gw_sanitize_same: "gw_sanitizeDNSLabel s = sanitizeDNSLabel s"
proof -
  have "gw_sanitizeDNSLabel s =
      (if length (trimmed_label s) > 63
       then TrimRightP (\<lambda>c. c = dash) (take 63 (trimmed_label s)) else trimmed_label s)"
    by (simp add: gw_sanitizeDNSLabel_def trimmed_label_def Let_def)
  moreover have "sanitizeDNSLabel s =
      TrimRightP (\<lambda>c. c = dash)
        (if length (trimmed_label s) > 63 then take 63 (trimmed_label s) else trimmed_label s)"
    by (simp add: sanitizeDNSLabel_alt truncateDNSLabel_def Let_def)
  moreover have "TrimRightP (\<lambda>c. c = dash) (trimmed_label s) = trimmed_label s"
    using trimmed_label_last by (intro TrimRightP_id) auto
  ultimately show ?thesis by simp
qed

text \<open>C35. The gateway's copy of the normalisation agrees with the controller's on every branch
  name, so the object name a create request derives is the label the controller starts from.\<close>
theorem gw_sanitizeDNSLabel_agrees: "gw_sanitizeDNSLabel s = sanitizeDNSLabel s"
  by (rule gw_sanitize_same)


lemma truncate_short: "dns_label r \<Longrightarrow> int (length r) \<le> m \<Longrightarrow> truncateDNSLabel r m = r"
  by (rule truncateDNSLabel_id) (auto simp: dns_label_def)

lemma host_label_preview: "dns_label r \<Longrightarrow> dns_label (hostLabelWithSuffix r hostSuffixPreview)"
  unfolding hostLabelWithSuffix_def dnsLabelMaxLength_def
  by (rule dns_label_suffixed) (auto simp: hostSuffixPreview_def label_char_def is_lower_def
      less_eq_char_def)

lemma host_label_report: "dns_label r \<Longrightarrow> dns_label (hostLabelWithSuffix r hostSuffixReport)"
  unfolding hostLabelWithSuffix_def dnsLabelMaxLength_def
  by (rule dns_label_suffixed) (auto simp: hostSuffixReport_def label_char_def is_lower_def
      less_eq_char_def)

text \<open>The three host names of a workspace are single DNS labels, and on resource names of at
  most 55 characters the preview host determines the resource name and so does the report
  host.\<close>

theorem hostnames_labels_injective:
  assumes "dns_label r" and "dns_label r'" and "length r \<le> 55" and "length r' \<le> 55"
  shows "dns_label (Preview_host (deriveWorkspaceHostnames r)) \<and>
    dns_label (Session_host (deriveWorkspaceHostnames r)) \<and>
    dns_label (Report_host (deriveWorkspaceHostnames r)) \<and>
    (Preview_host (deriveWorkspaceHostnames r) = Preview_host (deriveWorkspaceHostnames r')
      \<longleftrightarrow> r = r') \<and>
    (Report_host (deriveWorkspaceHostnames r) = Report_host (deriveWorkspaceHostnames r')
      \<longleftrightarrow> r = r')"
proof -
  have "Preview_host (deriveWorkspaceHostnames x) = x @ ''-preview'' \<and>
      Report_host (deriveWorkspaceHostnames x) = x @ ''-report''"
    if "dns_label x" and "length x \<le> 55" for x
    using that by (simp add: deriveWorkspaceHostnames_def hostLabelWithSuffix_def
        dnsLabelMaxLength_def hostSuffixPreview_def hostSuffixReport_def truncate_short)
  moreover have "dns_label (Preview_host (deriveWorkspaceHostnames r))"
    and "dns_label (Report_host (deriveWorkspaceHostnames r))"
    using host_label_preview [OF assms(1)] host_label_report [OF assms(1)]
    by (simp_all add: deriveWorkspaceHostnames_def)
  moreover have "Session_host (deriveWorkspaceHostnames r) = r"
    by (simp add: deriveWorkspaceHostnames_def)
  ultimately show ?thesis using assms by simp
qed

theorem hostnames_labels_injective_witness:
  "Preview_host (deriveWorkspaceHostnames ''login'') \<noteq> Preview_host (deriveWorkspaceHostnames ''ui'')"
proof -
  have "dns_label ''login''" and "dns_label ''ui''"
    by code_simp+
  from hostnames_labels_injective [OF this] show ?thesis by simp
qed

text \<open>The suffix does not keep the three systems apart: for every resource name of at most 55
  characters there is another resource name, the one with \<open>-preview\<close> appended, whose session
  host is the preview host of the first.  A branch \<open>app/preview\<close> derives exactly that name
  while \<open>app\<close> is taken.\<close>

theorem session_host_meets_preview_host:
  assumes "dns_label r" and "length r \<le> 55"
  shows "dns_label (r @ ''-preview'') \<and>
    Session_host (deriveWorkspaceHostnames (r @ ''-preview'')) =
    Preview_host (deriveWorkspaceHostnames r)"
proof -
  have "Preview_host (deriveWorkspaceHostnames r) = r @ ''-preview''"
    using assms by (simp add: deriveWorkspaceHostnames_def hostLabelWithSuffix_def
        dnsLabelMaxLength_def hostSuffixPreview_def truncate_short)
  moreover have "dns_label (Preview_host (deriveWorkspaceHostnames r))"
    using host_label_preview [OF assms(1)] by (simp add: deriveWorkspaceHostnames_def)
  ultimately show ?thesis by (simp add: deriveWorkspaceHostnames_def)
qed

theorem session_host_meets_preview_host_witness:
  "DeriveResourceName ''app/preview'' (\<lambda>n. n = ''app'') = Inr ''app-preview'' \<and>
   Session_host (deriveWorkspaceHostnames ''app-preview'') =
   Preview_host (deriveWorkspaceHostnames ''app'')"
proof -
  have "dns_label ''app''" by code_simp
  moreover have "DeriveResourceName ''app/preview'' (\<lambda>n. n = ''app'') = Inr ''app-preview''"
    by code_simp
  ultimately show ?thesis using session_host_meets_preview_host [of "''app''"] by simp
qed

end
