(* ===== verification/Api.thy ===== *)
theory Api
  imports Complex_Main GoStd
begin

text \<open>
  The data the control plane works on and the boundary it works through.

  \<^item> The custom resources of \<^verbatim>\<open>controller/api/v1alpha1\<close> as records with the source's
    fields (\<^verbatim>\<open>Workspace\<close>, \<^verbatim>\<open>TaskRequest\<close>, \<^verbatim>\<open>WorkspaceTemplate\<close>), and the
    parts of the Kubernetes objects the controller builds or reads.
  \<^item> \<open>Event\<close>: one call across the boundary (API server, workspace Pod, notification
    endpoint) together with its answer.
  \<^item> \<open>Env\<close>: the code outside the repository, as a parameter of every handler: what the API
    server answers as a function of the history, and the helper functions of the Kubernetes client
    libraries.  What the handlers rely on is stated in \<open>conditions_lib\<close> and
    \<open>finalizer_lib\<close>, which paraphrase the libraries' documentation; theorems name them where
    they need them.

  Times and durations are integers (nanoseconds); \<^verbatim>\<open>resourceVersion\<close> is not modelled, a
  stale write is an \<^verbatim>\<open>error\<close> answer of the environment.
\<close>

type_synonym time = int
type_synonym duration = int

abbreviation Second :: duration where "Second \<equiv> 1000000000"
abbreviation Minute :: duration where "Minute \<equiv> 60000000000"
abbreviation Hour :: duration where "Hour \<equiv> 3600000000000"

type_synonym key = "string \<times> string"

subsection \<open>Metadata and conditions\<close>

datatype ConditionStatus = ConditionTrue | ConditionFalse | ConditionUnknown

record Condition =
  ctype :: string
  cstatus :: ConditionStatus
  creason :: string
  cmessage :: string
  clastTransitionTime :: "time option"

record ObjectMeta =
  Name :: string
  Namespace :: string
  UID :: string
  CreationTimestamp :: time
  DeletionTimestamp :: "time option"
  Labels :: "(string \<times> string) list"
  Annotations :: "string \<rightharpoonup> string"
  Finalizers :: "string list"
  OwnerReferences :: "string list"

text \<open>Reading a missing key of a Go map yields the empty string.\<close>

definition annotation :: "ObjectMeta \<Rightarrow> string \<Rightarrow> string" where
  "annotation m k = (case Annotations m k of None \<Rightarrow> [] | Some v \<Rightarrow> v)"

subsection \<open>Workspace\<close>

datatype WorkspacePhase =
    PhaseUnset
  | WorkspacePhaseProvisioning
  | WorkspacePhaseReady
  | WorkspacePhaseSuspended
  | WorkspacePhaseFailed
  | WorkspacePhaseTerminating

datatype DesiredPhase = DesiredPhaseUnset | DesiredPhaseReady | DesiredPhaseSuspended

record WorkspaceSpec =
  Repository :: string
  Branch :: string
  BaseBranch :: "string option"
  TemplateRef :: string
  GitCredentialSecretRef :: "string option"
  Desired :: DesiredPhase

record WorkspaceURLs =
  Preview :: string
  Session :: string
  Report :: string

record EvacuationSnapshot =
  snap_WorkspaceId :: string
  snap_Branch :: string
  HeadCommit :: string
  BundleKey :: string
  DirtyArchiveKey :: string
  CapturedAt :: "time option"
  SizeBytes :: int

record BlackboardEntry =
  bb_Branch :: string
  Summary :: string
  ChangedFiles :: "string list"
  PublicInterfaces :: "string list"
  Active :: bool
  UpdatedAt :: "time option"

record WorkspaceStatus =
  Phase :: WorkspacePhase
  WorkspaceId :: string
  Urls :: WorkspaceURLs
  SessionId :: string
  LastActivityAt :: "time option"
  LastEvacuation :: "EvacuationSnapshot option"
  Blackboard :: "BlackboardEntry option"
  Conditions :: "Condition list"

record Workspace =
  WMeta :: ObjectMeta
  Spec :: WorkspaceSpec
  Status :: WorkspaceStatus

definition ws_key :: "Workspace \<Rightarrow> key" where
  "ws_key ws = (Namespace (WMeta ws), Name (WMeta ws))"

subsection \<open>TaskRequest\<close>

datatype TaskPhase =
    TaskPhaseUnset
  | TaskPhasePending
  | TaskPhaseRunning
  | TaskPhaseVerifying
  | TaskPhaseHumanIntervention
  | TaskPhaseCompleted
  | TaskPhaseFailed

record TaskRequest =
  TMeta :: ObjectMeta
  WorkspaceRef :: string
  TPhase :: TaskPhase
  TConditions :: "Condition list"

subsection \<open>WorkspaceTemplate\<close>

record ResourceList =
  CPU :: string
  Memory :: string

record WorkspaceResources =
  Requests :: ResourceList
  Limits :: ResourceList

record WorkspaceStorage =
  Size :: string
  NodeDiskBudget :: string

record WorkspaceEvacuation =
  Bucket :: string
  Endpoint :: string
  Region :: string
  ev_SecretRef :: string

record WorkspaceTemplateSpec =
  Image :: string
  Resources :: WorkspaceResources
  Storage :: WorkspaceStorage
  NodeName :: string
  PriorityClassName :: string
  Model :: string
  Database_ClusterRef :: "string option"
  Auth_SecretRef :: string
  Evacuation :: WorkspaceEvacuation

record WorkspaceTemplate =
  TmplMeta :: ObjectMeta
  TmplSpec :: WorkspaceTemplateSpec

subsection \<open>Kubernetes objects the controller builds or reads\<close>

text \<open>A quantity is counted in billionths, the library's smallest unit.\<close>

type_synonym Quantity = int

datatype EnvSource = EnvValue string | EnvSecret string string

type_synonym EnvVar = "string \<times> EnvSource"

datatype VolumeSource =
    VolumePVC string
  | VolumeSecret string "bool option" "int option"
  | VolumeConfigMap string "bool option"

type_synonym Volume = "string \<times> VolumeSource"

record VolumeMount =
  vm_Name :: string
  MountPath :: string
  ReadOnly :: bool

record ResourceRequirements =
  rr_Requests :: "(string \<times> Quantity) list"
  rr_Limits :: "(string \<times> Quantity) list"

record Container =
  ct_Name :: string
  ct_Image :: string
  Command :: "string list"
  ct_Env :: "EnvVar list"
  Ports :: "(string \<times> int) list"
  ct_Resources :: ResourceRequirements
  VolumeMounts :: "VolumeMount list"

record PodSpec =
  NodeSelector :: "(string \<times> string) list"
  pod_PriorityClassName :: string
  InitContainers :: "Container list"
  Containers :: "Container list"
  Volumes :: "Volume list"

record StatefulSet =
  StsMeta :: ObjectMeta
  Replicas :: "int option"
  ServiceName :: string
  MatchLabels :: "(string \<times> string) list"
  PodLabels :: "(string \<times> string) list"
  PodTemplate :: PodSpec
  ReadyReplicas :: int

record PersistentVolumeClaim =
  PvcMeta :: ObjectMeta
  AccessModes :: "string list"
  StorageClassName :: "string option"
  pvc_Storage :: Quantity

record ConfigMap =
  CmMeta :: ObjectMeta
  cm_Data :: "string \<rightharpoonup> string"

record Secret =
  SecMeta :: ObjectMeta
  sec_Type :: string
  sec_Data :: "string \<rightharpoonup> string"

record Node =
  NodeImages :: "string list list"
  NodeConditions :: "(string \<times> ConditionStatus) list"

record ResourceQuota =
  Hard :: "string \<rightharpoonup> Quantity"
  Used :: "string \<rightharpoonup> Quantity"

record Pod =
  PodPhase :: string
  PodIP :: string
  PodDeletionTimestamp :: "time option"

record Ingress =
  IngMeta :: ObjectMeta
  IngressClassName :: "string option"
  ing_TLS :: "(string list \<times> string) list"
  ing_Host :: string
  ing_Path :: string
  ing_PathType :: string
  ing_Backend :: "string \<times> int"

text \<open>The value of an unstructured object.\<close>

datatype Json =
    JNull
  | JString string
  | JInt int
  | JNum rat
  | JBool bool
  | JList "Json list"
  | JObject "(string \<times> Json) list"

record Unstructured =
  ApiVersion :: string
  UKind :: string
  UMeta :: ObjectMeta
  UFields :: "(string \<times> Json) list"

datatype Object =
    OWorkspace Workspace
  | OTaskRequest TaskRequest
  | OStatefulSet StatefulSet
  | OPVC PersistentVolumeClaim
  | OConfigMap ConfigMap
  | OSecret Secret
  | OIngress Ingress
  | OUnstructured Unstructured

datatype Kind =
    KWorkspace | KTaskRequest | KStatefulSet | KPVC | KConfigMap | KSecret | KIngress
  | KUnstructured string

fun object_meta :: "Object \<Rightarrow> ObjectMeta" where
  "object_meta (OWorkspace x) = WMeta x"
| "object_meta (OTaskRequest x) = TMeta x"
| "object_meta (OStatefulSet x) = StsMeta x"
| "object_meta (OPVC x) = PvcMeta x"
| "object_meta (OConfigMap x) = CmMeta x"
| "object_meta (OSecret x) = SecMeta x"
| "object_meta (OIngress x) = IngMeta x"
| "object_meta (OUnstructured x) = UMeta x"

fun object_kind :: "Object \<Rightarrow> Kind" where
  "object_kind (OWorkspace _) = KWorkspace"
| "object_kind (OTaskRequest _) = KTaskRequest"
| "object_kind (OStatefulSet _) = KStatefulSet"
| "object_kind (OPVC _) = KPVC"
| "object_kind (OConfigMap _) = KConfigMap"
| "object_kind (OSecret _) = KSecret"
| "object_kind (OIngress _) = KIngress"
| "object_kind (OUnstructured x) = KUnstructured (UKind x)"

fun update_meta :: "(ObjectMeta \<Rightarrow> ObjectMeta) \<Rightarrow> Object \<Rightarrow> Object" where
  "update_meta f (OWorkspace x) = OWorkspace (x\<lparr>WMeta := f (WMeta x)\<rparr>)"
| "update_meta f (OTaskRequest x) = OTaskRequest (x\<lparr>TMeta := f (TMeta x)\<rparr>)"
| "update_meta f (OStatefulSet x) = OStatefulSet (x\<lparr>StsMeta := f (StsMeta x)\<rparr>)"
| "update_meta f (OPVC x) = OPVC (x\<lparr>PvcMeta := f (PvcMeta x)\<rparr>)"
| "update_meta f (OConfigMap x) = OConfigMap (x\<lparr>CmMeta := f (CmMeta x)\<rparr>)"
| "update_meta f (OSecret x) = OSecret (x\<lparr>SecMeta := f (SecMeta x)\<rparr>)"
| "update_meta f (OIngress x) = OIngress (x\<lparr>IngMeta := f (IngMeta x)\<rparr>)"
| "update_meta f (OUnstructured x) = OUnstructured (x\<lparr>UMeta := f (UMeta x)\<rparr>)"

definition object_key :: "Object \<Rightarrow> key" where
  "object_key x = (Namespace (object_meta x), Name (object_meta x))"

subsection \<open>Readings taken from a workspace Pod, and credential requests\<close>

record UsageSnapshot =
  us_Kind :: string
  Group :: string
  RemainingPercent :: rat
  ResetsAt :: string
  us_Model :: string
  us_Active :: bool

record UsageReading =
  Snapshots :: "UsageSnapshot list"
  ErrorKind :: string

record GitCredentialRequest =
  gcr_WorkspaceId :: string
  gcr_Repository :: string
  AllowedBranch :: string
  RejectDefaultBranchPush :: bool

record IssuedGitCredential =
  SecretData :: "string \<rightharpoonup> string"
  SecretType :: string
  Handle :: string

text \<open>An HTTP response whose body has been read: \<open>Body\<close> is its JSON value, or \<open>None\<close> when
  the bytes are not JSON.\<close>

record Response =
  StatusCode :: int
  StatusText :: string
  Body :: "Json option"
  BodyText :: string

subsection \<open>Events\<close>

datatype Event =
    EvGetWorkspace key "Workspace result"
  | EvListWorkspaces string "Workspace list result"
  | EvListTasks string "TaskRequest list result"
  | EvGetTemplate key "WorkspaceTemplate result"
  | EvGetStatefulSet key "StatefulSet result"
  | EvGetConfigMap key "ConfigMap result"
  | EvGetSecret key "Secret result"
  | EvGetNode string "Node result"
  | EvGetResourceQuota key "ResourceQuota result"
  | EvListPods string string "Pod list result"
  | EvCreate Object "error option"
  | EvUpdate Object "error option"
  | EvStatusUpdate Object "error option"
  | EvDelete Kind key "error option"
  | EvRequestEvacuation key "EvacuationSnapshot result"
  | EvConfirmEvacuation key "bool result"
  | EvSSHSessionCount key "int result"
  | EvChangedFiles key "string list result"
  | EvObserveUsage key "UsageReading result"
  | EvIssueCredential GitCredentialRequest "IssuedGitCredential result"
  | EvNotify string string string
  | EvHttp string string "Response result"

type_synonym 'a act = "(Event, 'a) io"

subsection \<open>The environment\<close>

record Env =
  clock :: "Event list \<Rightarrow> time"
  SetStatusCondition :: "Event list \<Rightarrow> Condition list \<Rightarrow> Condition \<Rightarrow> Condition list \<times> bool"
  FindStatusCondition :: "Condition list \<Rightarrow> string \<Rightarrow> Condition option"
  IsStatusConditionTrue :: "Condition list \<Rightarrow> string \<Rightarrow> bool"
  IsStatusConditionFalse :: "Condition list \<Rightarrow> string \<Rightarrow> bool"
  RemoveStatusCondition :: "Condition list \<Rightarrow> string \<Rightarrow> Condition list"
  SetControllerReference :: "ObjectMeta \<Rightarrow> Object \<Rightarrow> string list result"
  AddFinalizer :: "string list \<Rightarrow> string \<Rightarrow> string list \<times> bool"
  RemoveFinalizer :: "string list \<Rightarrow> string \<Rightarrow> string list \<times> bool"
  ParseQuantity :: "string \<Rightarrow> Quantity result"
  QuantityString :: "Quantity \<Rightarrow> string"
  FormatRFC3339 :: "time \<Rightarrow> string"
  api_GetWorkspace :: "Event list \<Rightarrow> key \<Rightarrow> Workspace result"
  api_ListWorkspaces :: "Event list \<Rightarrow> string \<Rightarrow> Workspace list result"
  api_ListTasks :: "Event list \<Rightarrow> string \<Rightarrow> TaskRequest list result"
  api_GetTemplate :: "Event list \<Rightarrow> key \<Rightarrow> WorkspaceTemplate result"
  api_GetStatefulSet :: "Event list \<Rightarrow> key \<Rightarrow> StatefulSet result"
  api_GetConfigMap :: "Event list \<Rightarrow> key \<Rightarrow> ConfigMap result"
  api_GetSecret :: "Event list \<Rightarrow> key \<Rightarrow> Secret result"
  api_GetNode :: "Event list \<Rightarrow> string \<Rightarrow> Node result"
  api_GetResourceQuota :: "Event list \<Rightarrow> key \<Rightarrow> ResourceQuota result"
  api_ListPods :: "Event list \<Rightarrow> string \<Rightarrow> string \<Rightarrow> Pod list result"
  api_Create :: "Event list \<Rightarrow> Object \<Rightarrow> error option"
  api_Update :: "Event list \<Rightarrow> Object \<Rightarrow> error option"
  api_StatusUpdate :: "Event list \<Rightarrow> Object \<Rightarrow> error option"
  api_Delete :: "Event list \<Rightarrow> Kind \<Rightarrow> key \<Rightarrow> error option"
  http_NewRequest :: "string \<Rightarrow> string \<Rightarrow> error option"
  http_Do :: "Event list \<Rightarrow> string \<Rightarrow> string \<Rightarrow> Response result"

subsubsection \<open>Calls\<close>

definition getWorkspace :: "Env \<Rightarrow> key \<Rightarrow> Workspace result act" where
  "getWorkspace E k = call (\<lambda>h. api_GetWorkspace E h k) (EvGetWorkspace k)"

definition listWorkspaces :: "Env \<Rightarrow> string \<Rightarrow> Workspace list result act" where
  "listWorkspaces E ns = call (\<lambda>h. api_ListWorkspaces E h ns) (EvListWorkspaces ns)"

definition listTasks :: "Env \<Rightarrow> string \<Rightarrow> TaskRequest list result act" where
  "listTasks E ns = call (\<lambda>h. api_ListTasks E h ns) (EvListTasks ns)"

definition getTemplateObj :: "Env \<Rightarrow> key \<Rightarrow> WorkspaceTemplate result act" where
  "getTemplateObj E k = call (\<lambda>h. api_GetTemplate E h k) (EvGetTemplate k)"

definition getStatefulSet :: "Env \<Rightarrow> key \<Rightarrow> StatefulSet result act" where
  "getStatefulSet E k = call (\<lambda>h. api_GetStatefulSet E h k) (EvGetStatefulSet k)"

definition getConfigMap :: "Env \<Rightarrow> key \<Rightarrow> ConfigMap result act" where
  "getConfigMap E k = call (\<lambda>h. api_GetConfigMap E h k) (EvGetConfigMap k)"

definition getSecret :: "Env \<Rightarrow> key \<Rightarrow> Secret result act" where
  "getSecret E k = call (\<lambda>h. api_GetSecret E h k) (EvGetSecret k)"

definition getNode :: "Env \<Rightarrow> string \<Rightarrow> Node result act" where
  "getNode E n = call (\<lambda>h. api_GetNode E h n) (EvGetNode n)"

definition getResourceQuota :: "Env \<Rightarrow> key \<Rightarrow> ResourceQuota result act" where
  "getResourceQuota E k = call (\<lambda>h. api_GetResourceQuota E h k) (EvGetResourceQuota k)"

definition listPods :: "Env \<Rightarrow> string \<Rightarrow> string \<Rightarrow> Pod list result act" where
  "listPods E ns ws = call (\<lambda>h. api_ListPods E h ns ws) (EvListPods ns ws)"

definition createObj :: "Env \<Rightarrow> Object \<Rightarrow> error option act" where
  "createObj E x = call (\<lambda>h. api_Create E h x) (EvCreate x)"

definition updateObj :: "Env \<Rightarrow> Object \<Rightarrow> error option act" where
  "updateObj E x = call (\<lambda>h. api_Update E h x) (EvUpdate x)"

definition statusUpdate :: "Env \<Rightarrow> Object \<Rightarrow> error option act" where
  "statusUpdate E x = call (\<lambda>h. api_StatusUpdate E h x) (EvStatusUpdate x)"

definition deleteObj :: "Env \<Rightarrow> Kind \<Rightarrow> key \<Rightarrow> error option act" where
  "deleteObj E kd k = call (\<lambda>h. api_Delete E h kd k) (EvDelete kd k)"

definition readClock :: "Env \<Rightarrow> time act" where
  "readClock E = peek (clock E)"

text \<open>\<^verbatim>\<open>controllerutil.SetControllerReference\<close> writes the owner references of the object
  and nothing else of it.\<close>

definition setOwner :: "Env \<Rightarrow> ObjectMeta \<Rightarrow> Object \<Rightarrow> Object result" where
  "setOwner E owner x = (case SetControllerReference E owner x of
     Inl e \<Rightarrow> Inl e
   | Inr refs \<Rightarrow> Inr (update_meta (\<lambda>m. m\<lparr>OwnerReferences := refs\<rparr>) x))"

text \<open>An \<^verbatim>\<open>error\<close> return checked by the caller.\<close>

definition check :: "error option act \<Rightarrow> unit result act" where
  "check m = bindI m (\<lambda>e. ret (as_result e))"

definition lift_result :: "'a result \<Rightarrow> ('ev, 'a result) io" where
  "lift_result r = ret r"

text \<open>\<^verbatim>\<open>meta.SetStatusCondition(&ws.Status.Conditions, c)\<close>; the library may read the clock,
  so it sees the history.\<close>

definition setCondition :: "Env \<Rightarrow> Workspace \<Rightarrow> Condition \<Rightarrow> Workspace act" where
  "setCondition E ws c =
     (\<lambda>h. (ws\<lparr>Status := (Status ws)\<lparr>Conditions :=
            fst (SetStatusCondition E h (Conditions (Status ws)) c)\<rparr>\<rparr>, h))"

definition mkCondition :: "string \<Rightarrow> ConditionStatus \<Rightarrow> string \<Rightarrow> string \<Rightarrow> Condition" where
  "mkCondition t st r m =
     \<lparr>ctype = t, cstatus = st, creason = r, cmessage = m, clastTransitionTime = None\<rparr>"

abbreviation updateStatus :: "Env \<Rightarrow> Workspace \<Rightarrow> unit result act" where
  "updateStatus E ws \<equiv> check (statusUpdate E (OWorkspace ws))"

subsubsection \<open>What the client libraries promise\<close>

text \<open>The documented behaviour of \<^verbatim>\<open>k8s.io/apimachinery/pkg/api/meta\<close>: a set condition is
  found again with its status, reason and message, other types are untouched, \<open>changed\<close> is
  reported exactly when something differed, and the transition time moves only when the status
  does.\<close>

definition conditions_lib :: "Env \<Rightarrow> bool" where
  "conditions_lib E \<longleftrightarrow>
     (\<forall>h cs c. \<exists>t. FindStatusCondition E (fst (SetStatusCondition E h cs c)) (ctype c) =
          Some (c\<lparr>clastTransitionTime := t\<rparr>) \<and>
        (case FindStatusCondition E cs (ctype c) of
           Some d \<Rightarrow> if cstatus d = cstatus c then t = clastTransitionTime d
                     else clastTransitionTime c \<noteq> None \<longrightarrow> t = clastTransitionTime c
         | None \<Rightarrow> clastTransitionTime c \<noteq> None \<longrightarrow> t = clastTransitionTime c)) \<and>
     (\<forall>h cs c u. u \<noteq> ctype c \<longrightarrow>
        FindStatusCondition E (fst (SetStatusCondition E h cs c)) u = FindStatusCondition E cs u) \<and>
     (\<forall>h cs c. snd (SetStatusCondition E h cs c) \<longleftrightarrow>
        (case FindStatusCondition E cs (ctype c) of
           None \<Rightarrow> True
         | Some d \<Rightarrow> cstatus d \<noteq> cstatus c \<or> creason d \<noteq> creason c \<or> cmessage d \<noteq> cmessage c)) \<and>
     (\<forall>cs t. IsStatusConditionTrue E cs t \<longleftrightarrow>
        (\<exists>c. FindStatusCondition E cs t = Some c \<and> cstatus c = ConditionTrue)) \<and>
     (\<forall>cs t. IsStatusConditionFalse E cs t \<longleftrightarrow>
        (\<exists>c. FindStatusCondition E cs t = Some c \<and> cstatus c = ConditionFalse)) \<and>
     (\<forall>cs t u. FindStatusCondition E (RemoveStatusCondition E cs t) u =
        (if u = t then None else FindStatusCondition E cs u))"

text \<open>\<^verbatim>\<open>controllerutil.AddFinalizer\<close> and \<^verbatim>\<open>RemoveFinalizer\<close>.\<close>

definition finalizer_lib :: "Env \<Rightarrow> bool" where
  "finalizer_lib E \<longleftrightarrow>
     (\<forall>fs f. set (fst (AddFinalizer E fs f)) = insert f (set fs) \<and>
        (snd (AddFinalizer E fs f) \<longleftrightarrow> f \<notin> set fs)) \<and>
     (\<forall>fs f. set (fst (RemoveFinalizer E fs f)) = set fs - {f} \<and>
        (snd (RemoveFinalizer E fs f) \<longleftrightarrow> f \<in> set fs))"

subsection \<open>Rules for the calls\<close>

lemmas api_call_defs =
  getWorkspace_def listWorkspaces_def listTasks_def getTemplateObj_def getStatefulSet_def
  getConfigMap_def getSecret_def getNode_def getResourceQuota_def listPods_def createObj_def
  updateObj_def statusUpdate_def deleteObj_def readClock_def

lemma wp_setCondition [wp_simps]:
  "wp (setCondition E ws c) Q =
     (\<lambda>h. Q (ws\<lparr>Status := (Status ws)\<lparr>Conditions :=
            fst (SetStatusCondition E h (Conditions (Status ws)) c)\<rparr>\<rparr>) h)"
  by (simp add: fun_eq_iff setCondition_def wp_def)

lemma emits_setCondition [emits_rules]: "emits S (setCondition E ws c)"
  by (simp add: emits_def setCondition_def)

lemma wp_check [wp_simps]: "wp (check m) Q = wp m (\<lambda>e. Q (as_result e))"
  by (simp add: check_def wp_simps)

lemma emits_check [emits_rules]: "emits S m \<Longrightarrow> emits S (check m)"
  by (simp add: check_def emits_bindI emits_ret)

lemma wp_statusUpdate [wp_simps]:
  "wp (statusUpdate E x) Q =
     (\<lambda>h. Q (api_StatusUpdate E h x) (h @ [EvStatusUpdate x (api_StatusUpdate E h x)]))"
  by (simp add: statusUpdate_def wp_call)

lemma wp_updateObj [wp_simps]:
  "wp (updateObj E x) Q = (\<lambda>h. Q (api_Update E h x) (h @ [EvUpdate x (api_Update E h x)]))"
  by (simp add: updateObj_def wp_call)

lemma wp_createObj [wp_simps]:
  "wp (createObj E x) Q = (\<lambda>h. Q (api_Create E h x) (h @ [EvCreate x (api_Create E h x)]))"
  by (simp add: createObj_def wp_call)

lemma wp_deleteObj [wp_simps]:
  "wp (deleteObj E kd k) Q =
     (\<lambda>h. Q (api_Delete E h kd k) (h @ [EvDelete kd k (api_Delete E h kd k)]))"
  by (simp add: deleteObj_def wp_call)

lemma wp_readClock [wp_simps]: "wp (readClock E) Q = (\<lambda>h. Q (clock E h) h)"
  by (simp add: readClock_def wp_peek)

lemma emits_readClock [emits_rules]: "emits S (readClock E)"
  by (simp add: readClock_def emits_peek)

lemma wp_gets [wp_simps]:
  "wp (getWorkspace E k) Q1 = (\<lambda>h. Q1 (api_GetWorkspace E h k) (h @ [EvGetWorkspace k (api_GetWorkspace E h k)]))"
  "wp (listWorkspaces E ns) Q2 = (\<lambda>h. Q2 (api_ListWorkspaces E h ns) (h @ [EvListWorkspaces ns (api_ListWorkspaces E h ns)]))"
  "wp (listTasks E ns) Q3 = (\<lambda>h. Q3 (api_ListTasks E h ns) (h @ [EvListTasks ns (api_ListTasks E h ns)]))"
  "wp (getTemplateObj E k) Q4 = (\<lambda>h. Q4 (api_GetTemplate E h k) (h @ [EvGetTemplate k (api_GetTemplate E h k)]))"
  "wp (getStatefulSet E k) Q5 = (\<lambda>h. Q5 (api_GetStatefulSet E h k) (h @ [EvGetStatefulSet k (api_GetStatefulSet E h k)]))"
  "wp (getConfigMap E k) Q6 = (\<lambda>h. Q6 (api_GetConfigMap E h k) (h @ [EvGetConfigMap k (api_GetConfigMap E h k)]))"
  "wp (getSecret E k) Q7 = (\<lambda>h. Q7 (api_GetSecret E h k) (h @ [EvGetSecret k (api_GetSecret E h k)]))"
  "wp (getNode E n) Q8 = (\<lambda>h. Q8 (api_GetNode E h n) (h @ [EvGetNode n (api_GetNode E h n)]))"
  "wp (getResourceQuota E k) Q9 = (\<lambda>h. Q9 (api_GetResourceQuota E h k) (h @ [EvGetResourceQuota k (api_GetResourceQuota E h k)]))"
  "wp (listPods E ns w) Q10 = (\<lambda>h. Q10 (api_ListPods E h ns w) (h @ [EvListPods ns w (api_ListPods E h ns w)]))"
  by (simp_all add: api_call_defs wp_call)

lemma emits_calls [emits_rules]:
  "(\<And>r. S (EvGetWorkspace k r)) \<Longrightarrow> emits S (getWorkspace E k)"
  "(\<And>r. S (EvListWorkspaces ns r)) \<Longrightarrow> emits S (listWorkspaces E ns)"
  "(\<And>r. S (EvListTasks ns r)) \<Longrightarrow> emits S (listTasks E ns)"
  "(\<And>r. S (EvGetTemplate k r)) \<Longrightarrow> emits S (getTemplateObj E k)"
  "(\<And>r. S (EvGetStatefulSet k r)) \<Longrightarrow> emits S (getStatefulSet E k)"
  "(\<And>r. S (EvGetConfigMap k r)) \<Longrightarrow> emits S (getConfigMap E k)"
  "(\<And>r. S (EvGetSecret k r)) \<Longrightarrow> emits S (getSecret E k)"
  "(\<And>r. S (EvGetNode n r)) \<Longrightarrow> emits S (getNode E n)"
  "(\<And>r. S (EvGetResourceQuota k r)) \<Longrightarrow> emits S (getResourceQuota E k)"
  "(\<And>r. S (EvListPods ns w r)) \<Longrightarrow> emits S (listPods E ns w)"
  "(\<And>r. S (EvCreate x r)) \<Longrightarrow> emits S (createObj E x)"
  "(\<And>r. S (EvUpdate x r)) \<Longrightarrow> emits S (updateObj E x)"
  "(\<And>r. S (EvStatusUpdate x r)) \<Longrightarrow> emits S (statusUpdate E x)"
  "(\<And>r. S (EvDelete kd k r)) \<Longrightarrow> emits S (deleteObj E kd k)"
  by (simp_all add: api_call_defs emits_call)

lemma wp_lift_result [wp_simps]: "wp (lift_result r) Q = Q r"
  by (simp add: lift_result_def wp_ret)

lemma emits_lift_result [emits_rules]: "emits S (lift_result r)"
  by (simp add: lift_result_def emits_ret)

lemma object_kind_update_meta [simp]: "object_kind (update_meta f x) = object_kind x"
  by (cases x) auto

lemma object_meta_update_meta [simp]: "object_meta (update_meta f x) = f (object_meta x)"
  by (cases x) auto

lemma setOwner_kind_key:
  "setOwner E owner x = Inr y \<Longrightarrow> object_kind y = object_kind x \<and> object_key y = object_key x"
  by (auto simp: setOwner_def object_key_def split: sum.splits)

lemma find_set_same:
  assumes "conditions_lib E"
  obtains t where "FindStatusCondition E (fst (SetStatusCondition E h cs c)) (ctype c) =
    Some (c\<lparr>clastTransitionTime := t\<rparr>)"
  using assms unfolding conditions_lib_def by blast

lemma find_set_other:
  "conditions_lib E \<Longrightarrow> u \<noteq> ctype c \<Longrightarrow>
   FindStatusCondition E (fst (SetStatusCondition E h cs c)) u = FindStatusCondition E cs u"
  unfolding conditions_lib_def by blast

lemma is_true_find:
  "conditions_lib E \<Longrightarrow> IsStatusConditionTrue E cs t \<longleftrightarrow>
     (\<exists>c. FindStatusCondition E cs t = Some c \<and> cstatus c = ConditionTrue)"
  unfolding conditions_lib_def by blast

lemma is_false_find:
  "conditions_lib E \<Longrightarrow> IsStatusConditionFalse E cs t \<longleftrightarrow>
     (\<exists>c. FindStatusCondition E cs t = Some c \<and> cstatus c = ConditionFalse)"
  unfolding conditions_lib_def by blast

lemma find_remove:
  "conditions_lib E \<Longrightarrow> FindStatusCondition E (RemoveStatusCondition E cs t) u =
     (if u = t then None else FindStatusCondition E cs u)"
  unfolding conditions_lib_def by blast

lemma set_changed:
  "conditions_lib E \<Longrightarrow> snd (SetStatusCondition E h cs c) \<longleftrightarrow>
     (case FindStatusCondition E cs (ctype c) of
        None \<Rightarrow> True
      | Some d \<Rightarrow> cstatus d \<noteq> cstatus c \<or> creason d \<noteq> creason c \<or> cmessage d \<noteq> cmessage c)"
  unfolding conditions_lib_def by blast

lemma is_true_set_other:
  "conditions_lib E \<Longrightarrow> u \<noteq> ctype c \<Longrightarrow>
   IsStatusConditionTrue E (fst (SetStatusCondition E h cs c)) u = IsStatusConditionTrue E cs u"
  by (simp add: is_true_find find_set_other)

lemma is_true_set_same:
  "conditions_lib E \<Longrightarrow>
   IsStatusConditionTrue E (fst (SetStatusCondition E h cs c)) (ctype c) \<longleftrightarrow> cstatus c = ConditionTrue"
proof -
  assume lib: "conditions_lib E"
  then obtain t where "FindStatusCondition E (fst (SetStatusCondition E h cs c)) (ctype c) =
    Some (c\<lparr>clastTransitionTime := t\<rparr>)" by (rule find_set_same)
  then show ?thesis by (simp add: is_true_find [OF lib])
qed

lemma tryE_lift_result:
  "tryE (lift_result (Inl e)) f = fail e"
  "tryE (lift_result (Inr x)) f = f x"
  by (simp_all add: fun_eq_iff tryE_def bindI_def lift_result_def ret_def fail_def)

lemma runs_setCondition:
  "runs (setCondition E ws c) h (\<lambda>ws' evs. evs = [] \<and> WMeta ws' = WMeta ws \<and> Spec ws' = Spec ws \<and>
     Phase (Status ws') = Phase (Status ws))"
  by (simp add: runs_wp wp_simps)

lemma runs_readClock: "runs (readClock E) h (\<lambda>now evs. evs = [] \<and> now = clock E h)"
  by (simp add: runs_wp wp_simps)

end
