(* ===== verification/Ordering.thy ===== *)
theory Ordering
  imports Api
begin

text \<open>
  The age order of objects (\<^verbatim>\<open>isOlder\<close>, workspace_controller.go), used both to pick the
  canonical workspace of a branch and to order the task queue.  The interpretation discharges the
  laws of \<open>slice_order\<close>, so that the lemmas of \<^verbatim>\<open>sort.Slice\<close> apply to it.
\<close>

definition isOlder :: "time \<Rightarrow> string \<Rightarrow> time \<Rightarrow> string \<Rightarrow> bool" where
  "isOlder t1 name1 t2 name2 = (if t1 \<noteq> t2 then t1 < t2 else name1 < name2)"

definition older_meta :: "ObjectMeta \<Rightarrow> ObjectMeta \<Rightarrow> bool" where
  "older_meta a b = isOlder (CreationTimestamp a) (Name a) (CreationTimestamp b) (Name b)"

interpretation age: slice_order older_meta
proof
  fix x y z :: ObjectMeta
  show "\<not> older_meta x x" by (simp add: older_meta_def isOlder_def)
  show "older_meta x y \<Longrightarrow> older_meta y z \<Longrightarrow> older_meta x z"
    by (auto simp: older_meta_def isOlder_def split: if_splits)
  show "older_meta x z \<Longrightarrow> older_meta x y \<or> older_meta y z"
    by (auto simp: older_meta_def isOlder_def split: if_splits)
qed

definition older_task :: "TaskRequest \<Rightarrow> TaskRequest \<Rightarrow> bool" where
  "older_task a b = older_meta (TMeta a) (TMeta b)"

interpretation task_age: slice_order older_task
  by unfold_locales
     (auto simp: older_task_def age.less_irrefl dest: age.less_trans age.less_weak)

definition older_ws :: "Workspace \<Rightarrow> Workspace \<Rightarrow> bool" where
  "older_ws a b = older_meta (WMeta a) (WMeta b)"

interpretation ws_age: slice_order older_ws
  by unfold_locales
     (auto simp: older_ws_def age.less_irrefl dest: age.less_trans age.less_weak)

lemma older_meta_total: "Name a \<noteq> Name b \<Longrightarrow> older_meta a b \<or> older_meta b a"
  by (auto simp: older_meta_def isOlder_def)

end
