(* ===== verification/Reference.thy ===== *)
theory Reference
  imports Api
begin

text \<open>
  A concrete environment.  \<open>env0\<close> implements the client libraries' condition and finalizer
  helpers on lists, which shows that \<open>conditions_lib\<close> and \<open>finalizer_lib\<close> can hold, and
  answers every API call with the simplest answer; the witnesses of the components override the
  answers they need.
\<close>

fun ref_find :: "Condition list \<Rightarrow> string \<Rightarrow> Condition option" where
  "ref_find [] t = None"
| "ref_find (c # cs) t = (if ctype c = t then Some c else ref_find cs t)"

fun ref_set :: "time \<Rightarrow> Condition list \<Rightarrow> Condition \<Rightarrow> Condition list \<times> bool" where
  "ref_set now [] c =
     ([c\<lparr>clastTransitionTime := (case clastTransitionTime c of None \<Rightarrow> Some now | Some t \<Rightarrow> Some t)\<rparr>], True)"
| "ref_set now (d # ds) c =
     (if ctype d = ctype c
      then (c\<lparr>clastTransitionTime :=
               (if cstatus d = cstatus c then clastTransitionTime d
                else case clastTransitionTime c of None \<Rightarrow> Some now | Some t \<Rightarrow> Some t)\<rparr> # ds,
            cstatus d \<noteq> cstatus c \<or> creason d \<noteq> creason c \<or> cmessage d \<noteq> cmessage c)
      else (case ref_set now ds c of (ds', ch) \<Rightarrow> (d # ds', ch)))"

definition ref_remove :: "Condition list \<Rightarrow> string \<Rightarrow> Condition list" where
  "ref_remove cs t = filter (\<lambda>c. ctype c \<noteq> t) cs"

definition ref_has :: "ConditionStatus \<Rightarrow> Condition list \<Rightarrow> string \<Rightarrow> bool" where
  "ref_has st cs t = (case ref_find cs t of None \<Rightarrow> False | Some c \<Rightarrow> cstatus c = st)"

definition env0 :: Env where
  "env0 = \<lparr>clock = (\<lambda>h. 0),
     SetStatusCondition = (\<lambda>h. ref_set 0),
     FindStatusCondition = ref_find,
     IsStatusConditionTrue = ref_has ConditionTrue,
     IsStatusConditionFalse = ref_has ConditionFalse,
     RemoveStatusCondition = ref_remove,
     SetControllerReference = (\<lambda>m x. Inr [UID m]),
     AddFinalizer = (\<lambda>fs f. if f \<in> set fs then (fs, False) else (fs @ [f], True)),
     RemoveFinalizer = (\<lambda>fs f. if f \<in> set fs then (filter (\<lambda>g. g \<noteq> f) fs, True) else (fs, False)),
     ParseQuantity = (\<lambda>s. Inr 0),
     QuantityString = (\<lambda>q. []),
     FormatRFC3339 = (\<lambda>t. []),
     api_GetWorkspace = (\<lambda>h k. Inl (NotFound [])),
     api_ListWorkspaces = (\<lambda>h ns. Inr []),
     api_ListTasks = (\<lambda>h ns. Inr []),
     api_GetTemplate = (\<lambda>h k. Inl (NotFound [])),
     api_GetStatefulSet = (\<lambda>h k. Inl (NotFound [])),
     api_GetConfigMap = (\<lambda>h k. Inl (NotFound [])),
     api_GetSecret = (\<lambda>h k. Inl (NotFound [])),
     api_GetNode = (\<lambda>h n. Inl (NotFound [])),
     api_GetResourceQuota = (\<lambda>h k. Inl (NotFound [])),
     api_ListPods = (\<lambda>h ns w. Inr []),
     api_Create = (\<lambda>h x. None),
     api_Update = (\<lambda>h x. None),
     api_StatusUpdate = (\<lambda>h x. None),
     api_Delete = (\<lambda>h kd k. None),
     http_NewRequest = (\<lambda>m u. None),
     http_Do = (\<lambda>h m u. Inl (Err ''connection refused''))\<rparr>"

definition meta0 :: "string \<Rightarrow> time \<Rightarrow> ObjectMeta" where
  "meta0 n t = \<lparr>Name = n, Namespace = ''dev'', UID = n, CreationTimestamp = t,
     DeletionTimestamp = None, Labels = [], Annotations = Map.empty, Finalizers = [], OwnerReferences = []\<rparr>"

definition status0 :: WorkspaceStatus where
  "status0 = \<lparr>Phase = PhaseUnset, WorkspaceId = [], Urls = \<lparr>Preview = [], Session = [], Report = []\<rparr>,
     SessionId = [], LastActivityAt = None, LastEvacuation = None, Blackboard = None, Conditions = []\<rparr>"

definition ws0 :: "string \<Rightarrow> string \<Rightarrow> time \<Rightarrow> Workspace" where
  "ws0 n b t = \<lparr>WMeta = meta0 n t,
     Spec = \<lparr>Repository = ''r'', Branch = b, BaseBranch = None, TemplateRef = ''t'',
             GitCredentialSecretRef = None, Desired = DesiredPhaseUnset\<rparr>,
     Status = status0\<rparr>"

definition task0 :: "string \<Rightarrow> string \<Rightarrow> time \<Rightarrow> TaskRequest" where
  "task0 n w t = \<lparr>TMeta = meta0 n t, WorkspaceRef = w, TPhase = TaskPhaseUnset, TConditions = []\<rparr>"

lemma ref_find_set:
  "ref_find (fst (ref_set now cs c)) u =
     (if u = ctype c
      then Some (c\<lparr>clastTransitionTime := (case ref_find cs (ctype c) of
             Some d \<Rightarrow> if cstatus d = cstatus c then clastTransitionTime d
                       else case clastTransitionTime c of None \<Rightarrow> Some now | Some t \<Rightarrow> Some t
           | None \<Rightarrow> case clastTransitionTime c of None \<Rightarrow> Some now | Some t \<Rightarrow> Some t)\<rparr>)
      else ref_find cs u)"
  by (induction cs) (auto simp: split_beta)

lemma ref_set_changed:
  "snd (ref_set now cs c) \<longleftrightarrow>
     (case ref_find cs (ctype c) of None \<Rightarrow> True
      | Some d \<Rightarrow> cstatus d \<noteq> cstatus c \<or> creason d \<noteq> creason c \<or> cmessage d \<noteq> cmessage c)"
  by (induction cs) (auto simp: split_beta)

lemma ref_find_remove: "ref_find (ref_remove cs t) u = (if u = t then None else ref_find cs u)"
  by (induction cs) (auto simp: ref_remove_def)

lemma conditions_lib_env0: "conditions_lib env0"
  unfolding conditions_lib_def env0_def
  by (auto simp: ref_find_set ref_set_changed ref_find_remove ref_has_def split: option.splits)

lemma finalizer_lib_env0: "finalizer_lib env0"
  unfolding finalizer_lib_def env0_def by (auto simp: insert_absorb)

text \<open>The two contracts read only the helper functions, so overriding an API answer keeps them.\<close>

lemma conditions_lib_cong:
  assumes "conditions_lib E"
    and "SetStatusCondition E' = SetStatusCondition E"
    and "FindStatusCondition E' = FindStatusCondition E"
    and "IsStatusConditionTrue E' = IsStatusConditionTrue E"
    and "IsStatusConditionFalse E' = IsStatusConditionFalse E"
    and "RemoveStatusCondition E' = RemoveStatusCondition E"
  shows "conditions_lib E'"
  using assms by (simp add: conditions_lib_def)

end
