(* ===== verification/TaskQueue.thy ===== *)
theory TaskQueue
  imports Ordering Reference
begin

text \<open>
  The Task Queue and Quota Governor: \<^verbatim>\<open>controller/internal/controller/taskqueue.go\<close> and the
  decision part of \<^verbatim>\<open>quota.go\<close>.

  The reconciler's in-process fields (\<open>stopped\<close>, \<open>recentQuotaHits\<close>) are threaded
  through as a record; what it reads and writes is in the history.  Shown: the concurrency bound,
  oldest-first dispatch to Ready workspaces only, that a stop stops everything behind it, the
  priority of quota windows, the walk along the model chain, and that holds and stops are announced
  once.
\<close>

subsection \<open>quota.go\<close>

datatype QuotaScope = QuotaScopeNone | QuotaScopeModel | QuotaScopeSession | QuotaScopeWeekly

fun scope_text :: "QuotaScope \<Rightarrow> string" where
  "scope_text QuotaScopeNone = []"
| "scope_text QuotaScopeModel = ''model''"
| "scope_text QuotaScopeSession = ''session''"
| "scope_text QuotaScopeWeekly = ''weekly''"

definition EventQuotaExhausted :: string where
  "EventQuotaExhausted = ''QuotaExhausted''"

definition EventAuthError :: string where
  "EventAuthError = ''AuthError''"

definition AnnotationActiveModel :: string where
  "AnnotationActiveModel = ''workspace.tom1022.github.io/active-model''"

definition groupWeekly :: string where
  "groupWeekly = ''weekly''"

fun exhausted_loop :: "QuotaScope \<Rightarrow> rat \<Rightarrow> UsageSnapshot list \<Rightarrow> QuotaScope \<times> bool" where
  "exhausted_loop scope minRemaining [] = (scope, scope \<noteq> QuotaScopeNone)"
| "exhausted_loop scope minRemaining (s # ss) =
     (if \<not> us_Active s \<or> RemainingPercent s > minRemaining then exhausted_loop scope minRemaining ss
      else if us_Model s \<noteq> [] then
        exhausted_loop (if scope = QuotaScopeNone then QuotaScopeModel else scope) minRemaining ss
      else if Group s = groupWeekly then exhausted_loop QuotaScopeWeekly minRemaining ss
      else (QuotaScopeSession, True))"

definition exhaustedScope :: "UsageSnapshot list \<Rightarrow> rat \<Rightarrow> QuotaScope \<times> bool" where
  "exhaustedScope snaps minRemainingPercent =
     exhausted_loop QuotaScopeNone minRemainingPercent snaps"

definition isAuthError :: "string \<Rightarrow> bool" where
  "isAuthError kind \<longleftrightarrow> kind = ''authentication_error'' \<or> kind = ''permission_error''"

subsection \<open>The reconciler\<close>

record QuotaHit =
  Scope :: QuotaScope
  At :: time

record QueueStats =
  Queued :: int
  Running :: int
  RecentQuotaHits :: "QuotaHit list"

record TaskQueueReconciler =
  MaxConcurrent :: int
  UsageObserver :: "(Event list \<Rightarrow> Workspace \<Rightarrow> UsageReading result) option"
  MinRemainingPercent :: rat
  ModelFallbacks :: "string list"
  hasNotify :: bool
  stopped :: string
  recentQuotaHits :: "QuotaHit list"

definition defaultMaxConcurrentTasks :: int where
  "defaultMaxConcurrentTasks = 2"

definition maxRecentQuotaHits :: nat where
  "maxRecentQuotaHits = 20"

definition conditionDispatched :: string where
  "conditionDispatched = ''Dispatched''"

definition quotaRecheckInterval :: duration where
  "quotaRecheckInterval = 5 * Minute"

definition maxConcurrent :: "TaskQueueReconciler \<Rightarrow> int" where
  "maxConcurrent r = (if MaxConcurrent r > 0 then MaxConcurrent r else defaultMaxConcurrentTasks)"

fun nextModel_at :: "string list \<Rightarrow> string \<Rightarrow> nat \<Rightarrow> nat option" where
  "nextModel_at [] current i = None"
| "nextModel_at (m # ms) current i = (if m = current then Some i else nextModel_at ms current (Suc i))"

definition nextModel :: "string list \<Rightarrow> string \<Rightarrow> string" where
  "nextModel chain current =
     (case (if current \<noteq> [] then nextModel_at chain current 0 else Some 0) of
        None \<Rightarrow> []
      | Some pos \<Rightarrow> if pos + 1 \<ge> length chain then [] else chain ! (pos + 1))"

definition notify_q :: "string \<Rightarrow> string \<Rightarrow> string \<Rightarrow> unit act" where
  "notify_q wsname kind detail = call (\<lambda>_. ()) (\<lambda>_. EvNotify wsname kind detail)"

definition stop :: "TaskQueueReconciler \<Rightarrow> Env \<Rightarrow> TaskRequest \<Rightarrow> string \<Rightarrow> string
    \<Rightarrow> TaskQueueReconciler act" where
  "stop r E task kind detail =
     (if stopped r = detail then ret r
      else let r = r\<lparr>stopped := detail\<rparr>
           in if \<not> hasNotify r then ret r
              else bindI (getWorkspace E (Namespace (TMeta task), WorkspaceRef task)) (\<lambda>got.
                   bindI (notify_q (case got of Inl _ \<Rightarrow> WorkspaceRef task | Inr ws \<Rightarrow> Name (WMeta ws))
                            kind detail) (\<lambda>_. ret r)))"

definition resume :: "TaskQueueReconciler \<Rightarrow> TaskQueueReconciler" where
  "resume r = r\<lparr>stopped := []\<rparr>"

definition recordQuotaHit :: "TaskQueueReconciler \<Rightarrow> QuotaScope \<Rightarrow> time \<Rightarrow> TaskQueueReconciler" where
  "recordQuotaHit r scope t =
     (let hits = recentQuotaHits r @ [\<lparr>Scope = scope, At = t\<rparr>]
      in r\<lparr>recentQuotaHits := (if length hits > maxRecentQuotaHits
             then drop (length hits - maxRecentQuotaHits) hits else hits)\<rparr>)"

definition switchModel :: "TaskQueueReconciler \<Rightarrow> Env \<Rightarrow> TaskRequest \<Rightarrow> string result act" where
  "switchModel r E task =
     bindI (getWorkspace E (Namespace (TMeta task), WorkspaceRef task)) (\<lambda>got.
       case got of
         Inl e \<Rightarrow> (if IsNotFound e then ok [] else fail e)
       | Inr ws \<Rightarrow>
           (let next = nextModel (ModelFallbacks r) (annotation (WMeta ws) AnnotationActiveModel)
            in if next = [] then ok []
               else let ws = ws\<lparr>WMeta := (WMeta ws)\<lparr>Annotations :=
                              (Annotations (WMeta ws))(AnnotationActiveModel \<mapsto> next)\<rparr>\<rparr>
                    in tryE (check (updateObj E (OWorkspace ws))) (\<lambda>_. ok next)))"

definition observe :: "TaskQueueReconciler \<Rightarrow> Env \<Rightarrow> TaskRequest \<Rightarrow> UsageReading option act" where
  "observe r E task =
     (case UsageObserver r of None \<Rightarrow> ret None
      | Some obs \<Rightarrow>
          bindI (getWorkspace E (Namespace (TMeta task), WorkspaceRef task)) (\<lambda>got.
            case got of Inl _ \<Rightarrow> ret None
            | Inr ws \<Rightarrow>
                bindI (call (\<lambda>h. obs h ws) (EvObserveUsage (ws_key ws))) (\<lambda>reading.
                  case reading of Inl _ \<Rightarrow> ret None | Inr rd \<Rightarrow> ret (Some rd))))"

text \<open>\<open>throttle\<close> returns the reconciler's new state even where it returns an error, as the
  pointer receiver does.\<close>

definition throttle :: "TaskQueueReconciler \<Rightarrow> Env \<Rightarrow> TaskRequest \<Rightarrow> UsageReading
    \<Rightarrow> (TaskQueueReconciler \<times> string result) act" where
  "throttle r E task reading =
     (if isAuthError (ErrorKind reading)
      then bindI (stop r E task EventAuthError
                   (''submission stopped for every workspace: '' @ ErrorKind reading))
             (\<lambda>r. ret (r, Inr ''AuthError''))
      else case exhaustedScope (Snapshots reading) (MinRemainingPercent r) of
        (scope, spent) \<Rightarrow>
          (if \<not> spent then ret (resume r, Inr [])
           else bindI (readClock E) (\<lambda>now.
             let r = recordQuotaHit r scope now in
             bindI (if scope = QuotaScopeModel then switchModel r E task else ok []) (\<lambda>res.
               case res of
                 Inl e \<Rightarrow> ret (r, Inl e)
               | Inr next \<Rightarrow>
                   (if next \<noteq> [] then ret (resume r, Inr [])
                    else bindI (stop r E task EventQuotaExhausted
                                 (''dispatch stopped: the '' @ scope_text scope @ '' quota window is spent''))
                           (\<lambda>r. ret (r, Inr ''QuotaExhausted'')))))))"

definition workspaceReady :: "Env \<Rightarrow> TaskRequest \<Rightarrow> bool result act" where
  "workspaceReady E task =
     bindI (getWorkspace E (Namespace (TMeta task), WorkspaceRef task)) (\<lambda>got.
       case got of
         Inl e \<Rightarrow> (if IsNotFound e then ok False else fail e)
       | Inr ws \<Rightarrow> ok (Phase (Status ws) = WorkspacePhaseReady))"

definition set_task_condition :: "Env \<Rightarrow> TaskRequest \<Rightarrow> Condition \<Rightarrow> (TaskRequest \<times> bool) act" where
  "set_task_condition E task c =
     (\<lambda>h. case SetStatusCondition E h (TConditions task) c of (cs, changed) \<Rightarrow>
            ((task\<lparr>TConditions := cs\<rparr>, changed), h))"

definition dispatch :: "Env \<Rightarrow> TaskRequest \<Rightarrow> unit result act" where
  "dispatch E task =
     bindI (set_task_condition E (task\<lparr>TPhase := TaskPhaseRunning\<rparr>)
              (mkCondition conditionDispatched ConditionTrue ''SlotAvailable''
                 ''dispatched to its workspace session''))
       (\<lambda>(task, _). check (statusUpdate E (OTaskRequest task)))"

definition hold :: "Env \<Rightarrow> TaskRequest \<Rightarrow> string \<Rightarrow> string \<Rightarrow> unit result act" where
  "hold E task reason message =
     bindI (set_task_condition E (task\<lparr>TPhase := TaskPhasePending\<rparr>)
              (mkCondition conditionDispatched ConditionFalse reason message))
       (\<lambda>(task, changed). if \<not> changed then ok ()
                          else check (statusUpdate E (OTaskRequest task)))"

definition holdAll :: "Env \<Rightarrow> TaskRequest list \<Rightarrow> string \<Rightarrow> string \<Rightarrow> unit result act" where
  "holdAll E tasks reason message = forE tasks (\<lambda>t. hold E t reason message)"

fun occupies_slot :: "TaskPhase \<Rightarrow> bool" where
  "occupies_slot TaskPhaseRunning = True"
| "occupies_slot TaskPhaseVerifying = True"
| "occupies_slot TaskPhaseHumanIntervention = True"
| "occupies_slot _ = False"

fun is_queued :: "TaskPhase \<Rightarrow> bool" where
  "is_queued TaskPhaseUnset = True"
| "is_queued TaskPhasePending = True"
| "is_queued _ = False"

definition task_live :: "TaskRequest \<Rightarrow> bool" where
  "task_live t \<longleftrightarrow> DeletionTimestamp (TMeta t) = None"

definition running_tasks :: "TaskRequest list \<Rightarrow> TaskRequest list" where
  "running_tasks ts = filter (\<lambda>t. task_live t \<and> occupies_slot (TPhase t)) ts"

definition pending_tasks :: "TaskRequest list \<Rightarrow> TaskRequest list" where
  "pending_tasks ts = filter (\<lambda>t. task_live t \<and> is_queued (TPhase t)) ts"

fun dispatch_loop :: "TaskQueueReconciler \<Rightarrow> Env \<Rightarrow> int \<Rightarrow> int \<Rightarrow> TaskRequest list
    \<Rightarrow> (TaskQueueReconciler \<times> duration result) act" where
  "dispatch_loop r E limit running [] = ret (r, Inr 0)"
| "dispatch_loop r E limit running (task # rest) =
     (if running \<ge> limit then
        bindI (hold E task ''ConcurrencyLimit''
                 (Itoa running @ '' of '' @ Itoa limit @ '' task slots in use'')) (\<lambda>res.
          case res of Inl e \<Rightarrow> ret (r, Inl e)
          | Inr _ \<Rightarrow> dispatch_loop r E limit running rest)
      else
        bindI (workspaceReady E task) (\<lambda>res.
          case res of Inl e \<Rightarrow> ret (r, Inl e)
          | Inr ready \<Rightarrow>
            (if \<not> ready then
               bindI (hold E task ''WorkspaceNotReady''
                        (''workspace '' @ Quote (WorkspaceRef task) @ '' is not Ready'')) (\<lambda>res.
                 case res of Inl e \<Rightarrow> ret (r, Inl e)
                 | Inr _ \<Rightarrow> dispatch_loop r E limit running rest)
             else
               bindI (observe r E task) (\<lambda>reading.
               bindI (case reading of None \<Rightarrow> ret (r, Inr []) | Some rd \<Rightarrow> throttle r E task rd)
                 (\<lambda>(r, res).
                  case res of Inl e \<Rightarrow> ret (r, Inl e)
                  | Inr st \<Rightarrow>
                    (if st \<noteq> [] then
                       bindI (holdAll E (task # rest) st (stopped r)) (\<lambda>res.
                         case res of Inl e \<Rightarrow> ret (r, Inl e)
                         | Inr _ \<Rightarrow> ret (r, Inr quotaRecheckInterval))
                     else
                       bindI (dispatch E task) (\<lambda>res.
                         case res of Inl e \<Rightarrow> ret (r, Inl e)
                         | Inr _ \<Rightarrow> dispatch_loop r E limit (running + 1) rest)))))))"

definition TaskQueue_Reconcile :: "TaskQueueReconciler \<Rightarrow> Env \<Rightarrow> string
    \<Rightarrow> (TaskQueueReconciler \<times> duration result) act" where
  "TaskQueue_Reconcile r E ns =
     bindI (listTasks E ns) (\<lambda>res.
       case res of Inl e \<Rightarrow> ret (r, Inl e)
       | Inr items \<Rightarrow>
           dispatch_loop r E (maxConcurrent r) (int (length (running_tasks items)))
             (sort_Slice older_task (pending_tasks items)))"

definition Stats :: "TaskQueueReconciler \<Rightarrow> Env \<Rightarrow> string \<Rightarrow> QueueStats result act" where
  "Stats r E ns =
     tryE (listTasks E ns) (\<lambda>items.
       ok \<lparr>Queued = int (length (pending_tasks items)),
           Running = int (length (running_tasks items)),
           RecentQuotaHits = recentQuotaHits r\<rparr>)"

subsection \<open>Dispatches in a history\<close>

fun dispatched_task :: "Event \<Rightarrow> TaskRequest option" where
  "dispatched_task (EvStatusUpdate (OTaskRequest t) _) =
     (if TPhase t = TaskPhaseRunning then Some t else None)"
| "dispatched_task _ = None"

definition dispatches :: "Event list \<Rightarrow> TaskRequest list" where
  "dispatches evs = List.map_filter dispatched_task evs"

definition no_dispatch :: "Event \<Rightarrow> bool" where
  "no_dispatch e \<longleftrightarrow> dispatched_task e = None"

lemma dispatches_append [simp]: "dispatches (xs @ ys) = dispatches xs @ dispatches ys"
  by (simp add: dispatches_def map_filter_def)

lemma dispatches_none: "list_all no_dispatch evs \<Longrightarrow> dispatches evs = []"
  by (induction evs) (auto simp: dispatches_def map_filter_def no_dispatch_def)

lemma emits_set_task_condition [emits_rules]: "emits S (set_task_condition E t c)"
  by (simp add: emits_def set_task_condition_def split: prod.splits)

lemma wp_set_task_condition [wp_simps]:
  "wp (set_task_condition E t c) Q = (\<lambda>h.
     Q (t\<lparr>TConditions := fst (SetStatusCondition E h (TConditions t) c)\<rparr>,
        snd (SetStatusCondition E h (TConditions t) c)) h)"
  by (simp add: fun_eq_iff wp_def set_task_condition_def split: prod.splits)

lemma emits_hold [emits_rules]: "emits no_dispatch (hold E t reason message)"
proof (rule emitsI)
  fix h
  show "\<exists>evs. snd (hold E t reason message h) = h @ evs \<and> list_all no_dispatch evs"
    by (auto simp: hold_def bindI_def set_task_condition_def check_def statusUpdate_def call_def
        ret_def ok_def no_dispatch_def split: prod.splits)
qed

lemma emits_holdAll [emits_rules]: "emits no_dispatch (holdAll E ts reason message)"
  unfolding holdAll_def by (intro emits_rules)

lemma emits_workspaceReady: "emits no_dispatch (workspaceReady E t)"
  unfolding workspaceReady_def getWorkspace_def
  by (intro emits_rules) (auto simp: no_dispatch_def)

lemma emits_observe [emits_rules]: "emits no_dispatch (observe r E t)"
  unfolding observe_def getWorkspace_def by (intro emits_rules) (auto simp: no_dispatch_def)

lemma emits_stop [emits_rules]: "emits no_dispatch (stop r E t kind detail)"
  unfolding stop_def getWorkspace_def notify_q_def
  by (intro emits_rules) (auto simp: no_dispatch_def)

lemma emits_switchModel [emits_rules]: "emits no_dispatch (switchModel r E t)"
  unfolding switchModel_def getWorkspace_def updateObj_def
  by (intro emits_rules) (auto simp: no_dispatch_def)

lemma emits_throttle [emits_rules]: "emits no_dispatch (throttle r E t rd)"
  unfolding throttle_def by (intro emits_rules)

lemma runs_workspaceReady:
  "runs (workspaceReady E t) h (\<lambda>res evs. list_all no_dispatch evs \<and>
     (res = Inr True \<longrightarrow> (\<exists>ws. EvGetWorkspace (Namespace (TMeta t), WorkspaceRef t) (Inr ws) \<in> set evs \<and>
        Phase (Status ws) = WorkspacePhaseReady)))"
  unfolding runs_wp workspaceReady_def
  by (auto simp: wp_simps no_dispatch_def split: sum.splits)

lemma runs_dispatch:
  "runs (dispatch E t) h (\<lambda>res evs. \<exists>t' e. evs = [EvStatusUpdate (OTaskRequest t') e] \<and>
     TMeta t' = TMeta t \<and> WorkspaceRef t' = WorkspaceRef t \<and> TPhase t' = TaskPhaseRunning)"
  by (auto simp: runs_def dispatch_def bindI_def set_task_condition_def check_def statusUpdate_def
      call_def ret_def split: prod.splits)

text \<open>A dispatch is preceded, in the same pass, by a read of the task's workspace as Ready.\<close>

definition ready_guard :: "Event list \<Rightarrow> Event \<Rightarrow> bool" where
  "ready_guard before e = (case dispatched_task e of None \<Rightarrow> True
     | Some t \<Rightarrow> \<exists>ws. EvGetWorkspace (Namespace (TMeta t), WorkspaceRef t) (Inr ws) \<in> set before \<and>
                     Phase (Status ws) = WorkspacePhaseReady)"

lemma ready_guard_mono: "ready_guard p e \<Longrightarrow> ready_guard (q @ p) e"
  by (auto simp: ready_guard_def split: option.splits)

lemma ready_guard_free: "list_all no_dispatch evs \<Longrightarrow> guarded (\<lambda>p. ready_guard (xs @ p)) evs"
  by (rule guarded_free) (auto simp: list_all_iff no_dispatch_def ready_guard_def)

definition pass_ok :: "int \<Rightarrow> int \<Rightarrow> TaskRequest list \<Rightarrow> Event list \<Rightarrow> bool" where
  "pass_ok limit running ts evs \<longleftrightarrow>
     int (length (dispatches evs)) \<le> max 0 (limit - running) \<and>
     subseq (map TMeta (dispatches evs)) (map TMeta ts) \<and>
     guarded ready_guard evs"

lemma pass_ok_none: "list_all no_dispatch evs \<Longrightarrow> pass_ok limit running ts evs"
  using ready_guard_free [of evs "[]"] by (simp add: pass_ok_def dispatches_none)

lemma pass_ok_skip:
  "list_all no_dispatch evs \<Longrightarrow> pass_ok limit running ts evs' \<Longrightarrow>
   pass_ok limit running (t # ts) (evs @ evs')"
  using guarded_shift [of ready_guard evs' evs] ready_guard_mono ready_guard_free [of evs "[]"]
  by (auto simp: pass_ok_def dispatches_none intro: list_emb_Cons)

lemma pass_ok_dispatch:
  assumes "list_all no_dispatch evs" and "running < limit"
    and "EvGetWorkspace (Namespace (TMeta t), WorkspaceRef t) (Inr ws) \<in> set evs"
    and "Phase (Status ws) = WorkspacePhaseReady"
    and t': "TMeta t' = TMeta t" "WorkspaceRef t' = WorkspaceRef t" "TPhase t' = TaskPhaseRunning"
    and "pass_ok limit (running + 1) ts evs'"
  shows "pass_ok limit running (t # ts) (evs @ [EvStatusUpdate (OTaskRequest t') e] @ evs')"
proof -
  let ?d = "EvStatusUpdate (OTaskRequest t') e"
  have "guarded (\<lambda>p. ready_guard ((evs @ [?d]) @ p)) evs'"
    using assms(8) guarded_shift [of ready_guard evs' "evs @ [?d]"] ready_guard_mono
    by (simp add: pass_ok_def)
  moreover have "ready_guard evs ?d"
    using assms(3,4) t' by (auto simp: ready_guard_def)
  moreover have "dispatches (?d # evs') = t' # dispatches evs'"
    using t'(3) by (simp add: dispatches_def map_filter_def)
  ultimately show ?thesis
    using assms(1,2,8) t' ready_guard_free [of evs "[]"]
    by (auto simp: pass_ok_def dispatches_none)
qed

text \<open>The three ways a round of the loop goes on after a prefix without dispatches: it holds the
  task, it dispatches it, or it gives up.\<close>

abbreviation (input) after where
  "after limit running ts evs \<equiv> \<lambda>_ evs'. pass_ok limit running ts (evs @ evs')"

lemma round_quits:
  "list_all no_dispatch evs \<Longrightarrow> runs (ret x) h (after limit running ts evs)"
  by (simp add: pass_ok_none)

lemma round_holds:
  assumes IH: "\<And>r running h. runs (dispatch_loop r E limit running ts) h (\<lambda>_ evs. pass_ok limit running ts evs)"
    and none: "list_all no_dispatch evs"
  shows "runs (bindI (hold E t reason message) (\<lambda>res. case res of Inl e \<Rightarrow> ret (r, Inl e)
      | Inr _ \<Rightarrow> dispatch_loop r E limit running ts)) h (after limit running (t # ts) evs)"
proof (rule runs_emits_bind [OF emits_hold])
  fix res evs1
  assume "list_all no_dispatch evs1"
  with none have all: "list_all no_dispatch (evs @ evs1)" by simp
  show "runs (case res of Inl e \<Rightarrow> ret (r, Inl e) | Inr _ \<Rightarrow> dispatch_loop r E limit running ts)
      (h @ evs1) (\<lambda>y evs'. after limit running (t # ts) evs y (evs1 @ evs'))"
    using round_quits [OF all] runs_mono [OF IH pass_ok_skip [OF all]] by (cases res) auto
qed

lemma round_dispatches:
  assumes IH: "\<And>r running h. runs (dispatch_loop r E limit running ts) h (\<lambda>_ evs. pass_ok limit running ts evs)"
    and none: "list_all no_dispatch evs" and "running < limit"
    and read: "EvGetWorkspace (Namespace (TMeta t), WorkspaceRef t) (Inr ws) \<in> set evs"
    and ready: "Phase (Status ws) = WorkspacePhaseReady"
  shows "runs (bindI (dispatch E t) (\<lambda>res. case res of Inl e \<Rightarrow> ret (r, Inl e)
      | Inr _ \<Rightarrow> dispatch_loop r E limit (running + 1) ts)) h (after limit running (t # ts) evs)"
proof (rule runs_bindI [OF runs_dispatch])
  fix res evs1
  assume "\<exists>t' e. evs1 = [EvStatusUpdate (OTaskRequest t') e] \<and>
    TMeta t' = TMeta t \<and> WorkspaceRef t' = WorkspaceRef t \<and> TPhase t' = TaskPhaseRunning"
  then have ok: "pass_ok limit (running + 1) ts evs2 \<Longrightarrow>
      pass_ok limit running (t # ts) (evs @ evs1 @ evs2)" for evs2
    using pass_ok_dispatch [OF none assms(3) read ready] by auto
  show "runs (case res of Inl e \<Rightarrow> ret (r, Inl e)
      | Inr _ \<Rightarrow> dispatch_loop r E limit (running + 1) ts) (h @ evs1)
      (\<lambda>y evs2. after limit running (t # ts) evs y (evs1 @ evs2))"
    using ok [OF pass_ok_none [of "[]"]] runs_mono [OF IH ok] by (cases res) auto
qed

lemma round_gives_up:
  assumes "list_all no_dispatch evs"
  shows "runs (bindI (holdAll E us reason message) (\<lambda>res. case res of Inl e \<Rightarrow> ret (r, Inl e)
      | Inr _ \<Rightarrow> ret (r, Inr d))) h (after limit running ts evs)"
proof (rule runs_emits_bind [OF emits_holdAll])
  fix res evs1
  assume "list_all no_dispatch evs1"
  with assms have all: "list_all no_dispatch (evs @ evs1)" by simp
  show "runs (case res of Inl e \<Rightarrow> ret (r, Inl e) | Inr _ \<Rightarrow> ret (r, Inr d))
      (h @ evs1) (\<lambda>y evs'. after limit running ts evs y (evs1 @ evs'))"
    using round_quits [OF all] by (cases res) auto
qed

lemma runs_throttled:
  assumes IH: "\<And>r running h. runs (dispatch_loop r E limit running ts) h (\<lambda>_ evs. pass_ok limit running ts evs)"
    and none: "list_all no_dispatch evs" and "running < limit"
    and read: "EvGetWorkspace (Namespace (TMeta t), WorkspaceRef t) (Inr ws) \<in> set evs"
    and ready: "Phase (Status ws) = WorkspacePhaseReady"
  shows "runs (bindI (case rd of None \<Rightarrow> ret (r, Inr []) | Some rd \<Rightarrow> throttle r E t rd)
      (\<lambda>(r, res). case res of Inl e \<Rightarrow> ret (r, Inl e)
        | Inr st \<Rightarrow> if st \<noteq> []
            then bindI (holdAll E (t # ts) st (stopped r)) (\<lambda>res. case res of
              Inl e \<Rightarrow> ret (r, Inl e) | Inr _ \<Rightarrow> ret (r, Inr quotaRecheckInterval))
            else bindI (dispatch E t) (\<lambda>res. case res of Inl e \<Rightarrow> ret (r, Inl e)
              | Inr _ \<Rightarrow> dispatch_loop r E limit (running + 1) ts))) h
      (after limit running (t # ts) evs)"
proof (rule runs_emits_bind)
  show "emits no_dispatch (case rd of None \<Rightarrow> ret (r, Inr []) | Some rd \<Rightarrow> throttle r E t rd)"
    by (intro emits_rules)
  fix x :: "TaskQueueReconciler \<times> string result" and evs1
  assume "list_all no_dispatch evs1"
  with none have all: "list_all no_dispatch (evs @ evs1)" by simp
  have read': "EvGetWorkspace (Namespace (TMeta t), WorkspaceRef t) (Inr ws) \<in> set (evs @ evs1)"
    using read by simp
  obtain r' res where x: "x = (r', res)" by (cases x)
  show "runs (case x of (r, res) \<Rightarrow> case res of Inl e \<Rightarrow> ret (r, Inl e)
        | Inr st \<Rightarrow> if st \<noteq> []
            then bindI (holdAll E (t # ts) st (stopped r)) (\<lambda>res. case res of
              Inl e \<Rightarrow> ret (r, Inl e) | Inr _ \<Rightarrow> ret (r, Inr quotaRecheckInterval))
            else bindI (dispatch E t) (\<lambda>res. case res of Inl e \<Rightarrow> ret (r, Inl e)
              | Inr _ \<Rightarrow> dispatch_loop r E limit (running + 1) ts)) (h @ evs1)
      (\<lambda>y evs'. after limit running (t # ts) evs y (evs1 @ evs'))"
    using round_quits [OF all] round_gives_up [OF all]
      round_dispatches [OF IH all assms(3) read' ready]
    by (cases res) (auto simp: x)
qed

lemma runs_dispatch_loop:
  "runs (dispatch_loop r E limit running ts) h (\<lambda>_ evs. pass_ok limit running ts evs)"
proof (induction ts arbitrary: r running h)
  case Nil
  show ?case by (simp add: pass_ok_none)
next
  case (Cons t ts)
  show ?case
  proof (cases "running \<ge> limit")
    case True
    then show ?thesis using round_holds [OF Cons.IH, of "[]"] by simp
  next
    case False
    have "runs (dispatch_loop r E limit running (t # ts)) h (after limit running (t # ts) [])"
      unfolding dispatch_loop.simps if_not_P [OF False]
    proof (rule runs_bindI [OF runs_workspaceReady], goal_cases)
      case (1 res evs)
      then have none: "list_all no_dispatch evs" by simp
      show ?case
      proof (cases res)
        case (Inl e)
        then show ?thesis using none by (simp add: pass_ok_none)
      next
        case (Inr ready)
        show ?thesis
        proof (cases ready)
          case False
          then show ?thesis using round_holds [OF Cons.IH none] Inr by simp
        next
          case True
          then obtain ws where ws: "EvGetWorkspace (Namespace (TMeta t), WorkspaceRef t) (Inr ws) \<in> set evs"
            "Phase (Status ws) = WorkspacePhaseReady" using 1 Inr by auto
          have "runs (bindI (observe r E t) (\<lambda>rd. bindI (case rd of None \<Rightarrow> ret (r, Inr []) | Some rd \<Rightarrow> throttle r E t rd)
              (\<lambda>(r, res). case res of Inl e \<Rightarrow> ret (r, Inl e)
                | Inr st \<Rightarrow> if st \<noteq> []
                    then bindI (holdAll E (t # ts) st (stopped r)) (\<lambda>res. case res of
                      Inl e \<Rightarrow> ret (r, Inl e) | Inr _ \<Rightarrow> ret (r, Inr quotaRecheckInterval))
                    else bindI (dispatch E t) (\<lambda>res. case res of Inl e \<Rightarrow> ret (r, Inl e)
                      | Inr _ \<Rightarrow> dispatch_loop r E limit (running + 1) ts)))) (h @ evs)
              (after limit running (t # ts) evs)"
            using runs_throttled [OF Cons.IH, of "evs @ evs1" running t ws for evs1] none ws \<open>\<not> limit \<le> running\<close>
            by (intro runs_emits_bind [OF emits_observe]) simp
          then show ?thesis using Inr True by simp
        qed
      qed
    qed
    then show ?thesis by simp
  qed
qed


subsection \<open>Properties of a pass over the queue\<close>

lemma subseq_set: "subseq xs ys \<Longrightarrow> set xs \<subseteq> set ys"
  by (induction rule: list_emb.induct) auto

lemma subseq_sorted_wrt: "subseq xs ys \<Longrightarrow> sorted_wrt P ys \<Longrightarrow> sorted_wrt P xs"
  by (induction rule: list_emb.induct) (auto dest: subseq_set)

lemma in_order_subseq_metas:
  assumes "sorted_wrt (\<lambda>a b. \<not> older_task b a) ts" and "subseq ms (map TMeta ts)"
  shows "sorted_wrt (\<lambda>a b. \<not> older_meta b a) ms"
  using assms subseq_sorted_wrt by (fastforce simp: sorted_wrt_map older_task_def)

text \<open>C3. One pass of the queue (\<^verbatim>\<open>TaskQueueReconciler.Reconcile\<close>), whatever the API server and
  the workspaces answer: the tasks dispatched together with those already holding a slot never exceed
  the concurrency limit unless they already did, every dispatched task was a queued task of the list,
  tasks go out oldest first, and each is dispatched only after its workspace was read as Ready in this
  same pass.  When the list fails nothing is dispatched.\<close>
theorem Reconcile_dispatches_within_limit_oldest_first:
  "\<exists>evs. snd (TaskQueue_Reconcile r E ns h) = h @ evs \<and>
     (case api_ListTasks E h ns of
        Inl e \<Rightarrow> dispatches evs = []
      | Inr items \<Rightarrow>
          int (length (running_tasks items)) + int (length (dispatches evs))
            \<le> max (int (length (running_tasks items))) (maxConcurrent r) \<and>
          TMeta ` set (dispatches evs) \<subseteq> TMeta ` set (pending_tasks items) \<and>
          sorted_wrt (\<lambda>a b. \<not> older_meta b a) (map TMeta (dispatches evs)) \<and>
          guarded ready_guard evs)"
proof (cases "api_ListTasks E h ns")
  case (Inl e)
  then show ?thesis
    by (simp add: TaskQueue_Reconcile_def bindI_def listTasks_def call_def ret_def dispatches_def
        map_filter_def)
next
  case (Inr items)
  let ?e = "EvListTasks ns (Inr items)"
  let ?ts = "sort_Slice older_task (pending_tasks items)"
  let ?n = "int (length (running_tasks items))"
  obtain x evs where run: "dispatch_loop r E (maxConcurrent r) ?n ?ts (h @ [?e]) = (x, (h @ [?e]) @ evs)"
    and ok: "pass_ok (maxConcurrent r) ?n ?ts evs"
    by (rule runsE [OF runs_dispatch_loop])
  have free: "list_all no_dispatch [?e]" by (simp add: no_dispatch_def)
  have eq: "dispatches (?e # evs) = dispatches evs"
    using dispatches_append [of "[?e]" evs] dispatches_none [OF free] by simp
  have sub: "subseq (map TMeta (dispatches evs)) (map TMeta ?ts)"
    using ok by (simp add: pass_ok_def)
  have "TMeta ` set (dispatches evs) \<subseteq> TMeta ` set ?ts"
    using subseq_set [OF sub] by simp
  moreover have "sorted_wrt (\<lambda>a b. \<not> older_meta b a) (map TMeta (dispatches evs))"
    using in_order_subseq_metas [OF task_age.in_order_sort_Slice sub] .
  moreover have "guarded ready_guard (?e # evs)"
    using guarded_shift [of ready_guard evs "[?e]"] ready_guard_mono ready_guard_free [OF free, of "[]"] ok
    by (simp add: pass_ok_def)
  ultimately show ?thesis using run Inr ok eq
    by (intro exI [of _ "?e # evs"])
       (auto simp: TaskQueue_Reconcile_def bindI_def listTasks_def call_def pass_ok_def)
qed


subsection \<open>Stopping the queue\<close>

text \<open>A task stands held under a reason and message when its record already says so, or when this
  run wrote it as Pending.\<close>

definition already_held :: "Env \<Rightarrow> TaskRequest \<Rightarrow> string \<Rightarrow> string \<Rightarrow> bool" where
  "already_held E t reason message =
     (case FindStatusCondition E (TConditions t) conditionDispatched of
        None \<Rightarrow> False
      | Some c \<Rightarrow> cstatus c = ConditionFalse \<and> creason c = reason \<and> cmessage c = message)"

definition held_by :: "Env \<Rightarrow> Event list \<Rightarrow> string \<Rightarrow> string \<Rightarrow> TaskRequest \<Rightarrow> bool" where
  "held_by E evs reason message t \<longleftrightarrow> already_held E t reason message \<or>
     list_ex (\<lambda>e. case e of EvStatusUpdate (OTaskRequest u) None \<Rightarrow>
         TMeta u = TMeta t \<and> TPhase u = TaskPhasePending \<and> already_held E u reason message
       | _ \<Rightarrow> False) evs"

lemma held_by_append: "held_by E evs reason message t \<Longrightarrow> held_by E (evs' @ evs) reason message t"
  by (auto simp: held_by_def)

lemma hold_quiet:
  "conditions_lib E \<Longrightarrow> already_held E t reason message \<Longrightarrow> hold E t reason message h = (Inr (), h)"
  by (auto simp: hold_def bindI_def set_task_condition_def already_held_def mkCondition_def ok_def
      ret_def set_changed split: prod.splits option.splits dest!: arg_cong [where f = snd])

lemma hold_writes:
  assumes lib: "conditions_lib E" and ok: "\<And>h x. api_StatusUpdate E h x = None"
  shows "runs (hold E t reason message) h (\<lambda>res evs. res = Inr () \<and> held_by E evs reason message t)"
proof (cases "already_held E t reason message")
  case True
  then show ?thesis
    using hold_quiet [OF lib] by (auto simp: runs_def held_by_def)
next
  case False
  let ?c = "mkCondition conditionDispatched ConditionFalse reason message"
  let ?u = "t\<lparr>TPhase := TaskPhasePending, TConditions := fst (SetStatusCondition E h (TConditions t) ?c)\<rparr>"
  have "snd (SetStatusCondition E h (TConditions t) ?c)"
    using False by (auto simp: set_changed [OF lib] already_held_def mkCondition_def split: option.splits)
  then have "hold E t reason message h = (Inr (), h @ [EvStatusUpdate (OTaskRequest ?u) None])"
    by (simp add: hold_def bindI_def set_task_condition_def check_def statusUpdate_def call_def ret_def
        ok split_beta)
  moreover obtain lt where "FindStatusCondition E (TConditions ?u) (ctype ?c) =
      Some (?c\<lparr>clastTransitionTime := lt\<rparr>)"
    using find_set_same [OF lib, of h "TConditions t" ?c] by auto
  ultimately show ?thesis
    by (auto simp: runs_def held_by_def already_held_def mkCondition_def)
qed

lemma holdAll_holds:
  assumes "conditions_lib E" and "\<And>h x. api_StatusUpdate E h x = None"
  shows "runs (holdAll E ts reason message) h
    (\<lambda>res evs. res = Inr () \<and> list_all (held_by E evs reason message) ts)"
  unfolding holdAll_def
proof (induction ts arbitrary: h)
  case Nil
  show ?case by (simp add: runs_ok)
next
  case (Cons t ts)
  show ?case unfolding forE.simps
    by (rule runs_tryE [OF hold_writes [OF assms]])
       (auto intro!: runs_mono [OF Cons.IH] simp: held_by_def list_all_iff)
qed

definition account_stop :: "UsageReading \<Rightarrow> rat \<Rightarrow> bool" where
  "account_stop rd m \<longleftrightarrow> isAuthError (ErrorKind rd) \<or>
     exhaustedScope (Snapshots rd) m = (QuotaScopeSession, True) \<or>
     exhaustedScope (Snapshots rd) m = (QuotaScopeWeekly, True)"

lemma throttle_account_stop:
  assumes "account_stop rd (MinRemainingPercent r)"
  shows "runs (throttle r E t rd) h (\<lambda>(r', res) evs. list_all no_dispatch evs \<and> stopped r' \<noteq> [] \<and>
     (res = Inr ''AuthError'' \<or> res = Inr ''QuotaExhausted''))"
proof -
  have stop: "runs (stop r E t kind detail) h (\<lambda>r' evs. list_all no_dispatch evs \<and> stopped r' = detail)"
    for r kind detail h
    by (auto simp: runs_wp stop_def notify_q_def wp_simps Let_def no_dispatch_def split: sum.splits)
  have stopped: "runs (bindI (stop r E t kind (c # detail)) (\<lambda>r. ret (r, Inr (d # reason)))) h
      (\<lambda>(r', res) evs. list_all no_dispatch evs \<and> stopped r' \<noteq> [] \<and> res = Inr (d # reason))"
    for r kind detail h reason c d
    by (rule runs_bindI [OF stop]) simp
  show ?thesis
  proof (cases "isAuthError (ErrorKind rd)")
    case True
    then show ?thesis
      unfolding throttle_def by (simp only: if_True append.simps) (rule runs_mono [OF stopped], auto)
  next
    case False
    with assms obtain sc where sc: "exhaustedScope (Snapshots rd) (MinRemainingPercent r) = (sc, True)"
      "sc \<noteq> QuotaScopeModel" by (auto simp: account_stop_def)
    show ?thesis
      by (rule runs_eq [OF runs_mono [OF stopped]])
         (auto simp: throttle_def False sc bindI_def readClock_def peek_def ok_def ret_def Let_def)
  qed
qed


lemma runs_workspaceReady_true:
  "api_GetWorkspace E h (Namespace (TMeta t), WorkspaceRef t) = Inr ws \<Longrightarrow>
   Phase (Status ws) = WorkspacePhaseReady \<Longrightarrow>
   runs (workspaceReady E t) h (\<lambda>res evs. res = Inr True \<and> list_all no_dispatch evs)"
  by (auto simp: runs_wp workspaceReady_def wp_simps no_dispatch_def)

lemma runs_observe_reading:
  "api_GetWorkspace E h (Namespace (TMeta t), WorkspaceRef t) = Inr ws \<Longrightarrow>
   UsageObserver r = Some obs \<Longrightarrow> (\<And>h. obs h ws = Inr rd) \<Longrightarrow>
   runs (observe r E t) h (\<lambda>res evs. res = Some rd \<and> list_all no_dispatch evs)"
  by (auto simp: runs_wp observe_def wp_simps no_dispatch_def)

text \<open>What a stopped pass looks like: the recheck interval, no dispatch, every task held.\<close>

definition queue_stopped :: "Env \<Rightarrow> TaskRequest list \<Rightarrow> TaskQueueReconciler \<times> duration result
    \<Rightarrow> Event list \<Rightarrow> bool" where
  "queue_stopped E ts x evs \<longleftrightarrow> snd x = Inr quotaRecheckInterval \<and> stopped (fst x) \<noteq> [] \<and>
     list_all no_dispatch evs \<and>
     (list_all (held_by E evs ''AuthError'' (stopped (fst x))) ts \<or>
      list_all (held_by E evs ''QuotaExhausted'' (stopped (fst x))) ts)"

lemma queue_stopped_append:
  "list_all no_dispatch evs \<Longrightarrow> queue_stopped E ts x evs' \<Longrightarrow> queue_stopped E ts x (evs @ evs')"
  using held_by_append [of E evs' _ _ _ evs] unfolding queue_stopped_def list_all_iff by fastforce

lemma runs_stopping_hold:
  assumes "conditions_lib E" and "\<And>h x. api_StatusUpdate E h x = None"
    and "stopped r \<noteq> []" and "reason = ''AuthError'' \<or> reason = ''QuotaExhausted''"
  shows "runs (bindI (holdAll E ts reason (stopped r)) (\<lambda>res. case res of
      Inl e \<Rightarrow> ret (r, Inl e) | Inr _ \<Rightarrow> ret (r, Inr quotaRecheckInterval))) h (queue_stopped E ts)"
  by (rule runs_bindI [OF runs_conj [OF holdAll_holds [OF assms(1,2)], where Q = "\<lambda>_. list_all no_dispatch"]])
     (use assms(3,4) in \<open>auto intro: runs_emits [OF emits_holdAll] simp: queue_stopped_def\<close>)

lemma runs_account_stop:
  assumes "conditions_lib E" and "\<And>h x. api_StatusUpdate E h x = None"
    and "account_stop rd (MinRemainingPercent r)"
  shows "runs (bindI (throttle r E t rd) (\<lambda>(r, res). case res of Inl e \<Rightarrow> ret (r, Inl e)
        | Inr st \<Rightarrow> if st \<noteq> []
            then bindI (holdAll E ts st (stopped r)) (\<lambda>res. case res of
              Inl e \<Rightarrow> ret (r, Inl e) | Inr _ \<Rightarrow> ret (r, Inr quotaRecheckInterval))
            else k r)) h (queue_stopped E ts)"
proof (rule runs_bindI [OF throttle_account_stop [OF assms(3)]], goal_cases)
  case (1 x evs)
  then obtain r' st where x: "x = (r', Inr st)" and st: "st = ''AuthError'' \<or> st = ''QuotaExhausted''"
    and r': "stopped r' \<noteq> []" and none: "list_all no_dispatch evs" by (cases x) auto
  have "st \<noteq> []" using st by auto
  then show ?case
    using runs_mono [OF runs_stopping_hold [OF assms(1,2) r' st] queue_stopped_append [OF none]]
    by (simp add: x)
qed

text \<open>C26. An authentication error, or a spent session or weekly window, read from the first
  dispatchable task's workspace stops the whole queue: that task and every task behind it end up
  held as Pending under one reason and the recorded stop message, none of them is dispatched, and the
  pass asks to be run again after the quota recheck interval.\<close>
theorem account_stop_holds_the_whole_queue:
  assumes "conditions_lib E" and "\<And>h x. api_StatusUpdate E h x = None"
    and "running < limit"
    and "\<And>h. api_GetWorkspace E h (Namespace (TMeta t), WorkspaceRef t) = Inr ws"
    and "Phase (Status ws) = WorkspacePhaseReady"
    and "UsageObserver r = Some obs" and "\<And>h. obs h ws = Inr rd"
    and "account_stop rd (MinRemainingPercent r)"
  shows "\<exists>x evs. dispatch_loop r E limit running (t # ts) h = (x, h @ evs) \<and>
     queue_stopped E (t # ts) x evs"
proof -
  have slot: "\<not> running \<ge> limit" using assms(3) by simp
  have "runs (dispatch_loop r E limit running (t # ts)) h (queue_stopped E (t # ts))"
    unfolding dispatch_loop.simps if_not_P [OF slot]
  proof (rule runs_bindI [OF runs_workspaceReady_true [OF assms(4,5)]], goal_cases)
    case (1 res evs)
    then have res: "res = Inr True" and none: "list_all no_dispatch evs" by auto
    show ?case unfolding res sum.case not_True_eq_False if_False
    proof (rule runs_bindI [OF runs_observe_reading [OF assms(4,6,7)]], goal_cases)
      case (1 res evs')
      then show ?case
        using none runs_mono [OF runs_account_stop [OF assms(1,2,8)] queue_stopped_append [of "evs @ evs'"]]
        by simp
    qed
  qed
  then show ?thesis by (auto elim: runsE)
qed

definition stop_env :: Env where
  "stop_env = env0\<lparr>api_GetWorkspace := (\<lambda>h k. Inr ((ws0 ''w'' ''b'' 0)\<lparr>Status :=
     status0\<lparr>Phase := WorkspacePhaseReady\<rparr>\<rparr>))\<rparr>"

definition stop_queue :: TaskQueueReconciler where
  "stop_queue = \<lparr>MaxConcurrent = 2,
     UsageObserver = Some (\<lambda>h ws. Inr \<lparr>Snapshots = [], ErrorKind = ''authentication_error''\<rparr>),
     MinRemainingPercent = 5, ModelFallbacks = [], hasNotify = True, stopped = [], recentQuotaHits = []\<rparr>"

theorem account_stop_holds_the_whole_queue_witness:
  "\<exists>x evs. dispatch_loop stop_queue stop_env 2 0 [task0 ''a'' ''w'' 1, task0 ''b'' ''w'' 2] [] = (x, [] @ evs) \<and>
     queue_stopped stop_env [task0 ''a'' ''w'' 1, task0 ''b'' ''w'' 2] x evs"
  by (rule account_stop_holds_the_whole_queue
        [where obs = "\<lambda>h ws. Inr \<lparr>Snapshots = [], ErrorKind = ''authentication_error''\<rparr>"])
     (auto simp: stop_env_def stop_queue_def env0_def account_stop_def isAuthError_def
       intro: conditions_lib_cong [OF conditions_lib_env0])

subsection \<open>Quota windows and the model chain\<close>

definition spent_window :: "rat \<Rightarrow> UsageSnapshot \<Rightarrow> bool" where
  "spent_window m s \<longleftrightarrow> us_Active s \<and> RemainingPercent s \<le> m"

lemma exhausted_loop_spec:
  "exhausted_loop scope m snaps =
     (if list_ex (\<lambda>s. spent_window m s \<and> us_Model s = [] \<and> Group s \<noteq> groupWeekly) snaps
      then (QuotaScopeSession, True)
      else let scope' = (if list_ex (\<lambda>s. spent_window m s \<and> us_Model s = [] \<and> Group s = groupWeekly) snaps
                         then QuotaScopeWeekly
                         else if scope = QuotaScopeNone \<and> list_ex (\<lambda>s. spent_window m s \<and> us_Model s \<noteq> []) snaps
                         then QuotaScopeModel else scope)
           in (scope', scope' \<noteq> QuotaScopeNone))"
  by (induction snaps arbitrary: scope) (auto simp: spent_window_def Let_def not_le)

text \<open>\<^verbatim>\<open>exhaustedScope\<close> reports the widest spent window whatever the order of the
  readings: a session window wins over a weekly one, a weekly one over a model's, and nothing is
  reported when no active window is at or below the threshold.\<close>
theorem exhaustedScope_widest_wins:
  "exhaustedScope snaps m =
     (if list_ex (\<lambda>s. spent_window m s \<and> us_Model s = [] \<and> Group s \<noteq> groupWeekly) snaps
      then (QuotaScopeSession, True)
      else if list_ex (\<lambda>s. spent_window m s \<and> us_Model s = [] \<and> Group s = groupWeekly) snaps
      then (QuotaScopeWeekly, True)
      else if list_ex (\<lambda>s. spent_window m s \<and> us_Model s \<noteq> []) snaps then (QuotaScopeModel, True)
      else (QuotaScopeNone, False))"
  by (simp add: exhaustedScope_def exhausted_loop_spec Let_def)

lemma nextModel_at_nth:
  "distinct ms \<Longrightarrow> i < length ms \<Longrightarrow> nextModel_at ms (ms ! i) k = Some (k + i)"
proof (induction ms arbitrary: i k)
  case (Cons m ms)
  then show ?case by (cases i) auto
qed simp

lemma nextModel_nth:
  assumes "distinct chain" and "[] \<notin> set chain" and "i < length chain"
  shows "nextModel chain (chain ! i) = (if Suc i < length chain then chain ! Suc i else [])"
proof -
  have "chain ! i \<noteq> []" using assms(2,3) nth_mem by metis
  then show ?thesis using nextModel_at_nth [OF assms(1,3), of 0] by (simp add: nextModel_def)
qed

text \<open>Following \<^verbatim>\<open>nextModel\<close> from a workspace that names no model visits the configured
  chain in order, and ends with the empty string exactly when the chain is used up.\<close>
theorem nextModel_walks_the_chain:
  assumes "distinct chain" and "[] \<notin> set chain" and "i < length chain"
  shows "(nextModel chain ^^ i) [] = (if i = 0 then [] else chain ! i) \<and>
         nextModel chain (chain ! (length chain - 1)) = []"
proof -
  have "(nextModel chain ^^ Suc j) [] = chain ! Suc j" if "Suc j < length chain" for j
    using that
  proof (induction j)
    case 0
    then show ?case by (simp add: nextModel_def)
  next
    case (Suc j)
    then show ?case using nextModel_nth [OF assms(1,2), of "Suc j"] by simp
  qed
  moreover have "length chain - 1 < length chain" "\<not> Suc (length chain - 1) < length chain"
    using assms(3) by auto
  ultimately show ?thesis
    using assms(3) nextModel_nth [OF assms(1,2), of "length chain - 1"] by (cases i) auto
qed

theorem nextModel_walks_the_chain_witness:
  "(nextModel [''opus'', ''sonnet'', ''haiku''] ^^ 2) [] = ''haiku''"
  using nextModel_walks_the_chain [of "[''opus'', ''sonnet'', ''haiku'']" 2] by simp

definition record_hits :: "TaskQueueReconciler \<Rightarrow> (QuotaScope \<times> time) list \<Rightarrow> TaskQueueReconciler" where
  "record_hits r hits = foldl (\<lambda>r (sc, t). recordQuotaHit r sc t) r hits"

lemma drop_last_append:
  "drop (length (drop (length xs - n) xs @ [x]) - n) (drop (length xs - n) xs @ [x]) =
   drop (length (xs @ [x]) - n) (xs @ [x])" if "n > 0"
proof (cases "length xs < n")
  case True
  then show ?thesis by auto
next
  case False
  then have "length (drop (length xs - n) xs @ [x]) - n = 1" by simp
  moreover have "drop 1 (drop (length xs - n) xs @ [x]) = drop (Suc (length xs) - n) xs @ [x]"
    using False that by (simp add: Suc_diff_le)
  ultimately show ?thesis using False that by simp
qed

text \<open>However many quota hits are recorded, \<^verbatim>\<open>recordQuotaHit\<close> keeps exactly the last
  twenty of them, oldest first.\<close>
theorem recordQuotaHit_keeps_the_last_twenty:
  "recentQuotaHits (record_hits (r\<lparr>recentQuotaHits := []\<rparr>) hits) =
     drop (length hits - 20) (map (\<lambda>(sc, t). \<lparr>Scope = sc, At = t\<rparr>) hits)"
proof (induction hits rule: rev_induct)
  case Nil
  show ?case by (simp add: record_hits_def)
next
  case (snoc x hits)
  obtain sc t where x: "x = (sc, t)" by (cases x)
  have step: "recentQuotaHits (recordQuotaHit r' sc t) =
      drop (length (recentQuotaHits r' @ [\<lparr>Scope = sc, At = t\<rparr>]) - 20)
        (recentQuotaHits r' @ [\<lparr>Scope = sc, At = t\<rparr>])" for r'
    by (simp add: recordQuotaHit_def maxRecentQuotaHits_def Let_def)
  have "recentQuotaHits (record_hits (r\<lparr>recentQuotaHits := []\<rparr>) (hits @ [x])) =
      recentQuotaHits (recordQuotaHit (record_hits (r\<lparr>recentQuotaHits := []\<rparr>) hits) sc t)"
    by (simp add: record_hits_def x)
  then show ?case
    using drop_last_append [of 20 "map (\<lambda>(sc, t). \<lparr>Scope = sc, At = t\<rparr>) hits" "\<lparr>Scope = sc, At = t\<rparr>"]
    by (simp add: step snoc x)
qed


lemma dispatch_loop_full:
  assumes "conditions_lib E" and "limit \<le> running"
    and "list_all (\<lambda>t. already_held E t ''ConcurrencyLimit''
           (Itoa running @ '' of '' @ Itoa limit @ '' task slots in use'')) ts"
  shows "dispatch_loop r E limit running ts h = ((r, Inr 0), h)"
  using assms(3)
  by (induction ts) (simp_all add: assms(2) bindI_def hold_quiet [OF assms(1)] ret_def)

text \<open>A full queue is quiet: when every slot is taken and every queued task already carries the
  concurrency hold, a pass reads the list and writes nothing.\<close>
theorem full_queue_is_quiet:
  assumes "conditions_lib E" and "api_ListTasks E h ns = Inr items"
    and "maxConcurrent r \<le> int (length (running_tasks items))"
    and "list_all (\<lambda>t. already_held E t ''ConcurrencyLimit''
           (Itoa (int (length (running_tasks items))) @ '' of '' @ Itoa (maxConcurrent r) @
            '' task slots in use'')) (pending_tasks items)"
  shows "TaskQueue_Reconcile r E ns h = ((r, Inr 0), h @ [EvListTasks ns (Inr items)])"
proof -
  have "list_all (\<lambda>t. already_held E t ''ConcurrencyLimit''
      (Itoa (int (length (running_tasks items))) @ '' of '' @ Itoa (maxConcurrent r) @
       '' task slots in use'')) (sort_Slice older_task (pending_tasks items))"
    using assms(4) by (simp add: list_all_iff)
  from dispatch_loop_full [OF assms(1,3) this] show ?thesis
    by (simp add: TaskQueue_Reconcile_def bindI_def listTasks_def call_def assms(2))
qed

definition full_env :: Env where
  "full_env = env0\<lparr>api_ListTasks := (\<lambda>h ns. Inr
     [(task0 ''a'' ''w'' 1)\<lparr>TPhase := TaskPhaseRunning\<rparr>,
      (task0 ''b'' ''w'' 2)\<lparr>TPhase := TaskPhasePending,
         TConditions := [mkCondition conditionDispatched ConditionFalse ''ConcurrencyLimit''
                           ''1 of 1 task slots in use'']\<rparr>])\<rparr>"

lemma Itoa_one: "Itoa 1 = ''1''"
  by code_simp

theorem full_queue_is_quiet_witness:
  "fst (TaskQueue_Reconcile (stop_queue\<lparr>MaxConcurrent := 1\<rparr>) full_env ''dev'' []) =
     (stop_queue\<lparr>MaxConcurrent := 1\<rparr>, Inr 0)"
proof -
  have "conditions_lib full_env"
    by (rule conditions_lib_cong [OF conditions_lib_env0]) (simp_all add: full_env_def)
  then show ?thesis
    by (subst full_queue_is_quiet [where items = "projr (api_ListTasks full_env [] [])"])
       (simp_all add: full_env_def stop_queue_def running_tasks_def pending_tasks_def task_live_def
         task0_def meta0_def maxConcurrent_def already_held_def env0_def mkCondition_def Itoa_one)
qed

text \<open>The model a spent window belongs to is not compared with the model the workspace runs.
  With a window of any model spent and no wider one, a workspace that already runs
  \<open>chain ! i\<close> is moved on to \<open>chain ! (i + 1)\<close>, even when the spent window is that of
  a model it has left; each further dispatch under the same reading moves it again.\<close>
theorem spent_window_of_a_left_model_switches_again:
  assumes "exhaustedScope (Snapshots rd) (MinRemainingPercent r) = (QuotaScopeModel, True)"
    and "\<not> isAuthError (ErrorKind rd)"
    and "distinct (ModelFallbacks r)" and "[] \<notin> set (ModelFallbacks r)"
    and "Suc i < length (ModelFallbacks r)"
    and "\<And>h. api_GetWorkspace E h (Namespace (TMeta t), WorkspaceRef t) = Inr ws"
    and "annotation (WMeta ws) AnnotationActiveModel = ModelFallbacks r ! i"
    and "\<And>h x. api_Update E h x = None"
  shows "\<exists>r' ws' evs. throttle r E t rd h = ((r', Inr []), h @ evs) \<and>
     EvUpdate (OWorkspace ws') None \<in> set evs \<and>
     annotation (WMeta ws') AnnotationActiveModel = ModelFallbacks r ! Suc i"
proof -
  let ?r = "recordQuotaHit r QuotaScopeModel (clock E h)"
  let ?next = "ModelFallbacks r ! Suc i"
  let ?ws = "ws\<lparr>WMeta := (WMeta ws)\<lparr>Annotations := (Annotations (WMeta ws))(AnnotationActiveModel \<mapsto> ?next)\<rparr>\<rparr>"
  have nx: "nextModel (ModelFallbacks r) (ModelFallbacks r ! i) = ?next"
    using nextModel_nth [OF assms(3,4), of i] assms(5) by simp
  have ne: "?next \<noteq> []" using assms(4,5) nth_mem by metis
  have fb: "ModelFallbacks ?r = ModelFallbacks r" by (simp add: recordQuotaHit_def Let_def)
  have "switchModel ?r E t h =
      (Inr ?next, h @ [EvGetWorkspace (Namespace (TMeta t), WorkspaceRef t) (Inr ws),
         EvUpdate (OWorkspace ?ws) None])"
    using nx ne
    by (simp add: switchModel_def bindI_def tryE_def getWorkspace_def updateObj_def check_def call_def
        ret_def ok_def assms(6,7,8) fb Let_def)
  then have "throttle r E t rd h = ((resume ?r, Inr []), h @ [EvGetWorkspace (Namespace (TMeta t), WorkspaceRef t) (Inr ws),
      EvUpdate (OWorkspace ?ws) None])"
    using ne by (simp add: throttle_def assms(1,2) bindI_def readClock_def peek_def ret_def Let_def)
  then show ?thesis by (auto simp: annotation_def)
qed

definition switch_queue :: TaskQueueReconciler where
  "switch_queue = stop_queue\<lparr>ModelFallbacks := [''opus'', ''sonnet'', ''haiku'']\<rparr>"

definition switch_reading :: UsageReading where
  "switch_reading = \<lparr>Snapshots = [\<lparr>us_Kind = [], Group = [], RemainingPercent = 0, ResetsAt = [],
     us_Model = ''opus'', us_Active = True\<rparr>], ErrorKind = []\<rparr>"

definition switch_env :: Env where
  "switch_env = env0\<lparr>api_GetWorkspace := (\<lambda>h k. Inr ((ws0 ''w'' ''b'' 0)\<lparr>WMeta :=
     (meta0 ''w'' 0)\<lparr>Annotations := [AnnotationActiveModel \<mapsto> ''sonnet'']\<rparr>\<rparr>))\<rparr>"

theorem spent_window_of_a_left_model_switches_again_witness:
  "\<exists>r' ws' evs. throttle switch_queue switch_env (task0 ''a'' ''w'' 1) switch_reading [] =
       ((r', Inr []), [] @ evs) \<and>
     EvUpdate (OWorkspace ws') None \<in> set evs \<and>
     annotation (WMeta ws') AnnotationActiveModel = ModelFallbacks switch_queue ! Suc 1"
  by (rule spent_window_of_a_left_model_switches_again [where i = 1])
     (auto simp: switch_queue_def stop_queue_def switch_reading_def switch_env_def env0_def ws0_def
       annotation_def isAuthError_def exhaustedScope_def)

end
