(* ===== verification/Clients.thy ===== *)
theory Clients
  imports Reference
begin

text \<open>
  The control plane's calls into a workspace Pod: \<^verbatim>\<open>connections.go\<close>,
  \<^verbatim>\<open>evacuation_request.go\<close>, the reading half of \<^verbatim>\<open>quota.go\<close> and of
  \<^verbatim>\<open>blackboard.go\<close>.  Each implementation resolves the Pod's address, makes one or two HTTP
  requests and decodes JSON.  The HTTP exchange is the environment's answer; decoding a JSON value
  into a Go struct is written out (\<open>decode_struct\<close>: unknown keys are ignored, a key matches
  exactly or by case folding, \<^verbatim>\<open>null\<close> leaves the field, a value of the wrong type is an error).
  Shown: a call answers from a Pod that is running, has an address and is not being deleted.
\<close>

definition labelWorkspaceName :: string where
  "labelWorkspaceName = ''workspace.tom1022.github.io/workspace''"

definition workspaceLabels :: "Workspace \<Rightarrow> (string \<times> string) list" where
  "workspaceLabels ws = [(labelWorkspaceName, Name (WMeta ws))]"

definition supervisorPort :: int where
  "supervisorPort = 8787"

subsection \<open>Addresses\<close>

definition JoinHostPort :: "string \<Rightarrow> string \<Rightarrow> string" where
  "JoinHostPort host port =
     (if CHR '':'' \<in> set host then ''['' @ host @ '']:'' @ port else host @ '':'' @ port)"

definition podUsable :: "Pod \<Rightarrow> bool" where
  "podUsable p \<longleftrightarrow> PodPhase p = ''Running'' \<and> PodIP p \<noteq> [] \<and> PodDeletionTimestamp p = None"

definition runningPodIP :: "Env \<Rightarrow> Workspace \<Rightarrow> string result act" where
  "runningPodIP E ws =
     tryE (listPods E (Namespace (WMeta ws)) (Name (WMeta ws))) (\<lambda>pods.
       case List.find podUsable pods of
         Some p \<Rightarrow> ok (PodIP p)
       | None \<Rightarrow> fail (Err (''devplatform: no running Pod for workspace '' @ Name (WMeta ws))))"

subsection \<open>Decoding\<close>

type_synonym 's setter = "string \<times> (Json \<Rightarrow> 's \<Rightarrow> 's option)"

definition find_setter :: "'s setter list \<Rightarrow> string \<Rightarrow> (Json \<Rightarrow> 's \<Rightarrow> 's option) option" where
  "find_setter fs k =
     (case List.find (\<lambda>(n, _). n = k) fs of
        Some (_, f) \<Rightarrow> Some f
      | None \<Rightarrow> map_option snd (List.find (\<lambda>(n, _). EqualFold n k) fs))"

fun decode_fields :: "'s setter list \<Rightarrow> (string \<times> Json) list \<Rightarrow> 's \<times> bool \<Rightarrow> 's \<times> bool" where
  "decode_fields fs [] (s, okay) = (s, okay)"
| "decode_fields fs ((k, v) # kvs) (s, okay) =
     (case find_setter fs k of
        None \<Rightarrow> decode_fields fs kvs (s, okay)
      | Some f \<Rightarrow> (if v = JNull then decode_fields fs kvs (s, okay)
                  else case f v s of
                    Some s' \<Rightarrow> decode_fields fs kvs (s', okay)
                  | None \<Rightarrow> decode_fields fs kvs (s, False)))"

definition decode_struct :: "'s setter list \<Rightarrow> Json option \<Rightarrow> 's \<Rightarrow> 's option" where
  "decode_struct fs body s =
     (case body of
        Some (JObject kvs) \<Rightarrow>
          (case decode_fields fs kvs (s, True) of (s', okay) \<Rightarrow> if okay then Some s' else None)
      | Some JNull \<Rightarrow> Some s
      | _ \<Rightarrow> None)"

fun as_string :: "Json \<Rightarrow> string option" where
  "as_string (JString s) = Some s"
| "as_string _ = None"

fun as_int :: "Json \<Rightarrow> int option" where
  "as_int (JInt n) = Some n"
| "as_int _ = None"

fun as_number :: "Json \<Rightarrow> rat option" where
  "as_number (JInt n) = Some (of_int n)"
| "as_number (JNum q) = Some q"
| "as_number _ = None"

fun as_bool :: "Json \<Rightarrow> bool option" where
  "as_bool (JBool b) = Some b"
| "as_bool _ = None"

text \<open>An element of a list that is \<^verbatim>\<open>null\<close> decodes to the zero value.\<close>

fun as_strings :: "Json \<Rightarrow> string list option" where
  "as_strings (JList js) =
     those (map (\<lambda>j. if j = JNull then Some [] else as_string j) js)"
| "as_strings _ = None"

subsection \<open>SSH session count (connections.go)\<close>

definition AnnotationBrowserConnections :: string where
  "AnnotationBrowserConnections = ''workspace.tom1022.github.io/browser-connections''"

record SupervisorClient =
  Port :: int

definition supervisor_url :: "SupervisorClient \<Rightarrow> string \<Rightarrow> string \<Rightarrow> string" where
  "supervisor_url s ip path =
     ''http://'' @ JoinHostPort ip (Itoa (if Port s = 0 then supervisorPort else Port s)) @ path"

definition wrap :: "string \<Rightarrow> error \<Rightarrow> error" where
  "wrap pre e = (case e of
     NotFound s \<Rightarrow> NotFound (pre @ s) | AlreadyExists s \<Rightarrow> AlreadyExists (pre @ s)
   | Conflict s \<Rightarrow> Conflict (pre @ s) | Invalid s \<Rightarrow> Invalid (pre @ s)
   | BadRequest s \<Rightarrow> BadRequest (pre @ s) | Err s \<Rightarrow> Err (pre @ s)
   | Sentinel v s \<Rightarrow> Sentinel v (pre @ s))"

definition http_call :: "Env \<Rightarrow> string \<Rightarrow> string \<Rightarrow> string \<Rightarrow> Response result act" where
  "http_call E what verb url =
     (case http_NewRequest E verb url of
        Some e \<Rightarrow> fail e
      | None \<Rightarrow> bindI (call (\<lambda>h. http_Do E h verb url) (EvHttp verb url)) (\<lambda>r.
          case r of Inl e \<Rightarrow> fail (wrap (what @ url @ '': '') e) | Inr resp \<Rightarrow> ok resp))"

definition count_fields :: "int setter list" where
  "count_fields = [(''count'', \<lambda>j _. as_int j)]"

definition SSHSessionCount :: "SupervisorClient \<Rightarrow> Env \<Rightarrow> Workspace \<Rightarrow> int result act" where
  "SSHSessionCount s E ws =
     bindI (runningPodIP E ws) (\<lambda>ip.
       case ip of Inl _ \<Rightarrow> ok 0
       | Inr ip \<Rightarrow>
         (let endpoint = supervisor_url s ip ''/ssh-sessions'' in
          tryE (http_call E ''devplatform: ssh session count from '' ''GET'' endpoint) (\<lambda>resp.
            if StatusCode resp \<ge> 300
            then fail (Err (''devplatform: ssh session count from '' @ endpoint @ '': '' @ StatusText resp))
            else case decode_struct count_fields (Body resp) 0 of
                   None \<Rightarrow> fail (Err ''devplatform: decoding ssh session count'')
                 | Some n \<Rightarrow> ok n)))"

definition browserConnections :: "Workspace \<Rightarrow> int" where
  "browserConnections ws =
     (case Atoi (annotation (WMeta ws) AnnotationBrowserConnections) of
        None \<Rightarrow> 0 | Some n \<Rightarrow> if n < 0 then 0 else n)"

subsection \<open>Evacuation request (evacuation_request.go)\<close>

definition snapshot0 :: EvacuationSnapshot where
  "snapshot0 = \<lparr>snap_WorkspaceId = [], snap_Branch = [], HeadCommit = [], BundleKey = [],
     DirtyArchiveKey = [], CapturedAt = None, SizeBytes = 0\<rparr>"

text \<open>\<^verbatim>\<open>metav1.Time\<close> decodes from an RFC 3339 string; the parser is a parameter.\<close>

definition snapshot_fields :: "(string \<Rightarrow> time option) \<Rightarrow> EvacuationSnapshot setter list" where
  "snapshot_fields parseTime =
     [(''workspaceId'', \<lambda>j s. map_option (\<lambda>v. s\<lparr>snap_WorkspaceId := v\<rparr>) (as_string j)),
      (''branch'', \<lambda>j s. map_option (\<lambda>v. s\<lparr>snap_Branch := v\<rparr>) (as_string j)),
      (''headCommit'', \<lambda>j s. map_option (\<lambda>v. s\<lparr>HeadCommit := v\<rparr>) (as_string j)),
      (''bundleKey'', \<lambda>j s. map_option (\<lambda>v. s\<lparr>BundleKey := v\<rparr>) (as_string j)),
      (''dirtyArchiveKey'', \<lambda>j s. map_option (\<lambda>v. s\<lparr>DirtyArchiveKey := v\<rparr>) (as_string j)),
      (''capturedAt'', \<lambda>j s. case as_string j of None \<Rightarrow> None
         | Some v \<Rightarrow> map_option (\<lambda>t. s\<lparr>CapturedAt := Some t\<rparr>) (parseTime v)),
      (''sizeBytes'', \<lambda>j s. map_option (\<lambda>v. s\<lparr>SizeBytes := v\<rparr>) (as_int j))]"

definition RequestEvacuation :: "SupervisorClient \<Rightarrow> (string \<Rightarrow> time option) \<Rightarrow> Env \<Rightarrow> Workspace
    \<Rightarrow> EvacuationSnapshot result act" where
  "RequestEvacuation s parseTime E ws =
     tryE (runningPodIP E ws) (\<lambda>ip.
       let endpoint = supervisor_url s ip ''/evacuate'' in
       tryE (http_call E ''devplatform: evacuation request to '' ''POST'' endpoint) (\<lambda>resp.
         if StatusCode resp \<ge> 300
         then fail (Err (''devplatform: evacuation request to '' @ endpoint @ '': '' @ StatusText resp @
                         '': '' @ take 512 (BodyText resp)))
         else case decode_struct (snapshot_fields parseTime) (Body resp) snapshot0 of
                None \<Rightarrow> fail (Err ''devplatform: decoding evacuation snapshot'')
              | Some snap \<Rightarrow> ok snap))"

definition IsEvacuationComplete :: "Workspace \<Rightarrow> bool result" where
  "IsEvacuationComplete ws = Inr (LastEvacuation (Status ws) \<noteq> None)"

subsection \<open>Usage reading (quota.go)\<close>

definition usage0 :: UsageSnapshot where
  "usage0 = \<lparr>us_Kind = [], Group = [], RemainingPercent = 0, ResetsAt = [], us_Model = [], us_Active = False\<rparr>"

definition usage_fields :: "UsageSnapshot setter list" where
  "usage_fields =
     [(''kind'', \<lambda>j s. map_option (\<lambda>v. s\<lparr>us_Kind := v\<rparr>) (as_string j)),
      (''group'', \<lambda>j s. map_option (\<lambda>v. s\<lparr>Group := v\<rparr>) (as_string j)),
      (''remainingPercent'', \<lambda>j s. map_option (\<lambda>v. s\<lparr>RemainingPercent := v\<rparr>) (as_number j)),
      (''resetsAt'', \<lambda>j s. map_option (\<lambda>v. s\<lparr>ResetsAt := v\<rparr>) (as_string j)),
      (''model'', \<lambda>j s. map_option (\<lambda>v. s\<lparr>us_Model := v\<rparr>) (as_string j)),
      (''active'', \<lambda>j s. map_option (\<lambda>v. s\<lparr>us_Active := v\<rparr>) (as_bool j))]"

fun decode_usage :: "Json option \<Rightarrow> UsageSnapshot list option" where
  "decode_usage (Some (JList js)) = those (map (\<lambda>j. decode_struct usage_fields (Some j) usage0) js)"
| "decode_usage (Some JNull) = Some []"
| "decode_usage _ = None"

definition turn_fields :: "string setter list" where
  "turn_fields = [(''errorKind'', \<lambda>j _. as_string j)]"

definition usage_get :: "Env \<Rightarrow> string \<Rightarrow> Json option result act" where
  "usage_get E endpoint =
     tryE (http_call E ''devplatform: reading '' ''GET'' endpoint) (\<lambda>resp.
       if StatusCode resp \<ge> 300
       then fail (Err (''devplatform: reading '' @ endpoint @ '': '' @ StatusText resp))
       else ok (Body resp))"

definition usage_observe :: "SupervisorClient \<Rightarrow> Env \<Rightarrow> string \<Rightarrow> UsageReading result act" where
  "usage_observe s E ip =
     tryE (usage_get E (supervisor_url s ip ''/usage'')) (\<lambda>body.
       case decode_usage body of
         None \<Rightarrow> fail (Err (''devplatform: decoding '' @ supervisor_url s ip ''/usage''))
       | Some snaps \<Rightarrow>
           tryE (usage_get E (supervisor_url s ip ''/turn'')) (\<lambda>body.
             case decode_struct turn_fields body [] of
               None \<Rightarrow> fail (Err (''devplatform: decoding '' @ supervisor_url s ip ''/turn''))
             | Some kind \<Rightarrow> ok \<lparr>Snapshots = snaps, ErrorKind = kind\<rparr>))"

definition ObserveUsage :: "SupervisorClient \<Rightarrow> Env \<Rightarrow> Workspace \<Rightarrow> UsageReading result act" where
  "ObserveUsage s E ws = tryE (runningPodIP E ws) (usage_observe s E)"

subsection \<open>Changed files (blackboard.go)\<close>

definition files_fields :: "string list setter list" where
  "files_fields = [(''files'', \<lambda>j _. as_strings j)]"

definition ChangedFiles_call :: "SupervisorClient \<Rightarrow> Env \<Rightarrow> Workspace \<Rightarrow> string list result act" where
  "ChangedFiles_call s E ws =
     bindI (runningPodIP E ws) (\<lambda>ip.
       case ip of Inl _ \<Rightarrow> ok []
       | Inr ip \<Rightarrow>
         (let endpoint = supervisor_url s ip ''/changed-files'' in
          tryE (http_call E ''devplatform: changed files from '' ''GET'' endpoint) (\<lambda>resp.
            if StatusCode resp \<ge> 300
            then fail (Err (''devplatform: changed files from '' @ endpoint @ '': '' @ StatusText resp))
            else case decode_struct files_fields (Body resp) [] of
                   None \<Rightarrow> fail (Err ''devplatform: decoding changed files'')
                 | Some fs \<Rightarrow> ok fs)))"

end
