(* ===== verification/Adapters.thy ===== *)
theory Adapters
  imports Clients
begin

text \<open>
  The pluggable boundaries of the Workspace Controller:
  \<^verbatim>\<open>internal/adapter/routing\<close> (Ingress and Traefik) and
  \<^verbatim>\<open>internal/adapter/database\<close> (CloudNativePG and none).  An interface value of Go is a
  datatype of the repository's implementations, and calling a method dispatches on it.  The locales
  \<open>routing_adapter\<close> and \<open>database_adapter\<close> state the contracts of the two interfaces
  (which kinds an implementation touches, that \<^verbatim>\<open>Ensure\<close> leaves both entry points in place,
  that \<^verbatim>\<open>Remove\<close> and \<^verbatim>\<open>Release\<close> need only the name), each implementation is an
  interpretation, and the reconciler's lemmas use the contract only.
\<close>

subsection \<open>routing.go\<close>

record RoutingHostnames =
  rh_Preview :: string
  rh_Report :: string

record RoutingPorts =
  rp_Preview :: int
  rp_Report :: int

record RoutingExposure =
  re_Annotations :: "string \<rightharpoonup> string"
  MiddlewareRefs :: "string list"

record RoutingTarget =
  rt_WorkspaceName :: string
  rt_WorkspaceUID :: string
  rt_Namespace :: string
  rt_ServiceName :: string
  Hostnames :: RoutingHostnames
  rt_Ports :: RoutingPorts
  rt_Labels :: "(string \<times> string) list"
  Exposure :: RoutingExposure

definition empty_meta :: ObjectMeta where
  "empty_meta = \<lparr>Name = [], Namespace = [], UID = [], CreationTimestamp = 0, DeletionTimestamp = None,
     Labels = [], Annotations = Map.empty, Finalizers = [], OwnerReferences = []\<rparr>"

definition routing_ownerStub :: "RoutingTarget \<Rightarrow> ObjectMeta" where
  "routing_ownerStub t = empty_meta\<lparr>Name := rt_WorkspaceName t, Namespace := rt_Namespace t,
     UID := rt_WorkspaceUID t\<rparr>"

definition ensureCreated :: "Env \<Rightarrow> Object \<Rightarrow> unit result act" where
  "ensureCreated E x = bindI (createObj E x) (\<lambda>e. ret (as_result (IgnoreAlreadyExists e)))"

definition deleteIgnoringNotFound :: "Env \<Rightarrow> Kind \<Rightarrow> key \<Rightarrow> unit result act" where
  "deleteIgnoringNotFound E kd k = bindI (deleteObj E kd k) (\<lambda>e. ret (as_result (IgnoreNotFound e)))"

definition entrySuffixes :: "string list" where
  "entrySuffixes = [''-preview'', ''-report'']"

record entryPoint =
  ep_suffix :: string
  ep_host :: string
  ep_port :: int

definition ingressEntryPoints :: "RoutingTarget \<Rightarrow> entryPoint list" where
  "ingressEntryPoints t =
     [\<lparr>ep_suffix = entrySuffixes ! 0, ep_host = rh_Preview (Hostnames t), ep_port = rp_Preview (rt_Ports t)\<rparr>,
      \<lparr>ep_suffix = entrySuffixes ! 1, ep_host = rh_Report (Hostnames t), ep_port = rp_Report (rt_Ports t)\<rparr>]"

text \<open>An error wrapped with \<^verbatim>\<open>%w\<close> keeps its class.\<close>

definition wrapping :: "string \<Rightarrow> 'a result act \<Rightarrow> 'a result act" where
  "wrapping pre m = bindI m (\<lambda>r. case r of Inl e \<Rightarrow> fail (wrap pre e) | Inr x \<Rightarrow> ok x)"

subsection \<open>ingress.go\<close>

record IngressAdapter =
  ia_Domain :: string
  ia_TLSSecretName :: string
  ClassName :: string

definition ingress_build :: "IngressAdapter \<Rightarrow> RoutingTarget \<Rightarrow> entryPoint \<Rightarrow> Ingress" where
  "ingress_build a t ep =
     (let fqdn = ep_host ep @ ''.'' @ ia_Domain a in
      \<lparr>IngMeta = empty_meta\<lparr>Name := rt_ServiceName t @ ep_suffix ep, Namespace := rt_Namespace t,
           Labels := rt_Labels t, Annotations := re_Annotations (Exposure t)\<rparr>,
       IngressClassName = (if ClassName a \<noteq> [] then Some (ClassName a) else None),
       ing_TLS = [([fqdn], ia_TLSSecretName a)],
       ing_Host = fqdn,
       ing_Path = ''/'',
       ing_PathType = ''Prefix'',
       ing_Backend = (rt_ServiceName t, ep_port ep)\<rparr>)"

definition ingress_Ensure :: "IngressAdapter \<Rightarrow> Env \<Rightarrow> RoutingTarget \<Rightarrow> unit result act" where
  "ingress_Ensure a E t =
     forE (ingressEntryPoints t) (\<lambda>ep.
       tryE (lift_result (setOwner E (routing_ownerStub t) (OIngress (ingress_build a t ep)))) (\<lambda>ing.
         wrapping (''ensure Ingress '' @ Name (object_meta ing) @ '': '') (ensureCreated E ing)))"

definition ingress_Remove :: "Env \<Rightarrow> RoutingTarget \<Rightarrow> unit result act" where
  "ingress_Remove E t =
     forE entrySuffixes (\<lambda>sfx. deleteIgnoringNotFound E KIngress (rt_Namespace t, rt_ServiceName t @ sfx))"

subsection \<open>traefik.go\<close>

definition traefikAPIVersion :: string where
  "traefikAPIVersion = ''traefik.io/v1alpha1''"

definition traefikKind :: string where
  "traefikKind = ''IngressRoute''"

definition traefikEntryPoint :: string where
  "traefikEntryPoint = ''websecure''"

record TraefikAdapter =
  ta_Domain :: string
  ta_TLSSecretName :: string

definition unstructured_ref :: "string \<Rightarrow> string \<Rightarrow> string \<Rightarrow> string \<Rightarrow> Unstructured" where
  "unstructured_ref version kd ns name =
     \<lparr>ApiVersion = version, UKind = kd, UMeta = empty_meta\<lparr>Name := name, Namespace := ns\<rparr>, UFields = []\<rparr>"

definition TraefikIngressRouteRef :: "string \<Rightarrow> string \<Rightarrow> Unstructured" where
  "TraefikIngressRouteRef ns name = unstructured_ref traefikAPIVersion traefikKind ns name"

definition traefik_build :: "TraefikAdapter \<Rightarrow> RoutingTarget \<Rightarrow> entryPoint \<Rightarrow> Unstructured" where
  "traefik_build a t ep =
     (let ir = TraefikIngressRouteRef (rt_Namespace t) (rt_ServiceName t @ ep_suffix ep);
          ir = (if rt_Labels t \<noteq> [] then ir\<lparr>UMeta := (UMeta ir)\<lparr>Labels := rt_Labels t\<rparr>\<rparr> else ir);
          ir = ir\<lparr>UMeta := (UMeta ir)\<lparr>Annotations := re_Annotations (Exposure t)\<rparr>\<rparr>;
          route = [(''kind'', JString ''Rule''),
                   (''match'', JString (''Host(`'' @ ep_host ep @ ''.'' @ ta_Domain a @ ''`)'')),
                   (''services'', JList [JObject [(''name'', JString (rt_ServiceName t)),
                                                  (''port'', JInt (ep_port ep))]])];
          route = (if MiddlewareRefs (Exposure t) \<noteq> []
                   then route @ [(''middlewares'',
                          JList (map (\<lambda>n. JObject [(''name'', JString n)]) (MiddlewareRefs (Exposure t))))]
                   else route)
      in ir\<lparr>UFields := [(''spec'', JObject
           [(''entryPoints'', JList [JString traefikEntryPoint]),
            (''routes'', JList [JObject route]),
            (''tls'', JObject [(''secretName'', JString (ta_TLSSecretName a))])])]\<rparr>)"

definition traefik_Ensure :: "TraefikAdapter \<Rightarrow> Env \<Rightarrow> RoutingTarget \<Rightarrow> unit result act" where
  "traefik_Ensure a E t =
     forE (ingressEntryPoints t) (\<lambda>ep.
       tryE (lift_result (setOwner E (routing_ownerStub t) (OUnstructured (traefik_build a t ep)))) (\<lambda>ir.
         wrapping (''ensure IngressRoute '' @ Name (object_meta ir) @ '': '') (ensureCreated E ir)))"

definition traefik_Remove :: "Env \<Rightarrow> RoutingTarget \<Rightarrow> unit result act" where
  "traefik_Remove E t =
     forE entrySuffixes (\<lambda>sfx.
       deleteIgnoringNotFound E (KUnstructured traefikKind) (rt_Namespace t, rt_ServiceName t @ sfx))"

datatype RoutingAdapter = RoutingIngress IngressAdapter | RoutingTraefik TraefikAdapter

fun routing_Ensure :: "RoutingAdapter \<Rightarrow> Env \<Rightarrow> RoutingTarget \<Rightarrow> unit result act" where
  "routing_Ensure (RoutingIngress a) E t = ingress_Ensure a E t"
| "routing_Ensure (RoutingTraefik a) E t = traefik_Ensure a E t"

fun routing_Remove :: "RoutingAdapter \<Rightarrow> Env \<Rightarrow> RoutingTarget \<Rightarrow> unit result act" where
  "routing_Remove (RoutingIngress a) E t = ingress_Remove E t"
| "routing_Remove (RoutingTraefik a) E t = traefik_Remove E t"

subsection \<open>database.go, cnpg.go and noop.go\<close>

record DatabaseTarget =
  dt_WorkspaceName :: string
  dt_WorkspaceUID :: string
  dt_Namespace :: string
  dt_Name :: string
  dt_ClusterRef :: string
  dt_Labels :: "(string \<times> string) list"

definition database_ownerStub :: "DatabaseTarget \<Rightarrow> ObjectMeta" where
  "database_ownerStub t = empty_meta\<lparr>Name := dt_WorkspaceName t, Namespace := dt_Namespace t,
     UID := dt_WorkspaceUID t\<rparr>"

definition cnpgAPIVersion :: string where
  "cnpgAPIVersion = ''postgresql.cnpg.io/v1''"

definition cnpgDatabaseKind :: string where
  "cnpgDatabaseKind = ''Database''"

definition cnpgDatabaseRoleKind :: string where
  "cnpgDatabaseRoleKind = ''DatabaseRole''"

definition CNPGDatabaseRef :: "string \<Rightarrow> string \<Rightarrow> Unstructured" where
  "CNPGDatabaseRef ns name = unstructured_ref cnpgAPIVersion cnpgDatabaseKind ns name"

definition CNPGDatabaseRoleRef :: "string \<Rightarrow> string \<Rightarrow> Unstructured" where
  "CNPGDatabaseRoleRef ns name = unstructured_ref cnpgAPIVersion cnpgDatabaseRoleKind ns name"

definition buildDatabaseRole :: "DatabaseTarget \<Rightarrow> Unstructured" where
  "buildDatabaseRole t =
     (let role = CNPGDatabaseRoleRef (dt_Namespace t) (dt_Name t) in
      role\<lparr>UMeta := (UMeta role)\<lparr>Labels := dt_Labels t\<rparr>,
           UFields := [(''spec'', JObject
             [(''cluster'', JObject [(''name'', JString (dt_ClusterRef t))]),
              (''name'', JString (dt_Name t)),
              (''login'', JBool True),
              (''clientCertificate'', JObject [(''enabled'', JBool True)]),
              (''ensure'', JString ''present''),
              (''databaseRoleReclaimPolicy'', JString ''delete'')])]\<rparr>)"

definition buildDatabase :: "DatabaseTarget \<Rightarrow> Unstructured" where
  "buildDatabase t =
     (let db = CNPGDatabaseRef (dt_Namespace t) (dt_Name t) in
      db\<lparr>UMeta := (UMeta db)\<lparr>Labels := dt_Labels t\<rparr>,
         UFields := [(''spec'', JObject
             [(''cluster'', JObject [(''name'', JString (dt_ClusterRef t))]),
              (''name'', JString (dt_Name t)),
              (''owner'', JString (dt_Name t)),
              (''ensure'', JString ''present''),
              (''databaseReclaimPolicy'', JString ''delete'')])]\<rparr>)"

definition cnpg_Ensure :: "Env \<Rightarrow> DatabaseTarget \<Rightarrow> unit result act" where
  "cnpg_Ensure E t =
     tryE (lift_result (setOwner E (database_ownerStub t) (OUnstructured (buildDatabaseRole t)))) (\<lambda>role.
     tryE (wrapping (''ensure DatabaseRole '' @ Name (object_meta role) @ '': '') (ensureCreated E role)) (\<lambda>_.
     tryE (lift_result (setOwner E (database_ownerStub t) (OUnstructured (buildDatabase t)))) (\<lambda>db.
       wrapping (''ensure Database '' @ Name (object_meta db) @ '': '') (ensureCreated E db))))"

definition cnpg_Release :: "Env \<Rightarrow> DatabaseTarget \<Rightarrow> unit result act" where
  "cnpg_Release E t =
     tryE (deleteIgnoringNotFound E (KUnstructured cnpgDatabaseKind) (dt_Namespace t, dt_Name t)) (\<lambda>_.
       deleteIgnoringNotFound E (KUnstructured cnpgDatabaseRoleKind) (dt_Namespace t, dt_Name t))"

definition noop_Ensure :: "Env \<Rightarrow> DatabaseTarget \<Rightarrow> unit result act" where
  "noop_Ensure E t = ok ()"

definition noop_Release :: "Env \<Rightarrow> DatabaseTarget \<Rightarrow> unit result act" where
  "noop_Release E t = ok ()"

datatype DatabaseAdapter = DatabaseCNPG | DatabaseNoop

fun database_Ensure :: "DatabaseAdapter \<Rightarrow> Env \<Rightarrow> DatabaseTarget \<Rightarrow> unit result act" where
  "database_Ensure DatabaseCNPG E t = cnpg_Ensure E t"
| "database_Ensure DatabaseNoop E t = noop_Ensure E t"

fun database_Release :: "DatabaseAdapter \<Rightarrow> Env \<Rightarrow> DatabaseTarget \<Rightarrow> unit result act" where
  "database_Release DatabaseCNPG E t = cnpg_Release E t"
| "database_Release DatabaseNoop E t = noop_Release E t"


subsection \<open>The contracts\<close>

fun is_create :: "Kind \<Rightarrow> key list \<Rightarrow> Event \<Rightarrow> bool" where
  "is_create kd ks (EvCreate x _) = (object_kind x = kd \<and> object_key x \<in> set ks)"
| "is_create kd ks _ = False"

fun is_delete :: "Kind \<Rightarrow> key list \<Rightarrow> Event \<Rightarrow> bool" where
  "is_delete kd ks (EvDelete kd' k _) = (kd' = kd \<and> k \<in> set ks)"
| "is_delete kd ks _ = False"

text \<open>An object is in place when its creation succeeded or it was already there, and gone when its
  deletion succeeded or there was none.\<close>

fun in_place :: "Kind \<Rightarrow> key \<Rightarrow> Event \<Rightarrow> bool" where
  "in_place kd k (EvCreate x err) =
     (object_kind x = kd \<and> object_key x = k \<and> IgnoreAlreadyExists err = None)"
| "in_place kd k _ = False"

fun gone :: "Kind \<Rightarrow> key \<Rightarrow> Event \<Rightarrow> bool" where
  "gone kd k (EvDelete kd' k' err) = (kd' = kd \<and> k' = k \<and> IgnoreNotFound err = None)"
| "gone kd k _ = False"

definition entry_keys :: "RoutingTarget \<Rightarrow> key list" where
  "entry_keys t = map (\<lambda>sfx. (rt_Namespace t, rt_ServiceName t @ sfx)) entrySuffixes"

locale routing_adapter =
  fixes kd :: Kind
    and ensure :: "Env \<Rightarrow> RoutingTarget \<Rightarrow> unit result act"
    and remove :: "Env \<Rightarrow> RoutingTarget \<Rightarrow> unit result act"
  assumes ensure_runs: "runs (ensure E t) h (\<lambda>res evs. list_all (is_create kd (entry_keys t)) evs \<and>
      (res = Inr () \<longrightarrow> list_all (\<lambda>k. list_ex (in_place kd k) evs) (entry_keys t)))"
    and remove_runs: "runs (remove E t) h (\<lambda>res evs. list_all (is_delete kd (entry_keys t)) evs \<and>
      (res = Inr () \<longrightarrow> list_all (\<lambda>k. list_ex (gone kd k) evs) (entry_keys t)))"
begin

lemma emits_ensure: "emits (is_create kd (entry_keys t)) (ensure E t)"
  unfolding emits_runs using ensure_runs runs_mono by fastforce

lemma emits_remove: "emits (is_delete kd (entry_keys t)) (remove E t)"
  unfolding emits_runs using remove_runs runs_mono by fastforce

text \<open>What \<^verbatim>\<open>Ensure\<close> created, a successful \<^verbatim>\<open>Remove\<close> for the same namespace and
  service name deletes, whatever the rest of the target says.\<close>

lemma remove_undoes_ensure:
  assumes "ensure E t h = (r1, h @ evs1)" and "remove E u h' = (Inr (), h' @ evs2)"
    and "rt_Namespace u = rt_Namespace t" and "rt_ServiceName u = rt_ServiceName t"
    and "EvCreate x err \<in> set evs1"
  shows "list_ex (gone (object_kind x) (object_key x)) evs2"
proof -
  have "list_all (is_create kd (entry_keys t)) evs1"
    using ensure_runs [of E t h] assms(1) by (auto simp: runs_def)
  moreover have "list_all (\<lambda>k. list_ex (gone kd k) evs2) (entry_keys u)"
    using remove_runs [of E u h'] assms(2) by (auto simp: runs_def)
  moreover have "entry_keys u = entry_keys t"
    using assms(3,4) by (simp add: entry_keys_def)
  ultimately show ?thesis using assms(5) by (auto simp: list_all_iff)
qed

end

lemma wp_ensureCreated [wp_simps]:
  "wp (ensureCreated E x) Q = (\<lambda>h. Q (as_result (IgnoreAlreadyExists (api_Create E h x)))
     (h @ [EvCreate x (api_Create E h x)]))"
  by (simp add: ensureCreated_def wp_simps)

lemma wp_deleteIgnoringNotFound [wp_simps]:
  "wp (deleteIgnoringNotFound E kd k) Q = (\<lambda>h. Q (as_result (IgnoreNotFound (api_Delete E h kd k)))
     (h @ [EvDelete kd k (api_Delete E h kd k)]))"
  by (simp add: deleteIgnoringNotFound_def wp_simps)

lemma wp_wrapping [wp_simps]:
  "wp (wrapping pre m) Q = wp m (\<lambda>r. Q (case r of Inl e \<Rightarrow> Inl (wrap pre e) | Inr x \<Rightarrow> Inr x))"
  by (simp add: wrapping_def wp_bindI)
     (rule arg_cong [where f = "wp m"], auto simp: fun_eq_iff wp_ok wp_fail split: sum.splits)

lemma emits_ensureCreated [emits_rules]: "(\<And>r. S (EvCreate x r)) \<Longrightarrow> emits S (ensureCreated E x)"
  unfolding ensureCreated_def by (intro emits_rules)

lemma emits_deleteIgnoringNotFound [emits_rules]:
  "(\<And>r. S (EvDelete kd k r)) \<Longrightarrow> emits S (deleteIgnoringNotFound E kd k)"
  unfolding deleteIgnoringNotFound_def by (intro emits_rules)

text \<open>Both implementations create one object per entry point and differ in the object only.\<close>

definition creates_entries :: "Kind \<Rightarrow> (RoutingTarget \<Rightarrow> entryPoint \<Rightarrow> Object) \<Rightarrow> bool" where
  "creates_entries kd build \<longleftrightarrow> (\<forall>t ep. object_kind (build t ep) = kd \<and>
     object_key (build t ep) = (rt_Namespace t, rt_ServiceName t @ ep_suffix ep))"

lemma runs_entry:
  assumes "creates_entries kd build"
  shows "runs (tryE (lift_result (setOwner E (routing_ownerStub t) (build t ep))) (\<lambda>x.
      wrapping (pre x) (ensureCreated E x))) h (\<lambda>res evs.
        list_all (is_create kd [(rt_Namespace t, rt_ServiceName t @ ep_suffix ep)]) evs \<and>
        (res = Inr () \<longrightarrow> list_ex (in_place kd (rt_Namespace t, rt_ServiceName t @ ep_suffix ep)) evs))"
proof (cases "setOwner E (routing_ownerStub t) (build t ep)")
  case (Inl e)
  then show ?thesis by (simp add: runs_wp wp_simps)
next
  case (Inr y)
  have "object_kind y = kd \<and> object_key y = (rt_Namespace t, rt_ServiceName t @ ep_suffix ep)"
    using setOwner_kind_key [OF Inr] assms by (simp add: creates_entries_def)
  then show ?thesis
    by (cases "IgnoreAlreadyExists (api_Create E h y)") (simp_all add: runs_wp wp_simps Inr)
qed

lemma runs_two:
  assumes "\<And>h. runs (f a) h (\<lambda>res evs. list_all P evs \<and> (res = Inr () \<longrightarrow> A evs))"
    and "\<And>h. runs (f b) h (\<lambda>res evs. list_all P evs \<and> (res = Inr () \<longrightarrow> B evs))"
  shows "runs (forE [a, b] f) h (\<lambda>res evs. list_all P evs \<and>
    (res = Inr () \<longrightarrow> (\<exists>p q. evs = p @ q \<and> A p \<and> B q)))"
  unfolding forE.simps
proof (rule runs_tryE [OF assms(1)], goal_cases)
  case (2 x evs)
  show ?case
    by (rule runs_tryE [OF assms(2)]) (use 2 in \<open>auto intro!: runs_ok\<close>, blast)
qed auto

lemma runs_entries:
  assumes "creates_entries kd build"
  shows "runs (forE (ingressEntryPoints t) (\<lambda>ep.
      tryE (lift_result (setOwner E (routing_ownerStub t) (build t ep))) (\<lambda>x.
        wrapping (pre x) (ensureCreated E x)))) h (\<lambda>res evs.
      list_all (is_create kd (entry_keys t)) evs \<and>
      (res = Inr () \<longrightarrow> list_all (\<lambda>k. list_ex (in_place kd k) evs) (entry_keys t)))"
proof -
  let ?f = "\<lambda>ep. tryE (lift_result (setOwner E (routing_ownerStub t) (build t ep))) (\<lambda>x.
        wrapping (pre x) (ensureCreated E x))"
  have mono: "is_create kd [k] e \<Longrightarrow> k \<in> set ks \<Longrightarrow> is_create kd ks e" for k ks e
    by (cases e) auto
  have "runs (?f ep) h (\<lambda>res evs. list_all (is_create kd (entry_keys t)) evs \<and>
        (res = Inr () \<longrightarrow> list_ex (in_place kd (rt_Namespace t, rt_ServiceName t @ ep_suffix ep)) evs))"
    if "ep_suffix ep \<in> set entrySuffixes" for ep h
    using that
    by (intro runs_mono [OF runs_entry [OF assms]]) (auto simp: list_all_iff entry_keys_def intro: mono)
  from runs_two [of ?f, OF this this] show ?thesis
    unfolding ingressEntryPoints_def
    by (rule runs_mono) (auto simp: entrySuffixes_def entry_keys_def)
qed

lemma runs_removal:
  "runs (forE entrySuffixes (\<lambda>sfx. deleteIgnoringNotFound E kd (rt_Namespace t, rt_ServiceName t @ sfx))) h
    (\<lambda>res evs. list_all (is_delete kd (entry_keys t)) evs \<and>
      (res = Inr () \<longrightarrow> list_all (\<lambda>k. list_ex (gone kd k) evs) (entry_keys t)))"
  unfolding entrySuffixes_def forE.simps
  by (auto simp: runs_wp wp_simps entry_keys_def entrySuffixes_def as_result_def split: sum.splits option.splits)

interpretation ingress: routing_adapter KIngress "ingress_Ensure a" ingress_Remove for a
proof
  fix E t h
  have "creates_entries KIngress (\<lambda>t ep. OIngress (ingress_build a t ep))"
    by (simp add: creates_entries_def ingress_build_def object_key_def Let_def)
  from runs_entries [OF this] show "runs (ingress_Ensure a E t) h (\<lambda>res evs.
      list_all (is_create KIngress (entry_keys t)) evs \<and>
      (res = Inr () \<longrightarrow> list_all (\<lambda>k. list_ex (in_place KIngress k) evs) (entry_keys t)))"
    unfolding ingress_Ensure_def .
  show "runs (ingress_Remove E t) h (\<lambda>res evs. list_all (is_delete KIngress (entry_keys t)) evs \<and>
      (res = Inr () \<longrightarrow> list_all (\<lambda>k. list_ex (gone KIngress k) evs) (entry_keys t)))"
    unfolding ingress_Remove_def by (rule runs_removal)
qed

interpretation traefik: routing_adapter "KUnstructured traefikKind" "traefik_Ensure a" traefik_Remove for a
proof
  fix E t h
  have "creates_entries (KUnstructured traefikKind) (\<lambda>t ep. OUnstructured (traefik_build a t ep))"
    by (simp add: creates_entries_def traefik_build_def TraefikIngressRouteRef_def unstructured_ref_def
        object_key_def Let_def)
  from runs_entries [OF this] show "runs (traefik_Ensure a E t) h (\<lambda>res evs.
      list_all (is_create (KUnstructured traefikKind) (entry_keys t)) evs \<and>
      (res = Inr () \<longrightarrow> list_all (\<lambda>k. list_ex (in_place (KUnstructured traefikKind) k) evs) (entry_keys t)))"
    unfolding traefik_Ensure_def .
  show "runs (traefik_Remove E t) h (\<lambda>res evs.
      list_all (is_delete (KUnstructured traefikKind) (entry_keys t)) evs \<and>
      (res = Inr () \<longrightarrow> list_all (\<lambda>k. list_ex (gone (KUnstructured traefikKind) k) evs) (entry_keys t)))"
    unfolding traefik_Remove_def by (rule runs_removal)
qed


definition db_key :: "DatabaseTarget \<Rightarrow> key" where
  "db_key t = (dt_Namespace t, dt_Name t)"

locale database_adapter =
  fixes kds :: "Kind list"
    and ensure :: "Env \<Rightarrow> DatabaseTarget \<Rightarrow> unit result act"
    and release :: "Env \<Rightarrow> DatabaseTarget \<Rightarrow> unit result act"
  assumes ensure_emits: "emits (\<lambda>e. list_ex (\<lambda>kd. is_create kd [db_key t] e) kds) (ensure E t)"
    and release_runs: "runs (release E t) h (\<lambda>res evs.
      list_all (\<lambda>e. list_ex (\<lambda>kd. is_delete kd [db_key t] e) kds) evs \<and>
      (res = Inr () \<longrightarrow> list_all (\<lambda>kd. list_ex (gone kd (db_key t)) evs) kds))"
begin

lemma emits_release: "emits (\<lambda>e. list_ex (\<lambda>kd. is_delete kd [db_key t] e) kds) (release E t)"
  unfolding emits_runs using release_runs runs_mono by fastforce

lemma release_undoes_ensure:
  assumes "ensure E t h = (r1, h @ evs1)" and "release E u h' = (Inr (), h' @ evs2)"
    and "db_key u = db_key t" and "EvCreate x err \<in> set evs1"
  shows "list_ex (gone (object_kind x) (object_key x)) evs2"
proof -
  have "list_all (\<lambda>e. list_ex (\<lambda>kd. is_create kd [db_key t] e) kds) evs1"
    using ensure_emits [of t E] assms(1) by (auto elim: emitsE)
  moreover have "list_all (\<lambda>kd. list_ex (gone kd (db_key u)) evs2) kds"
    using release_runs [of E u h'] assms(2) by (auto simp: runs_def)
  ultimately show ?thesis using assms(3,4) by (auto simp: list_all_iff list_ex_iff)
qed

end

lemma emits_wrapping [emits_rules]: "emits S m \<Longrightarrow> emits S (wrapping pre m)"
  unfolding wrapping_def by (intro emits_rules)

lemma emits_owned:
  assumes "\<And>y. object_kind y = object_kind x \<Longrightarrow> object_key y = object_key x \<Longrightarrow> emits S (k y)"
  shows "emits S (tryE (lift_result (setOwner E owner x)) k)"
proof (cases "setOwner E owner x")
  case (Inl e)
  then have "tryE (lift_result (setOwner E owner x)) k = fail e"
    by (simp add: fun_eq_iff tryE_def bindI_def lift_result_def ret_def)
  then show ?thesis by (simp add: emits_fail)
next
  case (Inr y)
  then have "tryE (lift_result (setOwner E owner x)) k = k y"
    by (simp add: fun_eq_iff tryE_def bindI_def lift_result_def ret_def)
  then show ?thesis using assms setOwner_kind_key [OF Inr] by simp
qed

interpretation cnpg: database_adapter
  "[KUnstructured cnpgDatabaseRoleKind, KUnstructured cnpgDatabaseKind]" cnpg_Ensure cnpg_Release
proof
  fix t E h
  show "emits (\<lambda>e. list_ex (\<lambda>kd. is_create kd [db_key t] e)
      [KUnstructured cnpgDatabaseRoleKind, KUnstructured cnpgDatabaseKind]) (cnpg_Ensure E t)"
    unfolding cnpg_Ensure_def
    by (intro emits_owned emits_tryE emits_wrapping emits_ensureCreated)
       (auto simp: buildDatabaseRole_def buildDatabase_def CNPGDatabaseRoleRef_def CNPGDatabaseRef_def
         unstructured_ref_def object_key_def db_key_def Let_def)
  show "runs (cnpg_Release E t) h (\<lambda>res evs.
      list_all (\<lambda>e. list_ex (\<lambda>kd. is_delete kd [db_key t] e)
        [KUnstructured cnpgDatabaseRoleKind, KUnstructured cnpgDatabaseKind]) evs \<and>
      (res = Inr () \<longrightarrow> list_all (\<lambda>kd. list_ex (gone kd (db_key t)) evs)
        [KUnstructured cnpgDatabaseRoleKind, KUnstructured cnpgDatabaseKind]))"
    unfolding cnpg_Release_def
    by (auto simp: runs_wp wp_simps db_key_def as_result_def split: sum.splits option.splits)
qed

interpretation noop: database_adapter "[]" noop_Ensure noop_Release
  by unfold_locales (auto simp: noop_Ensure_def noop_Release_def intro: emits_ok runs_ok)


subsection \<open>Properties through the interfaces\<close>

fun adapter_kind :: "Kind \<Rightarrow> bool" where
  "adapter_kind KIngress = True"
| "adapter_kind (KUnstructured _) = True"
| "adapter_kind _ = False"

fun adapter_event :: "Event \<Rightarrow> bool" where
  "adapter_event (EvCreate x _) = adapter_kind (object_kind x)"
| "adapter_event (EvDelete kd _ _) = adapter_kind kd"
| "adapter_event _ = False"

lemma is_create_adapter: "is_create kd ks e \<Longrightarrow> adapter_kind kd \<Longrightarrow> adapter_event e"
  by (cases e) auto

lemma is_delete_adapter: "is_delete kd ks e \<Longrightarrow> adapter_kind kd \<Longrightarrow> adapter_event e"
  by (cases e) auto

lemma emits_routing_adapter:
  "emits adapter_event (routing_Ensure a E t)"
  "emits adapter_event (routing_Remove a E t)"
proof -
  show "emits adapter_event (routing_Ensure a E t)"
    by (cases a) (simp_all, rule emits_mono [OF ingress.emits_ensure], erule is_create_adapter, simp,
        rule emits_mono [OF traefik.emits_ensure], erule is_create_adapter, simp)
  show "emits adapter_event (routing_Remove a E t)"
    by (cases a) (simp_all, rule emits_mono [OF ingress.emits_remove], erule is_delete_adapter, simp,
        rule emits_mono [OF traefik.emits_remove], erule is_delete_adapter, simp)
qed

lemma some_adapter_event:
  "list_ex (\<lambda>kd. is_create kd ks e) kds \<Longrightarrow> list_all adapter_kind kds \<Longrightarrow> adapter_event e"
  "list_ex (\<lambda>kd. is_delete kd ks e) kds \<Longrightarrow> list_all adapter_kind kds \<Longrightarrow> adapter_event e"
  by (auto simp: list_ex_iff list_all_iff dest: is_create_adapter is_delete_adapter)

lemma emits_database_adapter:
  "emits adapter_event (database_Ensure d E u)"
  "emits adapter_event (database_Release d E u)"
proof -
  show "emits adapter_event (database_Ensure d E u)"
    by (cases d) (simp_all, rule emits_mono [OF cnpg.ensure_emits], erule some_adapter_event, simp,
        rule emits_mono [OF noop.ensure_emits], erule some_adapter_event, simp)
  show "emits adapter_event (database_Release d E u)"
    by (cases d) (simp_all, rule emits_mono [OF cnpg.emits_release], erule some_adapter_event, simp,
        rule emits_mono [OF noop.emits_release], erule some_adapter_event, simp)
qed

text \<open>C28. Whichever routing implementation a deployment selects, a successful
  \<^verbatim>\<open>Remove\<close> deletes every object \<^verbatim>\<open>Ensure\<close> created for the same namespace and
  service name, also when \<^verbatim>\<open>Ensure\<close> had failed half way and when the target passed to
  \<^verbatim>\<open>Remove\<close> carries other host names, ports, labels or exposure.\<close>
theorem routing_Remove_undoes_Ensure:
  assumes "routing_Ensure a E t h = (r1, h @ evs1)" and "routing_Remove a E u h' = (Inr (), h' @ evs2)"
    and "rt_Namespace u = rt_Namespace t" and "rt_ServiceName u = rt_ServiceName t"
    and "EvCreate x err \<in> set evs1"
  shows "list_ex (gone (object_kind x) (object_key x)) evs2"
proof (cases a)
  case (RoutingIngress i)
  then show ?thesis using ingress.remove_undoes_ensure [of i] assms by simp
next
  case (RoutingTraefik i)
  then show ?thesis using traefik.remove_undoes_ensure [of i] assms by simp
qed

definition target0 :: RoutingTarget where
  "target0 = \<lparr>rt_WorkspaceName = ''w'', rt_WorkspaceUID = ''u'', rt_Namespace = ''dev'',
     rt_ServiceName = ''x'', Hostnames = \<lparr>rh_Preview = ''x-preview'', rh_Report = ''x-report''\<rparr>,
     rt_Ports = \<lparr>rp_Preview = 3000, rp_Report = 8080\<rparr>, rt_Labels = [],
     Exposure = \<lparr>re_Annotations = Map.empty, MiddlewareRefs = [''auth'']\<rparr>\<rparr>"

definition traefik0 :: RoutingAdapter where
  "traefik0 = RoutingTraefik \<lparr>ta_Domain = ''example.org'', ta_TLSSecretName = ''tls''\<rparr>"

theorem routing_Remove_undoes_Ensure_witness:
  "\<exists>x. EvCreate x None \<in> set (snd (routing_Ensure traefik0 env0 target0 [])) \<and>
     list_ex (gone (object_kind x) (object_key x))
       (snd (routing_Remove traefik0 env0 (target0\<lparr>rt_Labels := [(''a'', ''b'')]\<rparr>) []))"
proof -
  let ?x = "update_meta (\<lambda>m. m\<lparr>OwnerReferences := [''u'']\<rparr>) (OUnstructured (traefik_build
     \<lparr>ta_Domain = ''example.org'', ta_TLSSecretName = ''tls''\<rparr> target0 (hd (ingressEntryPoints target0))))"
  let ?u = "target0\<lparr>rt_Labels := [(''a'', ''b'')]\<rparr>"
  have made: "EvCreate ?x None \<in> set (snd (routing_Ensure traefik0 env0 target0 []))"
    by (simp add: traefik0_def traefik_Ensure_def ingressEntryPoints_def tryE_def bindI_def lift_result_def
        setOwner_def env0_def wrapping_def ensureCreated_def createObj_def call_def ret_def ok_def
        routing_ownerStub_def target0_def empty_meta_def)
  have okay: "fst (routing_Remove traefik0 env0 ?u []) = Inr ()"
    by (simp add: traefik0_def traefik_Remove_def entrySuffixes_def tryE_def bindI_def env0_def
        deleteIgnoringNotFound_def deleteObj_def call_def ret_def ok_def)
  have "list_ex (gone (object_kind ?x) (object_key ?x)) (snd (routing_Remove traefik0 env0 ?u []))"
    by (rule routing_Remove_undoes_Ensure [where a = traefik0 and E = env0 and t = target0 and u = ?u
          and h = "[]" and h' = "[]" and ?r1.0 = "fst (routing_Ensure traefik0 env0 target0 [])"
          and ?evs1.0 = "snd (routing_Ensure traefik0 env0 target0 [])" and err = None])
       (use made okay in \<open>auto simp: prod_eq_iff\<close>)
  with made show ?thesis by blast
qed

end
