(* ===== verification/Reconciler.thy ===== *)
theory Reconciler
  imports Adapters Naming Ordering
begin

text \<open>
  The Workspace reconciler's configuration (\<^verbatim>\<open>workspace_controller.go\<close>, the struct and its
  small accessors) and the guard of \<^verbatim>\<open>git_credential_reconciler.go\<close>.  Interface fields that
  may be unset are options; a notification sink is a flag, since a call to it is an event.  Handlers
  that mutate \<^verbatim>\<open>ws\<close> through its pointer return the new value.
\<close>

record GitCredentialGuard =
  ProtectedRepositories :: "string list"
  ProtectedBranches :: "string list"

record WorkspaceReconciler =
  ProvisioningTimeout :: duration
  PollInterval :: duration
  Guard :: GitCredentialGuard
  GitCredentialIssuer :: "(Event list \<Rightarrow> GitCredentialRequest \<Rightarrow> IssuedGitCredential result) option"
  EvacuationConfirmer :: "(Event list \<Rightarrow> Workspace \<Rightarrow> bool result) option"
  EvacuationRequester :: "(Event list \<Rightarrow> Workspace \<Rightarrow> EvacuationSnapshot result) option"
  SSHSessionCounter :: "(Event list \<Rightarrow> Workspace \<Rightarrow> int result) option"
  ChangedFilesReporter :: "(Event list \<Rightarrow> Workspace \<Rightarrow> string list result) option"
  Notify :: bool
  Routing :: RoutingAdapter
  Domain :: string
  RoutingExp :: RoutingExposure
  Database :: DatabaseAdapter

definition defaultProvisioningTimeout :: duration where
  "defaultProvisioningTimeout = 180 * Second"

definition defaultPollInterval :: duration where
  "defaultPollInterval = 5 * Second"

definition conditionProvisioned :: string where
  "conditionProvisioned = ''Provisioned''"

definition conditionDuplicateOfExisting :: string where
  "conditionDuplicateOfExisting = ''DuplicateOfExisting''"

definition notify :: "WorkspaceReconciler \<Rightarrow> Workspace \<Rightarrow> string \<Rightarrow> string \<Rightarrow> unit act" where
  "notify r ws kind detail =
     (if \<not> Notify r then ret () else call (\<lambda>_. ()) (\<lambda>_. EvNotify (Name (WMeta ws)) kind detail))"

definition timeout :: "WorkspaceReconciler \<Rightarrow> duration" where
  "timeout r = (if ProvisioningTimeout r > 0 then ProvisioningTimeout r else defaultProvisioningTimeout)"

definition pollInterval :: "WorkspaceReconciler \<Rightarrow> duration" where
  "pollInterval r = (if PollInterval r > 0 then PollInterval r else defaultPollInterval)"

definition getTemplate :: "Env \<Rightarrow> Workspace \<Rightarrow> WorkspaceTemplate result act" where
  "getTemplate E ws = getTemplateObj E (Namespace (WMeta ws), TemplateRef (Spec ws))"

lemma wp_notify [wp_simps]:
  "wp (notify r ws kind detail) Q =
     (\<lambda>h. Q () (if Notify r then h @ [EvNotify (Name (WMeta ws)) kind detail] else h))"
  by (auto simp: fun_eq_iff notify_def wp_simps)

lemma emits_notify [emits_rules]:
  "(\<And>n k d. S (EvNotify n k d)) \<Longrightarrow> emits S (notify r ws kind detail)"
  unfolding notify_def by (intro emits_rules)

end
