(* ===== verification/Blackboard.thy ===== *)
theory Blackboard
  imports Reconciler
begin

text \<open>
  The Agent Blackboard: \<^verbatim>\<open>blackboard.go\<close>, \<^verbatim>\<open>claudemd.go\<close> and
  \<^verbatim>\<open>conflict.go\<close>.  Strings are byte sequences, so the document's Japanese text appears as its
  UTF-8 bytes.  Shown: which files are reported as contested and to whom, that the part of the
  document before the branch marker is the same for every workspace, when the order of entries is
  determined and when it is not, and that a document already in place is not written again.
\<close>

subsection \<open>blackboard.go\<close>

definition AnnotationBlackboardSummary :: string where
  "AnnotationBlackboardSummary = ''workspace.tom1022.github.io/summary''"

definition AnnotationBlackboardPublicInterfaces :: string where
  "AnnotationBlackboardPublicInterfaces = ''workspace.tom1022.github.io/public-interfaces''"

definition splitAnnotationList :: "string \<Rightarrow> string list" where
  "splitAnnotationList v = filter (\<lambda>s. s \<noteq> []) (map TrimSpace (Split (CHR '','') v))"

definition sameBlackboardContent :: "BlackboardEntry \<Rightarrow> BlackboardEntry \<Rightarrow> bool" where
  "sameBlackboardContent a b \<longleftrightarrow> bb_Branch a = bb_Branch b \<and> Summary a = Summary b \<and>
     Active a = Active b \<and> ChangedFiles a = ChangedFiles b \<and> PublicInterfaces a = PublicInterfaces b"

definition readChangedFiles :: "WorkspaceReconciler \<Rightarrow> Workspace \<Rightarrow> string list \<Rightarrow> string list act" where
  "readChangedFiles r ws recorded =
     (case ChangedFilesReporter r of None \<Rightarrow> ret recorded
      | Some report \<Rightarrow> bindI (call (\<lambda>h. report h ws) (EvChangedFiles (ws_key ws))) (\<lambda>res.
          case res of Inl _ \<Rightarrow> ret recorded | Inr files \<Rightarrow> ret files))"

definition syncBlackboard :: "WorkspaceReconciler \<Rightarrow> Env \<Rightarrow> Workspace \<Rightarrow> (Workspace \<times> bool) act" where
  "syncBlackboard r E ws =
     bindI (readChangedFiles r ws
              (case Blackboard (Status ws) of None \<Rightarrow> [] | Some b \<Rightarrow> ChangedFiles b)) (\<lambda>files.
     let entry = \<lparr>bb_Branch = Branch (Spec ws),
                  Summary = annotation (WMeta ws) AnnotationBlackboardSummary,
                  ChangedFiles = files,
                  PublicInterfaces = splitAnnotationList (annotation (WMeta ws) AnnotationBlackboardPublicInterfaces),
                  Active = True, UpdatedAt = None\<rparr> in
     if (case Blackboard (Status ws) of None \<Rightarrow> False | Some b \<Rightarrow> sameBlackboardContent b entry)
     then ret (ws, False)
     else bindI (readClock E) (\<lambda>now.
       ret (ws\<lparr>Status := (Status ws)\<lparr>Blackboard := Some (entry\<lparr>UpdatedAt := Some now\<rparr>)\<rparr>\<rparr>, True)))"

definition deactivateBlackboard :: "Env \<Rightarrow> Workspace \<Rightarrow> (Workspace \<times> bool) act" where
  "deactivateBlackboard E ws =
     (case Blackboard (Status ws) of None \<Rightarrow> ret (ws, False)
      | Some b \<Rightarrow> if \<not> Active b then ret (ws, False)
         else bindI (readClock E) (\<lambda>now.
           ret (ws\<lparr>Status := (Status ws)\<lparr>Blackboard := Some (b\<lparr>Active := False, UpdatedAt := Some now\<rparr>)\<rparr>\<rparr>, True)))"

definition branch_less :: "BlackboardEntry \<Rightarrow> BlackboardEntry \<Rightarrow> bool" where
  "branch_less a b \<longleftrightarrow> bb_Branch a < bb_Branch b"

definition active_entries :: "Workspace list \<Rightarrow> BlackboardEntry list" where
  "active_entries items = sort_Slice branch_less (List.map_filter (\<lambda>ws.
     case Blackboard (Status ws) of None \<Rightarrow> None
     | Some b \<Rightarrow> if \<not> Active b \<or> DeletionTimestamp (WMeta ws) \<noteq> None then None else Some b) items)"

definition ActiveBlackboardEntries :: "Env \<Rightarrow> string \<Rightarrow> BlackboardEntry list result act" where
  "ActiveBlackboardEntries E ns = tryE (listWorkspaces E ns) (\<lambda>items. ok (active_entries items))"

subsection \<open>claudemd.go\<close>

abbreviation bytes :: "nat list \<Rightarrow> string" where
  "bytes \<equiv> map char_of"

definition ClaudeMDKey :: string where
  "ClaudeMDKey = ''CLAUDE.md''"

definition newline :: char where
  "newline = CHR 0x0A"

definition ClaudeMDBranchMarker :: string where
  "ClaudeMDBranchMarker = [newline] @ ''<!-- workspace -->'' @ [newline]"

definition claudeMDPreamble :: string where
  "claudeMDPreamble = bytes
    [35, 32, 228, 184, 166, 232, 161, 140, 233, 150, 139, 231, 153, 186, 227, 131, 151, 227, 131, 169,
     227, 131, 131, 227, 131, 136, 227, 131, 149, 227, 130, 169, 227, 131, 188, 227, 131, 160, 10, 10,
     227, 129, 147, 227, 129, 174, 227, 131, 170, 227, 131, 157, 227, 130, 184, 227, 131, 136, 227,
     131, 170, 227, 129, 175, 232, 164, 135, 230, 149, 176, 227, 129, 174, 227, 131, 150, 227, 131,
     169, 227, 131, 179, 227, 131, 129, 227, 129, 167, 229, 144, 140, 230, 153, 130, 227, 129, 171,
     228, 189, 156, 230, 165, 173, 227, 129, 140, 233, 128, 178, 227, 130, 147, 227, 129, 167, 227,
     129, 132, 227, 130, 139, 227, 128, 130, 228, 187, 165, 228, 184, 139, 227, 129, 175, 231, 143,
     190, 229, 156, 168, 227, 130, 162, 227, 130, 175, 227, 131, 134, 227, 130, 163, 227, 131, 150,
     227, 129, 170, 10, 229, 133, 168, 227, 131, 150, 227, 131, 169, 227, 131, 179, 227, 131, 129, 227,
     129, 174, 228, 189, 156, 230, 165, 173, 231, 138, 182, 230, 179, 129, 227, 129, 167, 227, 128,
     129, 229, 134, 133, 229, 174, 185, 227, 129, 175, 229, 133, 168, 227, 131, 175, 227, 131, 188,
     227, 130, 175, 227, 130, 185, 227, 131, 154, 227, 131, 188, 227, 130, 185, 227, 129, 167, 229,
     144, 140, 228, 184, 128, 227, 128, 130, 10, 10, 45, 32, 228, 187, 150, 227, 131, 150, 227, 131,
     169, 227, 131, 179, 227, 131, 129, 227, 129, 140, 229, 164, 137, 230, 155, 180, 228, 184, 173,
     227, 129, 174, 227, 131, 149, 227, 130, 161, 227, 130, 164, 227, 131, 171, 227, 129, 171, 227,
     129, 175, 230, 137, 139, 227, 130, 146, 229, 133, 165, 227, 130, 140, 227, 129, 170, 227, 129,
     132, 10, 45, 32, 228, 187, 150, 227, 131, 150, 227, 131, 169, 227, 131, 179, 227, 131, 129, 227,
     129, 174, 229, 133, 172, 233, 150, 139, 227, 130, 164, 227, 131, 179, 227, 130, 191, 227, 131,
     188, 227, 131, 149, 227, 130, 167, 227, 131, 188, 227, 130, 185, 227, 129, 171, 228, 190, 157,
     229, 173, 152, 227, 129, 153, 227, 130, 139, 229, 160, 180, 229, 144, 136, 227, 129, 175, 232,
     168, 152, 232, 188, 137, 227, 129, 149, 227, 130, 140, 227, 129, 159, 229, 144, 141, 229, 137,
     141, 227, 129, 171, 229, 144, 136, 227, 130, 143, 227, 129, 155, 227, 130, 139, 10]"

definition ClaudeMDConfigMapName :: "string \<Rightarrow> string" where
  "ClaudeMDConfigMapName resourceName = resourceName @ ''-claude-md''"

definition orNone :: "string \<Rightarrow> string" where
  "orNone v = (if v = [] then bytes [227, 129, 170, 227, 129, 151] else v)"

definition label_summary :: string where
  "label_summary = bytes
    [45, 32, 228, 189, 156, 230, 165, 173, 230, 166, 130, 232, 166, 129, 58, 32]"

definition label_interfaces :: string where
  "label_interfaces = bytes
    [45, 32, 229, 133, 172, 233, 150, 139, 227, 130, 164, 227, 131, 179, 227, 130, 191, 227, 131, 188,
     227, 131, 149, 227, 130, 167, 227, 131, 188, 227, 130, 185, 58, 32]"

definition label_files :: string where
  "label_files = bytes
    [45, 32, 229, 164, 137, 230, 155, 180, 228, 184, 173, 227, 131, 149, 227, 130, 161, 227, 130, 164,
     227, 131, 171, 58, 32]"

definition own_branch_open :: string where
  "own_branch_open = bytes
    [10, 227, 129, 147, 227, 129, 174, 227, 131, 175, 227, 131, 188, 227, 130, 175, 227, 130, 185, 227,
     131, 154, 227, 131, 188, 227, 130, 185, 227, 129, 140, 230, 139, 133, 229, 189, 147, 227, 129,
     153, 227, 130, 139, 227, 131, 150, 227, 131, 169, 227, 131, 179, 227, 131, 129, 227, 129, 175, 32,
     96]"

definition own_branch_close :: string where
  "own_branch_close = bytes
    [96, 227, 128, 130, 228, 184, 138, 232, 168, 152, 227, 129, 174, 227, 129, 134, 227, 129, 161, 232,
     135, 170, 227, 131, 150, 227, 131, 169, 227, 131, 179, 227, 131, 129, 227, 129, 174, 233, 160,
     133, 231, 155, 174, 227, 129, 175, 232, 135, 170, 229, 136, 134, 227, 129, 174, 228, 189, 156,
     230, 165, 173, 227, 128, 130, 10]"

definition render_entry :: "BlackboardEntry \<Rightarrow> string" where
  "render_entry e =
     [newline] @ ''## '' @ bb_Branch e @ [newline, newline] @
     label_summary @ orNone (Summary e) @ [newline] @
     label_interfaces @ orNone (Join (PublicInterfaces e) '', '') @ [newline] @
     label_files @ orNone (Join (ChangedFiles e) '', '') @ [newline]"

definition RenderClaudeMD :: "BlackboardEntry list \<Rightarrow> string \<Rightarrow> string" where
  "RenderClaudeMD entries branch =
     claudeMDPreamble @ concat (map render_entry entries) @ ClaudeMDBranchMarker @
     own_branch_open @ branch @ own_branch_close"

definition reconcileClaudeMD :: "Env \<Rightarrow> Workspace \<Rightarrow> string \<Rightarrow> unit result act" where
  "reconcileClaudeMD E ws resourceName =
     tryE (ActiveBlackboardEntries E (Namespace (WMeta ws))) (\<lambda>entries.
     let document = RenderClaudeMD entries (Branch (Spec ws));
         cm = \<lparr>CmMeta = empty_meta\<lparr>Name := ClaudeMDConfigMapName resourceName,
                  Namespace := Namespace (WMeta ws), Labels := workspaceLabels ws\<rparr>,
               cm_Data = Map.empty\<rparr> in
     tryE (lift_result (setOwner E (WMeta ws) (OConfigMap cm))) (\<lambda>owned.
     let cm = (case owned of OConfigMap c \<Rightarrow> c | _ \<Rightarrow> cm) in
     bindI (getConfigMap E (Namespace (CmMeta cm), Name (CmMeta cm))) (\<lambda>got.
       case got of
         Inl e \<Rightarrow> (if \<not> IsNotFound e then fail e
                   else ensureCreated E (OConfigMap (cm\<lparr>cm_Data := [ClaudeMDKey \<mapsto> document]\<rparr>)))
       | Inr current \<Rightarrow>
           (if (case cm_Data current ClaudeMDKey of None \<Rightarrow> [] | Some d \<Rightarrow> d) = document then ok ()
            else check (updateObj E (OConfigMap (current\<lparr>cm_Data := [ClaudeMDKey \<mapsto> document]\<rparr>)))))))"

subsection \<open>conflict.go\<close>

definition EventFileConflict :: string where
  "EventFileConflict = ''FileConflict''"

definition conditionFileConflict :: string where
  "conditionFileConflict = ''FileConflict''"

text \<open>\<^verbatim>\<open>branchesByFile[f] = append(branchesByFile[f], branch)\<close> on a map kept as an association
  list, and the inner loop's \<^verbatim>\<open>seen\<close> guard.\<close>

fun add_branch :: "(string \<times> string list) list \<Rightarrow> string \<Rightarrow> string \<Rightarrow> (string \<times> string list) list" where
  "add_branch [] f b = [(f, [b])]"
| "add_branch ((g, bs) # m) f b = (if g = f then (g, bs @ [b]) # m else (g, bs) # add_branch m f b)"

fun add_files :: "string list \<Rightarrow> string \<Rightarrow> (string \<times> string list) list \<Rightarrow> string list
    \<Rightarrow> (string \<times> string list) list" where
  "add_files seen b m [] = m"
| "add_files seen b m (f # fs) =
     (if f \<in> set seen then add_files seen b m fs else add_files (f # seen) b (add_branch m f b) fs)"

definition branchesByFile :: "BlackboardEntry list \<Rightarrow> (string \<times> string list) list" where
  "branchesByFile merged = foldl (\<lambda>m e. add_files [] (bb_Branch e) m (ChangedFiles e)) [] merged"

definition merged_entries :: "BlackboardEntry list \<Rightarrow> BlackboardEntry \<Rightarrow> BlackboardEntry list" where
  "merged_entries entries own =
     sort_Slice branch_less (filter (\<lambda>e. bb_Branch e \<noteq> bb_Branch own) entries @ [own])"

definition contested_files :: "BlackboardEntry list \<Rightarrow> BlackboardEntry \<Rightarrow> string list" where
  "contested_files entries own =
     sort (map fst (filter (\<lambda>(f, bs). length bs > 1 \<and> bb_Branch own \<in> set bs)
       (branchesByFile (merged_entries entries own))))"

definition fileConflictDetail :: "BlackboardEntry list \<Rightarrow> BlackboardEntry option \<Rightarrow> string" where
  "fileConflictDetail entries own_opt =
     (case own_opt of None \<Rightarrow> []
      | Some own \<Rightarrow>
        (if \<not> Active own \<or> ChangedFiles own = [] then []
         else let byFile = branchesByFile (merged_entries entries own);
                  contested = contested_files entries own in
           if contested = [] then []
           else ''file conflict: '' @ Join (map (\<lambda>f. Quote f @ '' is being changed by '' @
                  Join (case map_of byFile f of None \<Rightarrow> [] | Some bs \<Rightarrow> bs) '', '') contested) ''; ''))"

definition reconcileFileConflicts :: "WorkspaceReconciler \<Rightarrow> Env \<Rightarrow> Workspace \<Rightarrow> Workspace result act" where
  "reconcileFileConflicts r E ws =
     tryE (ActiveBlackboardEntries E (Namespace (WMeta ws))) (\<lambda>entries.
     let detail = fileConflictDetail entries (Blackboard (Status ws));
         cond = FindStatusCondition E (Conditions (Status ws)) conditionFileConflict in
     if detail = [] then
       (if (case cond of None \<Rightarrow> True | Some c \<Rightarrow> cstatus c = ConditionFalse) then ok ws
        else bindI (readClock E) (\<lambda>now.
             bindI (setCondition E ws ((mkCondition conditionFileConflict ConditionFalse ''NoOverlap''
                      ''no other active branch is changing these files'')\<lparr>clastTransitionTime := Some now\<rparr>)) (\<lambda>ws.
             tryE (updateStatus E ws) (\<lambda>_. ok ws))))
     else if (case cond of None \<Rightarrow> False | Some c \<Rightarrow> cstatus c = ConditionTrue \<and> cmessage c = detail) then ok ws
     else bindI (readClock E) (\<lambda>now.
          bindI (setCondition E ws ((mkCondition conditionFileConflict ConditionTrue
                   ''SameFileChangedElsewhere'' detail)\<lparr>clastTransitionTime := Some now\<rparr>)) (\<lambda>ws.
          tryE (updateStatus E ws) (\<lambda>_.
          bindI (notify r ws EventFileConflict detail) (\<lambda>_. ok ws)))))"


subsection \<open>Which files are contested\<close>

definition branches_of :: "(string \<times> string list) list \<Rightarrow> string \<Rightarrow> string list" where
  "branches_of m f = (case map_of m f of None \<Rightarrow> [] | Some bs \<Rightarrow> bs)"

lemma branches_of_add_branch:
  "branches_of (add_branch m f b) g = branches_of m g @ (if g = f then [b] else [])"
  by (induction m f b rule: add_branch.induct) (auto simp: branches_of_def)

lemma branches_of_add_files:
  "branches_of (add_files seen b m fs) g =
     branches_of m g @ (if g \<in> set fs \<and> g \<notin> set seen then [b] else [])"
  by (induction seen b m fs rule: add_files.induct) (auto simp: branches_of_add_branch)

lemma branches_of_branchesByFile:
  "branches_of (branchesByFile es) g = map bb_Branch (filter (\<lambda>e. g \<in> set (ChangedFiles e)) es)"
proof -
  have "branches_of (foldl (\<lambda>m e. add_files [] (bb_Branch e) m (ChangedFiles e)) m es) g =
      branches_of m g @ map bb_Branch (filter (\<lambda>e. g \<in> set (ChangedFiles e)) es)" for m
    by (induction es arbitrary: m) (auto simp: branches_of_add_files)
  then show ?thesis by (simp add: branchesByFile_def branches_of_def)
qed

definition by_file_ok :: "(string \<times> string list) list \<Rightarrow> bool" where
  "by_file_ok m \<longleftrightarrow> distinct (map fst m) \<and> list_all (\<lambda>(f, bs). bs \<noteq> []) m"

lemma add_branch_keys: "fst ` set (add_branch m f b) = insert f (fst ` set m)"
  by (induction m f b rule: add_branch.induct) auto

lemma by_file_ok_add_branch: "by_file_ok m \<Longrightarrow> by_file_ok (add_branch m f b)"
proof (induction m f b rule: add_branch.induct)
  case (2 g bs m f b)
  then show ?case using add_branch_keys [of m f b] by (auto simp: by_file_ok_def)
qed (simp add: by_file_ok_def)

lemma by_file_ok_add_files: "by_file_ok m \<Longrightarrow> by_file_ok (add_files seen b m fs)"
  by (induction seen b m fs rule: add_files.induct) (auto simp: by_file_ok_add_branch)

lemma by_file_ok_branchesByFile: "by_file_ok (branchesByFile es)"
proof -
  have "by_file_ok m \<Longrightarrow> by_file_ok (foldl (\<lambda>m e. add_files [] (bb_Branch e) m (ChangedFiles e)) m es)" for m
    by (induction es arbitrary: m) (auto simp: by_file_ok_add_files)
  then show ?thesis by (simp add: branchesByFile_def by_file_ok_def)
qed

lemma in_by_file_iff:
  assumes "by_file_ok m"
  shows "(f, bs) \<in> set m \<longleftrightarrow> branches_of m f = bs \<and> bs \<noteq> []"
proof -
  have "(f, bs) \<in> set m \<longleftrightarrow> map_of m f = Some bs"
    using assms by (simp add: by_file_ok_def)
  moreover have "bs \<noteq> []" if "(f, bs) \<in> set m"
    using assms that by (auto simp: by_file_ok_def list_all_iff)
  ultimately show ?thesis by (auto simp: branches_of_def split: option.splits)
qed

lemma set_contested_files:
  "set (contested_files entries own) =
     {f. length (branches_of (branchesByFile (merged_entries entries own)) f) > 1 \<and>
         bb_Branch own \<in> set (branches_of (branchesByFile (merged_entries entries own)) f)}"
  unfolding contested_files_def
  using in_by_file_iff [OF by_file_ok_branchesByFile, of _ _ "merged_entries entries own"]
  by (auto simp: image_iff)

lemma length_filter_merged:
  "length (filter P (merged_entries entries own)) =
     length (filter P (filter (\<lambda>e. bb_Branch e \<noteq> bb_Branch own) entries)) + (if P own then 1 else 0)"
proof -
  have "mset (merged_entries entries own) = mset (filter (\<lambda>e. bb_Branch e \<noteq> bb_Branch own) entries @ [own])"
    unfolding merged_entries_def by (rule mset_sort_Slice)
  then have "size (filter_mset P (mset (merged_entries entries own))) =
      size (filter_mset P (mset (filter (\<lambda>e. bb_Branch e \<noteq> bb_Branch own) entries @ [own])))"
    by simp
  then show ?thesis by (simp only: mset_filter [symmetric] size_mset) simp
qed

lemma set_merged_entries:
  "set (merged_entries entries own) = {e \<in> set entries. bb_Branch e \<noteq> bb_Branch own} \<union> {own}"
  by (auto simp: merged_entries_def)

text \<open>The contested files of a branch are exactly the files it is changing that an entry of
  another branch lists too, however often one branch lists a file; a warning is produced exactly when
  the branch is active and there is one.\<close>
theorem contested_files_exact:
  "set (contested_files entries own) =
     {f \<in> set (ChangedFiles own). \<exists>e\<in>set entries. bb_Branch e \<noteq> bb_Branch own \<and> f \<in> set (ChangedFiles e)} \<and>
   (fileConflictDetail entries (Some own) \<noteq> []) =
     (Active own \<and> (\<exists>f\<in>set (ChangedFiles own). \<exists>e\<in>set entries.
        bb_Branch e \<noteq> bb_Branch own \<and> f \<in> set (ChangedFiles e)))"
proof -
  have own: "bb_Branch own \<in> set (branches_of (branchesByFile (merged_entries entries own)) f) \<longleftrightarrow>
      f \<in> set (ChangedFiles own)" for f
    by (auto simp: branches_of_branchesByFile set_merged_entries)
  have "length (branches_of (branchesByFile (merged_entries entries own)) f) > 1 \<longleftrightarrow>
      (\<exists>e\<in>set entries. bb_Branch e \<noteq> bb_Branch own \<and> f \<in> set (ChangedFiles e))"
    if "f \<in> set (ChangedFiles own)" for f
    using that by (auto simp: branches_of_branchesByFile length_filter_merged filter_empty_conv)
  then have set: "set (contested_files entries own) =
      {f \<in> set (ChangedFiles own). \<exists>e\<in>set entries. bb_Branch e \<noteq> bb_Branch own \<and> f \<in> set (ChangedFiles e)}"
    using own by (auto simp: set_contested_files)
  have "fileConflictDetail entries (Some own) \<noteq> [] \<longleftrightarrow> Active own \<and> contested_files entries own \<noteq> []"
    using set by (auto simp: fileConflictDetail_def Let_def)
  then show ?thesis using set by (simp add: set_empty [symmetric] del: set_empty) blast
qed

subsection \<open>The order of the entries\<close>

interpretation branch_order: slice_order branch_less
  by unfold_locales (auto simp: branch_less_def)


definition active_of :: "Workspace list \<Rightarrow> BlackboardEntry list" where
  "active_of items = List.map_filter (\<lambda>ws. case Blackboard (Status ws) of None \<Rightarrow> None
     | Some b \<Rightarrow> if \<not> Active b \<or> DeletionTimestamp (WMeta ws) \<noteq> None then None else Some b) items"

lemma active_entries_alt: "active_entries items = sort_Slice branch_less (active_of items)"
  by (simp add: active_entries_def active_of_def)

lemma mset_active_of: "mset items = mset items' \<Longrightarrow> mset (active_of items) = mset (active_of items')"
  unfolding active_of_def map_filter_def by simp

text \<open>When the active branches of a namespace have distinct names, the order in which the API
  server lists the workspaces does not show: every workspace renders the same shared part of
  CLAUDE.md, byte for byte, and the documents of two workspaces differ only after the branch
  marker.\<close>
theorem shared_document_independent_of_listing:
  assumes "mset items = mset items'" and "distinct (map bb_Branch (active_of items))"
  shows "active_entries items = active_entries items' \<and>
    (\<exists>shared. \<forall>branch. RenderClaudeMD (active_entries items) branch =
       shared @ ClaudeMDBranchMarker @ own_branch_open @ branch @ own_branch_close \<and>
     RenderClaudeMD (active_entries items') branch =
       shared @ ClaudeMDBranchMarker @ own_branch_open @ branch @ own_branch_close)"
proof -
  have inj: "inj_on bb_Branch (set (active_of items))"
    using assms(2) by (simp add: distinct_map)
  have "active_entries items = active_entries items'"
    unfolding active_entries_alt
  proof (rule branch_order.in_order_unique)
    show "mset (sort_Slice branch_less (active_of items)) = mset (sort_Slice branch_less (active_of items'))"
      by (simp add: mset_active_of [OF assms(1)])
    fix a b
    assume "a \<in> set (sort_Slice branch_less (active_of items))"
      and "b \<in> set (sort_Slice branch_less (active_of items))" and "a \<noteq> b"
    then have "bb_Branch a \<noteq> bb_Branch b" using inj by (auto dest: inj_onD)
    then show "branch_less a b \<or> branch_less b a" by (auto simp: branch_less_def)
  qed (rule branch_order.in_order_sort_Slice)+
  then show ?thesis by (auto simp: RenderClaudeMD_def)
qed

definition entry0 :: "string \<Rightarrow> string \<Rightarrow> BlackboardEntry" where
  "entry0 b summary = \<lparr>bb_Branch = b, Summary = summary, ChangedFiles = [], PublicInterfaces = [],
     Active = True, UpdatedAt = None\<rparr>"

definition bb_ws :: "string \<Rightarrow> BlackboardEntry \<Rightarrow> Workspace" where
  "bb_ws n b = (ws0 n (bb_Branch b) 0)\<lparr>Status := status0\<lparr>Blackboard := Some b\<rparr>\<rparr>"

lemma active_of_two:
  "Active a \<Longrightarrow> Active b \<Longrightarrow> active_of [bb_ws m a, bb_ws n b] = [a, b]"
  by (simp add: active_of_def bb_ws_def ws0_def meta0_def status0_def map_filter_def)

theorem shared_document_independent_of_listing_witness:
  "active_entries [bb_ws ''m'' (entry0 ''x'' ''s''), bb_ws ''n'' (entry0 ''y'' ''t'')] =
   active_entries [bb_ws ''n'' (entry0 ''y'' ''t''), bb_ws ''m'' (entry0 ''x'' ''s'')]"
  using shared_document_independent_of_listing
    [of "[bb_ws ''m'' (entry0 ''x'' ''s''), bb_ws ''n'' (entry0 ''y'' ''t'')]"
        "[bb_ws ''n'' (entry0 ''y'' ''t''), bb_ws ''m'' (entry0 ''x'' ''s'')]"]
    active_of_two [of "entry0 ''x'' ''s''" "entry0 ''y'' ''t''" "''m''" "''n''"]
  by (simp add: entry0_def add_mset_commute)

text \<open>The entries are ordered by branch name alone, so two repositories that use the same branch
  name tie: the same two workspaces listed in the other order render a different document.\<close>
theorem same_branch_in_two_repositories_breaks_the_order:
  "\<exists>items items'. mset items = mset items' \<and>
     RenderClaudeMD (active_entries items) ''x'' \<noteq> RenderClaudeMD (active_entries items') ''x''"
proof -
  let ?a = "entry0 ''x'' ''a''" and ?b = "entry0 ''x'' ''b''"
  have act: "Active ?a" "Active ?b" by (simp_all add: entry0_def)
  have sorted: "sort_Slice branch_less [?a, ?b] = [?a, ?b]" "sort_Slice branch_less [?b, ?a] = [?b, ?a]"
    by (simp_all add: sort_Slice_def branch_less_def entry0_def)
  have "active_entries [bb_ws ''m'' ?a, bb_ws ''n'' ?b] = [?a, ?b]"
    and "active_entries [bb_ws ''n'' ?b, bb_ws ''m'' ?a] = [?b, ?a]"
    by (simp_all only: active_entries_alt active_of_two [OF act] active_of_two [OF act(2,1)] sorted)
  moreover have "RenderClaudeMD [?a, ?b] ''x'' \<noteq> RenderClaudeMD [?b, ?a] ''x''"
    by (simp add: RenderClaudeMD_def render_entry_def entry0_def orNone_def)
  ultimately show ?thesis
    by (intro exI [of _ "[bb_ws ''m'' ?a, bb_ws ''n'' ?b]"] exI [of _ "[bb_ws ''n'' ?b, bb_ws ''m'' ?a]"])
       (simp add: add_mset_commute)
qed

subsection \<open>Announcing a conflict\<close>

lemma wp_ActiveBlackboardEntries [wp_simps]:
  "wp (ActiveBlackboardEntries E ns) Q = (\<lambda>h. Q
     (case api_ListWorkspaces E h ns of Inl e \<Rightarrow> Inl e | Inr items \<Rightarrow> Inr (active_entries items))
     (h @ [EvListWorkspaces ns (api_ListWorkspaces E h ns)]))"
  by (auto simp: fun_eq_iff ActiveBlackboardEntries_def wp_simps split: sum.splits)

lemma emits_ActiveBlackboardEntries [emits_rules]:
  "(\<And>r. S (EvListWorkspaces ns r)) \<Longrightarrow> emits S (ActiveBlackboardEntries E ns)"
  unfolding ActiveBlackboardEntries_def by (intro emits_rules)

text \<open>The condition records what was announced: nothing when there is no conflict, the detail of the
  standing conflict otherwise.\<close>

definition announced :: "Env \<Rightarrow> string \<Rightarrow> Condition list \<Rightarrow> bool" where
  "announced E detail cs =
     (case FindStatusCondition E cs conditionFileConflict of
        None \<Rightarrow> detail = []
      | Some c \<Rightarrow> if detail = [] then cstatus c = ConditionFalse
                 else cstatus c = ConditionTrue \<and> cmessage c = detail)"

lemma announced_set:
  assumes "conditions_lib E"
    and "c = (mkCondition conditionFileConflict st re ms)\<lparr>clastTransitionTime := u\<rparr>"
    and "if detail = [] then st = ConditionFalse else st = ConditionTrue \<and> ms = detail"
  shows "announced E detail (fst (SetStatusCondition E h cs c))"
proof -
  obtain t where "FindStatusCondition E (fst (SetStatusCondition E h cs c)) (ctype c) =
      Some (c\<lparr>clastTransitionTime := t\<rparr>)" using find_set_same [OF assms(1)] by blast
  then show ?thesis using assms(2,3) by (auto simp: announced_def mkCondition_def split: if_splits)
qed

lemma reconcileFileConflicts_announces:
  assumes "conditions_lib E" and "\<And>h. api_ListWorkspaces E h (Namespace (WMeta ws)) = Inr items"
  shows "wp (reconcileFileConflicts r E ws) (\<lambda>res _. case res of Inl _ \<Rightarrow> True | Inr ws' \<Rightarrow>
      WMeta ws' = WMeta ws \<and> Blackboard (Status ws') = Blackboard (Status ws) \<and>
      announced E (fileConflictDetail (active_entries items) (Blackboard (Status ws)))
        (Conditions (Status ws'))) h"
proof (cases "fileConflictDetail (active_entries items) (Blackboard (Status ws)) = []")
  case True
  then show ?thesis
    unfolding reconcileFileConflicts_def
    by (auto simp: wp_simps assms(2) as_result_def intro!: announced_set [OF assms(1) refl]
        split: option.splits) (auto simp: announced_def)
next
  case False
  then show ?thesis
    unfolding reconcileFileConflicts_def
    by (auto simp: wp_simps assms(2) as_result_def intro!: announced_set [OF assms(1) refl]
        split: option.splits) (auto simp: announced_def)
qed

lemma reconcileFileConflicts_quiet:
  assumes "\<And>h. api_ListWorkspaces E h (Namespace (WMeta ws)) = Inr items"
    and "announced E (fileConflictDetail (active_entries items) (Blackboard (Status ws))) (Conditions (Status ws))"
  shows "reconcileFileConflicts r E ws h = (Inr ws, h @ [EvListWorkspaces (Namespace (WMeta ws)) (Inr items)])"
  using assms(2)
  by (auto simp: reconcileFileConflicts_def ActiveBlackboardEntries_def announced_def tryE_def bindI_def
      listWorkspaces_def call_def assms(1) ok_def ret_def Let_def split: option.splits if_splits)

text \<open>A conflict is announced once: after a pass of \<^verbatim>\<open>reconcileFileConflicts\<close> that
  succeeded, a further pass over the same entries reads the list and neither writes the status nor
  notifies.\<close>
theorem file_conflict_announced_once:
  assumes "conditions_lib E"
    and "\<And>h. api_ListWorkspaces E h (Namespace (WMeta ws)) = Inr items"
    and "reconcileFileConflicts r E ws h = (Inr ws', h')"
  shows "reconcileFileConflicts r E ws' h'' =
    (Inr ws', h'' @ [EvListWorkspaces (Namespace (WMeta ws)) (Inr items)])"
proof -
  have "WMeta ws' = WMeta ws" "Blackboard (Status ws') = Blackboard (Status ws)"
    "announced E (fileConflictDetail (active_entries items) (Blackboard (Status ws))) (Conditions (Status ws'))"
    using wpD [OF reconcileFileConflicts_announces [OF assms(1,2)] assms(3)] by simp_all
  then show ?thesis using reconcileFileConflicts_quiet [of E ws' items r h''] assms(2) by simp
qed

definition conflict_env :: Env where
  "conflict_env = env0\<lparr>api_ListWorkspaces := (\<lambda>h ns. Inr
     [bb_ws ''m'' ((entry0 ''x'' [])\<lparr>ChangedFiles := [''f'']\<rparr>),
      bb_ws ''n'' ((entry0 ''y'' [])\<lparr>ChangedFiles := [''f'']\<rparr>)])\<rparr>"

definition reconciler0 :: WorkspaceReconciler where
  "reconciler0 = \<lparr>ProvisioningTimeout = 0, PollInterval = 0,
     Guard = \<lparr>ProtectedRepositories = [], ProtectedBranches = []\<rparr>, GitCredentialIssuer = None,
     EvacuationConfirmer = None, EvacuationRequester = None, SSHSessionCounter = None,
     ChangedFilesReporter = None, Notify = True,
     Routing = RoutingIngress \<lparr>ia_Domain = ''example.org'', ia_TLSSecretName = ''tls'', ClassName = []\<rparr>,
     Domain = ''example.org'', RoutingExp = \<lparr>re_Annotations = Map.empty, MiddlewareRefs = []\<rparr>,
     Database = DatabaseNoop\<rparr>"

theorem file_conflict_announced_once_witness:
  "\<exists>ws'. fst (reconcileFileConflicts reconciler0 conflict_env
        (bb_ws ''m'' ((entry0 ''x'' [])\<lparr>ChangedFiles := [''f'']\<rparr>)) []) = Inr ws' \<and>
     length (snd (reconcileFileConflicts reconciler0 conflict_env ws' [])) = 1"
proof -
  let ?ws = "bb_ws ''m'' ((entry0 ''x'' [])\<lparr>ChangedFiles := [''f'']\<rparr>)"
  have lib: "conditions_lib conflict_env"
    by (rule conditions_lib_cong [OF conditions_lib_env0]) (simp_all add: conflict_env_def)
  have "\<exists>ws'. fst (reconcileFileConflicts reconciler0 conflict_env ?ws []) = Inr ws'"
    by (auto simp: reconcileFileConflicts_def ActiveBlackboardEntries_def tryE_def bindI_def
        listWorkspaces_def call_def ok_def ret_def Let_def conflict_env_def readClock_def peek_def
        setCondition_def check_def statusUpdate_def notify_def env0_def fail_def split: option.splits)
  then obtain ws' h' where run: "reconcileFileConflicts reconciler0 conflict_env ?ws [] = (Inr ws', h')"
    by (metis prod.collapse)
  show ?thesis
    using file_conflict_announced_once [OF lib _ run, of _ "[]"] run
    by (auto simp: conflict_env_def)
qed

end
