(* ===== verification/Resources.thy ===== *)
theory Resources
  imports Blackboard TaskQueue
begin

text \<open>
  The substrate of a workspace (\<^verbatim>\<open>resources.go\<close>): the volume claim and the StatefulSet with
  its init containers, environment, volumes and mounts, built field by field as the source does.
  Shown: credentials reach a container by Secret reference only, every mount has a volume, every
  container carries requests and limits, the database parts appear together or not at all, and which
  model a new workspace runs.
\<close>

subsection \<open>Constants\<close>

definition workspaceMountPath :: string where
  "workspaceMountPath = ''/workspace''"

definition workingDirPath :: string where
  "workingDirPath = workspaceMountPath @ ''/repo''"

definition claudeConfigPath :: string where
  "claudeConfigPath = workspaceMountPath @ ''/.claude-config''"

definition cacheDirPath :: string where
  "cacheDirPath = workspaceMountPath @ ''/.cache''"

definition workspaceVolumeName :: string where
  "workspaceVolumeName = ''workspace''"

definition blackboardVolumeName :: string where
  "blackboardVolumeName = ''blackboard''"

definition blackboardMountPath :: string where
  "blackboardMountPath = ''/run/devplatform/blackboard''"

definition supervisorBinaryPath :: string where
  "supervisorBinaryPath = ''/usr/local/bin/supervisor''"

definition sshPort :: int where
  "sshPort = 22"

definition sshCAPublicKeySecretName :: string where
  "sshCAPublicKeySecretName = ''devplatform-workspace-ssh-ca''"

definition sshCAPublicKeyKey :: string where
  "sshCAPublicKeyKey = ''ca.pub''"

definition sshCAVolumeName :: string where
  "sshCAVolumeName = ''ssh-ca''"

definition sshCAMountPath :: string where
  "sshCAMountPath = ''/run/devplatform/ssh-ca''"

definition localPathStorageClass :: string where
  "localPathStorageClass = ''local-path''"

definition evacuationAccessKeyKey :: string where
  "evacuationAccessKeyKey = ''access-key''"

definition evacuationSecretKeyKey :: string where
  "evacuationSecretKeyKey = ''secret-key''"

definition authTokenKey :: string where
  "authTokenKey = ''token''"

definition gitCredentialTokenKey :: string where
  "gitCredentialTokenKey = ''token''"

definition gitAskpassPath :: string where
  "gitAskpassPath = workspaceMountPath @ ''/.git-askpass''"

definition databaseCertVolumeName :: string where
  "databaseCertVolumeName = ''database-client-cert''"

definition databaseCertMountPath :: string where
  "databaseCertMountPath = ''/run/devplatform/database''"

definition databaseCertSecretName :: string where
  "databaseCertSecretName = ''-client-cert''"

definition databasePort :: string where
  "databasePort = ''5432''"

definition defaultWorkspaceStorageSize :: string where
  "defaultWorkspaceStorageSize = ''20Gi''"

abbreviation dq :: char where "dq \<equiv> CHR 0x22"
abbreviation sq :: char where "sq \<equiv> CHR 0x27"
abbreviation bsl :: char where "bsl \<equiv> CHR 0x5C"

definition workspaceInitScript :: string where
  "workspaceInitScript = concat (map (\<lambda>l. l @ [newline])
     [''set -eu'',
      ''mkdir -p '' @ [dq] @ ''$WORKSPACE_DIR'' @ [dq] @ '' '' @ [dq] @ ''$CLAUDE_CONFIG_DIR'' @ [dq] @
        '' '' @ [dq] @ ''$WORKSPACE_CACHE_DIR'' @ [dq],
      ''# ponytail: HTTPS token auth only, no SSH remote support '' @ bytes [226, 128, 148] @
        '' lift this ceiling'',
      ''# only once a user actually needs an SSH git remote.'',
      ''if [ -n '' @ [dq] @ ''${GIT_CREDENTIAL_TOKEN:-}'' @ [dq] @ '' ]; then'',
      ''  printf '' @ [sq] @ ''#!/bin/sh'' @ [bsl] @ ''necho '' @ [dq] @ ''$GIT_CREDENTIAL_TOKEN'' @ [dq] @
        [bsl] @ ''n'' @ [sq] @ '' > '' @ [dq] @ ''$GIT_ASKPASS'' @ [dq],
      ''  chmod +x '' @ [dq] @ ''$GIT_ASKPASS'' @ [dq],
      ''fi'',
      ''rm -f '' @ [dq] @ ''$WORKSPACE_DIR/.git/index.lock'' @ [dq] @ '' '' @ [dq] @
        ''$WORKSPACE_DIR/.git/HEAD.lock'' @ [dq] @ '' '' @ [dq] @ ''$WORKSPACE_DIR/.git/shallow.lock'' @
        [dq],
      ''if [ ! -d '' @ [dq] @ ''$WORKSPACE_DIR/.git'' @ [dq] @ '' ]; then'',
      ''  if git ls-remote --exit-code --heads '' @ [dq] @ ''$WORKSPACE_REPOSITORY'' @ [dq] @ '' '' @
        [dq] @ ''$WORKSPACE_BRANCH'' @ [dq] @ '' >/dev/null 2>&1; then'',
      ''    git clone --branch '' @ [dq] @ ''$WORKSPACE_BRANCH'' @ [dq] @ '' --single-branch '' @ [dq] @
        ''$WORKSPACE_REPOSITORY'' @ [dq] @ '' '' @ [dq] @ ''$WORKSPACE_DIR'' @ [dq],
      ''  else'',
      ''    git clone --branch '' @ [dq] @ ''$WORKSPACE_BASE_BRANCH'' @ [dq] @ '' --single-branch '' @
        [dq] @ ''$WORKSPACE_REPOSITORY'' @ [dq] @ '' '' @ [dq] @ ''$WORKSPACE_DIR'' @ [dq],
      ''    git -C '' @ [dq] @ ''$WORKSPACE_DIR'' @ [dq] @ '' checkout -b '' @ [dq] @
        ''$WORKSPACE_BRANCH'' @ [dq],
      ''  fi'',
      ''  '' @ supervisorBinaryPath @ '' restore'',
      ''fi'',
      ''rm -f '' @ [dq] @ ''$CLAUDE_CONFIG_DIR/.credentials.json'' @ [dq]])"

subsection \<open>The volume claim\<close>

definition buildPVC :: "Env \<Rightarrow> Workspace \<Rightarrow> WorkspaceTemplate \<Rightarrow> string \<Rightarrow> PersistentVolumeClaim result" where
  "buildPVC E ws tmpl resourceName =
     (let size = (if Size (Storage (TmplSpec tmpl)) = [] then defaultWorkspaceStorageSize
                  else Size (Storage (TmplSpec tmpl))) in
      case ParseQuantity E size of
        Inl e \<Rightarrow> Inl (wrap (''devplatform: invalid storage size '' @ Quote size @ '' on template '' @
                        Quote (Name (TmplMeta tmpl)) @ '': '') e)
      | Inr qty \<Rightarrow>
          Inr \<lparr>PvcMeta = empty_meta\<lparr>Name := resourceName, Namespace := Namespace (WMeta ws),
                  Labels := workspaceLabels ws\<rparr>,
               AccessModes = [''ReadWriteOnce''],
               StorageClassName = Some localPathStorageClass,
               pvc_Storage = qty\<rparr>)"

definition parseResourceList :: "Env \<Rightarrow> ResourceList \<Rightarrow> (string \<times> Quantity) list result" where
  "parseResourceList E rl =
     (case ParseQuantity E (CPU rl) of
        Inl e \<Rightarrow> Inl (wrap (''devplatform: invalid cpu quantity '' @ Quote (CPU rl) @ '': '') e)
      | Inr cpu \<Rightarrow>
        (case ParseQuantity E (Memory rl) of
           Inl e \<Rightarrow> Inl (wrap (''devplatform: invalid memory quantity '' @ Quote (Memory rl) @ '': '') e)
         | Inr mem \<Rightarrow> Inr [(''cpu'', cpu), (''memory'', mem)]))"

subsection \<open>The StatefulSet\<close>

definition secretEnv :: "string \<Rightarrow> string \<Rightarrow> string \<Rightarrow> EnvVar" where
  "secretEnv n secretName k = (n, EnvSecret secretName k)"

definition branchDatabaseEnv :: "Workspace \<Rightarrow> WorkspaceTemplate \<Rightarrow> string \<Rightarrow> EnvVar list" where
  "branchDatabaseEnv ws tmpl resourceName =
     (case Database_ClusterRef (TmplSpec tmpl) of None \<Rightarrow> []
      | Some clusterRef \<Rightarrow>
        (let host = clusterRef @ ''-rw.'' @ Namespace (WMeta ws) @ ''.svc.cluster.local'';
             cert = databaseCertMountPath @ ''/tls.crt'';
             k = databaseCertMountPath @ ''/tls.key''
         in [(''PGHOST'', EnvValue host),
             (''PGPORT'', EnvValue databasePort),
             (''PGDATABASE'', EnvValue resourceName),
             (''PGUSER'', EnvValue resourceName),
             (''PGSSLMODE'', EnvValue ''require''),
             (''PGSSLCERT'', EnvValue cert),
             (''PGSSLKEY'', EnvValue k),
             (''DATABASE_URL'', EnvValue (''postgresql://'' @ resourceName @ ''@'' @ host @ '':'' @
                databasePort @ ''/'' @ resourceName @ ''?sslmode=require&sslcert='' @ cert @
                ''&sslkey='' @ k))]))"

definition evacuationEnv :: "WorkspaceTemplate \<Rightarrow> string \<Rightarrow> EnvVar list" where
  "evacuationEnv tmpl resourceName =
     (let ev = Evacuation (TmplSpec tmpl) in
      [(''WORKSPACE_ID'', EnvValue resourceName),
       (''EVACUATION_ENDPOINT'', EnvValue (Endpoint ev)),
       (''EVACUATION_REGION'', EnvValue (Region ev)),
       (''EVACUATION_BUCKET'', EnvValue (Bucket ev)),
       secretEnv ''EVACUATION_ACCESS_KEY'' (ev_SecretRef ev) evacuationAccessKeyKey,
       secretEnv ''EVACUATION_SECRET_KEY'' (ev_SecretRef ev) evacuationSecretKeyKey])"

definition gitCredentialEnv :: "Workspace \<Rightarrow> EnvVar list" where
  "gitCredentialEnv ws =
     (case GitCredentialSecretRef (Spec ws) of None \<Rightarrow> []
      | Some ref \<Rightarrow> [secretEnv ''GIT_CREDENTIAL_TOKEN'' ref gitCredentialTokenKey,
                     (''GIT_ASKPASS'', EnvValue gitAskpassPath)])"

definition initEnv :: "Workspace \<Rightarrow> WorkspaceTemplate \<Rightarrow> string \<Rightarrow> EnvVar list" where
  "initEnv ws tmpl resourceName =
     [(''WORKSPACE_DIR'', EnvValue workingDirPath),
      (''WORKSPACE_REPOSITORY'', EnvValue (Repository (Spec ws))),
      (''WORKSPACE_BRANCH'', EnvValue (Branch (Spec ws))),
      (''WORKSPACE_BASE_BRANCH'', EnvValue (case BaseBranch (Spec ws) of None \<Rightarrow> [] | Some b \<Rightarrow> b)),
      (''CLAUDE_CONFIG_DIR'', EnvValue claudeConfigPath),
      (''WORKSPACE_CACHE_DIR'', EnvValue cacheDirPath)] @
     evacuationEnv tmpl resourceName @ gitCredentialEnv ws"

definition workspaceModel :: "Workspace \<Rightarrow> WorkspaceTemplate \<Rightarrow> string" where
  "workspaceModel ws tmpl =
     (let active = annotation (WMeta ws) AnnotationActiveModel in
      if active \<noteq> [] then active else Model (TmplSpec tmpl))"

definition workspaceEnv :: "Workspace \<Rightarrow> WorkspaceTemplate \<Rightarrow> string \<Rightarrow> EnvVar list" where
  "workspaceEnv ws tmpl resourceName =
     [(''WORKSPACE_MOUNT'', EnvValue workspaceMountPath),
      (''WORKSPACE_NAME'', EnvValue (Name (WMeta ws))),
      secretEnv ''CLAUDE_CODE_OAUTH_TOKEN'' (Auth_SecretRef (TmplSpec tmpl)) authTokenKey,
      (''SSH_CA_PUBLIC_KEY'', EnvValue (sshCAMountPath @ ''/'' @ sshCAPublicKeyKey)),
      (''BLACKBOARD_CLAUDE_MD'', EnvValue (blackboardMountPath @ ''/'' @ ClaudeMDKey))] @
     evacuationEnv tmpl resourceName @ gitCredentialEnv ws @ branchDatabaseEnv ws tmpl resourceName @
     (if workspaceModel ws tmpl \<noteq> [] then [(''ANTHROPIC_MODEL'', EnvValue (workspaceModel ws tmpl))] else [])"

definition podVolumes :: "bool \<Rightarrow> string \<Rightarrow> Volume list" where
  "podVolumes dbEnabled resourceName =
     [(workspaceVolumeName, VolumePVC resourceName),
      (sshCAVolumeName, VolumeSecret sshCAPublicKeySecretName (Some True) None),
      (blackboardVolumeName, VolumeConfigMap (ClaudeMDConfigMapName resourceName) (Some True))] @
     (if dbEnabled
      then [(databaseCertVolumeName, VolumeSecret (resourceName @ databaseCertSecretName) None (Some 0x180))]
      else [])"

definition podVolumeMounts :: "bool \<Rightarrow> VolumeMount list" where
  "podVolumeMounts dbEnabled =
     [\<lparr>vm_Name = workspaceVolumeName, MountPath = workspaceMountPath, ReadOnly = False\<rparr>,
      \<lparr>vm_Name = sshCAVolumeName, MountPath = sshCAMountPath, ReadOnly = True\<rparr>,
      \<lparr>vm_Name = blackboardVolumeName, MountPath = blackboardMountPath, ReadOnly = True\<rparr>] @
     (if dbEnabled
      then [\<lparr>vm_Name = databaseCertVolumeName, MountPath = databaseCertMountPath, ReadOnly = True\<rparr>]
      else [])"

definition buildStatefulSet :: "Env \<Rightarrow> Workspace \<Rightarrow> WorkspaceTemplate \<Rightarrow> string \<Rightarrow> StatefulSet result" where
  "buildStatefulSet E ws tmpl resourceName =
     (case parseResourceList E (Requests (Resources (TmplSpec tmpl))) of Inl e \<Rightarrow> Inl e | Inr requests \<Rightarrow>
     (case parseResourceList E (Limits (Resources (TmplSpec tmpl))) of Inl e \<Rightarrow> Inl e | Inr limits \<Rightarrow>
      let dbEnabled = (Database_ClusterRef (TmplSpec tmpl) \<noteq> None);
          databaseEnv = branchDatabaseEnv ws tmpl resourceName;
          resources = \<lparr>rr_Requests = requests, rr_Limits = limits\<rparr>;
          mounts = podVolumeMounts dbEnabled;
          initContainers =
            [\<lparr>ct_Name = ''workspace-init'', ct_Image = Image (TmplSpec tmpl),
              Command = [''sh'', ''-c'', workspaceInitScript], ct_Env = initEnv ws tmpl resourceName,
              Ports = [], ct_Resources = resources, VolumeMounts = mounts\<rparr>] @
            (if dbEnabled
             then [\<lparr>ct_Name = ''db-bootstrap'', ct_Image = Image (TmplSpec tmpl),
                    Command = [supervisorBinaryPath, ''dbboot''],
                    ct_Env = initEnv ws tmpl resourceName @ databaseEnv,
                    Ports = [], ct_Resources = resources, VolumeMounts = mounts\<rparr>]
             else []);
          container =
            \<lparr>ct_Name = ''workspace'', ct_Image = Image (TmplSpec tmpl), Command = [supervisorBinaryPath],
             ct_Env = workspaceEnv ws tmpl resourceName,
             Ports = [(''supervisor'', supervisorPort), (''ssh'', sshPort)],
             ct_Resources = resources, VolumeMounts = mounts\<rparr>
      in Inr \<lparr>StsMeta = empty_meta\<lparr>Name := resourceName, Namespace := Namespace (WMeta ws),
                  Labels := workspaceLabels ws\<rparr>,
              Replicas = Some 1,
              ServiceName = resourceName,
              MatchLabels = workspaceLabels ws,
              PodLabels = workspaceLabels ws,
              PodTemplate =
                \<lparr>NodeSelector = [(''kubernetes.io/hostname'', NodeName (TmplSpec tmpl))],
                 pod_PriorityClassName = PriorityClassName (TmplSpec tmpl),
                 InitContainers = initContainers,
                 Containers = [container],
                 Volumes = podVolumes dbEnabled resourceName\<rparr>,
              ReadyReplicas = 0\<rparr>))"


subsection \<open>The Pod template\<close>

definition credential_names :: "string list" where
  "credential_names = [''EVACUATION_ACCESS_KEY'', ''EVACUATION_SECRET_KEY'', ''CLAUDE_CODE_OAUTH_TOKEN'',
     ''GIT_CREDENTIAL_TOKEN'']"

fun by_reference :: "EnvVar \<Rightarrow> bool" where
  "by_reference (n, EnvValue _) = (n \<notin> set credential_names)"
| "by_reference (n, EnvSecret _ _) = True"

definition env_ok :: "EnvVar list \<Rightarrow> bool" where
  "env_ok env \<longleftrightarrow> list_all by_reference env \<and> distinct (map fst env)"

definition container_ok :: "Volume list \<Rightarrow> Container \<Rightarrow> bool" where
  "container_ok vols c \<longleftrightarrow> env_ok (ct_Env c) \<and>
     map fst (rr_Requests (ct_Resources c)) = [''cpu'', ''memory''] \<and>
     map fst (rr_Limits (ct_Resources c)) = [''cpu'', ''memory''] \<and>
     set (map vm_Name (VolumeMounts c)) \<subseteq> set (map fst vols)"

definition pod_containers :: "StatefulSet \<Rightarrow> Container list" where
  "pod_containers sts = InitContainers (PodTemplate sts) @ Containers (PodTemplate sts)"

lemma env_ok_init: "env_ok (initEnv ws tmpl n)"
  by (cases "GitCredentialSecretRef (Spec ws)")
     (simp_all add: env_ok_def initEnv_def evacuationEnv_def gitCredentialEnv_def secretEnv_def
      credential_names_def Let_def)

lemma env_ok_bootstrap: "env_ok (initEnv ws tmpl n @ branchDatabaseEnv ws tmpl n)"
  by (cases "GitCredentialSecretRef (Spec ws)"; cases "Database_ClusterRef (TmplSpec tmpl)")
     (simp_all add: env_ok_def initEnv_def evacuationEnv_def gitCredentialEnv_def secretEnv_def
      branchDatabaseEnv_def credential_names_def Let_def)

lemma env_ok_workspace: "env_ok (workspaceEnv ws tmpl n)"
  by (cases "GitCredentialSecretRef (Spec ws)"; cases "Database_ClusterRef (TmplSpec tmpl)";
      cases "workspaceModel ws tmpl = []")
     (simp_all add: env_ok_def workspaceEnv_def evacuationEnv_def gitCredentialEnv_def secretEnv_def
      branchDatabaseEnv_def credential_names_def Let_def)

lemma mounts_have_volumes: "set (map vm_Name (podVolumeMounts db)) \<subseteq> set (map fst (podVolumes db n))"
  by (cases db) (simp_all add: podVolumeMounts_def podVolumes_def)

lemma claim_volume: "(workspaceVolumeName, VolumePVC n) \<in> set (podVolumes db n)"
  by (simp add: podVolumes_def)

lemma parseResourceList_keys: "parseResourceList E rl = Inr l \<Longrightarrow> map fst l = [''cpu'', ''memory'']"
  by (auto simp: parseResourceList_def split: sum.splits)

lemma container_okI:
  assumes "env_ok env" and "map fst req = [''cpu'', ''memory'']" and "map fst lms = [''cpu'', ''memory'']"
  shows "container_ok (podVolumes db n) \<lparr>ct_Name = a, ct_Image = b, Command = c, ct_Env = env, Ports = p,
     ct_Resources = \<lparr>rr_Requests = req, rr_Limits = lms\<rparr>, VolumeMounts = podVolumeMounts db\<rparr>"
  using assms mounts_have_volumes [of db n] by (simp add: container_ok_def)

text \<open>C27. Every StatefulSet \<^verbatim>\<open>buildStatefulSet\<close> returns is well formed: no container receives
  a credential as a plain value, no container sets an environment variable twice, every container
  (the init containers included) carries CPU and memory requests and limits and mounts only volumes
  the Pod declares, the selector matches the Pod labels, and the working directory is the claim of
  the same name.\<close>
theorem buildStatefulSet_wellformed:
  assumes "buildStatefulSet E ws tmpl n = Inr sts"
  shows "list_all (container_ok (Volumes (PodTemplate sts))) (pod_containers sts) \<and>
    MatchLabels sts = PodLabels sts \<and> object_key (OStatefulSet sts) = (Namespace (WMeta ws), n) \<and>
    (workspaceVolumeName, VolumePVC n) \<in> set (Volumes (PodTemplate sts))"
proof -
  obtain req lms where rl: "parseResourceList E (Requests (Resources (TmplSpec tmpl))) = Inr req"
      "parseResourceList E (Limits (Resources (TmplSpec tmpl))) = Inr lms"
    using assms by (auto simp: buildStatefulSet_def split: sum.splits)
  note keys = rl [THEN parseResourceList_keys]
  show ?thesis
    using assms
    by (auto simp: buildStatefulSet_def rl pod_containers_def env_ok_init env_ok_bootstrap
        env_ok_workspace object_key_def claim_volume container_okI [OF _ keys] Let_def)
qed

definition tmpl0 :: WorkspaceTemplate where
  "tmpl0 = \<lparr>TmplMeta = meta0 ''t'' 0,
     TmplSpec = \<lparr>Image = ''img'',
       Resources = \<lparr>Requests = \<lparr>CPU = ''1'', Memory = ''1Gi''\<rparr>, Limits = \<lparr>CPU = ''2'', Memory = ''2Gi''\<rparr>\<rparr>,
       Storage = \<lparr>Size = [], NodeDiskBudget = []\<rparr>, NodeName = ''node'', PriorityClassName = [],
       Model = ''opus'', Database_ClusterRef = Some ''pg'', Auth_SecretRef = ''auth'',
       Evacuation = \<lparr>Bucket = ''b'', Endpoint = ''e'', Region = ''r'', ev_SecretRef = ''s''\<rparr>\<rparr>\<rparr>"

theorem buildStatefulSet_wellformed_witness:
  "\<exists>sts. buildStatefulSet env0 (ws0 ''w'' ''b'' 0) tmpl0 ''x'' = Inr sts \<and>
     list_all (container_ok (Volumes (PodTemplate sts))) (pod_containers sts) \<and>
     length (pod_containers sts) = 3"
proof -
  obtain sts where sts: "buildStatefulSet env0 (ws0 ''w'' ''b'' 0) tmpl0 ''x'' = Inr sts"
    and "length (pod_containers sts) = 3"
    by (auto simp: buildStatefulSet_def parseResourceList_def env0_def tmpl0_def pod_containers_def Let_def)
  then show ?thesis using buildStatefulSet_wellformed [OF sts] by blast
qed

text \<open>The branch database is configured all together or not at all: the certificate volume and
  its mounts, the bootstrap init container and the connection variables are present exactly when the
  template names a cluster.\<close>
theorem database_parts_all_or_nothing:
  assumes "buildStatefulSet E ws tmpl n = Inr sts"
  shows "(databaseCertVolumeName \<in> set (map fst (Volumes (PodTemplate sts)))) =
      (Database_ClusterRef (TmplSpec tmpl) \<noteq> None) \<and>
    (''db-bootstrap'' \<in> set (map ct_Name (InitContainers (PodTemplate sts)))) =
      (Database_ClusterRef (TmplSpec tmpl) \<noteq> None) \<and>
    list_all (\<lambda>c. (''DATABASE_URL'' \<in> set (map fst (ct_Env c))) =
      (Database_ClusterRef (TmplSpec tmpl) \<noteq> None)) (Containers (PodTemplate sts)) \<and>
    list_all (\<lambda>c. (databaseCertVolumeName \<in> set (map vm_Name (VolumeMounts c))) =
      (Database_ClusterRef (TmplSpec tmpl) \<noteq> None)) (pod_containers sts)"
  using assms
  by (auto simp: buildStatefulSet_def pod_containers_def podVolumes_def podVolumeMounts_def Let_def
      databaseCertVolumeName_def workspaceVolumeName_def sshCAVolumeName_def blackboardVolumeName_def
      workspaceEnv_def evacuationEnv_def gitCredentialEnv_def branchDatabaseEnv_def secretEnv_def
      split: sum.splits option.splits)

theorem database_parts_all_or_nothing_witness:
  "\<exists>sts. buildStatefulSet env0 (ws0 ''w'' ''b'' 0) tmpl0 ''x'' = Inr sts \<and>
     ''db-bootstrap'' \<in> set (map ct_Name (InitContainers (PodTemplate sts)))"
proof -
  obtain sts where sts: "buildStatefulSet env0 (ws0 ''w'' ''b'' 0) tmpl0 ''x'' = Inr sts"
    by (auto simp: buildStatefulSet_def parseResourceList_def env0_def tmpl0_def Let_def)
  then show ?thesis using database_parts_all_or_nothing [OF sts] by (simp add: tmpl0_def)
qed

end
