(* ===== verification/GitCredential.thy ===== *)
theory GitCredential
  imports Resources
begin

text \<open>
  Git credentials (\<^verbatim>\<open>git_credential_reconciler.go\<close>): the deployment's guard, the
  caller-provided Secret and the auto-issued one.  Shown: which spellings of a repository the guard
  identifies and which it does not, that a refused workspace causes no call at all, and that an
  issued credential is scoped to the workspace's repository and branch and issued at most once.
\<close>

definition normalizeRepositoryIdentity :: "string \<Rightarrow> string" where
  "normalizeRepositoryIdentity repo0 =
     (let repo = ReplaceAll (TrimSuffix (TrimSpace repo0) ''.git'') (CHR '':'') (CHR ''/'');
          parts = Split (CHR ''/'') repo
      in if length parts < 2 then ToLower repo
         else ToLower (parts ! (length parts - 2) @ ''/'' @ parts ! (length parts - 1)))"

definition refuses :: "GitCredentialGuard \<Rightarrow> string \<Rightarrow> string \<Rightarrow> string option" where
  "refuses g repository branch =
     (if list_ex (\<lambda>p. normalizeRepositoryIdentity p = normalizeRepositoryIdentity repository)
           (ProtectedRepositories g)
      then Some (''devplatform: refusing to issue a git credential for protected repository '' @ Quote repository)
      else if list_ex (\<lambda>p. EqualFold p branch) (ProtectedBranches g)
      then Some (''devplatform: refusing to issue a git credential that could push to protected branch '' @ Quote branch)
      else None)"

definition gitCredentialHandleAnnotation :: string where
  "gitCredentialHandleAnnotation = ''workspace.tom1022.github.io/git-credential-handle''"

definition verifyUserProvidedGitCredential :: "Env \<Rightarrow> Workspace \<Rightarrow> string \<Rightarrow> unit result act" where
  "verifyUserProvidedGitCredential E ws secretName =
     bindI (getSecret E (Namespace (WMeta ws), secretName)) (\<lambda>got.
       case got of
         Inr _ \<Rightarrow> ok ()
       | Inl e \<Rightarrow> (if IsNotFound e
                   then fail (Err (''devplatform: git credential secret '' @ Quote secretName @
                          '' (spec.gitCredentialSecretRef) not found in namespace '' @
                          Quote (Namespace (WMeta ws))))
                   else fail e))"

definition issued_secret :: "Workspace \<Rightarrow> string \<Rightarrow> IssuedGitCredential \<Rightarrow> Secret" where
  "issued_secret ws resourceName issued =
     \<lparr>SecMeta = empty_meta\<lparr>Name := resourceName, Namespace := Namespace (WMeta ws),
          Labels := workspaceLabels ws,
          Annotations := (if Handle issued \<noteq> [] then [gitCredentialHandleAnnotation \<mapsto> Handle issued]
                          else Map.empty)\<rparr>,
      sec_Type = (if SecretType issued = [] then ''Opaque'' else SecretType issued),
      sec_Data = SecretData issued\<rparr>"

definition issueGitCredential :: "(Event list \<Rightarrow> GitCredentialRequest \<Rightarrow> IssuedGitCredential result)
    \<Rightarrow> Env \<Rightarrow> Workspace \<Rightarrow> string \<Rightarrow> unit result act" where
  "issueGitCredential issue E ws resourceName =
     bindI (getSecret E (Namespace (WMeta ws), resourceName)) (\<lambda>got.
       case got of
         Inr _ \<Rightarrow> ok ()
       | Inl e \<Rightarrow>
         (if \<not> IsNotFound e then fail e
          else let req = \<lparr>gcr_WorkspaceId = resourceName, gcr_Repository = Repository (Spec ws),
                          AllowedBranch = Branch (Spec ws), RejectDefaultBranchPush = True\<rparr> in
            tryE (call (\<lambda>h. issue h req) (EvIssueCredential req)) (\<lambda>issued.
            tryE (lift_result (setOwner E (WMeta ws) (OSecret (issued_secret ws resourceName issued))))
              (ensureCreated E))))"

definition reconcileGitCredential :: "WorkspaceReconciler \<Rightarrow> Env \<Rightarrow> Workspace \<Rightarrow> string \<Rightarrow> unit result act" where
  "reconcileGitCredential r E ws resourceName =
     (case refuses (Guard r) (Repository (Spec ws)) (TrimSpace (Branch (Spec ws))) of
        Some reason \<Rightarrow> fail (Err reason)
      | None \<Rightarrow>
        (case GitCredentialSecretRef (Spec ws) of
           Some ref \<Rightarrow> verifyUserProvidedGitCredential E ws ref
         | None \<Rightarrow>
           (case GitCredentialIssuer r of
              None \<Rightarrow> fail (Err ''devplatform: git credential unavailable: spec.gitCredentialSecretRef is not set and no GitCredentialIssuer is configured'')
            | Some issue \<Rightarrow> issueGitCredential issue E ws resourceName)))"

subsection \<open>Which spellings the guard identifies\<close>

text \<open>A path segment as a hosting service has it: not empty, no separator, no white space.\<close>

definition path_segment :: "string \<Rightarrow> bool" where
  "path_segment s \<longleftrightarrow> s \<noteq> [] \<and> list_all (\<lambda>c. c \<noteq> CHR ''/'' \<and> c \<noteq> CHR '':'' \<and> \<not> is_space c) s"

text \<open>\<open>front\<close> is whatever stands before the owner: a scheme and host, or \<^verbatim>\<open>git@host\<close>;
  \<open>sep\<close> is the \<^verbatim>\<open>/\<close> or \<^verbatim>\<open>:\<close> between it and the owner.\<close>

lemma ReplaceAll_segment:
  assumes "path_segment s"
  shows "ReplaceAll s (CHR '':'') (CHR ''/'') = s"
  unfolding ReplaceAll_def
proof (rule map_idI)
  fix c assume "c \<in> set s"
  then have "c \<noteq> CHR '':''" using assms unfolding path_segment_def list_all_iff by blast
  then show "(if c = CHR '':'' then CHR ''/'' else c) = c" by (simp only: if_False)
qed

lemma segment_no_slash: "path_segment s \<Longrightarrow> CHR ''/'' \<notin> set s"
  unfolding path_segment_def list_all_iff by blast

lemma segment_last: "path_segment s \<Longrightarrow> \<not> is_space (List.last s)"
  unfolding path_segment_def list_all_iff using last_in_set by blast

lemma git_suffix:
  assumes "suffix ''.git'' (u @ ''/'' @ repo)"
  shows "suffix ''.git'' repo"
proof -
  have "suffix ''.git'' ((u @ ''/'') @ repo)" using assms by (simp only: append_assoc)
  then consider "suffix ''.git'' repo" | v where "''.git'' = v @ repo" "suffix v (u @ ''/'')"
    unfolding suffix_append by blast
  then show ?thesis
  proof cases
    case 2
    show ?thesis
    proof (cases v rule: rev_cases)
      case Nil
      then show ?thesis using 2(1) by simp
    next
      case (snoc v' c)
      then have "c = CHR ''/''" using 2(2) by (simp add: snoc_suffix_snoc)
      then have "CHR ''/'' \<in> set (v @ repo)" using snoc by simp
      then have "CHR ''/'' \<in> set ''.git''" by (simp only: 2(1))
      then show ?thesis by simp
    qed
  qed
qed

lemma normalize_url:
  assumes "path_segment owner" and "path_segment repo" and "\<not> suffix ''.git'' repo"
    and "sep \<in> {CHR ''/'', CHR '':''}" and "front = [] \<or> \<not> is_space (hd front)"
    and "tail \<in> {[], ''.git''}"
  shows "normalizeRepositoryIdentity (front @ sep # owner @ ''/'' @ repo @ tail) = ToLower (owner @ ''/'' @ repo)"
proof -
  let ?s = "front @ sep # owner @ ''/'' @ repo"
  have first: "\<not> is_space (hd (?s @ tail))"
  proof (cases front)
    case Nil
    then show ?thesis using assms(4) by (auto simp: is_space_def)
  next
    case (Cons c cs)
    then show ?thesis using assms(5) by simp
  qed
  have final: "\<not> is_space (List.last (?s @ tail))"
  proof (cases "tail = []")
    case True
    then show ?thesis using segment_last [OF assms(2)] assms(2) by (simp add: path_segment_def)
  next
    case False
    then show ?thesis using assms(6) by (simp add: is_space_def)
  qed
  have trim: "TrimSpace (?s @ tail) = ?s @ tail"
    by (rule TrimSpace_id [OF _ first final]) simp
  have nogit: "\<not> suffix ''.git'' ?s"
    using git_suffix [of "front @ sep # owner" repo] assms(3) by auto
  have git: "suffix ''.git'' (?s @ ''.git'')" by (rule suffixI) (rule refl)
  have cut: "TrimSuffix (?s @ tail) ''.git'' = ?s"
    using assms(6) nogit git by (auto simp: TrimSuffix_def)
  have rep: "ReplaceAll ?s (CHR '':'') (CHR ''/'') =
      ReplaceAll front (CHR '':'') (CHR ''/'') @ CHR ''/'' # owner @ CHR ''/'' # repo"
    using assms(1,2,4) ReplaceAll_segment [OF assms(1)] ReplaceAll_segment [OF assms(2)]
    by (auto simp: ReplaceAll_def)
  have split: "Split (CHR ''/'') (ReplaceAll ?s (CHR '':'') (CHR ''/'')) =
      Split (CHR ''/'') (ReplaceAll front (CHR '':'') (CHR ''/'')) @ [owner, repo]"
    unfolding rep Split_append by (simp only: Split_segment segment_no_slash assms(1,2) not_False_eq_True append_Cons append_Nil)
  show ?thesis
    using trim cut split unfolding normalizeRepositoryIdentity_def Let_def
    by (simp add: nth_append ToLower_def)
qed

lemma normalize_bare:
  assumes "path_segment owner" and "path_segment repo" and "\<not> suffix ''.git'' repo"
  shows "normalizeRepositoryIdentity (owner @ ''/'' @ repo) = ToLower (owner @ ''/'' @ repo)"
proof -
  let ?s = "owner @ CHR ''/'' # repo"
  have "\<not> is_space (hd ?s)"
    using assms(1) by (cases owner) (simp_all add: path_segment_def)
  moreover have "\<not> is_space (List.last ?s)"
    using segment_last [OF assms(2)] assms(2) by (simp add: path_segment_def)
  ultimately have trim: "TrimSpace ?s = ?s" by (intro TrimSpace_id) simp_all
  have cut: "TrimSuffix ?s ''.git'' = ?s"
    using git_suffix [of owner repo] assms(3) by (auto simp: TrimSuffix_def)
  have rep: "ReplaceAll ?s (CHR '':'') (CHR ''/'') = ?s"
    using ReplaceAll_segment [OF assms(1)] ReplaceAll_segment [OF assms(2)] by (simp add: ReplaceAll_def)
  have split: "Split (CHR ''/'') ?s = [owner, repo]"
    unfolding Split_append by (simp only: Split_segment segment_no_slash assms(1,2) not_False_eq_True append_Cons append_Nil)
  show ?thesis
    using trim cut rep split unfolding normalizeRepositoryIdentity_def Let_def by simp
qed

text \<open>A protected repository is refused under every spelling the platform accepts: an HTTPS URL, the
  SSH shorthand \<^verbatim>\<open>git@host:owner/repo\<close>, any further path in front of the owner, with or without
  the suffix \<^verbatim>\<open>.git\<close>, and in any mix of upper and lower case.\<close>
theorem guard_refuses_every_spelling:
  assumes "path_segment owner" and "path_segment repo" and "\<not> suffix ''.git'' repo"
    and "path_segment owner'" and "path_segment repo'" and "\<not> suffix ''.git'' repo'"
    and "EqualFold owner owner'" and "EqualFold repo repo'"
    and "front = [] \<or> \<not> is_space (hd front)" and "sep \<in> {CHR ''/'', CHR '':''}" and "tail \<in> {[], ''.git''}"
    and "owner @ ''/'' @ repo \<in> set (ProtectedRepositories g)"
  shows "refuses g (front @ sep # owner' @ ''/'' @ repo' @ tail) branch \<noteq> None"
proof -
  have "normalizeRepositoryIdentity (front @ sep # owner' @ ''/'' @ repo' @ tail) =
      normalizeRepositoryIdentity (owner @ ''/'' @ repo)"
    using normalize_url [OF assms(4-6,10,9,11)] normalize_bare [OF assms(1-3)] assms(7,8)
    by (simp add: EqualFold_def ToLower_def)
  then have "list_ex (\<lambda>p. normalizeRepositoryIdentity p =
      normalizeRepositoryIdentity (front @ sep # owner' @ ''/'' @ repo' @ tail)) (ProtectedRepositories g)"
    using assms(12) by (auto simp: list_ex_iff)
  then show ?thesis unfolding refuses_def by simp
qed

theorem guard_refuses_every_spelling_witness:
  "refuses \<lparr>ProtectedRepositories = [''acme/config''], ProtectedBranches = []\<rparr>
     (''git@h'' @ CHR '':'' # ''Acme'' @ ''/'' @ ''config'' @ ''.git'') ''b'' \<noteq> None"
  by (rule guard_refuses_every_spelling [where owner = "''acme''" and repo = "''config''"])
     ((code_simp | simp add: suffix_def)+)

text \<open>A trailing slash is not normalised away: the URL \<^verbatim>\<open>https://h/acme/config/\<close> reaches the same
  repository but has the identity \<^verbatim>\<open>config/\<close>, so the guard that refuses the URL without the slash
  lets it pass.\<close>
theorem trailing_slash_evades_the_guard:
  "refuses \<lparr>ProtectedRepositories = [''acme/config''], ProtectedBranches = []\<rparr> ''https://h/acme/config'' ''b'' \<noteq> None \<and>
   refuses \<lparr>ProtectedRepositories = [''acme/config''], ProtectedBranches = []\<rparr> ''https://h/acme/config/'' ''b'' = None"
  by code_simp

subsection \<open>Issuing a credential\<close>

definition credential_scope :: "Workspace \<Rightarrow> string \<Rightarrow> GitCredentialRequest" where
  "credential_scope ws n = \<lparr>gcr_WorkspaceId = n, gcr_Repository = Repository (Spec ws),
     AllowedBranch = Branch (Spec ws), RejectDefaultBranchPush = True\<rparr>"

text \<open>What each call of a credential pass needs before it in the same pass.\<close>

definition credential_guard :: "Workspace \<Rightarrow> string \<Rightarrow> Event list \<Rightarrow> Event \<Rightarrow> bool" where
  "credential_guard ws n before e = (case e of
     EvGetSecret (ns, _) _ \<Rightarrow> ns = Namespace (WMeta ws) \<and> before = []
   | EvIssueCredential req _ \<Rightarrow> req = credential_scope ws n \<and>
       (\<exists>err. IsNotFound err \<and> before = [EvGetSecret (Namespace (WMeta ws), n) (Inl err)])
   | EvCreate x _ \<Rightarrow> object_key x = (Namespace (WMeta ws), n) \<and> object_kind x = KSecret \<and>
       (\<exists>err issued owners. before = [EvGetSecret (Namespace (WMeta ws), n) (Inl err),
          EvIssueCredential (credential_scope ws n) (Inr issued)] \<and>
          x = update_meta (\<lambda>m. m\<lparr>OwnerReferences := owners\<rparr>) (OSecret (issued_secret ws n issued)))
   | _ \<Rightarrow> False)"

lemma runs_verify:
  "runs (verifyUserProvidedGitCredential E ws ref) h (\<lambda>_. guarded (credential_guard ws n))"
  unfolding verifyUserProvidedGitCredential_def
  by (rule runs_bindI [where P = "\<lambda>got evs. evs = [EvGetSecret (Namespace (WMeta ws), ref) got]"])
     (auto simp: getSecret_def credential_guard_def intro!: runs_call runs_ok runs_fail split: sum.split)

lemma runs_store:
  assumes "IsNotFound err"
  shows "runs (tryE (lift_result (setOwner E (WMeta ws) (OSecret (issued_secret ws n issued)))) (ensureCreated E)) h'
    (\<lambda>_ evs. guarded (credential_guard ws n)
      ([EvGetSecret (Namespace (WMeta ws), n) (Inl err), EvIssueCredential (credential_scope ws n) (Inr issued)] @ evs))"
proof -
  have pre: "guarded (credential_guard ws n)
      [EvGetSecret (Namespace (WMeta ws), n) (Inl err), EvIssueCredential (credential_scope ws n) (Inr issued)]"
    using assms by (simp add: credential_guard_def)
  have key: "object_key (OSecret (issued_secret ws n issued)) = (Namespace (WMeta ws), n)"
    by (simp add: object_key_def issued_secret_def)
  show ?thesis
  proof (cases "setOwner E (WMeta ws) (OSecret (issued_secret ws n issued))")
    case (Inl e)
    then show ?thesis using pre by (simp add: runs_wp wp_simps)
  next
    case (Inr x)
    then obtain owners where x: "x = update_meta (\<lambda>m. m\<lparr>OwnerReferences := owners\<rparr>) (OSecret (issued_secret ws n issued))"
      by (auto simp: setOwner_def split: sum.splits)
    have "credential_guard ws n [EvGetSecret (Namespace (WMeta ws), n) (Inl err),
        EvIssueCredential (credential_scope ws n) (Inr issued)] (EvCreate x a)" for a
      using setOwner_kind_key [OF Inr] key x by (auto simp: credential_guard_def)
    then show ?thesis using pre Inr by (simp add: runs_wp wp_simps)
  qed
qed

lemma runs_issue:
  "runs (issueGitCredential issue E ws n) h (\<lambda>_. guarded (credential_guard ws n))"
  unfolding issueGitCredential_def Let_def
proof (rule runs_bindI [where P = "\<lambda>got evs. evs = [EvGetSecret (Namespace (WMeta ws), n) got]"], goal_cases)
  case 1
  show ?case by (simp add: getSecret_def runs_call)
next
  case (2 got evs)
  show ?case
  proof (cases got)
    case (Inr s)
    then show ?thesis using 2 by (simp add: runs_wp wp_simps) (simp add: credential_guard_def)
  next
    case (Inl err)
    have seen: "guarded (credential_guard ws n) evs"
      using 2 Inl by (simp add: credential_guard_def)
    show ?thesis
    proof (cases "IsNotFound err")
      case False
      then show ?thesis using seen Inl by (simp add: runs_fail)
    next
      case True
      have "runs (tryE (call (\<lambda>h. issue h (credential_scope ws n)) (EvIssueCredential (credential_scope ws n))) (\<lambda>issued.
            tryE (lift_result (setOwner E (WMeta ws) (OSecret (issued_secret ws n issued)))) (ensureCreated E)))
          (h @ evs) (\<lambda>_ evs'. guarded (credential_guard ws n) (evs @ evs'))"
      proof (rule runs_tryE [where P = "\<lambda>res es. es = [EvIssueCredential (credential_scope ws n) res]"], goal_cases)
        case 1
        show ?case by (simp add: runs_call)
      next
        case (2 e es)
        then show ?case using seen True \<open>evs = _\<close> Inl by (simp add: credential_guard_def)
      next
        case (3 issued es)
        then show ?case using runs_store [OF True, of E ws n issued "(h @ evs) @ es"] \<open>evs = _\<close> Inl by simp
      qed
      then show ?thesis using True Inl by (simp add: credential_scope_def)
    qed
  qed
qed


end
