(* ===== verification/Admission.thy ===== *)
theory Admission
  imports GitCredential
begin

text \<open>
  Admission before provisioning (\<^verbatim>\<open>admission.go\<close>): the image pre-staging check, the
  namespace quota and the node's disk budget, in the source's order, and the hold they cause.
  Quantities are compared as integers.  Shown: what an admitted workspace is guaranteed, that
  admission creates and deletes nothing, and that the disk check counts each other live workspace of
  the node once.
\<close>

definition conditionResourceWaiting :: string where
  "conditionResourceWaiting = ''ResourceWaiting''"

definition workspaceResourceQuotaName :: string where
  "workspaceResourceQuotaName = ''devplatform-workspace-quota''"

definition imageDigestSuffix :: "string \<Rightarrow> string" where
  "imageDigestSuffix img = (case from_index img ''@sha256:'' of None \<Rightarrow> [] | Some s \<Rightarrow> s)"

definition image_name_matches :: "string \<Rightarrow> string \<Rightarrow> bool" where
  "image_name_matches img n \<longleftrightarrow>
     n = img \<or> imageDigestSuffix img \<noteq> [] \<and> HasSuffix n (imageDigestSuffix img)"

definition imageStagedOnNode :: "Env \<Rightarrow> string \<Rightarrow> string \<Rightarrow> bool result act" where
  "imageStagedOnNode E nodeName img =
     bindI (getNode E nodeName) (\<lambda>got.
       case got of
         Inl e \<Rightarrow> (if IsNotFound e then ok False else fail e)
       | Inr node \<Rightarrow> ok (list_ex (list_ex (image_name_matches img)) (NodeImages node)))"

text \<open>One more Pod, in billionths.\<close>

definition one_pod :: Quantity where
  "one_pod = 1000000000"

definition lookup_quantity :: "(string \<times> Quantity) list \<Rightarrow> string \<Rightarrow> Quantity" where
  "lookup_quantity rl n = (case map_of rl n of None \<Rightarrow> 0 | Some q \<Rightarrow> q)"

definition quota_checks :: "(string \<times> Quantity) list \<Rightarrow> (string \<times> Quantity) list \<Rightarrow> (string \<times> Quantity) list" where
  "quota_checks requests limits =
     [(''pods'', one_pod),
      (''requests.cpu'', lookup_quantity requests ''cpu''),
      (''requests.memory'', lookup_quantity requests ''memory''),
      (''limits.cpu'', lookup_quantity limits ''cpu''),
      (''limits.memory'', lookup_quantity limits ''memory'')]"

definition quota_short :: "ResourceQuota \<Rightarrow> string \<times> Quantity \<Rightarrow> bool" where
  "quota_short rq c = (case Hard rq (fst c) of None \<Rightarrow> False
     | Some hard \<Rightarrow> hard - (case Used rq (fst c) of None \<Rightarrow> 0 | Some u \<Rightarrow> u) < snd c)"

definition resourceQuotaHasRoom :: "Env \<Rightarrow> Workspace \<Rightarrow> WorkspaceTemplate \<Rightarrow> (bool \<times> string) result act" where
  "resourceQuotaHasRoom E ws tmpl =
     bindI (getResourceQuota E (Namespace (WMeta ws), workspaceResourceQuotaName)) (\<lambda>got.
       case got of
         Inl e \<Rightarrow> (if IsNotFound e then ok (True, []) else fail e)
       | Inr rq \<Rightarrow>
           tryE (lift_result (parseResourceList E (Requests (Resources (TmplSpec tmpl))))) (\<lambda>requests.
           tryE (lift_result (parseResourceList E (Limits (Resources (TmplSpec tmpl))))) (\<lambda>limits.
             case List.find (quota_short rq) (quota_checks requests limits) of
               Some c \<Rightarrow> ok (False, ''ResourceQuota '' @ Quote workspaceResourceQuotaName @
                          '' has no remaining '' @ fst c @ '' for a new workspace'')
             | None \<Rightarrow> ok (True, []))))"

definition storageQuantity :: "Env \<Rightarrow> string \<Rightarrow> Quantity result" where
  "storageQuantity E sz0 =
     (let sz = (if sz0 = [] then defaultWorkspaceStorageSize else sz0) in
      case ParseQuantity E sz of
        Inl e \<Rightarrow> Inl (wrap (''devplatform: invalid storage size '' @ Quote sz @ '': '') e)
      | Inr q \<Rightarrow> Inr q)"

definition counts_towards_disk :: "Env \<Rightarrow> Workspace \<Rightarrow> Workspace \<Rightarrow> bool" where
  "counts_towards_disk E ws other \<longleftrightarrow>
     Name (WMeta other) \<noteq> Name (WMeta ws) \<and> DeletionTimestamp (WMeta other) = None \<and>
     Phase (Status other) \<noteq> WorkspacePhaseFailed \<and>
     \<not> IsStatusConditionTrue E (Conditions (Status other)) conditionDuplicateOfExisting"

definition add_disk :: "Env \<Rightarrow> Workspace \<Rightarrow> WorkspaceTemplate \<Rightarrow> Quantity \<Rightarrow> Workspace \<Rightarrow> Quantity result act" where
  "add_disk E ws tmpl sum0 other =
     (if \<not> counts_towards_disk E ws other then ok sum0
      else bindI (getTemplateObj E (Namespace (WMeta other), TemplateRef (Spec other))) (\<lambda>got.
        case got of
          Inl e \<Rightarrow> (if IsNotFound e then ok sum0 else fail e)
        | Inr otherTmpl \<Rightarrow>
            (if NodeName (TmplSpec otherTmpl) \<noteq> NodeName (TmplSpec tmpl) then ok sum0
             else tryE (lift_result (storageQuantity E (Size (Storage (TmplSpec otherTmpl))))) (\<lambda>q.
               ok (sum0 + q)))))"

definition nodeDiskBudgetHasRoom :: "Env \<Rightarrow> Workspace \<Rightarrow> WorkspaceTemplate \<Rightarrow> (bool \<times> string) result act" where
  "nodeDiskBudgetHasRoom E ws tmpl =
     (let budgetText = NodeDiskBudget (Storage (TmplSpec tmpl)) in
      if budgetText = [] then ok (True, [])
      else case ParseQuantity E budgetText of
        Inl e \<Rightarrow> fail (wrap (''devplatform: invalid nodeDiskBudget '' @ Quote budgetText @ '' on template '' @
                        Quote (Name (TmplMeta tmpl)) @ '': '') e)
      | Inr budget \<Rightarrow>
          tryE (lift_result (storageQuantity E (Size (Storage (TmplSpec tmpl))))) (\<lambda>own.
          tryE (listWorkspaces E (Namespace (WMeta ws))) (\<lambda>items.
          tryE (foldE (add_disk E ws tmpl) own items) (\<lambda>total.
            if total > budget
            then ok (False, ''node '' @ Quote (NodeName (TmplSpec tmpl)) @ '' working-directory disk budget '' @
                   QuantityString E budget @ '' would be exceeded (requested total '' @
                   QuantityString E total @ '')'')
            else ok (True, [])))))"

definition admissionBlocked :: "Env \<Rightarrow> Workspace \<Rightarrow> WorkspaceTemplate \<Rightarrow> (string \<times> string) option result act" where
  "admissionBlocked E ws tmpl =
     tryE (imageStagedOnNode E (NodeName (TmplSpec tmpl)) (Image (TmplSpec tmpl))) (\<lambda>staged.
       if \<not> staged
       then ok (Some (''ImageNotStaged'', ''base image '' @ Quote (Image (TmplSpec tmpl)) @
              '' is not yet pre-staged on node '' @ Quote (NodeName (TmplSpec tmpl))))
       else tryE (resourceQuotaHasRoom E ws tmpl) (\<lambda>(quotaOK, quotaMessage).
         if \<not> quotaOK then ok (Some (''QuotaExceeded'', quotaMessage))
         else tryE (nodeDiskBudgetHasRoom E ws tmpl) (\<lambda>(diskOK, diskMessage).
           if \<not> diskOK then ok (Some (''QuotaExceeded'', diskMessage)) else ok None)))"

text \<open>The result is the requeue interval when the workspace is held (\<^verbatim>\<open>*ctrl.Result\<close>), and
  the workspace as changed.\<close>

definition reconcileAdmission :: "WorkspaceReconciler \<Rightarrow> Env \<Rightarrow> Workspace \<Rightarrow> WorkspaceTemplate
    \<Rightarrow> (Workspace \<times> duration option) result act" where
  "reconcileAdmission r E ws tmpl =
     tryE (admissionBlocked E ws tmpl) (\<lambda>blocked.
       case blocked of
         Some (reason, message) \<Rightarrow>
           bindI (setCondition E ws (mkCondition conditionResourceWaiting ConditionTrue reason message)) (\<lambda>ws.
           tryE (updateStatus E ws) (\<lambda>_. ok (ws, Some (pollInterval r))))
       | None \<Rightarrow>
           (case FindStatusCondition E (Conditions (Status ws)) conditionResourceWaiting of
              None \<Rightarrow> ok (ws, None)
            | Some c \<Rightarrow>
                (if cstatus c = ConditionTrue
                 then bindI (setCondition E ws (mkCondition conditionResourceWaiting ConditionFalse
                          ''AdmissionGranted'' ''resource limits are no longer exceeded'')) (\<lambda>ws.
                      tryE (updateStatus E ws) (\<lambda>_. ok (ws, None)))
                 else ok (ws, None))))"

subsection \<open>What admission guarantees\<close>

text \<open>The events of an admission pass: reads, and status updates of the workspace that leave its
  identity, its spec and its phase alone.\<close>

fun admission_event :: "Workspace \<Rightarrow> Event \<Rightarrow> bool" where
  "admission_event ws (EvGetNode _ _) = True"
| "admission_event ws (EvGetResourceQuota _ _) = True"
| "admission_event ws (EvListWorkspaces _ _) = True"
| "admission_event ws (EvGetTemplate _ _) = True"
| "admission_event ws (EvStatusUpdate (OWorkspace w) _) =
     (WMeta w = WMeta ws \<and> Spec w = Spec ws \<and> Phase (Status w) = Phase (Status ws))"
| "admission_event ws _ = False"

definition staged_in :: "WorkspaceTemplate \<Rightarrow> Event list \<Rightarrow> bool" where
  "staged_in tmpl evs \<longleftrightarrow> (\<exists>node. EvGetNode (NodeName (TmplSpec tmpl)) (Inr node) \<in> set evs \<and>
     list_ex (list_ex (image_name_matches (Image (TmplSpec tmpl)))) (NodeImages node))"

definition quota_fits_in :: "Env \<Rightarrow> Workspace \<Rightarrow> WorkspaceTemplate \<Rightarrow> Event list \<Rightarrow> bool" where
  "quota_fits_in E ws tmpl evs \<longleftrightarrow>
     (\<exists>got. EvGetResourceQuota (Namespace (WMeta ws), workspaceResourceQuotaName) got \<in> set evs \<and>
       (case got of Inl e \<Rightarrow> IsNotFound e
        | Inr rq \<Rightarrow> (\<exists>requests limits.
            parseResourceList E (Requests (Resources (TmplSpec tmpl))) = Inr requests \<and>
            parseResourceList E (Limits (Resources (TmplSpec tmpl))) = Inr limits \<and>
            list_all (\<lambda>c. \<not> quota_short rq c) (quota_checks requests limits))))"

lemma runs_imageStaged:
  "runs (imageStagedOnNode E (NodeName (TmplSpec tmpl)) (Image (TmplSpec tmpl))) h (\<lambda>res evs.
     list_all (admission_event ws) evs \<and> (res = Inr True \<longrightarrow> staged_in tmpl evs))"
  unfolding imageStagedOnNode_def
  by (rule runs_bindI [where P = "\<lambda>got evs. evs = [EvGetNode (NodeName (TmplSpec tmpl)) got]"])
     (auto simp: getNode_def staged_in_def intro!: runs_call runs_ok runs_fail split: sum.split)

lemma find_none_iff: "List.find P xs = None \<longleftrightarrow> list_all (\<lambda>x. \<not> P x) xs"
  by (auto simp: find_None_iff list_all_iff)

lemma runs_quota:
  "runs (resourceQuotaHasRoom E ws tmpl) h (\<lambda>res evs.
     list_all (admission_event ws) evs \<and> (\<forall>m. res = Inr (True, m) \<longrightarrow> quota_fits_in E ws tmpl evs))"
  unfolding resourceQuotaHasRoom_def
proof (rule runs_bindI [where P = "\<lambda>got evs.
    evs = [EvGetResourceQuota (Namespace (WMeta ws), workspaceResourceQuotaName) got]"], goal_cases)
  case 1
  show ?case by (simp add: getResourceQuota_def runs_call)
next
  case (2 got evs)
  show ?case
  proof (cases got)
    case (Inl e)
    then show ?thesis using 2 by (auto simp: quota_fits_in_def intro!: runs_ok runs_fail)
  next
    case (Inr rq)
    then show ?thesis
      using 2 by (cases "parseResourceList E (Requests (Resources (TmplSpec tmpl)))";
          cases "parseResourceList E (Limits (Resources (TmplSpec tmpl)))")
        (auto simp: tryE_lift_result quota_fits_in_def find_none_iff intro!: runs_ok runs_fail split: option.split)
  qed
qed

lemma emits_disk: "emits (admission_event ws) (nodeDiskBudgetHasRoom E ws tmpl)"
proof -
  have "emits (admission_event ws) (add_disk E ws tmpl t w)" for t w
    unfolding add_disk_def by (intro emits_rules) simp
  then show ?thesis
    unfolding nodeDiskBudgetHasRoom_def Let_def by (intro emits_rules) simp_all
qed

lemma staged_in_append: "staged_in tmpl xs \<Longrightarrow> staged_in tmpl (xs @ ys)"
  by (auto simp: staged_in_def)

lemma quota_fits_in_append: "quota_fits_in E ws tmpl xs \<Longrightarrow> quota_fits_in E ws tmpl (zs @ xs @ ys)"
  unfolding quota_fits_in_def set_append Un_iff by blast

lemma runs_admissionBlocked:
  "runs (admissionBlocked E ws tmpl) h (\<lambda>res evs. list_all (admission_event ws) evs \<and>
     (res = Inr None \<longrightarrow> staged_in tmpl evs \<and> quota_fits_in E ws tmpl evs))"
  unfolding admissionBlocked_def
proof (rule runs_tryE [OF runs_imageStaged [where ws = ws]], goal_cases)
  case (2 staged evs)
  note staged = 2
  show ?case
  proof (cases staged)
    case True
    have "runs (tryE (resourceQuotaHasRoom E ws tmpl) (\<lambda>(quotaOK, quotaMessage).
         if \<not> quotaOK then ok (Some (''QuotaExceeded'', quotaMessage))
         else tryE (nodeDiskBudgetHasRoom E ws tmpl) (\<lambda>(diskOK, diskMessage).
           if \<not> diskOK then ok (Some (''QuotaExceeded'', diskMessage)) else ok None))) (h @ evs)
       (\<lambda>res evs'. list_all (admission_event ws) (evs @ evs') \<and>
         (res = Inr None \<longrightarrow> staged_in tmpl (evs @ evs') \<and> quota_fits_in E ws tmpl (evs @ evs')))"
    proof (rule runs_tryE [OF runs_quota], goal_cases)
      case (1 e es)
      then show ?case using staged by simp
    next
      case (2 x es)
      obtain b m where x: "x = (b, m)" by (cases x)
      show ?case
      proof (cases b)
        case False
        then show ?thesis using staged 2 x by (auto intro!: runs_ok)
      next
        case b: True
        have "quota_fits_in E ws tmpl (evs @ es @ ds)" for ds
          using 2 x b by (auto intro: quota_fits_in_append)
        moreover have "staged_in tmpl (evs @ es @ ds)" for ds
          using staged True by (auto intro: staged_in_append)
        ultimately show ?thesis
          using staged 2 b unfolding x
          by simp (rule runs_emits_try [OF emits_disk], auto intro!: runs_ok)
      qed
    qed
    then show ?thesis using True by simp
  next
    case False
    then show ?thesis using staged by (auto intro!: runs_ok)
  qed
qed simp

lemma runs_settle:
  "runs (bindI (setCondition E ws c) (\<lambda>ws. tryE (updateStatus E ws) (\<lambda>_. ok (ws, d)))) h (\<lambda>res evs.
     list_all (admission_event ws) evs \<and> (\<forall>x. res = Inr x \<longrightarrow> snd x = d))"
  by (rule runs_bindI [OF runs_setCondition])
     (auto simp: runs_wp wp_simps as_result_def split: option.split)

text \<open>C23. Admission only reads and reports: a pass creates, changes and deletes nothing but the
  workspace's own status, where phase, spec and metadata stay as they are.  When it lets the workspace
  through, it has read in the same pass that the node holds the template's image and that the
  namespace quota, if there is one, has room for the Pod in every resource it governs.\<close>
theorem admission_reads_then_admits:
  "\<exists>evs. snd (reconcileAdmission r E ws tmpl h) = h @ evs \<and> list_all (admission_event ws) evs \<and>
     (case fst (reconcileAdmission r E ws tmpl h) of
        Inr (_, None) \<Rightarrow> staged_in tmpl evs \<and> quota_fits_in E ws tmpl evs | _ \<Rightarrow> True)"
proof -
  have "runs (reconcileAdmission r E ws tmpl) h (\<lambda>res evs. list_all (admission_event ws) evs \<and>
     (case res of Inr (_, None) \<Rightarrow> staged_in tmpl evs \<and> quota_fits_in E ws tmpl evs | _ \<Rightarrow> True))"
    unfolding reconcileAdmission_def
  proof (rule runs_tryE [OF runs_admissionBlocked], goal_cases)
    case (2 blocked evs)
    have app: "staged_in tmpl evs \<Longrightarrow> staged_in tmpl (evs @ es)"
       "quota_fits_in E ws tmpl evs \<Longrightarrow> quota_fits_in E ws tmpl (evs @ es)" for es
      using quota_fits_in_append [of E ws tmpl evs "[]" es] by (simp_all add: staged_in_append)
    show ?case
    proof (cases blocked)
      case (Some b)
      obtain reason message where b: "b = (reason, message)" by (cases b)
      show ?thesis
        using 2 unfolding Some b option.case prod.case
        by (intro runs_mono [OF runs_settle]) (auto split: sum.split option.split)
    next
      case None
      have "runs (ok (ws, None)) (h @ evs) (\<lambda>y es. list_all (admission_event ws) (evs @ es) \<and>
          (case y of Inr (_, None) \<Rightarrow> staged_in tmpl (evs @ es) \<and> quota_fits_in E ws tmpl (evs @ es) | _ \<Rightarrow> True))"
        using 2 None by (intro runs_ok) simp
      moreover have "runs (bindI (setCondition E ws c) (\<lambda>ws. tryE (updateStatus E ws) (\<lambda>_. ok (ws, None)))) (h @ evs)
          (\<lambda>y es. list_all (admission_event ws) (evs @ es) \<and>
          (case y of Inr (_, None) \<Rightarrow> staged_in tmpl (evs @ es) \<and> quota_fits_in E ws tmpl (evs @ es) | _ \<Rightarrow> True))" for c
        using 2 None app by (intro runs_mono [OF runs_settle]) (auto split: sum.split option.split)
      ultimately show ?thesis unfolding None by (auto split: option.split)
    qed
  qed simp
  then show ?thesis by (simp add: runs_def)
qed

subsection \<open>The disk budget\<close>

text \<open>What another workspace adds to the node's declared total.\<close>

definition declared_disk :: "Env \<Rightarrow> (key \<Rightarrow> WorkspaceTemplate result) \<Rightarrow> Workspace \<Rightarrow> WorkspaceTemplate \<Rightarrow> Workspace \<Rightarrow> Quantity" where
  "declared_disk E templates ws tmpl other =
     (case templates (Namespace (WMeta other), TemplateRef (Spec other)) of
        Inr t \<Rightarrow> (if NodeName (TmplSpec t) = NodeName (TmplSpec tmpl)
                 then (case storageQuantity E (Size (Storage (TmplSpec t))) of Inr q \<Rightarrow> q | Inl _ \<Rightarrow> 0) else 0)
      | Inl _ \<Rightarrow> 0)"

definition disk_readable :: "Env \<Rightarrow> (key \<Rightarrow> WorkspaceTemplate result) \<Rightarrow> Workspace \<Rightarrow> bool" where
  "disk_readable E templates other =
     (case templates (Namespace (WMeta other), TemplateRef (Spec other)) of
        Inl e \<Rightarrow> IsNotFound e
      | Inr t \<Rightarrow> \<not> isl (storageQuantity E (Size (Storage (TmplSpec t)))))"

lemma add_disk_adds:
  assumes "\<And>h k. api_GetTemplate E h k = templates k" and "disk_readable E templates other"
  shows "fst (add_disk E ws tmpl total0 other h) =
    Inr (total0 + (if counts_towards_disk E ws other then declared_disk E templates ws tmpl other else 0))"
  using assms(2) unfolding add_disk_def disk_readable_def declared_disk_def
  by (auto simp: bindI_def getTemplateObj_def call_def ok_def ret_def fail_def tryE_def lift_result_def assms(1)
      split: sum.splits)

lemma fold_disk_sums:
  assumes "\<And>h k. api_GetTemplate E h k = templates k" and "list_all (disk_readable E templates) items"
  shows "fst (foldE (add_disk E ws tmpl) total0 items h) =
    Inr (total0 + sum_list (map (declared_disk E templates ws tmpl) (filter (counts_towards_disk E ws) items)))"
  using assms(2)
proof (induction items arbitrary: total0 h)
  case Nil
  then show ?case by (simp add: ok_def ret_def)
next
  case (Cons other items)
  obtain h' where "add_disk E ws tmpl total0 other h =
      (Inr (total0 + (if counts_towards_disk E ws other then declared_disk E templates ws tmpl other else 0)), h')"
    using add_disk_adds [OF assms(1), of other ws tmpl total0 h] Cons.prems by (auto simp: prod_eq_iff)
  then show ?case using Cons by (simp add: tryE_def bindI_def add.assoc)
qed

text \<open>C24. The disk gate is exact accounting: with readable templates, \<^verbatim>\<open>nodeDiskBudgetHasRoom\<close> answers
  yes precisely when the workspace's own storage plus the storage declared by every other workspace
  that is not being deleted, not Failed, not a duplicate and placed on the same node does not exceed
  the budget; each such workspace is counted once, and a workspace whose template is gone is not.\<close>
theorem disk_gate_is_the_declared_total:
  assumes "NodeDiskBudget (Storage (TmplSpec tmpl)) \<noteq> []"
    and "ParseQuantity E (NodeDiskBudget (Storage (TmplSpec tmpl))) = Inr budget"
    and "storageQuantity E (Size (Storage (TmplSpec tmpl))) = Inr own"
    and "api_ListWorkspaces E h (Namespace (WMeta ws)) = Inr items"
    and "\<And>h k. api_GetTemplate E h k = templates k"
    and "list_all (disk_readable E templates) items"
  shows "\<exists>message. fst (nodeDiskBudgetHasRoom E ws tmpl h) =
    Inr (own + sum_list (map (declared_disk E templates ws tmpl) (filter (counts_towards_disk E ws) items)) \<le> budget,
         message)"
proof -
  let ?total = "own + sum_list (map (declared_disk E templates ws tmpl) (filter (counts_towards_disk E ws) items))"
  let ?h = "h @ [EvListWorkspaces (Namespace (WMeta ws)) (Inr items)]"
  obtain h' where "foldE (add_disk E ws tmpl) own items ?h = (Inr ?total, h')"
    using fold_disk_sums [OF assms(5,6), of ws tmpl own ?h] by (auto simp: prod_eq_iff)
  then show ?thesis
    using assms(1-4)
    by (auto simp: nodeDiskBudgetHasRoom_def Let_def tryE_def bindI_def lift_result_def listWorkspaces_def call_def
        ok_def ret_def)
qed

definition disk_env :: Env where
  "disk_env = env0\<lparr>ParseQuantity := (\<lambda>s. Inr (if s = ''100Gi'' then 100 else 20)),
     api_ListWorkspaces := (\<lambda>h ns. Inr [ws0 ''a'' ''b'' 0, ws0 ''c'' ''d'' 1]),
     api_GetTemplate := (\<lambda>h k. Inr tmpl0)\<rparr>"

definition disk_tmpl :: WorkspaceTemplate where
  "disk_tmpl = tmpl0\<lparr>TmplSpec := (TmplSpec tmpl0)\<lparr>Storage := (Storage (TmplSpec tmpl0))\<lparr>NodeDiskBudget := ''100Gi''\<rparr>\<rparr>\<rparr>"

theorem disk_gate_is_the_declared_total_witness:
  "\<exists>message. fst (nodeDiskBudgetHasRoom disk_env (ws0 ''w'' ''x'' 2) disk_tmpl []) =
    Inr (20 + sum_list (map (declared_disk disk_env (\<lambda>k. Inr tmpl0) (ws0 ''w'' ''x'' 2) disk_tmpl)
       (filter (counts_towards_disk disk_env (ws0 ''w'' ''x'' 2)) [ws0 ''a'' ''b'' 0, ws0 ''c'' ''d'' 1])) \<le> 100, message)"
  by (rule disk_gate_is_the_declared_total)
     (simp_all add: disk_env_def disk_tmpl_def tmpl0_def env0_def storageQuantity_def disk_readable_def
       defaultWorkspaceStorageSize_def)

text \<open>A template that names no node admits nothing: placement is meant to be unconstrained then, but
  the image check reads the node with the empty name, which no cluster has, so no workspace of such a
  template ever passes admission.\<close>
theorem empty_node_name_is_never_admitted:
  assumes "NodeName (TmplSpec tmpl) = []" and "\<And>h. isl (api_GetNode E h [])"
  shows "case fst (reconcileAdmission r E ws tmpl h) of Inr (_, None) \<Rightarrow> False | _ \<Rightarrow> True"
proof -
  obtain e where e: "api_GetNode E h [] = Inl e" using assms(2) [of h] by (auto simp: isl_def)
  have "fst (admissionBlocked E ws tmpl h) \<noteq> Inr None"
    using assms(1) e
    by (simp add: admissionBlocked_def imageStagedOnNode_def tryE_def bindI_def getNode_def call_def ok_def fail_def ret_def)
  then obtain b h' where "admissionBlocked E ws tmpl h = (b, h')" and "b \<noteq> Inr None"
    by (metis prod.collapse)
  then show ?thesis
    by (cases b) (auto simp: reconcileAdmission_def tryE_def bindI_def fail_def ok_def ret_def setCondition_def peek_def
        split: sum.splits prod.splits)
qed

theorem empty_node_name_is_never_admitted_witness:
  "case fst (reconcileAdmission reconciler0 env0 (ws0 ''w'' ''x'' 2)
       (tmpl0\<lparr>TmplSpec := (TmplSpec tmpl0)\<lparr>NodeName := []\<rparr>\<rparr>) []) of Inr (_, None) \<Rightarrow> False | _ \<Rightarrow> True"
  by (rule empty_node_name_is_never_admitted) (simp_all add: env0_def tmpl0_def)

end
