(* ===== verification/Evacuation.thy ===== *)
theory Evacuation
  imports Admission
begin

text \<open>
  The evacuation gate (\<^verbatim>\<open>evacuation.go\<close>): asking the workspace Pod for a snapshot before
  compute stops, and the destroy finalizer.  Shown: the gate opens only after a snapshot was taken
  and recorded or when no compute runs.
\<close>

definition evacuationFinalizer :: string where
  "evacuationFinalizer = ''workspace.tom1022.github.io/evacuation''"

definition evacuationPollInterval :: duration where
  "evacuationPollInterval = 10 * Second"

definition conditionEvacuated :: string where
  "conditionEvacuated = ''Evacuated''"

definition EventEvacuationFailed :: string where
  "EventEvacuationFailed = ''EvacuationFailed''"

definition evacuationComplete :: "WorkspaceReconciler \<Rightarrow> Workspace \<Rightarrow> bool result act" where
  "evacuationComplete r ws =
     (case EvacuationConfirmer r of
        None \<Rightarrow> fail (Err ''devplatform: no EvacuationConfirmer configured'')
      | Some confirm \<Rightarrow> call (\<lambda>h. confirm h ws) (EvConfirmEvacuation (ws_key ws)))"

definition removeEvacuationFinalizer :: "Env \<Rightarrow> Workspace \<Rightarrow> unit result act" where
  "removeEvacuationFinalizer E ws =
     (case RemoveFinalizer E (Finalizers (WMeta ws)) evacuationFinalizer of (fs, removed) \<Rightarrow>
        if \<not> removed then ok ()
        else check (updateObj E (OWorkspace (ws\<lparr>WMeta := (WMeta ws)\<lparr>Finalizers := fs\<rparr>\<rparr>))))"

definition computeRunning :: "Env \<Rightarrow> string \<Rightarrow> string \<Rightarrow> bool result act" where
  "computeRunning E ns resourceName =
     bindI (getStatefulSet E (ns, resourceName)) (\<lambda>got.
       case got of
         Inl e \<Rightarrow> (if IsNotFound e then ok False else fail e)
       | Inr sts \<Rightarrow> ok (ReadyReplicas sts \<ge> 1))"

text \<open>The workspace as changed, and whether compute may be stopped.\<close>

definition evacuateBeforeStop :: "WorkspaceReconciler \<Rightarrow> Env \<Rightarrow> Workspace \<Rightarrow> string
    \<Rightarrow> (Workspace \<times> bool) result act" where
  "evacuateBeforeStop r E ws resourceName =
     (if resourceName = [] then ok (ws, True)
      else tryE (computeRunning E (Namespace (WMeta ws)) resourceName) (\<lambda>running.
        if \<not> running then ok (ws, True)
        else case EvacuationRequester r of
          None \<Rightarrow> fail (Err ''devplatform: no EvacuationRequester configured'')
        | Some request \<Rightarrow>
            bindI (call (\<lambda>h. request h ws) (EvRequestEvacuation (ws_key ws))) (\<lambda>got.
              case got of
                Inl e \<Rightarrow>
                  bindI (setCondition E ws (mkCondition conditionEvacuated ConditionFalse
                           ''EvacuationFailed'' (Error e))) (\<lambda>ws.
                  bindI (notify r ws EventEvacuationFailed (Error e)) (\<lambda>_.
                  tryE (updateStatus E ws) (\<lambda>_. ok (ws, False))))
              | Inr snapshot \<Rightarrow>
                  bindI (setCondition E (ws\<lparr>Status := (Status ws)\<lparr>LastEvacuation := Some snapshot\<rparr>\<rparr>)
                           (mkCondition conditionEvacuated ConditionTrue ''SnapshotCaptured''
                              (''working directory captured to '' @ BundleKey snapshot))) (\<lambda>ws.
                  tryE (updateStatus E ws) (\<lambda>_. ok (ws, True))))))"

end
