(* ===== verification/Lifecycle.thy ===== *)
theory Lifecycle
  imports Evacuation
begin

text \<open>
  Suspend, resume and destroy (\<^verbatim>\<open>lifecycle.go\<close>, with \<^verbatim>\<open>connected\<close> of
  \<^verbatim>\<open>connections.go\<close>).  A handler returns the requeue interval (0 for none) or the error the
  reconcile ends with.  Shown: compute is stopped and the volume deleted only behind the evacuation
  gate, who is kept awake by a connection, that resume is judged from the current StatefulSet, and
  that an unavailable node is reported once.
\<close>

subsection \<open>Constants\<close>

definition defaultIdleSuspendTimeout :: duration where
  "defaultIdleSuspendTimeout = 30 * Minute"

definition defaultSuspendedRetentionPeriod :: duration where
  "defaultSuspendedRetentionPeriod = 7 * 24 * Hour"

definition idleCheckInterval :: duration where
  "idleCheckInterval = Minute"

definition conditionSuspended :: string where
  "conditionSuspended = ''Suspended''"

definition conditionResumeRequested :: string where
  "conditionResumeRequested = ''ResumeRequested''"

definition conditionDestroyCandidate :: string where
  "conditionDestroyCandidate = ''DestroyCandidate''"

definition conditionNodeAvailable :: string where
  "conditionNodeAvailable = ''NodeAvailable''"

definition EventNodeUnavailable :: string where
  "EventNodeUnavailable = ''NodeUnavailable''"

subsection \<open>Activity\<close>

definition set_phase :: "WorkspacePhase \<Rightarrow> Workspace \<Rightarrow> Workspace" where
  "set_phase p ws = ws\<lparr>Status := (Status ws)\<lparr>Phase := p\<rparr>\<rparr>"

definition set_activity :: "time \<Rightarrow> Workspace \<Rightarrow> Workspace" where
  "set_activity t ws = ws\<lparr>Status := (Status ws)\<lparr>LastActivityAt := Some t\<rparr>\<rparr>"

definition drop_condition :: "Env \<Rightarrow> string \<Rightarrow> Workspace \<Rightarrow> Workspace" where
  "drop_condition E t ws =
     ws\<lparr>Status := (Status ws)\<lparr>Conditions := RemoveStatusCondition E (Conditions (Status ws)) t\<rparr>\<rparr>"

definition MarkActivity :: "Env \<Rightarrow> Workspace \<Rightarrow> unit result act" where
  "MarkActivity E ws =
     bindI (readClock E) (\<lambda>now.
       let ws = set_activity now ws in
       bindI (if Phase (Status ws) = WorkspacePhaseSuspended
              then setCondition E ws (mkCondition conditionResumeRequested ConditionTrue ''ActivityDetected''
                     ''a connection or task request was received while suspended'')
              else ret ws) (updateStatus E))"

definition connected :: "WorkspaceReconciler \<Rightarrow> Workspace \<Rightarrow> bool act" where
  "connected r ws =
     (if browserConnections ws > 0 then ret True
      else case SSHSessionCounter r of
        None \<Rightarrow> ret False
      | Some sessions \<Rightarrow> bindI (call (\<lambda>h. sessions h ws) (EvSSHSessionCount (ws_key ws))) (\<lambda>got.
          case got of Inl _ \<Rightarrow> ret False | Inr n \<Rightarrow> ret (n > 0)))"

subsection \<open>The node\<close>

definition nodeAvailable :: "Env \<Rightarrow> string \<Rightarrow> bool result act" where
  "nodeAvailable E nodeName =
     bindI (getNode E nodeName) (\<lambda>got.
       case got of
         Inl e \<Rightarrow> (if IsNotFound e then ok False else fail e)
       | Inr node \<Rightarrow>
           (case map_of (NodeConditions node) ''Ready'' of
              None \<Rightarrow> ok False | Some st \<Rightarrow> ok (st = ConditionTrue)))"

definition evacuationStatusDetail :: "Env \<Rightarrow> Workspace \<Rightarrow> string" where
  "evacuationStatusDetail E ws =
     (case LastEvacuation (Status ws) of
        None \<Rightarrow> ''There is no evacuation snapshot for it, so uncommitted work on that node may be lost.''
      | Some snap \<Rightarrow>
          ''Its working directory was evacuated at '' @
          (case CapturedAt snap of None \<Rightarrow> ''an unrecorded time'' | Some t \<Rightarrow> FormatRFC3339 E t) @
          '' to '' @ BundleKey snap @ '' and can be reconstructed elsewhere.'')"

definition checkNodeAvailable :: "WorkspaceReconciler \<Rightarrow> Env \<Rightarrow> Workspace \<Rightarrow> Workspace result act" where
  "checkNodeAvailable r E ws =
     bindI (getTemplate E ws) (\<lambda>got.
       case got of
         Inl e \<Rightarrow> (if IsNotFound e then ok ws else fail e)
       | Inr tmpl \<Rightarrow>
         tryE (nodeAvailable E (NodeName (TmplSpec tmpl))) (\<lambda>available.
           if available then
             (if FindStatusCondition E (Conditions (Status ws)) conditionNodeAvailable = None then ok ws
              else bindI (setCondition E ws (mkCondition conditionNodeAvailable ConditionTrue ''NodeReady''
                       (''node '' @ Quote (NodeName (TmplSpec tmpl)) @ '' is ready''))) (\<lambda>ws.
                   tryE (updateStatus E ws) (\<lambda>_. ok ws)))
           else if IsStatusConditionFalse E (Conditions (Status ws)) conditionNodeAvailable then ok ws
           else let detail = ''node '' @ Quote (NodeName (TmplSpec tmpl)) @
                  '' is unavailable; this workspace cannot be resumed because its working directory is pinned to that node. '' @
                  evacuationStatusDetail E ws in
             bindI (setCondition E ws (mkCondition conditionNodeAvailable ConditionFalse
                      ''NodeUnavailable'' detail)) (\<lambda>ws.
             tryE (updateStatus E ws) (\<lambda>_.
             bindI (notify r ws EventNodeUnavailable detail) (\<lambda>_. ok ws)))))"

subsection \<open>Compute\<close>

definition scaleStatefulSet :: "Env \<Rightarrow> string \<Rightarrow> string \<Rightarrow> int \<Rightarrow> unit result act" where
  "scaleStatefulSet E ns name replicas =
     bindI (getStatefulSet E (ns, name)) (\<lambda>got.
       case got of
         Inl e \<Rightarrow> (if IsNotFound e then ok () else fail e)
       | Inr sts \<Rightarrow> (if Replicas sts = Some replicas then ok ()
                     else check (updateObj E (OStatefulSet (sts\<lparr>Replicas := Some replicas\<rparr>)))))"

subsection \<open>Ready\<close>

definition suspend :: "WorkspaceReconciler \<Rightarrow> Env \<Rightarrow> Workspace \<Rightarrow> bool \<Rightarrow> duration result act" where
  "suspend r E ws requested =
     bindI (readClock E) (\<lambda>now.
     bindI (setCondition E (set_phase WorkspacePhaseSuspended ws)
              ((mkCondition conditionSuspended ConditionTrue
                  (if requested then ''SuspendRequested'' else ''IdleTimeout'')
                  ''execution environment stopped; working directory retained (13.2)'')
               \<lparr>clastTransitionTime := Some now\<rparr>)) (\<lambda>ws.
     tryE (updateStatus E ws) (\<lambda>_. ok 0)))"

definition refresh_ready :: "WorkspaceReconciler \<Rightarrow> Env \<Rightarrow> Workspace \<Rightarrow> Workspace result act" where
  "refresh_ready r E ws =
     tryE (checkNodeAvailable r E ws) (\<lambda>ws.
     bindI (syncBlackboard r E ws) (\<lambda>(ws, changed).
     tryE (if changed then updateStatus E ws else ok ()) (\<lambda>_.
     tryE (if WorkspaceId (Status ws) \<noteq> [] then reconcileClaudeMD E ws (WorkspaceId (Status ws)) else ok ()) (\<lambda>_.
       reconcileFileConflicts r E ws))))"

definition is_idle :: "time \<Rightarrow> Workspace \<Rightarrow> bool" where
  "is_idle now ws = (case LastActivityAt (Status ws) of None \<Rightarrow> False
     | Some t \<Rightarrow> now - t \<ge> defaultIdleSuspendTimeout)"

definition reconcileReady :: "WorkspaceReconciler \<Rightarrow> Env \<Rightarrow> Workspace \<Rightarrow> duration result act" where
  "reconcileReady r E ws =
     tryE (refresh_ready r E ws) (\<lambda>ws.
     bindI (readClock E) (\<lambda>now.
     let idle = is_idle now ws;
         requested = (Desired (Spec ws) = DesiredPhaseSuspended) in
     bindI (if requested then ret False else connected r ws) (\<lambda>held.
     if held then
       bindI (readClock E) (\<lambda>now.
       tryE (updateStatus E (set_activity now ws)) (\<lambda>_. ok idleCheckInterval))
     else if \<not> idle \<and> \<not> requested then ok idleCheckInterval
     else let resourceName = WorkspaceId (Status ws) in
       if resourceName \<noteq> [] then
         tryE (evacuateBeforeStop r E ws resourceName) (\<lambda>(ws, evacuated).
           if \<not> evacuated then ok idleCheckInterval
           else tryE (scaleStatefulSet E (Namespace (WMeta ws)) resourceName 0) (\<lambda>_.
             suspend r E ws requested))
       else suspend r E ws requested)))"

subsection \<open>Suspended\<close>

definition reconcileResume :: "Env \<Rightarrow> Workspace \<Rightarrow> duration result act" where
  "reconcileResume E ws =
     (let resourceName = WorkspaceId (Status ws) in
      if resourceName = [] then ok 0
      else tryE (scaleStatefulSet E (Namespace (WMeta ws)) resourceName 1) (\<lambda>_.
           tryE (getStatefulSet E (Namespace (WMeta ws), resourceName)) (\<lambda>sts.
           if ReadyReplicas sts < 1 then ok idleCheckInterval
           else bindI (readClock E) (\<lambda>now.
             let ws = set_activity now (set_phase WorkspacePhaseReady ws);
                 ws = ws\<lparr>Status := (Status ws)\<lparr>SessionId := resourceName @ ''-session''\<rparr>\<rparr> in
             bindI (readClock E) (\<lambda>now.
             bindI (setCondition E ws ((mkCondition conditionSuspended ConditionFalse ''Resumed''
                      ''workspace resumed from suspension'')\<lparr>clastTransitionTime := Some now\<rparr>)) (\<lambda>ws.
             let ws = drop_condition E conditionDestroyCandidate (drop_condition E conditionResumeRequested ws) in
             tryE (updateStatus E ws) (\<lambda>_. ok 0)))))))"

text \<open>\<open>zero_time\<close> is the instant of a condition whose transition time was never set.\<close>

definition zero_time :: time where
  "zero_time = - 62135596800 * Second"

definition reconcileSuspended :: "WorkspaceReconciler \<Rightarrow> Env \<Rightarrow> Workspace \<Rightarrow> duration result act" where
  "reconcileSuspended r E ws =
     (if IsStatusConditionTrue E (Conditions (Status ws)) conditionResumeRequested
      then reconcileResume E ws
      else tryE (checkNodeAvailable r E ws) (\<lambda>ws.
        tryE (case FindStatusCondition E (Conditions (Status ws)) conditionSuspended of
                None \<Rightarrow> ok ()
              | Some c \<Rightarrow>
                (if cstatus c \<noteq> ConditionTrue then ok ()
                 else bindI (readClock E) (\<lambda>now.
                   if \<not> IsStatusConditionTrue E (Conditions (Status ws)) conditionDestroyCandidate \<and>
                      now - (case clastTransitionTime c of None \<Rightarrow> zero_time | Some t \<Rightarrow> t)
                        \<ge> defaultSuspendedRetentionPeriod
                   then bindI (setCondition E ws (mkCondition conditionDestroyCandidate ConditionTrue
                                 ''RetentionPeriodExceeded''
                                 ''suspended for longer than the 168h0m0s retention period; candidate for destruction (13.8)''))
                          (updateStatus E)
                   else ok ()))) (\<lambda>_.
          ok idleCheckInterval)))"

subsection \<open>Terminating\<close>

definition databaseTarget :: "Workspace \<Rightarrow> string \<Rightarrow> string \<Rightarrow> DatabaseTarget" where
  "databaseTarget ws resourceName clusterRef =
     \<lparr>dt_WorkspaceName = Name (WMeta ws), dt_WorkspaceUID = UID (WMeta ws),
      dt_Namespace = Namespace (WMeta ws), dt_Name = resourceName, dt_ClusterRef = clusterRef,
      dt_Labels = workspaceLabels ws\<rparr>"

definition reconcileTerminating :: "WorkspaceReconciler \<Rightarrow> Env \<Rightarrow> Workspace \<Rightarrow> duration result act" where
  "reconcileTerminating r E ws =
     bindI (deactivateBlackboard E ws) (\<lambda>(ws, changed).
     tryE (if changed then updateStatus E ws else ok ()) (\<lambda>_.
     let resourceName = WorkspaceId (Status ws) in
     if resourceName = [] \<or> IsStatusConditionTrue E (Conditions (Status ws)) conditionDuplicateOfExisting
     then tryE (removeEvacuationFinalizer E ws) (\<lambda>_. ok 0)
     else
       bindI (ret (if Phase (Status ws) \<noteq> WorkspacePhaseTerminating
                   then (set_phase WorkspacePhaseTerminating ws, True) else (ws, False))) (\<lambda>(ws, moved).
       tryE (if moved then updateStatus E ws else ok ()) (\<lambda>_.
       tryE (evacuateBeforeStop r E ws resourceName) (\<lambda>(ws, evacuated).
       if \<not> evacuated then ok evacuationPollInterval
       else tryE (deleteIgnoringNotFound E KStatefulSet (Namespace (WMeta ws), resourceName)) (\<lambda>_.
            tryE (database_Release (Database r) E (databaseTarget ws resourceName [])) (\<lambda>_.
            tryE (evacuationComplete r ws) (\<lambda>complete.
            if \<not> complete then ok evacuationPollInterval
            else tryE (deleteIgnoringNotFound E KPVC (Namespace (WMeta ws), resourceName)) (\<lambda>_.
                 tryE (removeEvacuationFinalizer E ws) (\<lambda>_. ok 0)))))))))) "


subsection \<open>What the handlers leave alone\<close>

text \<open>Handlers carry the workspace along as a value; its metadata, specification and resource name
  stay the same.\<close>

definition same_ws :: "Workspace \<Rightarrow> Workspace \<Rightarrow> bool" where
  "same_ws ws ws' \<longleftrightarrow> WMeta ws' = WMeta ws \<and> Spec ws' = Spec ws \<and>
     WorkspaceId (Status ws') = WorkspaceId (Status ws)"

lemma same_ws_refl [simp]: "same_ws ws ws"
  by (simp add: same_ws_def)

lemma same_ws_trans: "same_ws a b \<Longrightarrow> same_ws b c \<Longrightarrow> same_ws a c"
  by (simp add: same_ws_def)

text \<open>A calm event neither deletes anything nor updates a StatefulSet or a Workspace object.\<close>

fun calm :: "Event \<Rightarrow> bool" where
  "calm (EvDelete _ _ _) = False"
| "calm (EvUpdate (OStatefulSet _) _) = False"
| "calm (EvUpdate (OWorkspace _) _) = False"
| "calm _ = True"

definition calmly :: "Workspace \<Rightarrow> Workspace result \<Rightarrow> Event list \<Rightarrow> bool" where
  "calmly ws res evs \<longleftrightarrow> list_all calm evs \<and>
     (case res of Inl _ \<Rightarrow> True | Inr ws' \<Rightarrow> same_ws ws ws')"

lemma runs_checkNodeAvailable: "runs (checkNodeAvailable r E ws) h (calmly ws)"
  unfolding runs_wp checkNodeAvailable_def nodeAvailable_def getTemplate_def
  by (auto simp: wp_simps calmly_def same_ws_def Let_def as_result_def split: sum.splits option.splits)

lemma runs_reconcileFileConflicts: "runs (reconcileFileConflicts r E ws) h (calmly ws)"
  unfolding runs_wp reconcileFileConflicts_def
  by (auto simp: wp_simps calmly_def same_ws_def Let_def as_result_def split: sum.splits option.splits)

lemma runs_syncBlackboard:
  "runs (syncBlackboard r E ws) h (\<lambda>x evs. list_all calm evs \<and> same_ws ws (fst x))"
  unfolding runs_wp syncBlackboard_def readChangedFiles_def
  by (auto simp: wp_simps same_ws_def Let_def split: sum.splits option.splits)

lemma emits_reconcileClaudeMD: "emits calm (reconcileClaudeMD E ws n)"
  unfolding reconcileClaudeMD_def by (intro emits_rules emits_owned) auto

lemma emits_updateStatus: "emits calm (updateStatus E ws)"
  by (intro emits_rules) auto


subsection \<open>The evacuation gate\<close>

definition not_running :: "StatefulSet result \<Rightarrow> bool" where
  "not_running res = (case res of Inl e \<Rightarrow> IsNotFound e | Inr sts \<Rightarrow> ReadyReplicas sts < 1)"

text \<open>The gate is open after a run of events in which the workspace's compute was read as not
  running, or a snapshot was captured and then recorded in the status.\<close>

definition gate_open :: "Workspace \<Rightarrow> Event list \<Rightarrow> bool" where
  "gate_open ws evs \<longleftrightarrow>
     (\<exists>res. EvGetStatefulSet (Namespace (WMeta ws), WorkspaceId (Status ws)) res \<in> set evs \<and> not_running res) \<or>
     (\<exists>snap w. EvRequestEvacuation (ws_key ws) (Inr snap) \<in> set evs \<and>
        EvStatusUpdate (OWorkspace w) None \<in> set evs \<and> LastEvacuation (Status w) = Some snap)"

lemma gate_open_append: "gate_open ws evs \<Longrightarrow> gate_open ws (evs @ evs')"
  by (auto simp: gate_open_def)

lemma gate_open_prepend: "gate_open ws evs \<Longrightarrow> gate_open ws (evs' @ evs)"
  by (auto simp: gate_open_def)

lemma gate_open_same_ws: "same_ws ws ws' \<Longrightarrow> gate_open ws' evs = gate_open ws evs"
  by (simp add: gate_open_def same_ws_def ws_key_def)

text \<open>Stopping compute: scaling a StatefulSet to zero or deleting it.\<close>

fun stops_compute :: "Event \<Rightarrow> bool" where
  "stops_compute (EvUpdate (OStatefulSet s) _) = (Replicas s = Some 0)"
| "stops_compute (EvDelete KStatefulSet _ _) = True"
| "stops_compute _ = False"

definition stop_guard :: "Workspace \<Rightarrow> Event list \<Rightarrow> Event \<Rightarrow> bool" where
  "stop_guard ws before e \<longleftrightarrow> (if stops_compute e then gate_open ws before else True)"

lemma calm_no_stop: "calm e \<Longrightarrow> \<not> stops_compute e"
  by (cases e rule: calm.cases) auto

lemma guarded_calm: "list_all calm evs \<Longrightarrow> guarded (\<lambda>p. stop_guard ws (xs @ p)) evs"
  by (rule guarded_free) (auto simp: list_all_iff stop_guard_def dest: calm_no_stop)

lemma guarded_open: "gate_open ws xs \<Longrightarrow> guarded (\<lambda>p. stop_guard ws (xs @ p)) evs"
  by (simp add: guarded_iff stop_guard_def gate_open_append)

lemma runs_evacuateBeforeStop:
  assumes "n = WorkspaceId (Status ws)" and "n \<noteq> []"
  shows "runs (evacuateBeforeStop r E ws n) h (\<lambda>res evs. list_all calm evs \<and>
    (case res of Inl _ \<Rightarrow> True | Inr (ws', okay) \<Rightarrow> same_ws ws ws' \<and> (okay \<longrightarrow> gate_open ws evs)))"
  using assms unfolding runs_wp evacuateBeforeStop_def computeRunning_def
  by (auto simp: wp_simps same_ws_def gate_open_def not_running_def as_result_def split: sum.splits option.splits)

lemma runs_calm_try:
  assumes "runs m h (calmly ws)"
    and "\<And>e evs. list_all calm evs \<Longrightarrow> Q (Inl e) evs"
    and "\<And>ws' evs. list_all calm evs \<Longrightarrow> same_ws ws ws' \<Longrightarrow>
      runs (f ws') (h @ evs) (\<lambda>y evs'. Q y (evs @ evs'))"
  shows "runs (tryE m f) h Q"
  by (rule runs_tryE [OF assms(1)]) (auto simp: calmly_def intro: assms(2,3))

lemma runs_refresh_ready: "runs (refresh_ready r E ws) h (calmly ws)"
  unfolding refresh_ready_def
proof (rule runs_calm_try [OF runs_checkNodeAvailable], goal_cases)
  case (2 ws1 evs1)
  show ?case
  proof (rule runs_bindI [OF runs_syncBlackboard], goal_cases)
    case (1 x evs2)
    obtain ws2 changed where x: "x = (ws2, changed)" by (cases x)
    have same: "same_ws ws ws2" and calm2: "list_all calm (evs1 @ evs2)"
      using 1 2 by (auto simp: x intro: same_ws_trans)
    have st_calm: "emits calm (if changed then updateStatus E ws2 else ok ())"
      and md_calm: "emits calm (if WorkspaceId (Status ws2) \<noteq> []
        then reconcileClaudeMD E ws2 (WorkspaceId (Status ws2)) else ok ())"
      by (auto intro: emits_updateStatus emits_reconcileClaudeMD emits_ok)
    have rest: "runs (tryE (if changed then updateStatus E ws2 else ok ()) (\<lambda>_.
       tryE (if WorkspaceId (Status ws2) \<noteq> [] then reconcileClaudeMD E ws2 (WorkspaceId (Status ws2)) else ok ())
        (\<lambda>_. reconcileFileConflicts r E ws2))) h' (calmly ws2)" for h'
      by (intro runs_emits_try [OF st_calm] runs_emits_try [OF md_calm]
            runs_mono [OF runs_reconcileFileConflicts]) (simp_all add: calmly_def)
    show ?case unfolding x prod.case
      by (rule runs_mono [OF rest]) (use same calm2 in \<open>auto simp: calmly_def intro: same_ws_trans split: sum.splits\<close>)
  qed
qed (simp add: calmly_def)


fun no_delete :: "Event \<Rightarrow> bool" where
  "no_delete (EvDelete _ _ _) = False"
| "no_delete _ = True"

lemma calm_no_delete: "calm e \<Longrightarrow> no_delete e"
  by (cases e rule: calm.cases) auto

lemma emits_scaleStatefulSet: "emits no_delete (scaleStatefulSet E ns n k)"
  unfolding scaleStatefulSet_def by (intro emits_rules) auto

lemma emits_suspend: "emits calm (suspend r E ws b)"
  unfolding suspend_def by (intro emits_rules) auto

lemma emits_connected: "emits calm (connected r ws)"
  unfolding connected_def by (intro emits_rules) auto

text \<open>The rest of a run, after a prefix, stops compute only behind the gate and deletes nothing.\<close>

definition stops_safely :: "Workspace \<Rightarrow> Event list \<Rightarrow> 'a \<Rightarrow> Event list \<Rightarrow> bool" where
  "stops_safely ws pre x evs \<longleftrightarrow> guarded (\<lambda>p. stop_guard ws (pre @ p)) evs \<and> list_all no_delete evs"

lemma stops_safely_calm: "list_all calm evs \<Longrightarrow> stops_safely ws pre x evs"
  by (auto simp: stops_safely_def guarded_calm list_all_iff dest: calm_no_delete)

lemma stops_safely_append:
  "list_all calm evs \<Longrightarrow> stops_safely ws (pre @ evs) x evs' \<Longrightarrow> stops_safely ws pre x (evs @ evs')"
  using stops_safely_calm [of evs ws pre x] by (simp add: stops_safely_def)

lemma runs_suspending:
  assumes "same_ws ws ws1" and "n = WorkspaceId (Status ws1)" and "n \<noteq> []"
  shows "runs (tryE (evacuateBeforeStop r E ws1 n) (\<lambda>(ws, evacuated).
      if \<not> evacuated then ok idleCheckInterval
      else tryE (scaleStatefulSet E (Namespace (WMeta ws)) n 0) (\<lambda>_. suspend r E ws requested)))
    h (stops_safely ws pre)"
proof (rule runs_tryE [OF runs_evacuateBeforeStop [OF assms(2,3)]], goal_cases)
  case (1 e evs)
  then show ?case by (simp add: stops_safely_calm)
next
  case (2 x evs)
  obtain ws2 okay where x: "x = (ws2, okay)" by (cases x)
  have calm: "list_all calm evs" using 2 by simp
  have tail: "emits no_delete (tryE (scaleStatefulSet E (Namespace (WMeta ws2)) n 0) (\<lambda>_. suspend r E ws2 requested))"
    by (intro emits_tryE emits_scaleStatefulSet emits_mono [OF emits_suspend] calm_no_delete)
  show ?case
  proof (cases okay)
    case False
    then show ?thesis by (simp add: x runs_ok stops_safely_calm calm)
  next
    case True
    then have "gate_open ws (pre @ evs)"
      using 2 assms(1) by (simp add: x gate_open_prepend gate_open_same_ws)
    then have "stops_safely ws (pre @ evs) y evs'" if "list_all no_delete evs'" for y :: "duration result" and evs'
      using that by (simp add: stops_safely_def guarded_open [of ws "pre @ evs", simplified])
    then show ?thesis
      using True calm by (auto simp: x intro!: runs_emits [OF tail] stops_safely_append)
  qed
qed

lemma runs_reconcileReady: "runs (reconcileReady r E ws) h (stops_safely ws [])"
  unfolding reconcileReady_def
proof (rule runs_calm_try [OF runs_refresh_ready], goal_cases)
  case (1 e evs)
  then show ?case by (simp add: stops_safely_calm)
next
  case (2 ws1 evs)
  note calm = 2(1) and same = 2(2)
  have calm_tail: "emits calm m \<Longrightarrow> runs m h' (stops_safely ws pre)" for m :: "duration result act" and h' pre
    by (erule runs_emits) (rule stops_safely_calm)
  have held: "emits calm (bindI (readClock E) (\<lambda>now. tryE (updateStatus E (set_activity now ws1)) (\<lambda>_. ok idleCheckInterval)))"
    by (intro emits_rules) auto
  have body: "runs (if held then bindI (readClock E) (\<lambda>now.
         tryE (updateStatus E (set_activity now ws1)) (\<lambda>_. ok idleCheckInterval))
       else if \<not> idle \<and> \<not> requested then ok idleCheckInterval
       else if WorkspaceId (Status ws1) \<noteq> [] then
         tryE (evacuateBeforeStop r E ws1 (WorkspaceId (Status ws1))) (\<lambda>(ws, evacuated).
           if \<not> evacuated then ok idleCheckInterval
           else tryE (scaleStatefulSet E (Namespace (WMeta ws)) (WorkspaceId (Status ws1)) 0) (\<lambda>_.
             suspend r E ws requested))
       else suspend r E ws1 requested) h' (stops_safely ws pre)" for held idle requested h' pre
    using runs_suspending [OF same refl] calm_tail [OF held] calm_tail [OF emits_ok] calm_tail [OF emits_suspend]
    by simp
  have choose: "emits calm (if Desired (Spec ws1) = DesiredPhaseSuspended then ret False else connected r ws1)"
    by (simp add: emits_ret emits_connected)
  show ?case
    unfolding Let_def
  proof (rule runs_emits_bind [OF emits_readClock [where S = calm]], rule runs_emits_bind [OF choose], goal_cases)
    case (1 now evs1 b evs2)
    then show ?case
      using calm by (intro runs_mono [OF body]) (auto intro!: stops_safely_append)
  qed
qed

text \<open>A Ready workspace is stopped only behind the evacuation gate: whatever the API server, the
  Pod and the clock answer, in every run of \<^verbatim>\<open>reconcileReady\<close> an update that scales a
  StatefulSet to zero comes after compute was read as not running, or after a snapshot was captured
  and its record in the status was accepted; and the run deletes nothing.\<close>
theorem reconcileReady_stops_behind_the_gate:
  "\<exists>evs. snd (reconcileReady r E ws h) = h @ evs \<and> guarded (stop_guard ws) evs \<and> list_all no_delete evs"
  using runs_reconcileReady [of r E ws h] by (auto simp: runs_def stops_safely_def)


subsection \<open>Destroying a workspace\<close>

abbreviation substrate_key :: "Workspace \<Rightarrow> key" where
  "substrate_key ws \<equiv> (Namespace (WMeta ws), WorkspaceId (Status ws))"

fun destroy_guard :: "Workspace \<Rightarrow> Event list \<Rightarrow> Event \<Rightarrow> bool" where
  "destroy_guard ws before (EvDelete KStatefulSet _ _) = gate_open ws before"
| "destroy_guard ws before (EvDelete KPVC _ _) =
     (EvConfirmEvacuation (ws_key ws) (Inr True) \<in> set before \<and>
      list_ex (gone KStatefulSet (substrate_key ws)) before)"
| "destroy_guard ws before (EvUpdate (OWorkspace _) _) = list_ex (gone KPVC (substrate_key ws)) before"
| "destroy_guard ws before (EvUpdate (OStatefulSet s) _) = (Replicas s \<noteq> Some 0)"
| "destroy_guard ws before _ = True"

lemma destroy_guard_calm: "calm e \<Longrightarrow> destroy_guard ws before e"
  by (cases e rule: calm.cases) auto

lemma destroy_guard_adapter: "adapter_event e \<Longrightarrow> destroy_guard ws before e"
  by (cases e rule: adapter_event.cases) (auto elim: adapter_kind.elims)

definition destroys_safely :: "Workspace \<Rightarrow> Event list \<Rightarrow> 'a \<Rightarrow> Event list \<Rightarrow> bool" where
  "destroys_safely ws pre x evs \<longleftrightarrow> guarded (\<lambda>p. destroy_guard ws (pre @ p)) evs"

lemma destroys_safely_free:
  "list_all (\<lambda>e. \<forall>p. destroy_guard ws p e) evs \<Longrightarrow> destroys_safely ws pre x evs"
  unfolding destroys_safely_def by (rule guarded_free) (auto simp: list_all_iff)

lemma runs_after:
  assumes "runs m h (destroys_safely ws (pre @ evs))" and "destroys_safely ws pre x evs"
  shows "runs m h (\<lambda>y evs'. destroys_safely ws pre y (evs @ evs'))"
  using assms(1) by (rule runs_mono) (use assms(2) in \<open>simp add: destroys_safely_def\<close>)

lemma destroys_safely_calm: "list_all calm evs \<Longrightarrow> destroys_safely ws pre x evs"
  by (rule destroys_safely_free) (auto simp: list_all_iff destroy_guard_calm)

lemma destroys_safely_single: "destroys_safely ws pre x [e] \<longleftrightarrow> destroy_guard ws pre e"
  by (simp add: destroys_safely_def)

lemma runs_delete:
  "runs (deleteIgnoringNotFound E kd k) h (\<lambda>res evs. \<exists>err. evs = [EvDelete kd k err] \<and>
     (case res of Inl _ \<Rightarrow> True | Inr _ \<Rightarrow> gone kd k (EvDelete kd k err)))"
  by (cases "IgnoreNotFound (api_Delete E h kd k)") (auto simp: runs_wp wp_simps)

lemma runs_removeEvacuationFinalizer:
  "runs (removeEvacuationFinalizer E ws) h (\<lambda>res evs. evs = [] \<or> (\<exists>w err. evs = [EvUpdate (OWorkspace w) err]))"
  unfolding removeEvacuationFinalizer_def runs_wp by (auto simp: wp_simps split: prod.split)

text \<open>The steps behind the gate, last one first.\<close>

lemma runs_release_object:
  assumes "list_ex (gone KPVC (substrate_key ws)) pre"
  shows "runs (tryE (removeEvacuationFinalizer E ws1) (\<lambda>_. ok 0)) h (destroys_safely ws pre)"
  by (rule runs_tryE [OF runs_removeEvacuationFinalizer])
     (use assms in \<open>auto simp: destroys_safely_def intro!: runs_ok\<close>)

lemma runs_delete_volume:
  assumes "EvConfirmEvacuation (ws_key ws) (Inr True) \<in> set pre"
    and "list_ex (gone KStatefulSet (substrate_key ws)) pre"
  shows "runs (tryE (deleteIgnoringNotFound E KPVC (substrate_key ws)) (\<lambda>_.
      tryE (removeEvacuationFinalizer E ws1) (\<lambda>_. ok 0))) h (destroys_safely ws pre)"
proof (rule runs_tryE [OF runs_delete], goal_cases)
  case (1 e evs)
  then show ?case using assms by (auto simp: destroys_safely_single)
next
  case (2 x evs)
  then have "list_ex (gone KPVC (substrate_key ws)) (pre @ evs)" by auto
  moreover have "destroys_safely ws pre x evs"
    using 2 assms by (auto simp: destroys_safely_single)
  ultimately show ?case by (intro runs_after [OF runs_release_object])
qed

lemma runs_confirm:
  assumes "list_ex (gone KStatefulSet (substrate_key ws)) pre" and "ws_key ws1 = ws_key ws"
  shows "runs (tryE (evacuationComplete r ws1) (\<lambda>complete. if \<not> complete then ok evacuationPollInterval
      else tryE (deleteIgnoringNotFound E KPVC (substrate_key ws)) (\<lambda>_.
        tryE (removeEvacuationFinalizer E ws2) (\<lambda>_. ok 0)))) h (destroys_safely ws pre)"
proof (rule runs_tryE [where P = "\<lambda>res evs. list_all calm evs \<and>
    (case res of Inr True \<Rightarrow> EvConfirmEvacuation (ws_key ws) (Inr True) \<in> set evs | _ \<Rightarrow> True)"], goal_cases)
  case 1
  show ?case
    unfolding evacuationComplete_def runs_wp
    by (auto simp: wp_simps assms(2) split: option.splits sum.splits bool.splits)
next
  case (2 e evs)
  then show ?case by (simp add: destroys_safely_calm)
next
  case (3 complete evs)
  then have calm: "destroys_safely ws pre complete evs"
    by (simp add: destroys_safely_calm)
  show ?case
  proof (cases complete)
    case False
    then show ?thesis using 3 by (simp add: runs_ok destroys_safely_calm)
  next
    case True
    then have "EvConfirmEvacuation (ws_key ws) (Inr True) \<in> set (pre @ evs)" using 3 by simp
    moreover have "list_ex (gone KStatefulSet (substrate_key ws)) (pre @ evs)" using assms(1) by simp
    ultimately show ?thesis
      unfolding if_not_P [OF not_not [THEN iffD2, OF True]]
      by (intro runs_after [OF runs_delete_volume calm])
  qed
qed


lemma runs_tear_down:
  assumes gate: "gate_open ws pre" and same: "same_ws ws ws1"
  shows "runs (tryE (deleteIgnoringNotFound E KStatefulSet (substrate_key ws)) (\<lambda>_.
      tryE (database_Release (Database r) E (databaseTarget ws1 (WorkspaceId (Status ws)) [])) (\<lambda>_.
      tryE (evacuationComplete r ws1) (\<lambda>complete. if \<not> complete then ok evacuationPollInterval
        else tryE (deleteIgnoringNotFound E KPVC (substrate_key ws)) (\<lambda>_.
          tryE (removeEvacuationFinalizer E ws1) (\<lambda>_. ok 0)))))) h (destroys_safely ws pre)"
proof (rule runs_tryE [OF runs_delete], goal_cases)
  case (1 e evs)
  then show ?case using gate by (auto simp: destroys_safely_single)
next
  case (2 x evs)
  then have gone: "list_ex (gone KStatefulSet (substrate_key ws)) (pre @ evs)"
    and first: "destroys_safely ws pre x evs" using gate by (auto simp: destroys_safely_single)
  have key: "ws_key ws1 = ws_key ws" using same by (simp add: same_ws_def ws_key_def)
  show ?case
  proof (rule runs_after [OF _ first], rule runs_emits_try [OF emits_database_adapter(2)], goal_cases)
    case (1 e evs1)
    then show ?case by (intro destroys_safely_free) (auto simp: list_all_iff destroy_guard_adapter)
  next
    case (2 y evs1)
    then have "destroys_safely ws (pre @ evs) y evs1"
      by (intro destroys_safely_free) (auto simp: list_all_iff destroy_guard_adapter)
    moreover have "list_ex (gone KStatefulSet (substrate_key ws)) ((pre @ evs) @ evs1)" using gone by auto
    ultimately show ?case by (intro runs_after [OF runs_confirm [OF _ key]])
  qed
qed

lemma runs_gated_tear_down:
  assumes same: "same_ws ws ws1" and id: "WorkspaceId (Status ws) \<noteq> []"
  shows "runs (tryE (evacuateBeforeStop r E ws1 (WorkspaceId (Status ws))) (\<lambda>(ws1, evacuated).
       if \<not> evacuated then ok evacuationPollInterval
       else tryE (deleteIgnoringNotFound E KStatefulSet (Namespace (WMeta ws1), WorkspaceId (Status ws))) (\<lambda>_.
            tryE (database_Release (Database r) E (databaseTarget ws1 (WorkspaceId (Status ws)) [])) (\<lambda>_.
            tryE (evacuationComplete r ws1) (\<lambda>complete.
            if \<not> complete then ok evacuationPollInterval
            else tryE (deleteIgnoringNotFound E KPVC (Namespace (WMeta ws1), WorkspaceId (Status ws))) (\<lambda>_.
                 tryE (removeEvacuationFinalizer E ws1) (\<lambda>_. ok 0))))))) h (destroys_safely ws pre)"
proof -
  have n: "WorkspaceId (Status ws) = WorkspaceId (Status ws1)" using same by (simp add: same_ws_def)
  show ?thesis
  proof (rule runs_tryE [OF runs_evacuateBeforeStop [OF n id]], goal_cases)
    case (1 e evs)
    then show ?case by (simp add: destroys_safely_calm)
  next
    case (2 x evs)
    obtain ws2 okay where x: "x = (ws2, okay)" by (cases x)
    have calm: "destroys_safely ws pre x evs" and same2: "same_ws ws ws2"
      using 2 same by (auto simp: x destroys_safely_calm intro: same_ws_trans)
    have ns: "Namespace (WMeta ws2) = Namespace (WMeta ws)" using same2 by (simp add: same_ws_def)
    show ?case
    proof (cases okay)
      case False
      then show ?thesis using 2 by (simp add: x runs_ok destroys_safely_calm)
    next
      case True
      then have "gate_open ws (pre @ evs)"
        using 2 same by (simp add: x gate_open_prepend gate_open_same_ws)
      from runs_after [OF runs_tear_down [OF this same2] calm] show ?thesis
        using True unfolding x prod.case ns by simp
    qed
  qed
qed

definition owns_substrate :: "Env \<Rightarrow> Workspace \<Rightarrow> bool" where
  "owns_substrate E ws \<longleftrightarrow> WorkspaceId (Status ws) \<noteq> [] \<and>
     \<not> IsStatusConditionTrue E (Conditions (Status ws)) conditionDuplicateOfExisting"

lemma emits_removeEvacuationFinalizer: "emits no_delete (removeEvacuationFinalizer E ws)"
  unfolding removeEvacuationFinalizer_def by (intro emits_rules) auto

lemma runs_deactivateBlackboard:
  "runs (deactivateBlackboard E ws) h (\<lambda>x evs. evs = [] \<and> same_ws ws (fst x) \<and>
     Conditions (Status (fst x)) = Conditions (Status ws))"
  unfolding runs_wp deactivateBlackboard_def
  by (auto simp: wp_simps same_ws_def split: option.splits)

lemma runs_reconcileTerminating:
  "runs (reconcileTerminating r E ws) h (\<lambda>x evs. if owns_substrate E ws then destroys_safely ws [] x evs
     else list_all no_delete evs)"
  unfolding reconcileTerminating_def
proof (rule runs_bindI [OF runs_deactivateBlackboard], goal_cases)
  case (1 x evs)
  obtain ws1 changed where x: "x = (ws1, changed)" by (cases x)
  have evs: "evs = []" and same: "same_ws ws ws1" and cs: "Conditions (Status ws1) = Conditions (Status ws)"
    using 1 by (auto simp: x)
  have st_calm: "emits calm (if b then updateStatus E w else ok ())" for b w
    by (auto intro: emits_updateStatus emits_ok)
  have id: "WorkspaceId (Status ws1) = WorkspaceId (Status ws)" using same by (simp add: same_ws_def)
  show ?case
  proof (cases "owns_substrate E ws")
    case False
    have "emits no_delete (tryE (if changed then updateStatus E ws1 else ok ()) (\<lambda>_.
        tryE (removeEvacuationFinalizer E ws1) (\<lambda>_. ok 0 :: duration result act)))"
      by (intro emits_tryE emits_mono [OF st_calm] emits_removeEvacuationFinalizer emits_ok)
         (erule calm_no_delete)
    then show ?thesis
      using False by (auto simp: x evs owns_substrate_def cs id intro: runs_emits)
  next
    case True
    let ?ws = "set_phase WorkspacePhaseTerminating ws1"
    have same': "same_ws ws ?ws" using same by (simp add: same_ws_def set_phase_def)
    have gated: "runs (tryE (if moved then updateStatus E w else ok ()) (\<lambda>_.
        tryE (evacuateBeforeStop r E w (WorkspaceId (Status ws))) (\<lambda>(ws1, evacuated).
          if \<not> evacuated then ok evacuationPollInterval
          else tryE (deleteIgnoringNotFound E KStatefulSet (Namespace (WMeta ws1), WorkspaceId (Status ws))) (\<lambda>_.
            tryE (database_Release (Database r) E (databaseTarget ws1 (WorkspaceId (Status ws)) [])) (\<lambda>_.
            tryE (evacuationComplete r ws1) (\<lambda>complete.
            if \<not> complete then ok evacuationPollInterval
            else tryE (deleteIgnoringNotFound E KPVC (Namespace (WMeta ws1), WorkspaceId (Status ws))) (\<lambda>_.
                 tryE (removeEvacuationFinalizer E ws1) (\<lambda>_. ok 0)))))))) h' (destroys_safely ws pre)"
      if "same_ws ws w" for moved w h' pre
      by (rule runs_emits_try [OF st_calm])
         (use True that in \<open>auto intro: destroys_safely_calm runs_after [OF runs_gated_tear_down]
            simp: owns_substrate_def\<close>)
    have owned: "\<not> (WorkspaceId (Status ws) = [] \<or>
        IsStatusConditionTrue E (Conditions (Status ws1)) conditionDuplicateOfExisting)"
      using True by (simp add: owns_substrate_def cs id)
    have moved: "runs (bindI (ret (if Phase (Status ws1) \<noteq> WorkspacePhaseTerminating then (?ws, True) else (ws1, False))) f)
        h' Q" if "runs (f (?ws, True)) h' Q" and "runs (f (ws1, False)) h' Q" for f h' Q
      using that by (simp add: bindI_def ret_def runs_def)
    show ?thesis
      unfolding x prod.case evs append_Nil2 append_Nil if_P [OF True]
    proof (rule runs_emits_try [OF st_calm], goal_cases)
      case (1 e evs)
      then show ?case by (simp add: destroys_safely_calm)
    next
      case (2 y evs)
      then have pre: "destroys_safely ws [] y evs" by (simp add: destroys_safely_calm)
      show ?case
        unfolding Let_def id if_not_P [OF owned]
        by (rule moved; unfold prod.case; rule runs_after [OF gated pre]; rule same same')
    qed
  qed
qed


text \<open>C1. Destroying a workspace that owns its substrate never loses the working directory before
  it was confirmed safe: in every run of \<^verbatim>\<open>reconcileTerminating\<close> the StatefulSet is deleted
  only behind the evacuation gate, the volume only after the confirmer answered yes and the
  StatefulSet is gone, and the finalizer is released only after the volume is gone.  A workspace
  without substrate of its own (no resource name, or a duplicate) deletes nothing at all.\<close>
theorem reconcileTerminating_order:
  "\<exists>evs. snd (reconcileTerminating r E ws h) = h @ evs \<and>
     (if owns_substrate E ws then guarded (destroy_guard ws) evs else list_all no_delete evs)"
  using runs_reconcileTerminating [of r E ws h] by (auto simp: runs_def destroys_safely_def)


subsection \<open>Connections and resume\<close>

text \<open>A workspace held by a browser connection is not stopped by idle detection: unless a suspend
  was requested explicitly, a run of \<^verbatim>\<open>reconcileReady\<close> on it updates no StatefulSet and
  deletes nothing, however long it has been idle.\<close>
theorem connected_workspace_is_not_stopped:
  assumes "browserConnections ws > 0" and "Desired (Spec ws) \<noteq> DesiredPhaseSuspended"
  shows "\<exists>evs. snd (reconcileReady r E ws h) = h @ evs \<and> list_all calm evs"
proof -
  have "runs (reconcileReady r E ws) h (\<lambda>_. list_all calm)"
    unfolding reconcileReady_def
  proof (rule runs_calm_try [OF runs_refresh_ready], goal_cases)
    case (2 ws1 evs)
    then have "connected r ws1 = ret True" "Desired (Spec ws1) \<noteq> DesiredPhaseSuspended"
      using assms by (auto simp: same_ws_def connected_def browserConnections_def)
    then show ?case
      using 2(1) by (auto simp: runs_wp wp_simps Let_def as_result_def split: option.split)
  qed
  then show ?thesis by (auto simp: runs_def)
qed

definition held_ws :: Workspace where
  "held_ws = (ws0 ''w'' ''b'' 0)\<lparr>WMeta := (meta0 ''w'' 0)\<lparr>Annotations := [AnnotationBrowserConnections \<mapsto> ''2'']\<rparr>\<rparr>"

lemma Atoi_two: "Atoi ''2'' = Some 2"
  by code_simp

theorem connected_workspace_is_not_stopped_witness:
  "\<exists>evs. snd (reconcileReady reconciler0 env0 held_ws []) = [] @ evs \<and> list_all calm evs"
  by (rule connected_workspace_is_not_stopped)
     (simp_all add: held_ws_def ws0_def browserConnections_def annotation_def Atoi_two)

definition resume_guard :: "Workspace \<Rightarrow> Event list \<Rightarrow> Event \<Rightarrow> bool" where
  "resume_guard ws before e = (case e of
     EvStatusUpdate (OWorkspace w) _ \<Rightarrow> Phase (Status w) = WorkspacePhaseReady \<and>
       list_ex (\<lambda>g. case g of EvGetStatefulSet k (Inr sts) \<Rightarrow> k = substrate_key ws \<and> ReadyReplicas sts \<ge> 1
                    | _ \<Rightarrow> False) before
   | EvUpdate (OStatefulSet s) _ \<Rightarrow> Replicas s = Some 1
   | EvGetStatefulSet _ _ \<Rightarrow> True
   | _ \<Rightarrow> False)"

text \<open>Resume is judged from the StatefulSet as it is now: \<^verbatim>\<open>reconcileResume\<close> publishes the
  workspace as Ready only after reading a ready replica in the same run, scales to one replica and to
  nothing else, and touches nothing besides.\<close>
theorem reconcileResume_reads_before_ready:
  "\<exists>evs. snd (reconcileResume E ws h) = h @ evs \<and> guarded (resume_guard ws) evs"
proof -
  have "runs (reconcileResume E ws) h (\<lambda>_. guarded (resume_guard ws))"
    unfolding runs_wp reconcileResume_def scaleStatefulSet_def
    by (auto simp: wp_simps Let_def resume_guard_def drop_condition_def set_activity_def set_phase_def
        as_result_def split: sum.splits option.splits)
  then show ?thesis by (auto simp: runs_def)
qed


subsection \<open>Where the gate is weaker than it reads\<close>

text \<open>With the production confirmer, which answers from \<^verbatim>\<open>status.lastEvacuation\<close>, a snapshot
  of any age opens the volume gate.  When the Pod has no ready replica at the time of a destroy, for
  instance while it restarts, nothing is captured and an old snapshot is enough: the volume is deleted
  in a run without any evacuation request.\<close>
theorem old_snapshot_lets_the_volume_go:
  assumes "owns_substrate E ws" and "LastEvacuation (Status ws) = Some old"
    and "Phase (Status ws) = WorkspacePhaseTerminating" and "Blackboard (Status ws) = None"
    and "EvacuationConfirmer r = Some (\<lambda>h w. IsEvacuationComplete w)"
    and "Database r = DatabaseNoop"
    and "\<And>h k. api_GetStatefulSet E h k = Inr sts" and "ReadyReplicas sts = 0"
    and "\<And>h kd k. api_Delete E h kd k = None"
  shows "\<exists>evs. snd (reconcileTerminating r E ws h) = h @ evs \<and>
     EvDelete KPVC (substrate_key ws) None \<in> set evs \<and>
     list_all (\<lambda>e. case e of EvRequestEvacuation _ _ \<Rightarrow> False | _ \<Rightarrow> True) evs"
proof -
  have "wp (reconcileTerminating r E ws) (\<lambda>_ h'. \<exists>evs. h' = h @ evs \<and>
     EvDelete KPVC (substrate_key ws) None \<in> set evs \<and>
     list_all (\<lambda>e. case e of EvRequestEvacuation _ _ \<Rightarrow> False | _ \<Rightarrow> True) evs) h"
    using assms(1-6,8)
    by (auto simp: reconcileTerminating_def deactivateBlackboard_def owns_substrate_def evacuateBeforeStop_def
        computeRunning_def noop_Release_def evacuationComplete_def IsEvacuationComplete_def
        removeEvacuationFinalizer_def wp_simps assms(7,9) Let_def as_result_def split: prod.split option.split)
  then show ?thesis by (auto simp: wp_def split: prod.splits)
qed

definition stale_ws :: Workspace where
  "stale_ws = (ws0 ''w'' ''b'' 0)\<lparr>Status := status0\<lparr>Phase := WorkspacePhaseTerminating,
     WorkspaceId := ''x'', LastEvacuation := Some snapshot0\<rparr>\<rparr>"

definition sts0 :: StatefulSet where
  "sts0 = \<lparr>StsMeta = meta0 ''x'' 0, Replicas = Some 1, ServiceName = ''x'', MatchLabels = [], PodLabels = [],
     PodTemplate = \<lparr>NodeSelector = [], pod_PriorityClassName = [], InitContainers = [], Containers = [],
       Volumes = []\<rparr>, ReadyReplicas = 0\<rparr>"

theorem old_snapshot_lets_the_volume_go_witness:
  "\<exists>evs. snd (reconcileTerminating
        (reconciler0\<lparr>EvacuationConfirmer := Some (\<lambda>h w. IsEvacuationComplete w)\<rparr>)
        (env0\<lparr>api_GetStatefulSet := (\<lambda>h k. Inr sts0)\<rparr>) stale_ws []) = [] @ evs \<and>
     EvDelete KPVC (substrate_key stale_ws) None \<in> set evs \<and>
     list_all (\<lambda>e. case e of EvRequestEvacuation _ _ \<Rightarrow> False | _ \<Rightarrow> True) evs"
  by (rule old_snapshot_lets_the_volume_go [where sts = sts0 and old = snapshot0])
     (simp_all add: stale_ws_def status0_def sts0_def reconciler0_def env0_def owns_substrate_def ref_has_def)

definition dup_env :: Env where
  "dup_env = env0\<lparr>api_GetStatefulSet := (\<lambda>h k. Inr (sts0\<lparr>ReadyReplicas := 1\<rparr>))\<rparr>"

definition dup_ws :: Workspace where
  "dup_ws = (ws0 ''copy'' ''b'' 5)
     \<lparr>Spec := (Spec (ws0 ''copy'' ''b'' 5))\<lparr>Desired := DesiredPhaseSuspended\<rparr>,
      Status := status0\<lparr>Phase := WorkspacePhaseReady, WorkspaceId := ''x'',
        Conditions := [mkCondition conditionDuplicateOfExisting ConditionTrue ''BranchAlreadyProvisioned'' []]\<rparr>\<rparr>"

definition dup_reconciler :: WorkspaceReconciler where
  "dup_reconciler = reconciler0\<lparr>EvacuationRequester := Some (\<lambda>h w. Inr snapshot0), Notify := False\<rparr>"

text \<open>\<^verbatim>\<open>reconcileReady\<close> does not ask whether the workspace is a duplicate.  A duplicate
  mirrors the canonical workspace's phase and resource name, so a suspend request on the duplicate
  scales the StatefulSet of the canonical workspace to zero.\<close>
theorem suspending_a_duplicate_stops_the_canonical:
  "\<exists>r E ws sts err. conditions_lib E \<and>
     IsStatusConditionTrue E (Conditions (Status ws)) conditionDuplicateOfExisting \<and>
     Name (WMeta ws) \<noteq> WorkspaceId (Status ws) \<and>
     EvUpdate (OStatefulSet sts) err \<in> set (snd (reconcileReady r E ws [])) \<and>
     object_key (OStatefulSet sts) = substrate_key ws \<and> Replicas sts = Some 0"
proof -
  have lib: "conditions_lib dup_env"
    by (rule conditions_lib_cong [OF conditions_lib_env0]) (simp_all add: dup_env_def)
  have dup: "IsStatusConditionTrue dup_env (Conditions (Status dup_ws)) conditionDuplicateOfExisting"
    by (simp add: dup_env_def dup_ws_def env0_def ref_has_def mkCondition_def)
  let ?goal = "\<lambda>_ h'. EvUpdate (OStatefulSet (sts0\<lparr>ReadyReplicas := 1, Replicas := Some 0\<rparr>)) None \<in> set h'"
  have "wp (reconcileReady dup_reconciler dup_env dup_ws) ?goal []"
    unfolding reconcileReady_def refresh_ready_def
    by (simp add: wp_simps checkNodeAvailable_def getTemplate_def syncBlackboard_def readChangedFiles_def
        reconcileClaudeMD_def reconcileFileConflicts_def fileConflictDetail_def setOwner_def active_entries_def
        map_filter_def evacuateBeforeStop_def computeRunning_def scaleStatefulSet_def suspend_def mkCondition_def
        conditionFileConflict_def conditionDuplicateOfExisting_def dup_env_def env0_def dup_reconciler_def
        reconciler0_def dup_ws_def ws0_def status0_def sts0_def)
  then have "EvUpdate (OStatefulSet (sts0\<lparr>ReadyReplicas := 1, Replicas := Some 0\<rparr>)) None
      \<in> set (snd (reconcileReady dup_reconciler dup_env dup_ws []))"
    by (simp add: wp_def split: prod.splits)
  moreover have "object_key (OStatefulSet (sts0\<lparr>ReadyReplicas := 1, Replicas := Some 0\<rparr>)) = substrate_key dup_ws"
    and "Name (WMeta dup_ws) \<noteq> WorkspaceId (Status dup_ws)"
    by (simp_all add: object_key_def sts0_def dup_ws_def ws0_def meta0_def)
  ultimately show ?thesis using lib dup by fastforce
qed

end
