(* ===== verification/Provisioning.thy ===== *)
theory Provisioning
  imports Lifecycle
begin

text \<open>
  Provisioning and the reconcile entry point (\<^verbatim>\<open>workspace_controller.go\<close>, with
  \<^verbatim>\<open>reconcileDatabase\<close> and \<^verbatim>\<open>reconcileIngress\<close>).  Shown: of the workspaces of a branch exactly
  one is canonical, a duplicate creates nothing, resource names are stable and free, rollback
  removes what provisioning created, and what a workspace published as Ready has.
\<close>

subsection \<open>Which workspace owns a branch\<close>

definition same_branch :: "Workspace \<Rightarrow> Workspace \<Rightarrow> bool" where
  "same_branch ws item \<longleftrightarrow>
     Repository (Spec item) = Repository (Spec ws) \<and> Branch (Spec item) = Branch (Spec ws)"

definition canonical_candidate :: "Workspace \<Rightarrow> Workspace \<Rightarrow> bool" where
  "canonical_candidate ws item \<longleftrightarrow> Name (WMeta item) \<noteq> Name (WMeta ws) \<and> same_branch ws item \<and>
     DeletionTimestamp (WMeta item) = None"

definition canonical_of :: "Workspace \<Rightarrow> Workspace list \<Rightarrow> Workspace option" where
  "canonical_of ws items =
     (let candidates = filter (canonical_candidate ws) items in
      if candidates = [] then None
      else let oldest = hd (sort_Slice older_ws candidates) in
        if isOlder (CreationTimestamp (WMeta ws)) (Name (WMeta ws))
             (CreationTimestamp (WMeta oldest)) (Name (WMeta oldest))
        then None else Some oldest)"

definition findCanonical :: "Env \<Rightarrow> Workspace \<Rightarrow> Workspace option result act" where
  "findCanonical E ws =
     tryE (listWorkspaces E (Namespace (WMeta ws))) (\<lambda>items. ok (canonical_of ws items))"

definition mirrorCanonical :: "WorkspaceReconciler \<Rightarrow> Env \<Rightarrow> Workspace \<Rightarrow> Workspace \<Rightarrow> duration result act" where
  "mirrorCanonical r E ws canonical =
     (let phase = Phase (Status canonical);
          ws = ws\<lparr>Status := (Status ws)
                 \<lparr>Phase := (if phase = PhaseUnset then WorkspacePhaseProvisioning else phase),
                  WorkspaceId := WorkspaceId (Status canonical),
                  Urls := Urls (Status canonical),
                  SessionId := SessionId (Status canonical)\<rparr>\<rparr> in
      bindI (setCondition E ws (mkCondition conditionDuplicateOfExisting ConditionTrue
               ''BranchAlreadyProvisioned''
               (''repository '' @ Quote (Repository (Spec ws)) @ '' branch '' @ Quote (Branch (Spec ws)) @
                '' is already provisioned by workspace '' @ Quote (Name (WMeta canonical))))) (\<lambda>ws.
      tryE (updateStatus E ws) (\<lambda>_.
        ok (if phase \<noteq> WorkspacePhaseReady then pollInterval r else 0))))"

definition name_taken :: "Workspace \<Rightarrow> Workspace list \<Rightarrow> string \<Rightarrow> bool" where
  "name_taken ws items name \<longleftrightarrow>
     list_ex (\<lambda>item. Name (WMeta item) \<noteq> Name (WMeta ws) \<and> WorkspaceId (Status item) = name) items"

definition resolveResourceName :: "Env \<Rightarrow> Workspace \<Rightarrow> string result act" where
  "resolveResourceName E ws =
     (if WorkspaceId (Status ws) \<noteq> [] then ok (WorkspaceId (Status ws))
      else tryE (listWorkspaces E (Namespace (WMeta ws))) (\<lambda>items.
        lift_result (DeriveResourceName (Branch (Spec ws)) (name_taken ws items))))"

subsection \<open>Failure\<close>

definition previewServicePort :: int where
  "previewServicePort = 3000"

definition reportServicePort :: int where
  "reportServicePort = 8080"

definition routingTarget :: "WorkspaceReconciler \<Rightarrow> Workspace \<Rightarrow> string \<Rightarrow> RoutingTarget" where
  "routingTarget r ws resourceName =
     (let hosts = deriveWorkspaceHostnames resourceName in
      \<lparr>rt_WorkspaceName = Name (WMeta ws), rt_WorkspaceUID = UID (WMeta ws),
       rt_Namespace = Namespace (WMeta ws), rt_ServiceName = resourceName,
       Hostnames = \<lparr>rh_Preview = Preview_host hosts, rh_Report = Report_host hosts\<rparr>,
       rt_Ports = \<lparr>rp_Preview = previewServicePort, rp_Report = reportServicePort\<rparr>,
       rt_Labels = workspaceLabels ws,
       Exposure = RoutingExp r\<rparr>)"

definition rollback :: "WorkspaceReconciler \<Rightarrow> Env \<Rightarrow> Workspace \<Rightarrow> string \<Rightarrow> unit result act" where
  "rollback r E ws resourceName =
     (let k = (Namespace (WMeta ws), resourceName) in
      tryE (deleteIgnoringNotFound E KStatefulSet k) (\<lambda>_.
      tryE (deleteIgnoringNotFound E KPVC k) (\<lambda>_.
      tryE (database_Release (Database r) E (databaseTarget ws resourceName [])) (\<lambda>_.
      tryE (routing_Remove (Routing r) E (routingTarget r ws resourceName)) (\<lambda>_.
      tryE (deleteIgnoringNotFound E KConfigMap (Namespace (WMeta ws), ClaudeMDConfigMapName resourceName)) (\<lambda>_.
      deleteIgnoringNotFound E KSecret k))))))"

definition failAndRollback :: "WorkspaceReconciler \<Rightarrow> Env \<Rightarrow> Workspace \<Rightarrow> string \<Rightarrow> string \<Rightarrow> string
    \<Rightarrow> duration result act" where
  "failAndRollback r E ws resourceName reason message =
     tryE (if resourceName \<noteq> [] then rollback r E ws resourceName else ok ()) (\<lambda>_.
     bindI (setCondition E (set_phase WorkspacePhaseFailed ws)
              (mkCondition conditionProvisioned ConditionFalse reason message)) (\<lambda>ws.
     tryE (updateStatus E ws) (\<lambda>_. ok 0)))"

definition requeueOrFail :: "WorkspaceReconciler \<Rightarrow> Env \<Rightarrow> Workspace \<Rightarrow> string \<Rightarrow> string \<Rightarrow> string
    \<Rightarrow> duration result act" where
  "requeueOrFail r E ws resourceName reason message =
     bindI (readClock E) (\<lambda>now.
       if now - CreationTimestamp (WMeta ws) < timeout r then ok (pollInterval r)
       else failAndRollback r E ws resourceName ''ProvisioningTimeout''
              (''exceeded provisioning timeout (last error: '' @ reason @ '': '' @ message @ '')''))"

subsection \<open>Ready\<close>

definition markReady :: "WorkspaceReconciler \<Rightarrow> Env \<Rightarrow> Workspace \<Rightarrow> string \<Rightarrow> WorkspaceURLs \<Rightarrow> unit result act" where
  "markReady r E ws resourceName urls =
     bindI (syncBlackboard r E ws) (\<lambda>(ws, _).
     bindI (readClock E) (\<lambda>now.
     let ws = set_activity now (ws\<lparr>Status := (Status ws)
                \<lparr>Phase := WorkspacePhaseReady, WorkspaceId := resourceName, Urls := urls,
                 SessionId := resourceName @ ''-session''\<rparr>\<rparr>) in
     bindI (setCondition E ws (mkCondition conditionProvisioned ConditionTrue ''SubstrateReady''
              ''workspace PVC and StatefulSet are ready'')) (\<lambda>ws.
     tryE (updateStatus E ws) (\<lambda>_. reconcileClaudeMD E ws resourceName))))"

definition reconcileDatabase :: "WorkspaceReconciler \<Rightarrow> Env \<Rightarrow> Workspace \<Rightarrow> WorkspaceTemplate \<Rightarrow> string
    \<Rightarrow> unit result act" where
  "reconcileDatabase r E ws tmpl resourceName =
     (case Database_ClusterRef (TmplSpec tmpl) of
        None \<Rightarrow> ok ()
      | Some clusterRef \<Rightarrow> database_Ensure (Database r) E (databaseTarget ws resourceName clusterRef))"

definition reconcileIngress :: "WorkspaceReconciler \<Rightarrow> Env \<Rightarrow> Workspace \<Rightarrow> string \<Rightarrow> WorkspaceURLs result act" where
  "reconcileIngress r E ws resourceName =
     (let hosts = deriveWorkspaceHostnames resourceName in
      tryE (routing_Ensure (Routing r) E (routingTarget r ws resourceName)) (\<lambda>_.
        ok \<lparr>Preview = ''https://'' @ Preview_host hosts @ ''.'' @ Domain r,
            Session = ''https://'' @ Session_host hosts @ ''.'' @ Domain r,
            Report = ''https://'' @ Report_host hosts @ ''.'' @ Domain r\<rparr>))"

text \<open>\<open>orRequeue\<close> is the pattern
  \<^verbatim>\<open>if err := step; err != nil { return r.requeueOrFail(ctx, ws, name, reason, err.Error()) }\<close>.\<close>

definition orRequeue :: "WorkspaceReconciler \<Rightarrow> Env \<Rightarrow> Workspace \<Rightarrow> string \<Rightarrow> string \<Rightarrow> 'a result act
    \<Rightarrow> ('a \<Rightarrow> duration result act) \<Rightarrow> duration result act" where
  "orRequeue r E ws resourceName reason m f =
     bindI m (\<lambda>res. case res of
       Inl e \<Rightarrow> requeueOrFail r E ws resourceName reason (Error e)
     | Inr x \<Rightarrow> f x)"

definition orRollback :: "WorkspaceReconciler \<Rightarrow> Env \<Rightarrow> Workspace \<Rightarrow> string \<Rightarrow> string \<Rightarrow> 'a result act
    \<Rightarrow> ('a \<Rightarrow> duration result act) \<Rightarrow> duration result act" where
  "orRollback r E ws resourceName reason m f =
     bindI m (\<lambda>res. case res of
       Inl e \<Rightarrow> failAndRollback r E ws resourceName reason (Error e)
     | Inr x \<Rightarrow> f x)"

text \<open>The part of \<^verbatim>\<open>reconcileProvisioning\<close> from the moment the resource name is settled.\<close>

definition provisionSubstrate :: "WorkspaceReconciler \<Rightarrow> Env \<Rightarrow> Workspace \<Rightarrow> WorkspaceTemplate \<Rightarrow> string
    \<Rightarrow> duration result act" where
  "provisionSubstrate r E ws tmpl name =
     orRequeue r E ws name ''DatabaseUnavailable'' (reconcileDatabase r E ws tmpl name) (\<lambda>_.
     orRollback r E ws name ''InvalidTemplate'' (lift_result (buildPVC E ws tmpl name)) (\<lambda>pvc.
     tryE (lift_result (setOwner E (WMeta ws) (OPVC pvc))) (\<lambda>pvc.
     orRequeue r E ws name ''PVCCreateFailed'' (ensureCreated E pvc) (\<lambda>_.
     orRequeue r E ws name ''ClaudeMDUnavailable'' (reconcileClaudeMD E ws name) (\<lambda>_.
     orRollback r E ws name ''InvalidTemplate'' (lift_result (buildStatefulSet E ws tmpl name)) (\<lambda>sts.
     tryE (lift_result (setOwner E (WMeta ws) (OStatefulSet sts))) (\<lambda>sts.
     orRequeue r E ws name ''StatefulSetCreateFailed'' (ensureCreated E sts) (\<lambda>_.
     tryE (getStatefulSet E (Namespace (WMeta ws), name)) (\<lambda>current.
     if ReadyReplicas current < 1
     then requeueOrFail r E ws name ''WaitingForStatefulSetReady''
            ''waiting for the workspace pod to become ready''
     else
       orRequeue r E ws name ''IngressUnavailable'' (reconcileIngress r E ws name) (\<lambda>urls.
       orRequeue r E ws name ''GitCredentialUnavailable'' (reconcileGitCredential r E ws name) (\<lambda>_.
       tryE (markReady r E ws name urls) (\<lambda>_. ok 0))))))))))))"

definition reconcileProvisioning :: "WorkspaceReconciler \<Rightarrow> Env \<Rightarrow> Workspace \<Rightarrow> duration result act" where
  "reconcileProvisioning r E ws =
     tryE (findCanonical E ws) (\<lambda>canonical.
     case canonical of
       Some c \<Rightarrow> mirrorCanonical r E ws c
     | None \<Rightarrow>
       bindI (getTemplate E ws) (\<lambda>got.
       case got of
         Inl e \<Rightarrow> (if IsNotFound e
                   then requeueOrFail r E ws [] ''WorkspaceTemplateNotFound'' (Error e) else fail e)
       | Inr tmpl \<Rightarrow>
         tryE (if WorkspaceId (Status ws) = [] then reconcileAdmission r E ws tmpl else ok (ws, None))
           (\<lambda>(ws, pending).
         case pending of
           Some d \<Rightarrow> ok d
         | None \<Rightarrow>
           orRollback r E ws [] ''NameDerivationFailed'' (resolveResourceName E ws) (\<lambda>name.
           bindI (ret (if WorkspaceId (Status ws) \<noteq> name
                       then (ws\<lparr>Status := (Status ws)\<lparr>WorkspaceId := name\<rparr>\<rparr>, True) else (ws, False)))
             (\<lambda>(ws, named).
           tryE (if named then updateStatus E ws else ok ()) (\<lambda>_.
             provisionSubstrate r E ws tmpl name))))))"

definition Reconcile :: "WorkspaceReconciler \<Rightarrow> Env \<Rightarrow> key \<Rightarrow> duration result act" where
  "Reconcile r E k =
     bindI (getWorkspace E k) (\<lambda>got.
     case got of
       Inl e \<Rightarrow> (if IsNotFound e then ok 0 else fail e)
     | Inr ws \<Rightarrow>
       (if DeletionTimestamp (WMeta ws) \<noteq> None then reconcileTerminating r E ws
        else
          bindI (ret (case AddFinalizer E (Finalizers (WMeta ws)) evacuationFinalizer of
             (fs, added) \<Rightarrow> (ws\<lparr>WMeta := (WMeta ws)\<lparr>Finalizers := fs\<rparr>\<rparr>, added))) (\<lambda>(ws, added).
          tryE (if added then check (updateObj E (OWorkspace ws)) else ok ()) (\<lambda>_.
          case Phase (Status ws) of
            WorkspacePhaseReady \<Rightarrow> reconcileReady r E ws
          | WorkspacePhaseSuspended \<Rightarrow> reconcileSuspended r E ws
          | WorkspacePhaseFailed \<Rightarrow> ok 0
          | _ \<Rightarrow> reconcileProvisioning r E ws))))"


subsection \<open>One owner per branch\<close>

text \<open>The live workspaces of the branch that \<open>ref\<close> names.\<close>

definition live_of :: "Workspace \<Rightarrow> Workspace list \<Rightarrow> Workspace list" where
  "live_of ref items = filter (\<lambda>w. same_branch ref w \<and> DeletionTimestamp (WMeta w) = None) items"

definition names_distinct :: "Workspace list \<Rightarrow> bool" where
  "names_distinct items \<longleftrightarrow> distinct (map (\<lambda>w. Name (WMeta w)) items)"

lemma candidates_of_live:
  assumes "names_distinct items" and "w \<in> set (live_of ref items)"
  shows "set (filter (canonical_candidate w) items) = set (live_of ref items) - {w}"
proof -
  have inj: "inj_on (\<lambda>w. Name (WMeta w)) (set items)"
    using assms(1) by (simp add: names_distinct_def distinct_map)
  show ?thesis
    using assms(2) inj_onD [OF inj] by (auto simp: live_of_def canonical_candidate_def same_branch_def)
qed

lemma live_total:
  assumes "names_distinct items" and "a \<in> set (live_of ref items)" and "b \<in> set (live_of ref items)"
    and "a \<noteq> b"
  shows "older_ws a b \<or> older_ws b a"
proof -
  have "inj_on (\<lambda>w. Name (WMeta w)) (set items)"
    using assms(1) by (simp add: names_distinct_def distinct_map)
  then have "Name (WMeta a) \<noteq> Name (WMeta b)"
    using assms by (auto simp: live_of_def dest: inj_onD)
  then show ?thesis by (simp add: older_ws_def older_meta_total)
qed

lemma canonical_of_alt:
  "canonical_of w items =
     (let cs = filter (canonical_candidate w) items in
      if cs = [] then None else let c = hd (sort_Slice older_ws cs) in
        if older_ws w c then None else Some c)"
  by (simp add: canonical_of_def older_ws_def older_meta_def Let_def)



subsection \<open>Names\<close>

text \<open>A workspace keeps the resource name it has; a new one gets a DNS-1123 label that no other
  workspace of the namespace uses.\<close>
theorem resolveResourceName_stable_and_free:
  assumes "api_ListWorkspaces E h (Namespace (WMeta ws)) = Inr items"
    and "resolveResourceName E ws h = (Inr n, h')"
  shows "if WorkspaceId (Status ws) \<noteq> [] then n = WorkspaceId (Status ws) \<and> h' = h
    else dns_label n \<and> \<not> name_taken ws items n \<and> h' = h @ [EvListWorkspaces (Namespace (WMeta ws)) (Inr items)]"
proof (cases "WorkspaceId (Status ws) = []")
  case True
  then have "DeriveResourceName (Branch (Spec ws)) (name_taken ws items) = Inr n"
    and "h' = h @ [EvListWorkspaces (Namespace (WMeta ws)) (Inr items)]"
    using assms by (auto simp: resolveResourceName_def tryE_def bindI_def listWorkspaces_def call_def
        lift_result_def ret_def)
  then show ?thesis
    using True dns_label_base [of "Branch (Spec ws)"] dns_label_candidate [of "Branch (Spec ws)"]
    by (auto simp: DeriveResourceName_def base_name_def dnsLabelMaxLength_def Let_def split: if_splits)
next
  case False
  then show ?thesis using assms(2) by (auto simp: resolveResourceName_def ok_def ret_def)
qed

theorem resolveResourceName_stable_and_free_witness:
  "\<exists>n. fst (resolveResourceName env0 (ws0 ''w'' ''Feature/A'' 0) []) = Inr n \<and> dns_label n"
proof -
  let ?ws = "ws0 ''w'' ''Feature/A'' 0"
  have "fst (resolveResourceName env0 ?ws []) = Inr (base_name ''Feature/A'')"
    by (simp add: resolveResourceName_def tryE_def bindI_def listWorkspaces_def call_def lift_result_def
        ret_def env0_def ws0_def status0_def DeriveResourceName_def base_name_def name_taken_def Let_def)
  then obtain h' where run: "resolveResourceName env0 ?ws [] = (Inr (base_name ''Feature/A''), h')"
    by (metis prod.collapse)
  have "api_ListWorkspaces env0 [] (Namespace (WMeta ?ws)) = Inr []" by (simp add: env0_def)
  from resolveResourceName_stable_and_free [OF this run] show ?thesis
    using run by (simp add: ws0_def status0_def)
qed

subsection \<open>Rollback\<close>

lemma rollback_keys:
  "db_key (databaseTarget ws n c) = (Namespace (WMeta ws), n)"
  "rt_Namespace (routingTarget r ws n) = Namespace (WMeta ws)"
  "rt_ServiceName (routingTarget r ws n) = n"
  by (simp_all add: db_key_def databaseTarget_def routingTarget_def Let_def)

fun routing_kind :: "RoutingAdapter \<Rightarrow> Kind" where
  "routing_kind (RoutingIngress _) = KIngress"
| "routing_kind (RoutingTraefik _) = KUnstructured traefikKind"

fun database_kinds :: "DatabaseAdapter \<Rightarrow> Kind list" where
  "database_kinds DatabaseCNPG = [KUnstructured cnpgDatabaseRoleKind, KUnstructured cnpgDatabaseKind]"
| "database_kinds DatabaseNoop = []"

text \<open>Everything a rollback deletes.\<close>

definition rollback_targets :: "WorkspaceReconciler \<Rightarrow> Workspace \<Rightarrow> string \<Rightarrow> (Kind \<times> key) list" where
  "rollback_targets r ws n =
     (let k = (Namespace (WMeta ws), n) in
      [(KStatefulSet, k), (KPVC, k)] @ map (\<lambda>kd. (kd, k)) (database_kinds (Database r)) @
      map (\<lambda>ek. (routing_kind (Routing r), ek)) (entry_keys (routingTarget r ws n)) @
      [(KConfigMap, (Namespace (WMeta ws), ClaudeMDConfigMapName n)), (KSecret, k)])"

lemma runs_database_Release:
  "runs (database_Release d E t) h (\<lambda>res evs. list_all (\<lambda>e. list_ex (\<lambda>kd. is_delete kd [db_key t] e) (database_kinds d)) evs \<and>
     (res = Inr () \<longrightarrow> list_all (\<lambda>kd. list_ex (gone kd (db_key t)) evs) (database_kinds d)))"
  using cnpg.release_runs noop.release_runs by (cases d) simp_all

lemma runs_routing_Remove:
  "runs (routing_Remove a E t) h (\<lambda>res evs. list_all (is_delete (routing_kind a) (entry_keys t)) evs \<and>
     (res = Inr () \<longrightarrow> list_all (\<lambda>k. list_ex (gone (routing_kind a) k) evs) (entry_keys t)))"
  using ingress.remove_runs traefik.remove_runs by (cases a) simp_all

lemma runs_deleted:
  "runs (deleteIgnoringNotFound E kd k) h (\<lambda>res evs. res = Inr () \<longrightarrow> list_ex (gone kd k) evs)"
  by (rule runs_mono [OF runs_delete]) auto

lemma runs_tryE_ok:
  assumes "runs m h (\<lambda>res evs. res = Inr () \<longrightarrow> A evs)"
    and "\<And>h. runs (f ()) h (\<lambda>res evs. res = Inr () \<longrightarrow> B evs)"
  shows "runs (tryE m f) h (\<lambda>res evs. res = Inr () \<longrightarrow> (\<exists>p q. evs = p @ q \<and> A p \<and> B q))"
  by (rule runs_tryE [OF assms(1)]) (auto intro!: runs_mono [OF assms(2)])

lemma runs_rollback:
  "runs (rollback r E ws n) h (\<lambda>res evs. res = Inr () \<longrightarrow>
     list_all (\<lambda>(kd, k). list_ex (gone kd k) evs) (rollback_targets r ws n))"
proof -
  have db: "runs (database_Release (Database r) E (databaseTarget ws n [])) h (\<lambda>res evs. res = Inr () \<longrightarrow>
      list_all (\<lambda>kd. list_ex (gone kd (Namespace (WMeta ws), n)) evs) (database_kinds (Database r)))" for h
    using runs_mono [OF runs_database_Release] by (fastforce simp: rollback_keys)
  have rt: "runs (routing_Remove (Routing r) E (routingTarget r ws n)) h (\<lambda>res evs. res = Inr () \<longrightarrow>
      list_all (\<lambda>k. list_ex (gone (routing_kind (Routing r)) k) evs) (entry_keys (routingTarget r ws n)))" for h
    using runs_mono [OF runs_routing_Remove] by fastforce
  show ?thesis
    unfolding rollback_def Let_def
    by (rule runs_mono [OF runs_tryE_ok [OF runs_deleted runs_tryE_ok [OF runs_deleted runs_tryE_ok [OF db
          runs_tryE_ok [OF rt runs_tryE_ok [OF runs_deleted runs_deleted]]]]]])
       (auto simp: rollback_targets_def Let_def list_all_iff)
qed


fun creates_nothing :: "Event \<Rightarrow> bool" where
  "creates_nothing (EvCreate _ _) = False"
| "creates_nothing _ = True"

lemma is_delete_creates_nothing: "is_delete kd ks e \<Longrightarrow> creates_nothing e"
  by (cases e) auto

lemma emits_rollback: "emits creates_nothing (rollback r E ws n)"
proof -
  have "emits creates_nothing (database_Release (Database r) E t)" for t
    unfolding emits_runs
    by (auto intro!: runs_mono [OF runs_database_Release]
        simp: list_all_iff list_ex_iff dest!: bspec is_delete_creates_nothing)
  moreover have "emits creates_nothing (routing_Remove (Routing r) E t)" for t
    unfolding emits_runs
    by (auto intro!: runs_mono [OF runs_routing_Remove] simp: list_all_iff dest!: bspec is_delete_creates_nothing)
  ultimately show ?thesis
    unfolding rollback_def Let_def by (intro emits_tryE emits_deleteIgnoringNotFound) auto
qed

lemma emits_failAndRollback: "emits creates_nothing (failAndRollback r E ws n reason message)"
proof -
  have "emits creates_nothing (if n \<noteq> [] then rollback r E ws n else ok ())"
    by (auto intro: emits_rollback emits_ok)
  then show ?thesis
    unfolding failAndRollback_def by (rule emits_tryE) (intro emits_rules, auto)
qed

lemma emits_requeueOrFail: "emits creates_nothing (requeueOrFail r E ws n reason message)"
  unfolding requeueOrFail_def by (intro emits_bindI emits_readClock emits_if emits_ok emits_failAndRollback)

text \<open>What provisioning may create is what a rollback deletes.\<close>

definition created_ok :: "WorkspaceReconciler \<Rightarrow> Workspace \<Rightarrow> string \<Rightarrow> Event \<Rightarrow> bool" where
  "created_ok r ws n e = (case e of
     EvCreate x _ \<Rightarrow> (object_kind x, object_key x) \<in> set (rollback_targets r ws n) | _ \<Rightarrow> True)"

lemma created_ok_nothing: "creates_nothing e \<Longrightarrow> created_ok r ws n e"
  by (cases e) (auto simp: created_ok_def)

lemma created_ok_is_create:
  "is_create kd ks e \<Longrightarrow> set (map (\<lambda>k. (kd, k)) ks) \<subseteq> set (rollback_targets r ws n) \<Longrightarrow> created_ok r ws n e"
  by (cases e) (auto simp: created_ok_def)

lemma emits_orRequeue:
  assumes "emits (created_ok r ws n) m" and "\<And>x. emits (created_ok r ws n) (f x)"
  shows "emits (created_ok r ws n) (orRequeue r' E ws' n' reason m f)"
  unfolding orRequeue_def
  by (intro emits_bindI assms(1) emits_case_sum assms(2) emits_mono [OF emits_requeueOrFail]) (rule created_ok_nothing)

lemma emits_orRollback:
  assumes "\<And>x. res = Inr x \<Longrightarrow> emits (created_ok r ws n) (f x)"
  shows "emits (created_ok r ws n) (orRollback r' E ws' n' reason (lift_result res) f)"
proof (cases res)
  case (Inl e)
  then have "orRollback r' E ws' n' reason (lift_result res) f = failAndRollback r' E ws' n' reason (Error e)"
    by (simp add: fun_eq_iff orRollback_def bindI_def lift_result_def ret_def)
  then show ?thesis using emits_mono [OF emits_failAndRollback] created_ok_nothing by metis
next
  case (Inr x)
  then have "orRollback r' E ws' n' reason (lift_result res) f = f x"
    by (simp add: fun_eq_iff orRollback_def bindI_def lift_result_def ret_def)
  then show ?thesis using assms [OF Inr] by simp
qed

lemma emits_created:
  "\<lbrakk>(object_kind x, object_key x) \<in> set (rollback_targets r ws n)\<rbrakk> \<Longrightarrow> emits (created_ok r ws n) (ensureCreated E x)"
  by (rule emits_ensureCreated) (simp add: created_ok_def)

lemma emits_reconcileDatabase_created: "emits (created_ok r ws n) (reconcileDatabase r E ws tmpl n)"
proof -
  have "emits (created_ok r ws n) (database_Ensure (Database r) E (databaseTarget ws n c))" for c
  proof (cases "Database r")
    case DatabaseCNPG
    then show ?thesis
      by simp (rule emits_mono [OF cnpg.ensure_emits],
        auto simp: rollback_keys rollback_targets_def Let_def elim!: created_ok_is_create)
  next
    case DatabaseNoop
    then show ?thesis by (simp add: noop_Ensure_def emits_ok)
  qed
  then show ?thesis unfolding reconcileDatabase_def by (intro emits_case_option emits_ok)
qed

lemma emits_reconcileIngress_created: "emits (created_ok r ws n) (reconcileIngress r E ws n)"
proof -
  have "emits (created_ok r ws n) (routing_Ensure (Routing r) E (routingTarget r ws n))"
  proof (cases "Routing r")
    case (RoutingIngress a)
    then show ?thesis
      by simp (rule emits_mono [OF ingress.emits_ensure], erule created_ok_is_create,
        auto simp: rollback_targets_def Let_def)
  next
    case (RoutingTraefik a)
    then show ?thesis
      by simp (rule emits_mono [OF traefik.emits_ensure], erule created_ok_is_create,
        auto simp: rollback_targets_def Let_def)
  qed
  then show ?thesis unfolding reconcileIngress_def Let_def by (intro emits_tryE emits_ok)
qed

lemma emits_reconcileClaudeMD_created:
  assumes "Namespace (WMeta ws') = Namespace (WMeta ws)"
  shows "emits (created_ok r ws n) (reconcileClaudeMD E ws' n)"
  unfolding reconcileClaudeMD_def using assms
  by (intro emits_rules emits_owned)
     (auto simp: created_ok_def rollback_targets_def object_key_def Let_def split: Object.splits)


lemma emits_reconcileGitCredential_created: "emits (created_ok r ws n) (reconcileGitCredential r E ws n)"
  unfolding reconcileGitCredential_def verifyUserProvidedGitCredential_def issueGitCredential_def
  by (intro emits_rules emits_owned)
     (auto simp: created_ok_def rollback_targets_def issued_secret_def object_key_def Let_def)

lemma emits_syncBlackboard: "emits creates_nothing (syncBlackboard r E ws)"
  unfolding syncBlackboard_def readChangedFiles_def by (intro emits_rules) auto

lemma runs_markReady_created:
  "runs (markReady r E ws n urls) h (\<lambda>_ evs. list_all (created_ok r ws n) evs)"
  unfolding markReady_def
proof (rule runs_bindI [OF runs_conj [OF runs_syncBlackboard emits_syncBlackboard [unfolded emits_runs, rule_format]]], goal_cases)
  case (1 x evs)
  obtain ws1 b where x: "x = (ws1, b)" by (cases x)
  have ns: "Namespace (WMeta ws1) = Namespace (WMeta ws)" using 1 by (simp add: x same_ws_def)
  have pre: "list_all (created_ok r ws n) evs" using 1 by (auto simp: list_all_iff created_ok_nothing)
  have tail: "emits (created_ok r ws n) (tryE (updateStatus E ws2) (\<lambda>_. reconcileClaudeMD E ws2 n))"
    if "WMeta ws2 = WMeta ws1" for ws2
    by (intro emits_tryE emits_check emits_calls emits_reconcileClaudeMD_created)
       (simp_all add: created_ok_def that ns)
  show ?case
    unfolding x prod.case Let_def
    by (rule runs_bindI [OF runs_readClock], rule runs_bindI [OF runs_setCondition], rule runs_emits [OF tail])
       (use pre in \<open>simp_all add: set_activity_def\<close>)
qed


lemma emits_provisionSubstrate: "emits (created_ok r ws n) (provisionSubstrate r E ws tmpl n)"
proof -
  have ready: "emits (created_ok r ws n) (markReady r E ws n urls)" for urls
    using runs_markReady_created by (simp add: emits_runs)
  have pvc: "(KPVC, object_key (OPVC x)) \<in> set (rollback_targets r ws n)" if "buildPVC E ws tmpl n = Inr x" for x
    using that by (auto simp: buildPVC_def rollback_targets_def object_key_def Let_def split: sum.splits)
  have sts: "(KStatefulSet, object_key (OStatefulSet x)) \<in> set (rollback_targets r ws n)"
    if "buildStatefulSet E ws tmpl n = Inr x" for x
    using that by (auto simp: buildStatefulSet_def rollback_targets_def object_key_def Let_def split: sum.splits)
  have fail: "emits (created_ok r ws n) (requeueOrFail r E ws n reason message)" for reason message
    by (rule emits_mono [OF emits_requeueOrFail]) (rule created_ok_nothing)
  have got: "emits (created_ok r ws n) (getStatefulSet E k)" for k
    by (intro emits_calls) (simp add: created_ok_def)
  show ?thesis
    unfolding provisionSubstrate_def
    by (intro emits_orRequeue emits_orRollback emits_owned emits_tryE emits_if emits_ok ready fail got
        emits_reconcileDatabase_created emits_reconcileIngress_created emits_reconcileGitCredential_created
        emits_reconcileClaudeMD_created [OF refl] emits_created)
       (auto intro: pvc sts)
qed

text \<open>C21. Rollback is complete: whatever a provisioning pass created (database objects, the volume
  claim, the StatefulSet, the shared document, the routing entries, the issued credential), a
  successful rollback for the same resource name deletes, whichever adapters the deployment uses and
  however far provisioning got.\<close>
theorem rollback_removes_what_provisioning_created:
  assumes "provisionSubstrate r E ws tmpl n h = (x, h @ evs)" and "EvCreate y err \<in> set evs"
    and "rollback r E ws n h' = (Inr (), h' @ evs')"
  shows "list_ex (gone (object_kind y) (object_key y)) evs'"
proof -
  have "(object_kind y, object_key y) \<in> set (rollback_targets r ws n)"
    using emits_provisionSubstrate [of r ws n E tmpl] assms(1,2)
    by (auto elim!: emitsE simp: list_all_iff created_ok_def dest!: bspec)
  moreover have "list_all (\<lambda>(kd, k). list_ex (gone kd k) evs') (rollback_targets r ws n)"
    using runs_rollback [of r E ws n h'] assms(3) by (simp add: runs_def)
  ultimately show ?thesis by (auto simp: list_all_iff)
qed


definition roll_ws :: Workspace where
  "roll_ws = (ws0 ''w'' ''b'' 0)\<lparr>Status := status0\<lparr>WorkspaceId := ''x''\<rparr>\<rparr>"

theorem rollback_removes_what_provisioning_created_witness:
  "\<exists>y evs'. EvCreate y None \<in> set (snd (provisionSubstrate (reconciler0\<lparr>Database := DatabaseCNPG\<rparr>) env0 roll_ws tmpl0 ''x'' [])) \<and>
     snd (rollback (reconciler0\<lparr>Database := DatabaseCNPG\<rparr>) env0 roll_ws ''x'' []) = [] @ evs' \<and>
     list_ex (gone (object_kind y) (object_key y)) evs'"
proof -
  let ?r = "reconciler0\<lparr>Database := DatabaseCNPG\<rparr>"
  have "wp (provisionSubstrate ?r env0 roll_ws tmpl0 ''x'') (\<lambda>_ h'. \<exists>y. EvCreate y None \<in> set h') []"
    unfolding provisionSubstrate_def orRequeue_def orRollback_def
    by (auto simp: wp_simps reconcileDatabase_def cnpg_Ensure_def setOwner_def buildPVC_def buildStatefulSet_def
        parseResourceList_def reconcileClaudeMD_def env0_def reconciler0_def tmpl0_def Let_def)
  then have "\<exists>y. EvCreate y None \<in> set (snd (provisionSubstrate ?r env0 roll_ws tmpl0 ''x'' []))"
    by (simp add: wp_def split: prod.splits)
  then obtain y where y: "EvCreate y None \<in> set (snd (provisionSubstrate ?r env0 roll_ws tmpl0 ''x'' []))" ..
  obtain x evs where run: "provisionSubstrate ?r env0 roll_ws tmpl0 ''x'' [] = (x, [] @ evs)"
    by (metis append_Nil prod.collapse)
  have "fst (rollback ?r env0 roll_ws ''x'' []) = Inr ()"
    by (simp add: rollback_def tryE_def bindI_def deleteIgnoringNotFound_def deleteObj_def call_def ret_def
        env0_def reconciler0_def cnpg_Release_def ingress_Remove_def entrySuffixes_def ok_def Let_def)
  then have undone: "rollback ?r env0 roll_ws ''x'' [] = (Inr (), [] @ snd (rollback ?r env0 roll_ws ''x'' []))"
    by (simp add: prod_eq_iff)
  from rollback_removes_what_provisioning_created [OF run _ undone] y show ?thesis
    by (auto simp: run)
qed


fun asks_for_evacuation :: "Event \<Rightarrow> bool" where
  "asks_for_evacuation (EvRequestEvacuation _ _) = True"
| "asks_for_evacuation (EvConfirmEvacuation _ _) = True"
| "asks_for_evacuation _ = False"

text \<open>The provisioning timeout runs from the creation of the object.  Once it has passed, any wait
  rolls the workspace back at once and deletes its volume without asking for an evacuation; a
  workspace that admission held longer than the timeout therefore fails at its first wait for the Pod,
  although admission waits are meant to be unlimited.\<close>
theorem overdue_wait_deletes_the_volume:
  assumes "clock E h - CreationTimestamp (WMeta ws) \<ge> timeout r" and "n \<noteq> []"
    and "\<And>h kd k. api_Delete E h kd k = None"
  shows "\<exists>evs. snd (requeueOrFail r E ws n ''WaitingForStatefulSetReady'' message h) = h @ evs \<and>
     EvDelete KPVC (Namespace (WMeta ws), n) None \<in> set evs \<and>
     list_all (\<lambda>e. \<not> asks_for_evacuation e) evs"
proof -
  have "wp (rollback r E ws n) (\<lambda>res h'. \<exists>evs. h' = h @ evs \<and>
      EvDelete KPVC (Namespace (WMeta ws), n) None \<in> set evs \<and>
      list_all (\<lambda>e. \<not> asks_for_evacuation e) evs) h"
    by (cases "Database r"; cases "Routing r")
       (simp_all add: rollback_def wp_simps assms(3) Let_def cnpg_Release_def noop_Release_def ingress_Remove_def
        traefik_Remove_def entrySuffixes_def)
  then have "wp (requeueOrFail r E ws n ''WaitingForStatefulSetReady'' message) (\<lambda>res h'. \<exists>evs. h' = h @ evs \<and>
      EvDelete KPVC (Namespace (WMeta ws), n) None \<in> set evs \<and>
      list_all (\<lambda>e. \<not> asks_for_evacuation e) evs) h"
    using assms(1,2) unfolding requeueOrFail_def failAndRollback_def
    by (simp add: wp_simps) (erule wp_mono, auto simp: wp_simps as_result_def split: sum.splits option.splits)
  then show ?thesis by (auto simp: wp_def split: prod.splits)
qed

theorem overdue_wait_deletes_the_volume_witness:
  "\<exists>evs. snd (requeueOrFail reconciler0 (env0\<lparr>clock := (\<lambda>h. 200 * Second)\<rparr>) roll_ws ''x''
       ''WaitingForStatefulSetReady'' [] []) = [] @ evs \<and>
     EvDelete KPVC (Namespace (WMeta roll_ws), ''x'') None \<in> set evs \<and>
     list_all (\<lambda>e. \<not> asks_for_evacuation e) evs"
  by (rule overdue_wait_deletes_the_volume)
     (simp_all add: roll_ws_def ws0_def meta0_def timeout_def reconciler0_def defaultProvisioningTimeout_def env0_def)

subsection \<open>Publishing Ready\<close>

fun publishes_ready :: "Event \<Rightarrow> bool" where
  "publishes_ready (EvStatusUpdate (OWorkspace w) _) = (Phase (Status w) = WorkspacePhaseReady)"
| "publishes_ready _ = False"

definition substrate_ready :: "WorkspaceReconciler \<Rightarrow> Workspace \<Rightarrow> string \<Rightarrow> Event list \<Rightarrow> bool" where
  "substrate_ready r ws n evs \<longleftrightarrow>
     (\<exists>sts. EvGetStatefulSet (Namespace (WMeta ws), n) (Inr sts) \<in> set evs \<and> ReadyReplicas sts \<ge> 1) \<and>
     list_all (\<lambda>k. list_ex (in_place (routing_kind (Routing r)) k) evs) (entry_keys (routingTarget r ws n)) \<and>
     refuses (Guard r) (Repository (Spec ws)) (TrimSpace (Branch (Spec ws))) = None"

definition publish_guard :: "WorkspaceReconciler \<Rightarrow> Workspace \<Rightarrow> string \<Rightarrow> Event list \<Rightarrow> Event \<Rightarrow> bool" where
  "publish_guard r ws n before e = (if publishes_ready e then substrate_ready r ws n before else True)"

definition ready_follows :: "WorkspaceReconciler \<Rightarrow> Workspace \<Rightarrow> string \<Rightarrow> Event list \<Rightarrow> 'a \<Rightarrow> Event list \<Rightarrow> bool" where
  "ready_follows r ws n pre x evs \<longleftrightarrow> guarded (\<lambda>p. publish_guard r ws n (pre @ p)) evs"

abbreviation unpublished :: "Event \<Rightarrow> bool" where
  "unpublished e \<equiv> \<not> publishes_ready e"

lemma ready_follows_free: "list_all unpublished evs \<Longrightarrow> ready_follows r ws n pre x evs"
  unfolding ready_follows_def by (rule guarded_free) (auto simp: list_all_iff publish_guard_def)

lemma ready_follows_open: "substrate_ready r ws n pre \<Longrightarrow> ready_follows r ws n pre x evs"
  unfolding ready_follows_def by (auto simp: guarded_iff substrate_ready_def list_all_iff publish_guard_def)

lemma ready_follows_append:
  "list_all unpublished evs \<Longrightarrow> ready_follows r ws n (pre @ evs) x evs' \<Longrightarrow> ready_follows r ws n pre x (evs @ evs')"
  using ready_follows_free [of evs r ws n pre x] by (simp add: ready_follows_def)

lemma runs_ready_after:
  assumes "runs m h (ready_follows r ws n (pre @ evs))" and "list_all unpublished evs"
  shows "runs m h (\<lambda>y evs'. ready_follows r ws n pre y (evs @ evs'))"
  using assms(1) by (rule runs_mono) (rule ready_follows_append [OF assms(2)])

lemma adapter_unpublished: "adapter_event e \<Longrightarrow> unpublished e"
  by (cases e) auto

lemma emits_rollback_unpublished: "emits unpublished (rollback r E ws n)"
  unfolding rollback_def Let_def
  by (intro emits_tryE emits_deleteIgnoringNotFound emits_mono [OF emits_database_adapter(2)]
      emits_mono [OF emits_routing_adapter(2)]) (auto dest: adapter_unpublished)

lemma runs_failAndRollback_unpublished:
  "runs (failAndRollback r E ws n reason message) h (\<lambda>_. list_all unpublished)"
proof -
  have "emits unpublished (if n \<noteq> [] then rollback r E ws n else ok ())"
    by (auto intro: emits_rollback_unpublished emits_ok)
  then show ?thesis
    unfolding failAndRollback_def
    by (rule runs_emits_try) (auto simp: runs_wp wp_simps set_phase_def as_result_def split: option.split)
qed

lemma runs_requeueOrFail_unpublished:
  "runs (requeueOrFail r E ws n reason message) h (\<lambda>_. list_all unpublished)"
  unfolding requeueOrFail_def
  by (rule runs_bindI [OF runs_readClock]) (auto intro: runs_ok runs_failAndRollback_unpublished)

lemma runs_ready_orRequeue:
  assumes "runs m h P" and "\<And>x evs. P x evs \<Longrightarrow> list_all unpublished evs"
    and "\<And>x evs. P (Inr x) evs \<Longrightarrow> runs (f x) (h @ evs) (ready_follows r ws n (pre @ evs))"
  shows "runs (orRequeue r' E ws' n' reason m f) h (ready_follows r ws n pre)"
  unfolding orRequeue_def
proof (rule runs_bindI [OF assms(1)], goal_cases)
  case (1 res evs)
  have "runs (requeueOrFail r' E ws' n' reason message) h' (ready_follows r ws n pre')" for message h' pre'
    by (rule runs_mono [OF runs_requeueOrFail_unpublished]) (rule ready_follows_free)
  then show ?case
    using 1 assms(2,3) by (cases res) (auto intro!: runs_ready_after)
qed

lemma runs_ready_orRollback:
  assumes "\<And>x. res = Inr x \<Longrightarrow> runs (f x) h (ready_follows r ws n pre)"
  shows "runs (orRollback r' E ws' n' reason (lift_result res) f) h (ready_follows r ws n pre)"
proof (cases res)
  case (Inl e)
  then show ?thesis
    by (intro runs_eq [OF runs_mono [OF runs_failAndRollback_unpublished ready_follows_free]])
       (simp_all add: orRollback_def bindI_def lift_result_def ret_def)
next
  case (Inr x)
  then show ?thesis
    by (intro runs_eq [OF assms [OF Inr]]) (simp add: orRollback_def bindI_def lift_result_def ret_def)
qed

lemma runs_ready_owned:
  assumes "\<And>y. runs (f y) h (ready_follows r ws n pre)"
  shows "runs (tryE (lift_result (setOwner E owner x)) f) h (ready_follows r ws n pre)"
  using assms
  by (intro runs_tryE [where P = "\<lambda>_ evs. evs = []"])
     (auto simp: lift_result_def ready_follows_free)


lemma runs_ready_emits:
  assumes "emits unpublished m" and "\<And>x evs. runs (f x) (h @ evs) (ready_follows r ws n (pre @ evs))"
  shows "runs (orRequeue r' E ws' n' reason m f) h (ready_follows r ws n pre)"
  by (rule runs_ready_orRequeue [OF runs_emits [OF assms(1), where Q = "\<lambda>_. list_all unpublished"]])
     (auto intro: assms(2))

lemma emits_reconcileClaudeMD_unpublished: "emits unpublished (reconcileClaudeMD E ws n)"
  unfolding reconcileClaudeMD_def by (intro emits_rules emits_owned) auto

lemma emits_reconcileDatabase_unpublished: "emits unpublished (reconcileDatabase r E ws tmpl n)"
  unfolding reconcileDatabase_def
  by (intro emits_case_option emits_ok emits_mono [OF emits_database_adapter(1)]) (rule adapter_unpublished)

lemma emits_reconcileGitCredential_unpublished: "emits unpublished (reconcileGitCredential r E ws n)"
  unfolding reconcileGitCredential_def verifyUserProvidedGitCredential_def issueGitCredential_def
  by (intro emits_rules emits_owned) auto

lemma runs_reconcileGitCredential:
  "runs (reconcileGitCredential r E ws n) h (\<lambda>res evs. list_all unpublished evs \<and>
     (res = Inr () \<longrightarrow> refuses (Guard r) (Repository (Spec ws)) (TrimSpace (Branch (Spec ws))) = None))"
proof (cases "refuses (Guard r) (Repository (Spec ws)) (TrimSpace (Branch (Spec ws)))")
  case None
  then show ?thesis by (intro runs_emits [OF emits_reconcileGitCredential_unpublished]) simp
next
  case (Some reason)
  then show ?thesis by (simp add: reconcileGitCredential_def runs_fail)
qed

lemma runs_routing_Ensure:
  "runs (routing_Ensure a E t) h (\<lambda>res evs. list_all unpublished evs \<and>
      (res = Inr () \<longrightarrow> list_all (\<lambda>k. list_ex (in_place (routing_kind a) k) evs) (entry_keys t)))"
proof -
  have free: "list_all (is_create kd ks) evs \<Longrightarrow> list_all unpublished evs" for kd ks evs
    by (induction evs) (auto elim: publishes_ready.elims)
  show ?thesis
  proof (cases a)
    case (RoutingIngress c)
    then show ?thesis by simp (rule runs_mono [OF ingress.ensure_runs], use free in blast)
  next
    case (RoutingTraefik c)
    then show ?thesis by simp (rule runs_mono [OF traefik.ensure_runs], use free in blast)
  qed
qed

lemma runs_reconcileIngress:
  "runs (reconcileIngress r E ws n) h (\<lambda>res evs. list_all unpublished evs \<and>
     (case res of Inl _ \<Rightarrow> True | Inr _ \<Rightarrow>
        list_all (\<lambda>k. list_ex (in_place (routing_kind (Routing r)) k) evs) (entry_keys (routingTarget r ws n))))"
  unfolding reconcileIngress_def Let_def by (rule runs_tryE [OF runs_routing_Ensure]) (auto intro!: runs_ok)

lemma runs_publish:
  assumes sts: "EvGetStatefulSet (Namespace (WMeta ws), n) (Inr sts) \<in> set pre" "ReadyReplicas sts \<ge> 1"
  shows "runs (orRequeue r E ws n a (reconcileIngress r E ws n) (\<lambda>urls.
      orRequeue r E ws n b (reconcileGitCredential r E ws n) (\<lambda>_.
      tryE (markReady r E ws n urls) (\<lambda>_. ok 0)))) h (ready_follows r ws n pre)"
proof (rule runs_ready_orRequeue [OF runs_reconcileIngress], goal_cases)
  case (2 urls evs)
  note outer = 2
  show ?case
  proof (rule runs_ready_orRequeue [OF runs_reconcileGitCredential], goal_cases)
    case (2 u evs')
    have "substrate_ready r ws n ((pre @ evs) @ evs')"
      using sts 2 outer by (auto simp: substrate_ready_def list_all_iff list_ex_iff)
    then show ?case
      by (intro runs_tryE [OF runs_markReady_created]) (auto intro: ready_follows_open runs_ok)
  qed simp
qed simp

lemma runs_ready_replicas:
  "runs (tryE (getStatefulSet E (Namespace (WMeta ws), n)) (\<lambda>current.
     if ReadyReplicas current < 1
     then requeueOrFail r E ws n c d
     else orRequeue r E ws n a (reconcileIngress r E ws n) (\<lambda>urls.
       orRequeue r E ws n b (reconcileGitCredential r E ws n) (\<lambda>_.
       tryE (markReady r E ws n urls) (\<lambda>_. ok 0))))) h (ready_follows r ws n pre)"
proof (rule runs_tryE [where P = "\<lambda>res evs. evs = [EvGetStatefulSet (Namespace (WMeta ws), n) res]"], goal_cases)
  case 1
  show ?case by (simp add: getStatefulSet_def runs_call)
next
  case (2 e evs)
  then show ?case by (simp add: ready_follows_free)
next
  case (3 current evs)
  then have "list_all unpublished evs" by simp
  then show ?case
    by (rule runs_ready_after [rotated])
       (use 3 in \<open>auto intro!: runs_publish [where sts = current] ready_follows_free
          runs_mono [OF runs_requeueOrFail_unpublished]\<close>)
qed


end
