(* ===== verification/Base64.thy ===== *)
theory Base64
  imports GoStd
begin

text \<open>
  \<^verbatim>\<open>encoding/base64\<close> as the gateway uses it: \<^verbatim>\<open>StdEncoding\<close> (padded) for the
  values of a Secret and \<^verbatim>\<open>RawURLEncoding\<close> for generated passwords.  A byte is a
  \<^typ>\<open>char\<close>.  Shown: decoding what was encoded gives the bytes back, so what one gateway
  replica stores another reads unchanged.
\<close>

definition std_alphabet :: string where
  "std_alphabet = ''ABCDEFGHIJKLMNOPQRSTUVWXYZabcdefghijklmnopqrstuvwxyz0123456789+/''"

definition url_alphabet :: string where
  "url_alphabet = ''ABCDEFGHIJKLMNOPQRSTUVWXYZabcdefghijklmnopqrstuvwxyz0123456789-_''"

definition pad :: char where
  "pad = CHR ''=''"

abbreviation byte :: "char \<Rightarrow> nat" where
  "byte c \<equiv> of_char c"

fun encode_groups :: "string \<Rightarrow> string \<Rightarrow> string" where
  "encode_groups al (a # b # c # rest) =
     (let v = byte a * 65536 + byte b * 256 + byte c in
      [al ! (v div 262144), al ! (v div 4096 mod 64), al ! (v div 64 mod 64), al ! (v mod 64)] @
      encode_groups al rest)"
| "encode_groups al [a, b] =
     (let v = byte a * 1024 + byte b * 4 in
      [al ! (v div 4096), al ! (v div 64 mod 64), al ! (v mod 64)])"
| "encode_groups al [a] =
     (let v = byte a * 16 in [al ! (v div 64), al ! (v mod 64)])"
| "encode_groups al [] = []"

definition padding :: "nat \<Rightarrow> string" where
  "padding n = (if n mod 3 = 0 then [] else if n mod 3 = 1 then [pad, pad] else [pad])"

definition std_EncodeToString :: "string \<Rightarrow> string" where
  "std_EncodeToString bs = encode_groups std_alphabet bs @ padding (length bs)"

definition rawurl_EncodeToString :: "string \<Rightarrow> string" where
  "rawurl_EncodeToString bs = encode_groups url_alphabet bs"

fun index_of :: "string \<Rightarrow> char \<Rightarrow> nat option" where
  "index_of [] c = None"
| "index_of (x # xs) c = (if x = c then Some 0 else map_option Suc (index_of xs c))"

definition bits12 :: "nat \<Rightarrow> nat \<Rightarrow> nat" where
  "bits12 x y = x * 64 + y"

definition bits18 :: "nat \<Rightarrow> nat \<Rightarrow> nat \<Rightarrow> nat" where
  "bits18 x y z = bits12 x y * 64 + z"

definition bits24 :: "nat \<Rightarrow> nat \<Rightarrow> nat \<Rightarrow> nat \<Rightarrow> nat" where
  "bits24 x y z w = bits18 x y z * 64 + w"

text \<open>Decoding of a string whose line breaks have been dropped.  Trailing bits of a short last group
  are ignored, as \<^verbatim>\<open>StdEncoding\<close> does (it is not strict).\<close>

fun decode_groups :: "string \<Rightarrow> string option" where
  "decode_groups [] = Some []"
| "decode_groups (a # b # c # d # rest) =
     (case (index_of std_alphabet a, index_of std_alphabet b) of
        (Some x, Some y) \<Rightarrow>
          (if c = pad then
             (if d = pad \<and> rest = [] then Some [char_of (bits12 x y div 16)] else None)
           else case index_of std_alphabet c of None \<Rightarrow> None | Some z \<Rightarrow>
             (if d = pad then
                (if rest = [] then
                   (let v = bits18 x y z in
                    Some [char_of (v div 1024), char_of (v div 4 mod 256)])
                 else None)
              else case index_of std_alphabet d of None \<Rightarrow> None | Some w \<Rightarrow>
                (let v = bits24 x y z w in
                 map_option (\<lambda>bs. char_of (v div 65536) # char_of (v div 256 mod 256) # char_of (v mod 256) # bs)
                   (decode_groups rest))))
      | _ \<Rightarrow> None)"
| "decode_groups _ = None"

definition std_DecodeString :: "string \<Rightarrow> string option" where
  "std_DecodeString s = decode_groups (filter (\<lambda>c. c \<noteq> CHR 0x0A \<and> c \<noteq> CHR 0x0D) s)"

text \<open>\<^verbatim>\<open>RawURLEncoding.DecodeString\<close>: no padding, so a last group has two or three characters.\<close>

fun raw_groups :: "string \<Rightarrow> string option" where
  "raw_groups [] = Some []"
| "raw_groups [a] = None"
| "raw_groups [a, b] =
     (case (index_of url_alphabet a, index_of url_alphabet b) of
        (Some x, Some y) \<Rightarrow> Some [char_of (bits12 x y div 16)] | _ \<Rightarrow> None)"
| "raw_groups [a, b, c] =
     (case (index_of url_alphabet a, index_of url_alphabet b, index_of url_alphabet c) of
        (Some x, Some y, Some z) \<Rightarrow>
          (let v = bits18 x y z in Some [char_of (v div 1024), char_of (v div 4 mod 256)])
      | _ \<Rightarrow> None)"
| "raw_groups (a # b # c # d # rest) =
     (case (index_of url_alphabet a, index_of url_alphabet b, index_of url_alphabet c, index_of url_alphabet d) of
        (Some x, Some y, Some z, Some w) \<Rightarrow>
          (let v = bits24 x y z w in
           map_option (\<lambda>bs. char_of (v div 65536) # char_of (v div 256 mod 256) # char_of (v mod 256) # bs)
             (raw_groups rest))
      | _ \<Rightarrow> None)"

definition rawurl_DecodeString :: "string \<Rightarrow> string option" where
  "rawurl_DecodeString s = raw_groups (filter (\<lambda>c. c \<noteq> CHR 0x0A \<and> c \<noteq> CHR 0x0D) s)"

subsection \<open>Decoding undoes encoding\<close>

lemma index_of_nth:
  assumes "distinct al" and "i < length al"
  shows "index_of al (al ! i) = Some i"
  using assms
proof (induction al arbitrary: i)
  case (Cons a al)
  then show ?case by (cases i) (auto simp: nth_mem)
qed simp

lemma std_alphabet_facts:
  "length std_alphabet = 64" "distinct std_alphabet" "pad \<notin> set std_alphabet"
  "CHR 0x0A \<notin> set std_alphabet" "CHR 0x0D \<notin> set std_alphabet"
  by code_simp+

lemma index_std [simp]: "i < 64 \<Longrightarrow> index_of std_alphabet (std_alphabet ! i) = Some i"
  by (rule index_of_nth) (simp_all add: std_alphabet_facts)

lemma nth_std_pad [simp]: "i < 64 \<Longrightarrow> std_alphabet ! i \<noteq> pad"
  using std_alphabet_facts(1,3) nth_mem by metis

lemma nth_std_line [simp]: "i < 64 \<Longrightarrow> std_alphabet ! i \<noteq> CHR 0x0A" "i < 64 \<Longrightarrow> std_alphabet ! i \<noteq> CHR 0x0D"
  using std_alphabet_facts(1,4,5) nth_mem by metis+

lemma byte_less: "byte c < 256"
proof -
  have "byte c = byte (char_of (byte c))" by simp
  also have "\<dots> = byte c mod 256" by (simp only: of_char_of)
  finally show ?thesis by simp
qed

lemma bits12_split [simp]: "bits12 (v div 64) (v mod 64) = v"
  by (simp add: bits12_def)

lemma bits18_split [simp]: "bits18 (v div 4096) (v div 64 mod 64) (v mod 64) = v"
proof -
  have "bits12 (v div 4096) (v div 64 mod 64) = v div 64"
    using bits12_split [of "v div 64"] by (simp add: div_mult2_eq [symmetric])
  then show ?thesis by (simp add: bits18_def)
qed

lemma bits24_split [simp]: "bits24 (v div 262144) (v div 4096 mod 64) (v div 64 mod 64) (v mod 64) = v"
proof -
  have "bits18 (v div 262144) (v div 4096 mod 64) (v div 64 mod 64) = v div 64"
    using bits18_split [of "v div 64"] by (simp add: div_mult2_eq [symmetric])
  then show ?thesis by (simp add: bits24_def)
qed

definition group3 :: "char \<Rightarrow> char \<Rightarrow> char \<Rightarrow> nat" where
  "group3 a b c = byte a * 65536 + byte b * 256 + byte c"

definition group2 :: "char \<Rightarrow> char \<Rightarrow> nat" where
  "group2 a b = byte a * 1024 + byte b * 4"

lemma div_digit: "r < d \<Longrightarrow> (q * d + r) div d = (q :: nat)"
  by (simp add: div_add1_eq)

lemma mod_digit: "r < d \<Longrightarrow> (q * d + r) mod d = (r :: nat)"
  by simp

lemma bytes_of_group3:
  "group3 a b c div 262144 < 64" "group3 a b c div 65536 = byte a"
  "group3 a b c div 256 mod 256 = byte b" "group3 a b c mod 256 = byte c"
proof -
  have lt: "byte a < 256" "byte b < 256" "byte c < 256" by (rule byte_less)+
  have low: "byte b * 256 + byte c < 65536" using lt by linarith
  then have "group3 a b c < 64 * 262144" using lt unfolding group3_def by linarith
  then show "group3 a b c div 262144 < 64" by (rule less_mult_imp_div_less)
  show "group3 a b c div 65536 = byte a"
    unfolding group3_def add.assoc by (rule div_digit [OF low])
  have split: "group3 a b c = (byte a * 256 + byte b) * 256 + byte c" by (simp add: group3_def)
  show "group3 a b c mod 256 = byte c" unfolding split by (rule mod_digit [OF lt(3)])
  show "group3 a b c div 256 mod 256 = byte b"
    unfolding split div_digit [OF lt(3)] by (rule mod_digit [OF lt(2)])
qed

lemma bytes_of_group2:
  "group2 a b div 4096 < 64" "group2 a b div 1024 = byte a" "group2 a b div 4 mod 256 = byte b"
proof -
  have lt: "byte a < 256" "byte b < 256" by (rule byte_less)+
  then have "group2 a b < 64 * 4096" unfolding group2_def by linarith
  then show "group2 a b div 4096 < 64" by (rule less_mult_imp_div_less)
  show "group2 a b div 1024 = byte a"
    unfolding group2_def by (rule div_digit) (use lt in linarith)
  have "group2 a b div 4 = byte a * 256 + byte b" by (simp add: group2_def)
  then show "group2 a b div 4 mod 256 = byte b" using mod_digit [OF lt(2)] by simp
qed

lemma byte_div_4: "byte a * 16 div 64 < 64"
  by (rule less_mult_imp_div_less) (use byte_less [of a] in linarith)

lemma encode_groups_fold:
  "encode_groups al (a # b # c # rest) =
     [al ! (group3 a b c div 262144), al ! (group3 a b c div 4096 mod 64), al ! (group3 a b c div 64 mod 64),
      al ! (group3 a b c mod 64)] @ encode_groups al rest"
  "encode_groups al [a, b] = [al ! (group2 a b div 4096), al ! (group2 a b div 64 mod 64), al ! (group2 a b mod 64)]"
  by (simp_all add: group3_def group2_def Let_def)

declare encode_groups.simps(1,2) [simp del] encode_groups_fold [simp]

lemma char_of_byte: "x mod 256 = byte a \<Longrightarrow> char_of x = a"
  by (metis char_of_mod_256 char_of_char)

lemma decode_encode_groups: "decode_groups (encode_groups std_alphabet bs @ padding (length bs)) = Some bs"
proof (induction std_alphabet bs rule: encode_groups.induct)
  case (1 a b c rest)
  have "padding (length (a # b # c # rest)) = padding (length rest)" by (simp add: padding_def)
  moreover have "char_of (group3 a b c div 256) = b" "char_of (group3 a b c) = c"
    using char_of_byte [OF bytes_of_group3(3) [of a b c]] char_of_byte [OF bytes_of_group3(4) [of a b c]] by auto
  ultimately show ?case
    using 1 bytes_of_group3 [of a b c] by (simp add: Let_def)
next
  case (2 a b)
  then show ?case
    using bytes_of_group2 [of a b] char_of_byte [OF bytes_of_group2(3) [of a b]] by (simp add: padding_def Let_def)
next
  case (3 a)
  have "bits12 (byte a * 16 div 64) (byte a * 16 mod 64) div 16 = byte a"
    unfolding bits12_split by simp
  then show ?case using byte_div_4 [of a] by (simp add: padding_def Let_def)
qed (simp add: padding_def)

lemma encode_groups_lines:
  "filter (\<lambda>c. c \<noteq> CHR 0x0A \<and> c \<noteq> CHR 0x0D) (encode_groups std_alphabet bs) = encode_groups std_alphabet bs"
proof (induction std_alphabet bs rule: encode_groups.induct)
  case (1 a b c rest)
  then show ?case using bytes_of_group3(1) [of a b c] by simp
next
  case (2 a b)
  then show ?case using bytes_of_group2(1) [of a b] by simp
next
  case (3 a)
  show ?case using byte_div_4 [of a] by (simp add: Let_def)
qed simp

theorem std_Decode_Encode: "std_DecodeString (std_EncodeToString bs) = Some bs"
proof -
  have "filter (\<lambda>c. c \<noteq> CHR 0x0A \<and> c \<noteq> CHR 0x0D) (padding n) = padding n" for n
    by (simp add: padding_def pad_def)
  then show ?thesis
    by (simp add: std_DecodeString_def std_EncodeToString_def encode_groups_lines decode_encode_groups)
qed

lemma std_Encode_eq_Nil [simp]: "std_EncodeToString bs = [] \<longleftrightarrow> bs = []"
proof
  assume "std_EncodeToString bs = []"
  then have "std_DecodeString [] = Some bs" by (metis std_Decode_Encode)
  then show "bs = []" by (simp add: std_DecodeString_def)
qed (simp add: std_EncodeToString_def padding_def)

end
