(* ===== verification/Gateway.thy ===== *)
theory Gateway
  imports Clients Base64
begin

text \<open>
  The terminal gateway: its outside and its wire types.  Requests and replies are records; the
  Kubernetes API (through the dynamic client, so an object is a JSON tree), the Session Supervisor,
  the clock and the random source answer as functions of the history (\<open>GEnv\<close>).  The libraries for
  JWT, bcrypt and SSH are parameters of the environment with their documented behaviour as named
  hypotheses (\<open>jwt_lib\<close>, \<open>bcrypt_lib\<close>, \<open>users_json\<close>); \<open>g_FormatTime\<close> is the text of a
  \<^verbatim>\<open>time.Time\<close> in JSON.
\<close>

subsection \<open>Requests and replies\<close>

text \<open>\<open>rq_Header\<close> and \<open>rq_Query\<close> are \<^verbatim>\<open>r.Header.Get\<close> and \<^verbatim>\<open>r.URL.Query().Get\<close>: the
  empty string stands for an absent one.  \<open>rq_Path\<close> is the cleaned path.  \<open>rq_Body\<close> is the first JSON value of the body,
  \<open>None\<close> where it does not parse.  \<open>rq_id\<close> is the path value the router binds.\<close>

record Request =
  rq_Method :: string
  rq_Path :: string
  rq_Host :: string
  rq_Header :: "string \<Rightarrow> string"
  rq_Query :: "string \<Rightarrow> string"
  rq_Body :: "Json option"
  rq_id :: string

datatype ReplyBody =
    NoBody
  | JsonBody Json
  | SignInPage
  | TerminalPage string string

record Reply =
  rp_Status :: int
  rp_Challenge :: bool
  rp_Body :: ReplyBody

definition writeJSON :: "int \<Rightarrow> Json \<Rightarrow> Reply" where
  "writeJSON status body = \<lparr>rp_Status = status, rp_Challenge = False, rp_Body = JsonBody body\<rparr>"

definition error_body :: "string \<Rightarrow> Json" where
  "error_body m = JObject [(''error'', JString m)]"

definition writeError :: "int \<Rightarrow> string \<Rightarrow> Reply" where
  "writeError status m = writeJSON status (error_body m)"

text \<open>The reply to a request nobody could be identified for.\<close>

definition unauthorized :: Reply where
  "unauthorized = (writeError 401 ''unauthorized'')\<lparr>rp_Challenge := True\<rparr>"

subsection \<open>Unstructured objects\<close>

fun json_field :: "string \<Rightarrow> Json \<Rightarrow> Json option" where
  "json_field k (JObject kvs) = map_of kvs k"
| "json_field k _ = None"

fun json_path :: "string list \<Rightarrow> Json \<Rightarrow> Json option" where
  "json_path [] j = Some j"
| "json_path (k # ks) j = (case json_field k j of None \<Rightarrow> None | Some v \<Rightarrow> json_path ks v)"

text \<open>\<^verbatim>\<open>v, _, _ := unstructured.NestedString(obj, fields...)\<close>: the empty string where a field is
  missing or is not a string.\<close>

definition NestedString :: "Json \<Rightarrow> string list \<Rightarrow> string" where
  "NestedString j ks = (case json_path ks j of Some (JString s) \<Rightarrow> s | _ \<Rightarrow> [])"

subsection \<open>Secrets\<close>

text \<open>A Secret as the API server stores it: the values of \<^verbatim>\<open>data\<close> are base64 text.\<close>

record GSecret =
  gs_Version :: string
  gs_Labels :: "(string \<times> string) list"
  gs_Annotations :: "(string \<times> string) list"
  gs_Type :: string
  gs_Data :: "string \<rightharpoonup> string"

definition argoSyncOptions :: string where
  "argoSyncOptions = ''Prune=false,Delete=false''"

definition newSecretObject :: "(string \<times> string) list \<Rightarrow> GSecret" where
  "newSecretObject data =
     \<lparr>gs_Version = [], gs_Labels = [(''app.kubernetes.io/managed-by'', ''devplatform-gateway'')],
      gs_Annotations = [(''argocd.argoproj.io/sync-options'', argoSyncOptions)],
      gs_Type = ''Opaque'', gs_Data = map_option std_EncodeToString \<circ> map_of data\<rparr>"

subsection \<open>Users and sessions\<close>

record UserRecord =
  PasswordHash :: string
  UpdatedAt :: time

type_synonym Users = "string \<rightharpoonup> UserRecord"

record Subject =
  sub_ID :: string
  sub_Name :: string
  sub_Source :: string

definition Subject0 :: Subject where
  "Subject0 = \<lparr>sub_ID = [], sub_Name = [], sub_Source = []\<rparr>"

text \<open>The payload of a session token; the two registered dates have whole-second resolution.\<close>

record sessionClaims =
  sc_Name :: string
  sc_Source :: string
  IssuedAtNano :: int
  sc_Subject :: string
  sc_IssuedAt :: time
  sc_ExpiresAt :: time

text \<open>What a bearer token of the external identity provider carries.\<close>

record IdpClaims =
  ic_Subject :: string
  ic_Issuer :: string
  ic_Audience :: "string list"
  ic_ExpiresAt :: "time option"

record RsaKey =
  rsa_N :: nat
  rsa_E :: int

subsection \<open>SSH\<close>

record Certificate =
  cert_Key :: string
  Serial :: int
  KeyId :: string
  ValidPrincipals :: "string list"
  ValidAfter :: int
  ValidBefore :: int
  Extensions :: "(string \<times> string) list"

subsection \<open>Events and environment\<close>

datatype GEvent =
    GvGetWorkspace string "Json result"
  | GvListWorkspaces "Json list result"
  | GvCreateWorkspace Json "Json result"
  | GvDeleteWorkspace string "error option"
  | GvPatchWorkspace string Json "error option"
  | GvListPods string "Json list result"
  | GvGetSecret key "GSecret result"
  | GvCreateSecret key GSecret "error option"
  | GvUpdateSecret key GSecret "error option"
  | GvHttp string string "Json option" "Response result"
  | GvFetchJWKS string "Response result"
  | GvRandom nat "string result"
  | GvSign Certificate "string result"

type_synonym 'a gact = "(GEvent, 'a) io"

record GEnv =
  g_now :: "GEvent list \<Rightarrow> time"
  g_GetWorkspace :: "GEvent list \<Rightarrow> string \<Rightarrow> Json result"
  g_ListWorkspaces :: "GEvent list \<Rightarrow> Json list result"
  g_CreateWorkspace :: "GEvent list \<Rightarrow> Json \<Rightarrow> Json result"
  g_DeleteWorkspace :: "GEvent list \<Rightarrow> string \<Rightarrow> error option"
  g_PatchWorkspace :: "GEvent list \<Rightarrow> string \<Rightarrow> Json \<Rightarrow> error option"
  g_ListPods :: "GEvent list \<Rightarrow> string \<Rightarrow> Json list result"
  g_GetSecret :: "GEvent list \<Rightarrow> key \<Rightarrow> GSecret result"
  g_CreateSecret :: "GEvent list \<Rightarrow> key \<Rightarrow> GSecret \<Rightarrow> error option"
  g_UpdateSecret :: "GEvent list \<Rightarrow> key \<Rightarrow> GSecret \<Rightarrow> error option"
  g_NewRequest :: "string \<Rightarrow> string \<Rightarrow> error option"
  g_Do :: "GEvent list \<Rightarrow> string \<Rightarrow> string \<Rightarrow> Json option \<Rightarrow> Response result"
  g_Get :: "GEvent list \<Rightarrow> string \<Rightarrow> Response result"
  g_FormatTime :: "time \<Rightarrow> string"
  g_rand :: "GEvent list \<Rightarrow> nat \<Rightarrow> string result"
  users_Marshal :: "Users \<Rightarrow> string result"
  users_Unmarshal :: "string \<Rightarrow> Users option"
  bcrypt_Generate :: "GEvent list \<Rightarrow> string \<Rightarrow> int \<Rightarrow> string result"
  bcrypt_Compare :: "string \<Rightarrow> string \<Rightarrow> bool"
  jwt_Sign :: "string \<Rightarrow> sessionClaims \<Rightarrow> string result"
  jwt_ParseHS256 :: "string \<Rightarrow> string \<Rightarrow> time \<Rightarrow> sessionClaims result"
  jwt_kid :: "string \<Rightarrow> string result"
  jwt_ParseRSA :: "string \<Rightarrow> string \<Rightarrow> RsaKey \<Rightarrow> string \<Rightarrow> time \<Rightarrow> IdpClaims result"
  ssh_ParseAuthorizedKey :: "string \<Rightarrow> string result"
  ssh_SignCert :: "GEvent list \<Rightarrow> string \<Rightarrow> Certificate \<Rightarrow> string result"
  ssh_ParsePrivateKey :: "string \<Rightarrow> (string \<times> string) result"
  ssh_GenerateKey :: "GEvent list \<Rightarrow> string result"

definition gnow :: "GEnv \<Rightarrow> time gact" where
  "gnow E = peek (g_now E)"

definition gGetWorkspace :: "GEnv \<Rightarrow> string \<Rightarrow> Json result gact" where
  "gGetWorkspace E n = call (\<lambda>h. g_GetWorkspace E h n) (GvGetWorkspace n)"

definition gListWorkspaces :: "GEnv \<Rightarrow> Json list result gact" where
  "gListWorkspaces E = call (g_ListWorkspaces E) GvListWorkspaces"

definition gCreateWorkspace :: "GEnv \<Rightarrow> Json \<Rightarrow> Json result gact" where
  "gCreateWorkspace E j = call (\<lambda>h. g_CreateWorkspace E h j) (GvCreateWorkspace j)"

definition gDeleteWorkspace :: "GEnv \<Rightarrow> string \<Rightarrow> error option gact" where
  "gDeleteWorkspace E n = call (\<lambda>h. g_DeleteWorkspace E h n) (GvDeleteWorkspace n)"

definition gPatchWorkspace :: "GEnv \<Rightarrow> string \<Rightarrow> Json \<Rightarrow> error option gact" where
  "gPatchWorkspace E n j = call (\<lambda>h. g_PatchWorkspace E h n j) (GvPatchWorkspace n j)"

definition gListPods :: "GEnv \<Rightarrow> string \<Rightarrow> Json list result gact" where
  "gListPods E sel = call (\<lambda>h. g_ListPods E h sel) (GvListPods sel)"

definition gGetSecret :: "GEnv \<Rightarrow> key \<Rightarrow> GSecret result gact" where
  "gGetSecret E k = call (\<lambda>h. g_GetSecret E h k) (GvGetSecret k)"

definition gCreateSecret :: "GEnv \<Rightarrow> key \<Rightarrow> GSecret \<Rightarrow> error option gact" where
  "gCreateSecret E k s = call (\<lambda>h. g_CreateSecret E h k s) (GvCreateSecret k s)"

definition gUpdateSecret :: "GEnv \<Rightarrow> key \<Rightarrow> GSecret \<Rightarrow> error option gact" where
  "gUpdateSecret E k s = call (\<lambda>h. g_UpdateSecret E h k s) (GvUpdateSecret k s)"

definition gRandom :: "GEnv \<Rightarrow> nat \<Rightarrow> string result gact" where
  "gRandom E n = call (\<lambda>h. g_rand E h n) (GvRandom n)"

text \<open>\<^verbatim>\<open>http.NewRequestWithContext\<close> and \<^verbatim>\<open>client.Do\<close>, towards the Session Supervisor.\<close>

definition gHttp :: "GEnv \<Rightarrow> string \<Rightarrow> string \<Rightarrow> Json option \<Rightarrow> Response result gact" where
  "gHttp E verb url body =
     (case g_NewRequest E verb url of
        Some e \<Rightarrow> fail e
      | None \<Rightarrow> call (\<lambda>h. g_Do E h verb url body) (GvHttp verb url body))"

lemmas g_call_defs =
  gnow_def gGetWorkspace_def gListWorkspaces_def gCreateWorkspace_def gDeleteWorkspace_def
  gPatchWorkspace_def gListPods_def gGetSecret_def gCreateSecret_def gUpdateSecret_def gRandom_def

lemma emits_gcalls [emits_rules]:
  "emits S (gnow E)"
  "(\<And>r. S (GvGetWorkspace n r)) \<Longrightarrow> emits S (gGetWorkspace E n)"
  "(\<And>r. S (GvListWorkspaces r)) \<Longrightarrow> emits S (gListWorkspaces E)"
  "(\<And>r. S (GvCreateWorkspace j r)) \<Longrightarrow> emits S (gCreateWorkspace E j)"
  "(\<And>r. S (GvDeleteWorkspace n r)) \<Longrightarrow> emits S (gDeleteWorkspace E n)"
  "(\<And>r. S (GvPatchWorkspace n j r)) \<Longrightarrow> emits S (gPatchWorkspace E n j)"
  "(\<And>r. S (GvListPods n r)) \<Longrightarrow> emits S (gListPods E n)"
  "(\<And>r. S (GvGetSecret k r)) \<Longrightarrow> emits S (gGetSecret E k)"
  "(\<And>r. S (GvCreateSecret k s r)) \<Longrightarrow> emits S (gCreateSecret E k s)"
  "(\<And>r. S (GvUpdateSecret k s r)) \<Longrightarrow> emits S (gUpdateSecret E k s)"
  "(\<And>r. S (GvRandom m r)) \<Longrightarrow> emits S (gRandom E m)"
  by (simp_all add: g_call_defs emits_call emits_peek)

lemma emits_gHttp [emits_rules]: "(\<And>r. S (GvHttp verb url body r)) \<Longrightarrow> emits S (gHttp E verb url body)"
  unfolding gHttp_def by (intro emits_rules)

lemma wp_gcalls [wp_simps]:
  "wp (gnow E) Q0 = (\<lambda>h. Q0 (g_now E h) h)"
  "wp (gGetWorkspace E n) Q1 = (\<lambda>h. Q1 (g_GetWorkspace E h n) (h @ [GvGetWorkspace n (g_GetWorkspace E h n)]))"
  "wp (gListWorkspaces E) Q2 = (\<lambda>h. Q2 (g_ListWorkspaces E h) (h @ [GvListWorkspaces (g_ListWorkspaces E h)]))"
  "wp (gCreateWorkspace E j) Q3 = (\<lambda>h. Q3 (g_CreateWorkspace E h j) (h @ [GvCreateWorkspace j (g_CreateWorkspace E h j)]))"
  "wp (gDeleteWorkspace E n) Q4 = (\<lambda>h. Q4 (g_DeleteWorkspace E h n) (h @ [GvDeleteWorkspace n (g_DeleteWorkspace E h n)]))"
  "wp (gPatchWorkspace E n j) Q5 = (\<lambda>h. Q5 (g_PatchWorkspace E h n j) (h @ [GvPatchWorkspace n j (g_PatchWorkspace E h n j)]))"
  "wp (gListPods E n) Q6 = (\<lambda>h. Q6 (g_ListPods E h n) (h @ [GvListPods n (g_ListPods E h n)]))"
  "wp (gGetSecret E k) Q7 = (\<lambda>h. Q7 (g_GetSecret E h k) (h @ [GvGetSecret k (g_GetSecret E h k)]))"
  "wp (gCreateSecret E k s) Q8 = (\<lambda>h. Q8 (g_CreateSecret E h k s) (h @ [GvCreateSecret k s (g_CreateSecret E h k s)]))"
  "wp (gUpdateSecret E k s) Q9 = (\<lambda>h. Q9 (g_UpdateSecret E h k s) (h @ [GvUpdateSecret k s (g_UpdateSecret E h k s)]))"
  "wp (gRandom E m) Q10 = (\<lambda>h. Q10 (g_rand E h m) (h @ [GvRandom m (g_rand E h m)]))"
  by (simp_all add: g_call_defs wp_call wp_peek)

subsection \<open>What the libraries promise\<close>

text \<open>Encoding a user map and decoding it gives the map back; bcrypt accepts the password a hash was
  made from; a session token signed with a key parses under that key to its claims while it has not
  expired, and is rejected afterwards; a bearer token that parses was issued by the required
  issuer for the required audience and has not expired.\<close>

definition users_json :: "GEnv \<Rightarrow> bool" where
  "users_json E \<longleftrightarrow> (\<forall>us raw. users_Marshal E us = Inr raw \<longrightarrow> raw \<noteq> [] \<and> users_Unmarshal E raw = Some us)"

definition bcrypt_lib :: "GEnv \<Rightarrow> bool" where
  "bcrypt_lib E \<longleftrightarrow> (\<forall>h p cost x. bcrypt_Generate E h p cost = Inr x \<longrightarrow> bcrypt_Compare E x p)"

definition jwt_lib :: "GEnv \<Rightarrow> bool" where
  "jwt_lib E \<longleftrightarrow>
     (\<forall>k c t now. jwt_Sign E k c = Inr t \<longrightarrow> t \<noteq> [] \<and>
        (if now < sc_ExpiresAt c then jwt_ParseHS256 E k t now = Inr c else isl (jwt_ParseHS256 E k t now))) \<and>
     (\<forall>iss aud key t now c. jwt_ParseRSA E iss aud key t now = Inr c \<longrightarrow>
        ic_Issuer c = iss \<and> aud \<in> set (ic_Audience c) \<and> (\<exists>x. ic_ExpiresAt c = Some x \<and> now < x))"

end
