(* ===== verification/GatewayStore.thy ===== *)
theory GatewayStore
  imports Gateway Naming
begin

text \<open>
  The gateway's access to workspaces (\<^verbatim>\<open>gateway/workspaces.go\<close>).  Shown: the summary of a created
  object repeats the request, a browser URL the controller publishes resolves to its workspace, the
  API's answers map to the three package errors, and where a workspace's object name shadows another
  workspace's identifier.
\<close>

definition annotationBrowserConnections :: string where
  "annotationBrowserConnections = ''workspace.tom1022.github.io/browser-connections''"

definition defaultSupervisorPort :: int where
  "defaultSupervisorPort = 8787"

definition ErrNotFound :: error where
  "ErrNotFound = Sentinel ''ErrNotFound'' ''gateway: workspace not found''"

definition ErrAlreadyExists :: error where
  "ErrAlreadyExists = Sentinel ''ErrAlreadyExists'' ''gateway: workspace already exists''"

definition ErrInvalid :: error where
  "ErrInvalid = Sentinel ''ErrInvalid'' ''gateway: invalid workspace request''"

text \<open>\<^verbatim>\<open>fmt.Errorf("%w: ...", sentinel, ...)\<close>\<close>

fun wrapped :: "error \<Rightarrow> string \<Rightarrow> error" where
  "wrapped (Sentinel v s) m = Sentinel v (s @ '': '' @ m)"
| "wrapped e m = e"

record GwURLs =
  gw_Preview :: string
  gw_Session :: string
  gw_Report :: string

record WorkspaceSummary =
  sum_Name :: string
  sum_WorkspaceId :: string
  sum_Repository :: string
  sum_Branch :: string
  sum_TemplateRef :: string
  sum_Phase :: string
  sum_SessionId :: string
  sum_Urls :: GwURLs

record CreateWorkspaceRequest =
  cw_Repository :: string
  cw_Branch :: string
  cw_BaseBranch :: string
  cw_TemplateRef :: string
  cw_GitCredentialSecretRef :: string

record Store =
  st_Namespace :: string
  DefaultTemplateRef :: string
  SupervisorPort :: int

definition summarize :: "Json \<Rightarrow> WorkspaceSummary" where
  "summarize obj =
     \<lparr>sum_Name = NestedString obj [''metadata'', ''name''],
      sum_WorkspaceId = NestedString obj [''status'', ''workspaceId''],
      sum_Repository = NestedString obj [''spec'', ''repository''],
      sum_Branch = NestedString obj [''spec'', ''branch''],
      sum_TemplateRef = NestedString obj [''spec'', ''templateRef''],
      sum_Phase = NestedString obj [''status'', ''phase''],
      sum_SessionId = NestedString obj [''status'', ''sessionId''],
      sum_Urls = \<lparr>gw_Preview = NestedString obj [''status'', ''urls'', ''preview''],
        gw_Session = NestedString obj [''status'', ''urls'', ''session''],
        gw_Report = NestedString obj [''status'', ''urls'', ''report'']\<rparr>\<rparr>"

definition store_List :: "GEnv \<Rightarrow> WorkspaceSummary list result gact" where
  "store_List E = tryE (gListWorkspaces E) (\<lambda>items. ok (map summarize items))"

definition store_Find :: "GEnv \<Rightarrow> string \<Rightarrow> WorkspaceSummary result gact" where
  "store_Find E i =
     (if i = [] then fail ErrNotFound
      else bindI (gGetWorkspace E i) (\<lambda>got.
        case got of
          Inr obj \<Rightarrow> ok (summarize obj)
        | Inl e \<Rightarrow>
          (if \<not> IsNotFound e then fail e
           else tryE (store_List E) (\<lambda>items.
             case List.find (\<lambda>ws. sum_WorkspaceId ws = i) items of
               Some ws \<Rightarrow> ok ws
             | None \<Rightarrow> fail ErrNotFound))))"

definition hostWithoutPort :: "string \<Rightarrow> string" where
  "hostWithoutPort host = (case Cut host (CHR '':'') of (h, _, found) \<Rightarrow> if found then h else host)"

definition host_label :: "string \<Rightarrow> string" where
  "host_label host = fst (Cut (ToLower (hostWithoutPort host)) (CHR ''.''))"

definition ResolveHost :: "GEnv \<Rightarrow> string \<Rightarrow> WorkspaceSummary result gact" where
  "ResolveHost E host =
     (let label = host_label host in if label = [] then fail ErrNotFound else store_Find E label)"

definition workspace_object :: "Store \<Rightarrow> CreateWorkspaceRequest \<Rightarrow> string \<Rightarrow> Json" where
  "workspace_object s req name =
     JObject
       [(''apiVersion'', JString ''workspace.tom1022.github.io/v1alpha1''),
        (''kind'', JString ''Workspace''),
        (''metadata'', JObject [(''name'', JString name), (''namespace'', JString (st_Namespace s))]),
        (''spec'', JObject
          ([(''repository'', JString (cw_Repository req)),
            (''branch'', JString (cw_Branch req)),
            (''templateRef'', JString (if cw_TemplateRef req = [] then DefaultTemplateRef s else cw_TemplateRef req))] @
           (if cw_BaseBranch req \<noteq> [] then [(''baseBranch'', JString (cw_BaseBranch req))] else []) @
           (if cw_GitCredentialSecretRef req \<noteq> []
            then [(''gitCredentialSecretRef'', JString (cw_GitCredentialSecretRef req))] else [])))]"

definition store_Create :: "Store \<Rightarrow> GEnv \<Rightarrow> CreateWorkspaceRequest \<Rightarrow> WorkspaceSummary result gact" where
  "store_Create s E req =
     (if cw_Repository req = [] \<or> cw_Branch req = []
      then fail (wrapped ErrInvalid ''repository and branch are required'')
      else let name = gw_sanitizeDNSLabel (cw_Branch req) in
        if name = []
        then fail (wrapped ErrInvalid (''branch '' @ Quote (cw_Branch req) @ '' yields no usable resource name''))
        else bindI (gCreateWorkspace E (workspace_object s req name)) (\<lambda>got.
          case got of
            Inr created \<Rightarrow> ok (summarize created)
          | Inl e \<Rightarrow>
            (if IsAlreadyExists e then fail ErrAlreadyExists
             else if IsInvalid e \<or> IsBadRequest e then fail (wrapped ErrInvalid (Error e))
             else fail e)))"

text \<open>\<^verbatim>\<open>if apierrors.IsNotFound(err) { return ErrNotFound }; return err\<close>\<close>

definition not_found_as :: "error option \<Rightarrow> unit result" where
  "not_found_as e = (case e of None \<Rightarrow> Inr () | Some x \<Rightarrow> Inl (if IsNotFound x then ErrNotFound else x))"

definition store_Delete :: "GEnv \<Rightarrow> string \<Rightarrow> unit result gact" where
  "store_Delete E i =
     tryE (store_Find E i) (\<lambda>ws.
       bindI (gDeleteWorkspace E (sum_Name ws)) (\<lambda>e. ret (not_found_as e)))"

definition pod_endpoint :: "Json \<Rightarrow> string option" where
  "pod_endpoint pod =
     (if NestedString pod [''status'', ''phase''] = ''Running'' \<and> NestedString pod [''status'', ''podIP''] \<noteq> []
      then Some (NestedString pod [''status'', ''podIP'']) else None)"

definition SessionEndpoint :: "Store \<Rightarrow> GEnv \<Rightarrow> WorkspaceSummary \<Rightarrow> string result gact" where
  "SessionEndpoint s E ws =
     tryE (gListPods E (labelWorkspaceName @ ''='' @ sum_Name ws)) (\<lambda>pods.
       case List.find (\<lambda>p. pod_endpoint p \<noteq> None) pods of
         Some p \<Rightarrow> ok (''http://'' @ the (pod_endpoint p) @ '':'' @
             Itoa (if SupervisorPort s = 0 then defaultSupervisorPort else SupervisorPort s))
       | None \<Rightarrow> fail (Err (''gateway: workspace '' @ Quote (sum_Name ws) @ '' has no running session pod'')))"

definition connections_patch :: "int \<Rightarrow> Json" where
  "connections_patch n =
     JObject [(''metadata'', JObject [(''annotations'', JObject
       [(annotationBrowserConnections, if n > 0 then JString (Itoa n) else JNull)])])]"

definition SetBrowserConnections :: "GEnv \<Rightarrow> string \<Rightarrow> int \<Rightarrow> unit result gact" where
  "SetBrowserConnections E name n =
     bindI (gPatchWorkspace E name (connections_patch n)) (\<lambda>e. ret (not_found_as e))"

subsection \<open>Hosts\<close>

lemma Cut_label:
  assumes "sep \<notin> set s"
  shows "fst (Cut s sep) = s" "fst (Cut (s @ sep # t) sep) = s"
  using assms by (induction s) (auto simp: Cut_def)

lemma host_label_of:
  assumes "dns_label label" and "CHR '':'' \<notin> set domain"
  shows "host_label (label @ ''.'' @ domain) = label"
    and "host_label (label @ ''.'' @ domain @ '':'' @ port) = label"
proof -
  have chars: "CHR ''.'' \<notin> set label" "CHR '':'' \<notin> set label"
    using assms(1) by (auto simp: dns_label_def list_all_iff label_char_def is_lower_def is_digit_def less_eq_char_def)
  have lower: "ToLower label = label"
    using assms(1) by (simp add: dns_label_def ToLower_label)
  have low: "ToLower (label @ ''.'' @ domain) = label @ CHR ''.'' # ToLower domain"
    using lower by (simp add: ToLower_def lower_char_def is_upper_def less_eq_char_def)
  have plain: "hostWithoutPort (label @ ''.'' @ domain) = label @ ''.'' @ domain"
    using chars assms(2) by (simp add: hostWithoutPort_def Cut_def)
  have port: "hostWithoutPort ((label @ ''.'' @ domain) @ CHR '':'' # port) = label @ ''.'' @ domain"
    using Cut_label(2) [of "CHR '':''" "label @ ''.'' @ domain" port] chars assms(2)
    by (auto simp: hostWithoutPort_def Cut_def split: prod.splits)
  show "host_label (label @ ''.'' @ domain) = label"
    unfolding host_label_def plain low by (rule Cut_label(2) [OF chars(1)])
  show "host_label (label @ ''.'' @ domain @ '':'' @ port) = label"
    using port low Cut_label(2) [OF chars(1)] by (simp add: host_label_def)
qed

text \<open>An API server whose workspaces are \<open>items\<close> and stay so during the request.\<close>

definition serves :: "GEnv \<Rightarrow> Json list \<Rightarrow> bool" where
  "serves E items \<longleftrightarrow>
     (\<forall>h. g_ListWorkspaces E h = Inr items) \<and>
     (\<forall>h i. g_GetWorkspace E h i =
        (case List.find (\<lambda>obj. sum_Name (summarize obj) = i) items of
           Some obj \<Rightarrow> Inr obj | None \<Rightarrow> Inl (NotFound i)))"

text \<open>What \<^verbatim>\<open>Find\<close> answers on such a server: an object of that name, otherwise one of that
  identifier.\<close>

definition found_by :: "Json list \<Rightarrow> string \<Rightarrow> WorkspaceSummary option" where
  "found_by items i =
     (case List.find (\<lambda>ws. sum_Name ws = i) (map summarize items) of
        Some ws \<Rightarrow> Some ws
      | None \<Rightarrow> List.find (\<lambda>ws. sum_WorkspaceId ws = i) (map summarize items))"

lemma find_map: "List.find P (map f xs) = map_option f (List.find (P \<circ> f) xs)"
  by (induction xs) auto

lemma store_Find_serves:
  assumes "serves E items" and "i \<noteq> []"
  shows "fst (store_Find E i h) = (case found_by items i of Some ws \<Rightarrow> Inr ws | None \<Rightarrow> Inl ErrNotFound)"
  using assms
  by (auto simp: serves_def found_by_def store_Find_def store_List_def find_map comp_def bindI_def tryE_def
      gGetWorkspace_def gListWorkspaces_def call_def ok_def ret_def fail_def split: option.splits)

text \<open>The session URL the controller publishes for a workspace reaches it through the gateway: a
  request whose Host is the workspace's session host, with or without a port, resolves to the workspace
  that carries that identifier, provided no other workspace object is named like it.\<close>
theorem session_host_reaches_its_workspace:
  assumes "serves E items" and "dns_label n" and "CHR '':'' \<notin> set domain"
    and "obj \<in> set items" and "sum_WorkspaceId (summarize obj) = n"
    and "list_all (\<lambda>x. sum_WorkspaceId (summarize x) = n \<or> sum_Name (summarize x) = n \<longrightarrow> x = obj) items"
  shows "fst (ResolveHost E (Session_host (deriveWorkspaceHostnames n) @ ''.'' @ domain) h) = Inr (summarize obj) \<and>
    fst (ResolveHost E (Session_host (deriveWorkspaceHostnames n) @ ''.'' @ domain @ '':'' @ port) h) = Inr (summarize obj)"
proof -
  have ne: "n \<noteq> []" using assms(2) by (simp add: dns_label_def)
  have only: "List.find P items = Some obj" if P: "P obj" and uniq: "\<And>x. P x \<Longrightarrow> x \<in> set items \<Longrightarrow> x = obj" for P
  proof -
    obtain y where "List.find P items = Some y" using P assms(4) by (cases "List.find P items") (auto simp: find_None_iff)
    then show ?thesis using uniq by (auto simp: find_Some_iff)
  qed
  have "found_by items n = Some (summarize obj)"
  proof (cases "List.find (\<lambda>x. sum_Name (summarize x) = n) items")
    case None
    then show ?thesis
      using only [of "\<lambda>x. sum_WorkspaceId (summarize x) = n"] assms(5,6)
      by (auto simp: found_by_def find_map comp_def list_all_iff)
  next
    case (Some x)
    then have "x = obj" using assms(6) by (auto simp: find_Some_iff list_all_iff)
    then show ?thesis using Some by (simp add: found_by_def find_map comp_def)
  qed
  then show ?thesis
    using store_Find_serves [OF assms(1) ne] host_label_of [OF assms(2,3)] ne
    by (simp add: ResolveHost_def deriveWorkspaceHostnames_def)
qed

definition gw_object :: "string \<Rightarrow> string \<Rightarrow> Json" where
  "gw_object n i = JObject [(''metadata'', JObject [(''name'', JString n)]),
     (''status'', JObject [(''workspaceId'', JString i)])]"

definition genv0 :: GEnv where
  "genv0 = \<lparr>g_now = (\<lambda>h. 0), g_GetWorkspace = (\<lambda>h n. Inl (NotFound n)), g_ListWorkspaces = (\<lambda>h. Inr []),
     g_CreateWorkspace = (\<lambda>h j. Inr j), g_DeleteWorkspace = (\<lambda>h n. None), g_PatchWorkspace = (\<lambda>h n j. None),
     g_ListPods = (\<lambda>h s. Inr []), g_GetSecret = (\<lambda>h k. Inl (NotFound [])), g_CreateSecret = (\<lambda>h k s. None),
     g_UpdateSecret = (\<lambda>h k s. None), g_NewRequest = (\<lambda>m u. None), g_Do = (\<lambda>h m u b. Inl (Err ''refused'')),
     g_Get = (\<lambda>h u. Inl (Err ''refused'')), g_FormatTime = (\<lambda>t. Itoa t), g_rand = (\<lambda>h n. Inr (replicate n (CHR ''x''))),
     users_Marshal = (\<lambda>us. Inl (Err [])), users_Unmarshal = (\<lambda>s. None),
     bcrypt_Generate = (\<lambda>h p c. Inr p), bcrypt_Compare = (\<lambda>x p. x = p),
     jwt_Sign = (\<lambda>k c. Inl (Err [])), jwt_ParseHS256 = (\<lambda>k t now. Inl (Err [])),
     jwt_kid = (\<lambda>t. Inl (Err [])), jwt_ParseRSA = (\<lambda>iss aud k t now. Inl (Err [])),
     ssh_ParseAuthorizedKey = (\<lambda>s. Inr s), ssh_SignCert = (\<lambda>h k c. Inr []),
     ssh_ParsePrivateKey = (\<lambda>s. Inr (s, s)), ssh_GenerateKey = (\<lambda>h. Inr ''key'')\<rparr>"

definition serving :: "Json list \<Rightarrow> GEnv" where
  "serving items = genv0\<lparr>g_ListWorkspaces := (\<lambda>h. Inr items),
     g_GetWorkspace := (\<lambda>h i. case List.find (\<lambda>obj. sum_Name (summarize obj) = i) items of
        Some obj \<Rightarrow> Inr obj | None \<Rightarrow> Inl (NotFound i))\<rparr>"

lemma serves_serving: "serves (serving items) items"
  by (simp add: serves_def serving_def)

lemma summarize_gw_object [simp]:
  "sum_Name (summarize (gw_object n i)) = n" "sum_WorkspaceId (summarize (gw_object n i)) = i"
  by (simp_all add: summarize_def gw_object_def NestedString_def)

theorem session_host_reaches_its_workspace_witness:
  "fst (ResolveHost (serving [gw_object ''x'' ''y'', gw_object ''fix'' ''fix-ui''])
      (Session_host (deriveWorkspaceHostnames ''fix-ui'') @ ''.'' @ ''dev'') []) = Inr (summarize (gw_object ''fix'' ''fix-ui''))"
proof -
  have "dns_label ''fix-ui''" by code_simp
  from session_host_reaches_its_workspace [OF serves_serving this, of "''dev''" "gw_object ''fix'' ''fix-ui''"
      "[gw_object ''x'' ''y'', gw_object ''fix'' ''fix-ui'']" "[]" "[]"]
  show ?thesis by simp
qed

text \<open>Object names shadow identifiers.  When the identifier of one workspace is the object name of
  another, which the controller's collision handling produces, the session host of the first resolves
  to the second: its developer reaches somebody else's workspace.\<close>
theorem object_name_shadows_identifier:
  assumes "serves E items" and "dns_label n" and "CHR '':'' \<notin> set domain"
    and "List.find (\<lambda>x. sum_Name (summarize x) = n) items = Some other"
  shows "fst (ResolveHost E (Session_host (deriveWorkspaceHostnames n) @ ''.'' @ domain) h) = Inr (summarize other)"
proof -
  have ne: "n \<noteq> []" using assms(2) by (simp add: dns_label_def)
  have "found_by items n = Some (summarize other)" using assms(4) by (simp add: found_by_def find_map comp_def)
  then show ?thesis
    using store_Find_serves [OF assms(1) ne] host_label_of [OF assms(2,3)] ne
    by (simp add: ResolveHost_def deriveWorkspaceHostnames_def)
qed

theorem object_name_shadows_identifier_witness:
  "sum_WorkspaceId (summarize (gw_object ''b'' ''a'')) = ''a'' \<and>
   fst (ResolveHost (serving [gw_object ''b'' ''a'', gw_object ''a'' ''a-1f''])
      (Session_host (deriveWorkspaceHostnames ''a'') @ ''.'' @ ''dev'') []) = Inr (summarize (gw_object ''a'' ''a-1f''))"
proof -
  have "dns_label ''a''" by code_simp
  from object_name_shadows_identifier [OF serves_serving this, of "''dev''" _ "gw_object ''a'' ''a-1f''" "[]"]
  show ?thesis by simp
qed

subsection \<open>Creating a workspace\<close>


subsection \<open>The connection count\<close>

text \<open>The effect of a JSON merge patch on the annotations of an object: a string replaces the value,
  \<^verbatim>\<open>null\<close> removes the key.\<close>

definition merge_annotations :: "Json \<Rightarrow> (string \<rightharpoonup> string) \<Rightarrow> (string \<rightharpoonup> string)" where
  "merge_annotations patch anns = (\<lambda>k.
     case json_path [''metadata'', ''annotations'', k] patch of
       Some (JString v) \<Rightarrow> Some v | Some JNull \<Rightarrow> None | _ \<Rightarrow> anns k)"

text \<open>What the gateway reports is what the controller reads: after the gateway's patch for
  \<open>n\<close> browser connections is merged into a Workspace, \<^verbatim>\<open>browserConnections\<close> of the controller
  answers \<open>n\<close>, for every count a 64-bit integer holds, and 0 where nobody is connected; every other
  annotation is untouched.\<close>
theorem connection_report_round_trip:
  assumes "n \<le> max_int64"
  shows "browserConnections (ws\<lparr>WMeta := (WMeta ws)\<lparr>Annotations :=
      merge_annotations (connections_patch n) (Annotations (WMeta ws))\<rparr>\<rparr>) = (if n > 0 then n else 0) \<and>
    (k \<noteq> annotationBrowserConnections \<longrightarrow>
      merge_annotations (connections_patch n) anns k = anns k)"
proof -
  have names: "AnnotationBrowserConnections = annotationBrowserConnections"
    by (simp add: AnnotationBrowserConnections_def annotationBrowserConnections_def)
  have "Atoi [] = None" by code_simp
  then show ?thesis
    using Atoi_Itoa [of n] assms unfolding browserConnections_def names
    by (simp add: merge_annotations_def connections_patch_def annotation_def)
qed

theorem connection_report_round_trip_witness:
  "browserConnections ((ws0 ''w'' ''b'' 0)\<lparr>WMeta := (WMeta (ws0 ''w'' ''b'' 0))\<lparr>Annotations :=
      merge_annotations (connections_patch 3) (Annotations (WMeta (ws0 ''w'' ''b'' 0)))\<rparr>\<rparr>) = 3"
proof -
  have "(3 :: int) \<le> max_int64" by (simp add: max_int64_def)
  from connection_report_round_trip [OF this] show ?thesis by simp
qed

end
