(* ===== verification/GatewayUsers.thy ===== *)
theory GatewayUsers
  imports GatewayStore
begin

text \<open>
  The gateway's own users and sessions: \<^verbatim>\<open>userstore.go\<close> and \<^verbatim>\<open>session_issuer.go\<close>.  The user
  map lives in one Secret and is changed by a read, a decision and a conditional write, retried at most
  five times.  Shown: no update is lost between replicas, a session is accepted exactly while it is
  unexpired and younger than its user's credential, and an unknown user and a wrong password answer
  alike.
\<close>

subsection \<open>User store\<close>

definition maxUserStoreRetries :: nat where
  "maxUserStoreRetries = 5"

definition ErrInvalidCredential :: error where
  "ErrInvalidCredential = Sentinel ''ErrInvalidCredential'' ''gateway: invalid credential''"

definition ErrUserNotFound :: error where
  "ErrUserNotFound = Sentinel ''ErrUserNotFound'' ''gateway: user not found''"

record UserStore =
  us_Client :: bool
  us_Namespace :: string
  us_SecretName :: string
  us_DataKey :: string
  BcryptCost :: int

definition dataKey :: "UserStore \<Rightarrow> string" where
  "dataKey s = (if us_DataKey s \<noteq> [] then us_DataKey s else ''users'')"

definition us_key :: "UserStore \<Rightarrow> key" where
  "us_key s = (us_Namespace s, us_SecretName s)"

definition secret_name :: "key \<Rightarrow> string" where
  "secret_name k = fst k @ ''/'' @ snd k"

text \<open>The user map of a Secret: a missing or empty value is the empty map.\<close>

definition decode_users :: "GEnv \<Rightarrow> UserStore \<Rightarrow> GSecret \<Rightarrow> Users result" where
  "decode_users E s obj =
     (case gs_Data obj (dataKey s) of
        None \<Rightarrow> Inr Map.empty
      | Some encoded \<Rightarrow>
        (if encoded = [] then Inr Map.empty
         else case std_DecodeString encoded of
           None \<Rightarrow> Inl (Err (''gateway: secret '' @ secret_name (us_key s) @ '' key '' @ Quote (dataKey s) @ '' is not base64''))
         | Some raw \<Rightarrow>
           (case users_Unmarshal E raw of
              None \<Rightarrow> Inl (Err (''gateway: secret '' @ secret_name (us_key s) @ '' key '' @ Quote (dataKey s) @
                               '' is not valid user data''))
            | Some us \<Rightarrow> Inr us)))"

definition users_read :: "GEnv \<Rightarrow> UserStore \<Rightarrow> (Users \<times> GSecret option) result gact" where
  "users_read E s =
     bindI (gGetSecret E (us_key s)) (\<lambda>got.
       case got of
         Inl e \<Rightarrow> (if IsNotFound e then ok (Map.empty, None)
                   else fail (wrap (''gateway: read secret '' @ secret_name (us_key s) @ '': '') e))
       | Inr obj \<Rightarrow>
         (case decode_users E s obj of Inl e \<Rightarrow> fail e | Inr us \<Rightarrow> ok (us, Some obj)))"

definition Lookup :: "GEnv \<Rightarrow> UserStore \<Rightarrow> string \<Rightarrow> UserRecord option result gact" where
  "Lookup E s username = tryE (users_read E s) (\<lambda>(us, _). ok (us username))"

definition users_Verify :: "GEnv \<Rightarrow> UserStore \<Rightarrow> string \<Rightarrow> string \<Rightarrow> UserRecord result gact" where
  "users_Verify E s username password =
     tryE (Lookup E s username) (\<lambda>found.
       case found of
         None \<Rightarrow> fail ErrInvalidCredential
       | Some rec \<Rightarrow>
         (if bcrypt_Compare E (PasswordHash rec) password then ok rec else fail ErrInvalidCredential))"

text \<open>bcrypt's default cost is 10.\<close>

definition users_hash :: "GEnv \<Rightarrow> UserStore \<Rightarrow> string \<Rightarrow> string result gact" where
  "users_hash E s password =
     bindI (peek (\<lambda>h. bcrypt_Generate E h password (if BcryptCost s = 0 then 10 else BcryptCost s))) (\<lambda>r.
       case r of Inl e \<Rightarrow> fail (wrap ''gateway: hash credential: '' e) | Inr x \<Rightarrow> ok x)"

text \<open>A decision on the user map: \<open>None\<close> leaves it alone, \<open>Some us\<close> is the map to write
  back; the second component is what the closure leaves in the caller's variables, which the call that
  ends the loop decides.  \<open>mutate_loop\<close> is the loop of \<^verbatim>\<open>mutate\<close> with the attempts left and
  the last conflict.\<close>

type_synonym 'b decision = "Users \<Rightarrow> (Users option \<times> 'b) result gact"

definition write_users :: "GEnv \<Rightarrow> UserStore \<Rightarrow> GSecret option \<Rightarrow> string \<Rightarrow> error option gact" where
  "write_users E s obj encoded =
     (case obj of
        None \<Rightarrow> gCreateSecret E (us_key s) (newSecretObject [(dataKey s, encoded)])
      | Some obj \<Rightarrow> gUpdateSecret E (us_key s)
          (obj\<lparr>gs_Data := (gs_Data obj)(dataKey s \<mapsto> std_EncodeToString encoded)\<rparr>))"

text \<open>A refusal another replica caused: the Secret appeared, or moved on, since it was read.\<close>

definition lost_race :: "GSecret option \<Rightarrow> error \<Rightarrow> bool" where
  "lost_race obj e = (case obj of None \<Rightarrow> IsAlreadyExists e | Some _ \<Rightarrow> IsConflict e)"

fun mutate_loop :: "nat \<Rightarrow> string \<Rightarrow> GEnv \<Rightarrow> UserStore \<Rightarrow> 'b decision \<Rightarrow> 'b result gact" where
  "mutate_loop 0 lastErr E s fn =
     fail (Err (''gateway: user store update conflicted '' @ decimal maxUserStoreRetries @ '' times: '' @ lastErr))"
| "mutate_loop (Suc n) lastErr E s fn =
     tryE (users_read E s) (\<lambda>(us, obj).
     tryE (fn us) (\<lambda>(changed, b).
     case changed of
       None \<Rightarrow> ok b
     | Some us' \<Rightarrow>
       (case users_Marshal E us' of
          Inl e \<Rightarrow> fail (wrap ''gateway: encode users: '' e)
        | Inr encoded \<Rightarrow>
          bindI (write_users E s obj encoded) (\<lambda>e.
            case e of
              None \<Rightarrow> ok b
            | Some e \<Rightarrow>
              (if lost_race obj e then mutate_loop n (Error e) E s fn
               else fail (wrap ((if obj = None then ''gateway: create secret '' else ''gateway: update secret '') @
                      secret_name (us_key s) @ '': '') e))))))"

definition mutate :: "GEnv \<Rightarrow> UserStore \<Rightarrow> 'b decision \<Rightarrow> 'b result gact" where
  "mutate E s fn =
     (if \<not> us_Client s \<or> us_Namespace s = [] \<or> us_SecretName s = []
      then fail (Err ''gateway: incomplete user store configuration'')
      else mutate_loop maxUserStoreRetries [] E s fn)"

definition put_password :: "GEnv \<Rightarrow> UserStore \<Rightarrow> string \<Rightarrow> string \<Rightarrow> 'b \<Rightarrow> 'b decision" where
  "put_password E s username password b us =
     tryE (users_hash E s password) (\<lambda>x.
       bindI (gnow E) (\<lambda>now.
         ok (Some (us(username \<mapsto> \<lparr>PasswordHash = x, UpdatedAt = now\<rparr>)), b)))"

definition set_password :: "GEnv \<Rightarrow> UserStore \<Rightarrow> string \<Rightarrow> string \<Rightarrow> unit decision" where
  "set_password E s username password us =
     (if us username = None then fail ErrUserNotFound else put_password E s username password () us)"

definition SetPassword :: "GEnv \<Rightarrow> UserStore \<Rightarrow> string \<Rightarrow> string \<Rightarrow> unit result gact" where
  "SetPassword E s username password = mutate E s (set_password E s username password)"

definition ensure_user :: "GEnv \<Rightarrow> UserStore \<Rightarrow> string \<Rightarrow> string \<Rightarrow> bool decision" where
  "ensure_user E s username password us =
     (if us username \<noteq> None then ok (None, True) else put_password E s username password False us)"

definition EnsureUser :: "GEnv \<Rightarrow> UserStore \<Rightarrow> string \<Rightarrow> string \<Rightarrow> bool result gact" where
  "EnsureUser E s username password = mutate E s (ensure_user E s username password)"

subsection \<open>Sessions\<close>

definition DefaultSessionTTL :: duration where
  "DefaultSessionTTL = Hour"

record JWTSessionIssuer =
  si_Key :: string
  si_Users :: "UserStore option"

text \<open>\<^verbatim>\<open>jwt.NewNumericDate\<close> drops the fraction of a second.\<close>

definition NewNumericDate :: "time \<Rightarrow> time" where
  "NewNumericDate t = t - t mod Second"

definition session_claims :: "Subject \<Rightarrow> time \<Rightarrow> duration \<Rightarrow> sessionClaims" where
  "session_claims subject now ttl =
     \<lparr>sc_Name = sub_Name subject, sc_Source = sub_Source subject, IssuedAtNano = now,
      sc_Subject = sub_ID subject, sc_IssuedAt = NewNumericDate now, sc_ExpiresAt = NewNumericDate (now + ttl)\<rparr>"

definition session_Issue :: "GEnv \<Rightarrow> JWTSessionIssuer \<Rightarrow> Subject \<Rightarrow> duration \<Rightarrow> (string \<times> time) result gact" where
  "session_Issue E s subject ttl =
     (if si_Key s = [] then fail (Err ''gateway: session issuer has no signing key'')
      else if sub_ID subject = [] then fail (Err ''gateway: no subject to issue a session for'')
      else bindI (gnow E) (\<lambda>now.
        case jwt_Sign E (si_Key s) (session_claims subject now ttl) of
          Inl e \<Rightarrow> fail (wrap ''gateway: sign session: '' e)
        | Inr token \<Rightarrow> ok (token, now + ttl)))"

definition session_Verify :: "GEnv \<Rightarrow> JWTSessionIssuer \<Rightarrow> string \<Rightarrow> Subject result gact" where
  "session_Verify E s token =
     (if si_Key s = [] then fail (Err ''gateway: session issuer has no signing key'')
      else if token = [] then fail (Err ''gateway: no session token'')
      else bindI (gnow E) (\<lambda>now.
        case jwt_ParseHS256 E (si_Key s) token now of
          Inl e \<Rightarrow> fail (wrap ''gateway: session rejected: '' e)
        | Inr claims \<Rightarrow>
          (if sc_Subject claims = [] then fail (Err ''gateway: session has no subject'')
           else
             let subject = \<lparr>sub_ID = sc_Subject claims, sub_Name = sc_Name claims, sub_Source = sc_Source claims\<rparr> in
             case si_Users s of
               None \<Rightarrow> ok subject
             | Some users \<Rightarrow>
               bindI (Lookup E users (sc_Subject claims)) (\<lambda>found.
                 case found of
                   Inl e \<Rightarrow> fail (wrap ''gateway: session rejected: '' e)
                 | Inr None \<Rightarrow> fail (Err ''gateway: session predates a credential change'')
                 | Inr (Some rec) \<Rightarrow>
                   (if UpdatedAt rec > IssuedAtNano claims
                    then fail (Err ''gateway: session predates a credential change'')
                    else ok subject)))))"

subsection \<open>No update is lost\<close>

text \<open>Optimistic concurrency as the API server documents it: a create succeeds only where there is no
  such Secret, an update only on the version in place, and a version names one state of the Secret.\<close>

definition versioned :: "GEnv \<Rightarrow> bool" where
  "versioned E \<longleftrightarrow>
     (\<forall>h k s. g_CreateSecret E h k s = None \<longrightarrow> (\<exists>e. g_GetSecret E h k = Inl e \<and> IsNotFound e)) \<and>
     (\<forall>h k s. g_UpdateSecret E h k s = None \<longrightarrow> (\<exists>c. g_GetSecret E h k = Inr c \<and> gs_Version c = gs_Version s)) \<and>
     (\<forall>h h' k c c'. g_GetSecret E h k = Inr c \<longrightarrow> g_GetSecret E h' k = Inr c' \<longrightarrow>
        gs_Version c = gs_Version c' \<longrightarrow> c = c')"

text \<open>The user map in place at a moment, and the map a successful write puts there.\<close>

definition stored :: "GEnv \<Rightarrow> UserStore \<Rightarrow> GEvent list \<Rightarrow> Users result" where
  "stored E s h = (case g_GetSecret E h (us_key s) of
     Inl e \<Rightarrow> if IsNotFound e then Inr Map.empty else Inl e | Inr obj \<Rightarrow> decode_users E s obj)"

fun written :: "GEnv \<Rightarrow> UserStore \<Rightarrow> GEvent \<Rightarrow> Users option" where
  "written E s (GvCreateSecret k obj None) =
     (if k = us_key s then case decode_users E s obj of Inr us \<Rightarrow> Some us | Inl _ \<Rightarrow> None else None)"
| "written E s (GvUpdateSecret k obj None) =
     (if k = us_key s then case decode_users E s obj of Inr us \<Rightarrow> Some us | Inl _ \<Rightarrow> None else None)"
| "written E s _ = None"

lemma runs_users_read:
  "runs (users_read E s) h (\<lambda>res evs. evs = [GvGetSecret (us_key s) (g_GetSecret E h (us_key s))] \<and>
     (\<forall>us obj. res = Inr (us, obj) \<longrightarrow> stored E s h = Inr us \<and>
        (case obj of None \<Rightarrow> (\<exists>e. g_GetSecret E h (us_key s) = Inl e \<and> IsNotFound e)
         | Some c \<Rightarrow> g_GetSecret E h (us_key s) = Inr c)))"
  unfolding users_read_def
  by (rule runs_bindI [where P = "\<lambda>got evs. got = g_GetSecret E h (us_key s) \<and> evs = [GvGetSecret (us_key s) got]"])
     (auto simp: gGetSecret_def stored_def intro!: runs_call runs_ok runs_fail split: sum.splits)

lemma runs_write_users:
  assumes "versioned E" and "users_json E" and "users_Marshal E us' = Inr encoded"
    and "case obj of None \<Rightarrow> \<exists>e. g_GetSecret E h0 (us_key s) = Inl e \<and> IsNotFound e
         | Some c \<Rightarrow> g_GetSecret E h0 (us_key s) = Inr c"
    and "stored E s h0 = Inr us"
  shows "runs (write_users E s obj encoded) h (\<lambda>e evs. \<exists>w. evs = [w] \<and>
     (e = None \<longrightarrow> stored E s h = Inr us \<and> written E s w = Some us'))"
proof -
  have decode: "users_Unmarshal E encoded = Some us'" "encoded \<noteq> []"
    using assms(2,3) by (auto simp: users_json_def)
  show ?thesis
  proof (cases obj)
    case None
    let ?o = "newSecretObject [(dataKey s, encoded)]"
    have "decode_users E s ?o = Inr us'"
      using decode by (simp add: decode_users_def newSecretObject_def std_Decode_Encode)
    moreover have "stored E s h = Inr us" if won: "g_CreateSecret E h (us_key s) ?o = None"
    proof -
      obtain e0 where "g_GetSecret E h0 (us_key s) = Inl e0" "IsNotFound e0" using assms(4) None by auto
      moreover obtain e1 where "g_GetSecret E h (us_key s) = Inl e1" "IsNotFound e1"
        using won assms(1) unfolding versioned_def by blast
      ultimately show ?thesis using assms(5) by (simp add: stored_def)
    qed
    ultimately show ?thesis
      using None by (auto simp: write_users_def gCreateSecret_def intro!: runs_call)
  next
    case (Some c)
    let ?o = "c\<lparr>gs_Data := (gs_Data c)(dataKey s \<mapsto> std_EncodeToString encoded)\<rparr>"
    have "decode_users E s ?o = Inr us'"
      using decode by (simp add: decode_users_def std_Decode_Encode)
    moreover have "stored E s h = Inr us" if won: "g_UpdateSecret E h (us_key s) ?o = None"
    proof -
      obtain c' where c': "g_GetSecret E h (us_key s) = Inr c'" "gs_Version c' = gs_Version ?o"
        using won assms(1) unfolding versioned_def by blast
      have "g_GetSecret E h0 (us_key s) = Inr c" using assms(4) Some by simp
      moreover have "gs_Version c' = gs_Version c" using c'(2) by simp
      ultimately have "c' = c" using assms(1) c'(1) unfolding versioned_def by blast
      then show ?thesis using c' assms(5) \<open>g_GetSecret E h0 (us_key s) = Inr c\<close> by (simp add: stored_def)
    qed
    ultimately show ?thesis
      using Some by (auto simp: write_users_def gUpdateSecret_def intro!: runs_call)
  qed
qed

text \<open>What a successful run of the loop did: either the decision left the map alone, or the last event
  is a write that put the decided map in place of the very map it was decided on.\<close>

definition committed :: "GEnv \<Rightarrow> UserStore \<Rightarrow> 'b decision \<Rightarrow> GEvent list \<Rightarrow> 'b result \<Rightarrow> GEvent list \<Rightarrow> bool" where
  "committed E s fn h res evs \<longleftrightarrow> (case res of Inl _ \<Rightarrow> True | Inr b \<Rightarrow>
     (\<exists>us h1. fst (fn us h1) = Inr (None, b)) \<or>
     (\<exists>evs0 w us us' h1. evs = evs0 @ [w] \<and> stored E s (h @ evs0) = Inr us \<and>
        fst (fn us h1) = Inr (Some us', b) \<and> written E s w = Some us'))"

lemma committed_later:
  assumes "committed E s fn (h @ xs) res evs"
  shows "committed E s fn h res (xs @ evs)"
  using assms unfolding committed_def by (auto split: sum.splits)

lemma runs_quiet:
  assumes "emits (\<lambda>_. False) m"
  shows "runs m h (\<lambda>x evs. evs = [] \<and> x = fst (m h))"
proof -
  obtain evs where "snd (m h) = h @ evs" "list_all (\<lambda>_. False) evs" using assms unfolding emits_def by blast
  then show ?thesis by (cases evs) (simp_all add: runs_def)
qed

lemma runs_mutate_loop:
  assumes "versioned E" and "users_json E" and quiet: "\<And>us. emits (\<lambda>_. False) (fn us)"
  shows "runs (mutate_loop n e E s fn) h (committed E s fn h)"
proof (induction n arbitrary: e h)
  case 0
  show ?case by (simp add: committed_def runs_fail)
next
  case (Suc n)
  show ?case
    unfolding mutate_loop.simps
  proof (rule runs_tryE [OF runs_users_read], goal_cases)
    case (1 e evs)
    then show ?case by (simp add: committed_def)
  next
    case (2 x evs)
    obtain us obj where x: "x = (us, obj)" by (cases x)
    note read = 2 [unfolded x]
    show ?case
      unfolding x prod.case
    proof (rule runs_tryE [OF runs_quiet [OF quiet]], goal_cases)
      case (1 e evs')
      then show ?case by (simp add: committed_def)
    next
      case (2 y evs')
      obtain changed b where y: "y = (changed, b)" by (cases y)
      have fn: "evs' = []" "fst (fn us (h @ evs)) = Inr (changed, b)" using 2 y by simp_all
      show ?case
      proof (cases changed)
        case None
        then have "\<exists>us h1. fst (fn us h1) = Inr (None, b)" using fn by blast
        then show ?thesis using None y by (simp add: committed_def runs_ok)
      next
        case (Some us')
        show ?thesis
        proof (cases "users_Marshal E us'")
          case (Inl e)
          then show ?thesis using Some y by (simp add: committed_def runs_fail)
        next
          case (Inr encoded)
          have "runs (bindI (write_users E s obj encoded) (\<lambda>e.
              case e of None \<Rightarrow> ok b
              | Some e \<Rightarrow> if lost_race obj e then mutate_loop n (Error e) E s fn else fail (wrap (pre e) e)))
              (h @ evs) (\<lambda>res es. committed E s fn h res (evs @ es))" for pre
          proof (rule runs_bindI [OF runs_write_users [OF assms(1,2) Inr, where obj = obj and ?h0.0 = h and s = s and us = us]], goal_cases)
            case 1
            then show ?case using read by simp
          next
            case 2
            then show ?case using read by simp
          next
            case (3 e' es)
            then obtain w where w: "es = [w]"
              "e' = None \<longrightarrow> stored E s (h @ evs) = Inr us \<and> written E s w = Some us'" by blast
            show ?case
            proof (cases e')
              case None
              then show ?thesis using w fn Some
                by (intro runs_eq [OF runs_ok]) (auto simp: committed_def)
            next
              case (Some er)
              have "runs (mutate_loop n (Error er) E s fn) ((h @ evs) @ es)
                  (\<lambda>res es'. committed E s fn h res (evs @ es @ es'))"
                unfolding append_assoc
                by (rule runs_mono [OF Suc.IH])
                   (use committed_later [of E s fn h "evs @ es"] in \<open>simp only: append_assoc\<close>)
              then show ?thesis using Some by (auto simp: committed_def intro!: runs_fail)
            qed
          qed
          then show ?thesis using Some Inr fn(1) y by simp
        qed
      qed
    qed
  qed
qed

lemma quiet_put_password: "emits (\<lambda>_. False) (put_password E s u p b us)"
  unfolding put_password_def users_hash_def by (intro emits_rules)

lemma quiet_set_password: "emits (\<lambda>_. False) (set_password E s u p us)"
  unfolding set_password_def by (intro emits_rules quiet_put_password)

lemma put_password_result:
  assumes "fst (put_password E s u p b us h) = Inr (changed, b')"
  shows "\<exists>x h'. changed = Some (us(u \<mapsto> \<lparr>PasswordHash = x, UpdatedAt = g_now E h\<rparr>)) \<and>
    bcrypt_Generate E h p h' = Inr x"
  using assms
  by (auto simp: put_password_def users_hash_def tryE_def bindI_def peek_def ok_def fail_def ret_def gnow_def
      split: sum.splits)

text \<open>C29. Changing a password loses no concurrent update.  On an API server with versioned Secrets, when
  \<^verbatim>\<open>SetPassword\<close> succeeds its last event is a write, and what that write puts in place is the user
  map in place at that very moment with only this user's record replaced by a hash the new password
  matches; the user existed.  However many replicas write in between, the stale read is retried.\<close>
theorem SetPassword_loses_no_update:
  assumes "versioned E" and "users_json E" and "bcrypt_lib E" and "SetPassword E s u p h = (Inr (), h')"
  shows "\<exists>h0 w us x t. h' = h0 @ [w] \<and> stored E s h0 = Inr us \<and> us u \<noteq> None \<and>
    written E s w = Some (us(u \<mapsto> \<lparr>PasswordHash = x, UpdatedAt = t\<rparr>)) \<and> bcrypt_Compare E x p"
proof -
  have loop: "runs (mutate_loop n e E s (set_password E s u p)) h (committed E s (set_password E s u p) h)" for n e
    by (rule runs_mutate_loop [OF assms(1,2) quiet_set_password])
  have "runs (SetPassword E s u p) h (committed E s (set_password E s u p) h)"
    using loop by (simp add: SetPassword_def mutate_def runs_fail committed_def [of _ _ _ _ "Inl _"])
  then obtain evs where h': "h' = h @ evs" and c: "committed E s (set_password E s u p) h (Inr ()) evs"
    using assms(4) by (auto simp: runs_def)
  have decided: "us u \<noteq> None \<and> (\<exists>x t. changed = Some (us(u \<mapsto> \<lparr>PasswordHash = x, UpdatedAt = t\<rparr>)) \<and> bcrypt_Compare E x p)"
    if "fst (set_password E s u p us h1) = Inr (changed, ())" for us h1 changed
    using that put_password_result [of E s u p "()" us h1 changed "()"] assms(3)
    by (auto simp: set_password_def bcrypt_lib_def fail_def ret_def split: if_splits)
  from c obtain evs0 w us us' h1 where "evs = evs0 @ [w]" "stored E s (h @ evs0) = Inr us"
      "fst (set_password E s u p us h1) = Inr (Some us', ())" "written E s w = Some us'"
    using decided unfolding committed_def by fastforce
  then show ?thesis using decided h' by (metis append.assoc option.inject)
qed

definition admin_old :: Users where
  "admin_old = [''admin'' \<mapsto> \<lparr>PasswordHash = ''old'', UpdatedAt = 0\<rparr>]"

definition admin_new :: Users where
  "admin_new = [''admin'' \<mapsto> \<lparr>PasswordHash = ''new'', UpdatedAt = 5\<rparr>]"

definition users_env :: GEnv where
  "users_env = genv0\<lparr>g_now := (\<lambda>h. 5),
     g_GetSecret := (\<lambda>h k. Inr ((newSecretObject [(''users'', ''a'')])\<lparr>gs_Version := ''1''\<rparr>)),
     g_CreateSecret := (\<lambda>h k s. Some (AlreadyExists [])),
     g_UpdateSecret := (\<lambda>h k s. if gs_Version s = ''1'' then None else Some (Conflict [])),
     users_Marshal := (\<lambda>us. if us = admin_old then Inr ''a'' else if us = admin_new then Inr ''b'' else Inl (Err [])),
     users_Unmarshal := (\<lambda>raw. if raw = ''a'' then Some admin_old else if raw = ''b'' then Some admin_new else None)\<rparr>"

definition store0 :: UserStore where
  "store0 = \<lparr>us_Client = True, us_Namespace = ''gw'', us_SecretName = ''users'', us_DataKey = [], BcryptCost = 0\<rparr>"

lemma admin_maps: "admin_old \<noteq> admin_new" "admin_old ''admin'' = Some \<lparr>PasswordHash = ''old'', UpdatedAt = 0\<rparr>"
  "admin_old(''admin'' \<mapsto> \<lparr>PasswordHash = ''new'', UpdatedAt = 5\<rparr>) = admin_new"
  by (auto simp: admin_old_def admin_new_def fun_eq_iff)

lemma users_env_laws: "versioned users_env" "users_json users_env" "bcrypt_lib users_env"
  by (auto simp: versioned_def users_json_def bcrypt_lib_def users_env_def genv0_def admin_maps)

lemma decode_users_env:
  "decode_users users_env store0 ((newSecretObject [(''users'', ''a'')])\<lparr>gs_Version := ''1''\<rparr>) = Inr admin_old"
  by (simp add: decode_users_def newSecretObject_def store0_def dataKey_def std_Decode_Encode users_env_def)

lemma users_env_read:
  "users_read users_env store0 h = (Inr (admin_old, Some ((newSecretObject [(''users'', ''a'')])\<lparr>gs_Version := ''1''\<rparr>)),
     h @ [GvGetSecret (us_key store0) (Inr ((newSecretObject [(''users'', ''a'')])\<lparr>gs_Version := ''1''\<rparr>))])"
  using decode_users_env
  by (simp add: users_read_def bindI_def gGetSecret_def call_def users_env_def [THEN arg_cong, of g_GetSecret] genv0_def ok_def ret_def)

theorem SetPassword_loses_no_update_witness:
  "\<exists>h0 w us x t. snd (SetPassword users_env store0 ''admin'' ''new'' []) = h0 @ [w] \<and>
    stored users_env store0 h0 = Inr us \<and> us ''admin'' \<noteq> None \<and>
    written users_env store0 w = Some (us(''admin'' \<mapsto> \<lparr>PasswordHash = x, UpdatedAt = t\<rparr>)) \<and> bcrypt_Compare users_env x ''new''"
proof -
  have cfg: "us_Client store0" "us_Namespace store0 \<noteq> []" "us_SecretName store0 \<noteq> []"
    by (simp_all add: store0_def)
  have decided: "set_password users_env store0 ''admin'' ''new'' admin_old h = (Inr (Some admin_new, ()), h)" for h
    using admin_maps by (simp add: set_password_def put_password_def users_hash_def users_env_def genv0_def tryE_def
        bindI_def peek_def gnow_def ok_def ret_def)
  have enc: "users_Marshal users_env admin_new = Inr ''b''"
    using admin_maps(1) by (simp add: users_env_def)
  have upd: "g_UpdateSecret users_env h k ((newSecretObject [(''users'', ''a'')])\<lparr>gs_Version := ''1'', gs_Data := d\<rparr>) = None" for h k d
    by (simp add: users_env_def)
  have "fst (mutate_loop (Suc n) [] users_env store0 (set_password users_env store0 ''admin'' ''new'') []) = Inr ()" for n
    by (simp add: tryE_def bindI_def users_env_read decided enc write_users_def gUpdateSecret_def call_def upd ok_def ret_def)
  then have "fst (SetPassword users_env store0 ''admin'' ''new'' []) = Inr ()"
    using cfg by (simp add: SetPassword_def mutate_def maxUserStoreRetries_def numeral_eq_Suc del: mutate_loop.simps)
  then have "SetPassword users_env store0 ''admin'' ''new'' [] = (Inr (), snd (SetPassword users_env store0 ''admin'' ''new'' []))"
    by (simp add: prod_eq_iff)
  then show ?thesis by (rule SetPassword_loses_no_update [OF users_env_laws])
qed

subsection \<open>Sessions\<close>

text \<open>C30. A session is accepted exactly while it is fresh.  Of a token the gateway issued at time
  \<open>t\<close>, \<^verbatim>\<open>Verify\<close> rebuilds the subject it was issued for when the token has not reached its
  expiry (the issue time plus the lifetime, to the second below) and the user still exists with a
  credential no younger than the session; otherwise it fails.  A password change therefore ends every
  session issued before it.\<close>
theorem session_accepted_exactly_while_fresh:
  assumes "jwt_lib E" and "session_Issue E s subject ttl h = (Inr (token, expiry), h1)"
    and "si_Users s = Some users" and "stored E users h2 = Inr us"
  shows "if g_now E h2 < NewNumericDate (g_now E h + ttl) \<and>
      (case us (sub_ID subject) of None \<Rightarrow> False | Some rec \<Rightarrow> UpdatedAt rec \<le> g_now E h)
    then fst (session_Verify E s token h2) = Inr subject
    else isl (fst (session_Verify E s token h2))"
proof -
  let ?c = "session_claims subject (g_now E h) ttl"
  have key: "si_Key s \<noteq> []" and id: "sub_ID subject \<noteq> []" and tok: "jwt_Sign E (si_Key s) ?c = Inr token"
    using assms(2) by (auto simp: session_Issue_def bindI_def gnow_def peek_def fail_def ok_def ret_def
        split: if_splits sum.splits)
  have ne: "token \<noteq> []" and
    parse: "if g_now E h2 < NewNumericDate (g_now E h + ttl) then jwt_ParseHS256 E (si_Key s) token (g_now E h2) = Inr ?c
      else isl (jwt_ParseHS256 E (si_Key s) token (g_now E h2))"
    using assms(1) tok unfolding jwt_lib_def by (auto simp: session_claims_def)
  have look: "fst (Lookup E users i h2) = Inr (us i)" for i
    using assms(4) by (auto simp: Lookup_def users_read_def stored_def tryE_def bindI_def gGetSecret_def call_def
        ok_def fail_def ret_def split: sum.splits if_splits)
  then obtain h3 where look': "Lookup E users (sub_ID subject) h2 = (Inr (us (sub_ID subject)), h3)"
    by (metis prod.collapse)
  show ?thesis
    using key id ne parse look' assms(3)
    by (cases "jwt_ParseHS256 E (si_Key s) token (g_now E h2)"; cases "us (sub_ID subject)")
       (auto simp: session_Verify_def session_claims_def bindI_def gnow_def peek_def fail_def ok_def ret_def Let_def
         split: if_splits)
qed

definition subject0 :: Subject where
  "subject0 = \<lparr>sub_ID = ''admin'', sub_Name = ''admin'', sub_Source = ''local''\<rparr>"

definition session_env :: GEnv where
  "session_env = users_env\<lparr>
     jwt_Sign := (\<lambda>k c. if c = session_claims subject0 5 Hour then Inr ''t'' else Inl (Err [])),
     jwt_ParseHS256 := (\<lambda>k t now. if t = ''t'' \<and> now < NewNumericDate (5 + Hour)
        then Inr (session_claims subject0 5 Hour) else Inl (Err []))\<rparr>"

theorem session_accepted_exactly_while_fresh_witness:
  "fst (session_Verify session_env \<lparr>si_Key = ''k'', si_Users = Some store0\<rparr> ''t'' []) = Inr subject0"
proof -
  let ?s = "\<lparr>si_Key = ''k'', si_Users = Some store0\<rparr>"
  have "jwt_lib session_env"
    by (auto simp: jwt_lib_def session_env_def session_claims_def users_env_def genv0_def)
  moreover have "session_Issue session_env ?s subject0 Hour [] = (Inr (''t'', 5 + Hour), [])"
    by (simp add: session_Issue_def session_env_def users_env_def subject0_def bindI_def gnow_def peek_def ok_def ret_def)
  moreover have "si_Users ?s = Some store0" by simp
  moreover have "stored session_env store0 [] = Inr admin_old"
    by (simp add: stored_def session_env_def users_env_def decode_users_def newSecretObject_def store0_def dataKey_def
        std_Decode_Encode)
  ultimately have "if g_now session_env [] < NewNumericDate (g_now session_env [] + Hour) \<and>
      (case admin_old (sub_ID subject0) of None \<Rightarrow> False | Some rec \<Rightarrow> UpdatedAt rec \<le> g_now session_env [])
    then fst (session_Verify session_env ?s ''t'' []) = Inr subject0
    else isl (fst (session_Verify session_env ?s ''t'' []))"
    by (rule session_accepted_exactly_while_fresh)
  then show ?thesis
    by (simp add: session_env_def users_env_def subject0_def admin_maps NewNumericDate_def)
qed

end
