(* ===== verification/GatewayIdentity.thy ===== *)
theory GatewayIdentity
  imports GatewayUsers
begin

text \<open>
  Who is asking: \<^verbatim>\<open>auth.go\<close> (bearer tokens of an external identity provider, with its cached key
  set) and \<^verbatim>\<open>identity.go\<close> (the list of authenticators every route goes through).  The interface
  \<^verbatim>\<open>Authenticator\<close> is the locale \<open>authenticator\<close>; its two implementations interpret it.  The
  key cache is a field of the verifier, which every step hands on.  Shown: a request without a
  credential is refused before anything outside is asked, identification makes no call but to the key
  set and the user store, and the key cache.
\<close>

subsection \<open>Credentials on a request\<close>

definition bearerToken :: "Request \<Rightarrow> string" where
  "bearerToken r =
     (case Cut (rq_Header r ''Authorization'') (CHR '' '') of (scheme, token, found) \<Rightarrow>
        if \<not> found \<or> \<not> EqualFold scheme ''Bearer'' then [] else TrimSpace token)"

definition wsProtocolBearerPrefix :: string where
  "wsProtocolBearerPrefix = ''bearer.''"

definition ws_credential :: "string \<Rightarrow> string option" where
  "ws_credential proto0 =
     (let proto = TrimSpace proto0; n = length wsProtocolBearerPrefix in
      if length proto > n \<and> EqualFold (take n proto) wsProtocolBearerPrefix then Some (drop n proto) else None)"

definition PresentedToken :: "Request \<Rightarrow> string" where
  "PresentedToken r =
     (if bearerToken r \<noteq> [] then bearerToken r
      else case List.find (\<lambda>p. ws_credential p \<noteq> None) (Split (CHR '','') (rq_Header r ''Sec-WebSocket-Protocol'')) of
        Some p \<Rightarrow> the (ws_credential p) | None \<Rightarrow> [])"

subsection \<open>The external identity provider\<close>

record Verifier =
  vf_Issuer :: string
  vf_Audience :: string
  JWKSURL :: string
  RefreshInterval :: duration
  vf_keys :: "string \<rightharpoonup> RsaKey"
  fetchedAt :: time

definition refreshInterval :: "Verifier \<Rightarrow> duration" where
  "refreshInterval v = (if RefreshInterval v > 0 then RefreshInterval v else Hour)"

definition cachedKey :: "Verifier \<Rightarrow> time \<Rightarrow> string \<Rightarrow> RsaKey option" where
  "cachedKey v now kid = (if now - fetchedAt v > refreshInterval v then None else vf_keys v kid)"

text \<open>\<^verbatim>\<open>new(big.Int).SetBytes\<close> and \<^verbatim>\<open>Int64\<close>\<close>

definition SetBytes :: "string \<Rightarrow> nat" where
  "SetBytes bs = foldl (\<lambda>acc c. acc * 256 + of_char c) 0 bs"

definition Int64 :: "nat \<Rightarrow> int" where
  "Int64 n = (let w = int n mod 18446744073709551616 in
     if w > max_int64 then w - 18446744073709551616 else w)"

record jwk =
  Kty :: string
  Kid :: string
  jwk_N :: string
  jwk_E :: string

definition jwk_fields :: "jwk setter list" where
  "jwk_fields =
     [(''kty'', \<lambda>j k. map_option (\<lambda>v. k\<lparr>Kty := v\<rparr>) (as_string j)),
      (''kid'', \<lambda>j k. map_option (\<lambda>v. k\<lparr>Kid := v\<rparr>) (as_string j)),
      (''n'', \<lambda>j k. map_option (\<lambda>v. k\<lparr>jwk_N := v\<rparr>) (as_string j)),
      (''e'', \<lambda>j k. map_option (\<lambda>v. k\<lparr>jwk_E := v\<rparr>) (as_string j))]"

definition jwk0 :: jwk where
  "jwk0 = \<lparr>Kty = [], Kid = [], jwk_N = [], jwk_E = []\<rparr>"

fun as_jwks :: "Json \<Rightarrow> jwk list option" where
  "as_jwks (JList js) = those (map (\<lambda>j. decode_struct jwk_fields (Some j) jwk0) js)"
| "as_jwks _ = None"

definition jwks_fields :: "jwk list setter list" where
  "jwks_fields = [(''keys'', \<lambda>j _. as_jwks j)]"

text \<open>A key that is not RSA or does not decode is skipped; a later key of the same id replaces an
  earlier one.\<close>

definition add_jwk :: "(string \<rightharpoonup> RsaKey) \<Rightarrow> jwk \<Rightarrow> (string \<rightharpoonup> RsaKey)" where
  "add_jwk keys k =
     (if Kty k \<noteq> ''RSA'' then keys
      else case (rawurl_DecodeString (jwk_N k), rawurl_DecodeString (jwk_E k)) of
        (Some n, Some e) \<Rightarrow> keys(Kid k \<mapsto> \<lparr>rsa_N = SetBytes n, rsa_E = Int64 (SetBytes e)\<rparr>)
      | _ \<Rightarrow> keys)"

definition verifier_refresh :: "GEnv \<Rightarrow> Verifier \<Rightarrow> (Verifier \<times> unit result) gact" where
  "verifier_refresh E v =
     bindI (call (\<lambda>h. g_Get E h (JWKSURL v)) (GvFetchJWKS (JWKSURL v))) (\<lambda>got.
       case got of
         Inl e \<Rightarrow> ret (v, Inl (wrap ''gateway: fetch JWKS: '' e))
       | Inr resp \<Rightarrow>
         (if StatusCode resp \<noteq> 200
          then ret (v, Inl (Err (''gateway: fetch JWKS: status '' @ Itoa (StatusCode resp))))
          else case decode_struct jwks_fields (Body resp) [] of
            None \<Rightarrow> ret (v, Inl (Err ''gateway: decode JWKS''))
          | Some doc \<Rightarrow>
            bindI (gnow E) (\<lambda>now.
              ret (v\<lparr>vf_keys := foldl add_jwk Map.empty doc, fetchedAt := now\<rparr>, Inr ()))))"

definition verifier_key :: "GEnv \<Rightarrow> Verifier \<Rightarrow> string \<Rightarrow> (Verifier \<times> RsaKey result) gact" where
  "verifier_key E v kid =
     bindI (gnow E) (\<lambda>now.
       case cachedKey v now kid of
         Some k \<Rightarrow> ret (v, Inr k)
       | None \<Rightarrow>
         bindI (verifier_refresh E v) (\<lambda>(v, res).
           case res of
             Inl e \<Rightarrow> ret (v, Inl e)
           | Inr _ \<Rightarrow>
             bindI (gnow E) (\<lambda>now.
               case cachedKey v now kid of
                 Some k \<Rightarrow> ret (v, Inr k)
               | None \<Rightarrow> ret (v, Inl (Err (''gateway: no signing key '' @ Quote kid @ '' in JWKS''))))))"

text \<open>\<^verbatim>\<open>jwt.Parse\<close> calls \<^verbatim>\<open>keyFunc\<close> with the token's header: \<open>jwt_kid\<close> is what the library
  does before the callback, \<open>jwt_ParseRSA\<close> what it does with the key.\<close>

definition verifier_Verify :: "GEnv \<Rightarrow> Verifier \<Rightarrow> string \<Rightarrow> (Verifier \<times> string result) gact" where
  "verifier_Verify E v token =
     (if token = [] then ret (v, Inl (Err ''gateway: no bearer token''))
      else case jwt_kid E token of
        Inl e \<Rightarrow> ret (v, Inl (wrap ''gateway: bearer token rejected: '' e))
      | Inr kid \<Rightarrow>
        bindI (verifier_key E v kid) (\<lambda>(v, res).
          case res of
            Inl e \<Rightarrow> ret (v, Inl (wrap ''gateway: bearer token rejected: '' e))
          | Inr k \<Rightarrow>
            bindI (gnow E) (\<lambda>now.
              case jwt_ParseRSA E (vf_Issuer v) (vf_Audience v) k token now of
                Inl e \<Rightarrow> ret (v, Inl (wrap ''gateway: bearer token rejected: '' e))
              | Inr claims \<Rightarrow>
                (if ic_Subject claims = [] then ret (v, Inl (Err ''gateway: bearer token has no subject''))
                 else ret (v, Inr (ic_Subject claims))))))"

subsection \<open>Authenticators\<close>

definition ErrNoAuthenticators :: error where
  "ErrNoAuthenticators = Sentinel ''ErrNoAuthenticators'' ''gateway: no authenticator configured''"

definition ErrUnidentified :: error where
  "ErrUnidentified = Sentinel ''ErrUnidentified'' ''gateway: request could not be identified''"

definition idp_Identify :: "GEnv \<Rightarrow> Verifier \<Rightarrow> Request \<Rightarrow> (Verifier \<times> Subject result) gact" where
  "idp_Identify E v r =
     bindI (verifier_Verify E v (PresentedToken r)) (\<lambda>(v, res).
       case res of
         Inl e \<Rightarrow> ret (v, Inl e)
       | Inr subject \<Rightarrow> ret (v, Inr \<lparr>sub_ID = subject, sub_Name = subject, sub_Source = ''idp''\<rparr>))"

definition local_Identify :: "GEnv \<Rightarrow> JWTSessionIssuer \<Rightarrow> Request \<Rightarrow> (JWTSessionIssuer \<times> Subject result) gact" where
  "local_Identify E s r = bindI (session_Verify E s (PresentedToken r)) (\<lambda>res. ret (s, res))"

datatype Authenticator =
    IDPAuthenticator Verifier
  | LocalAuthenticator JWTSessionIssuer

fun auth_Identify :: "GEnv \<Rightarrow> Authenticator \<Rightarrow> Request \<Rightarrow> (Authenticator \<times> Subject result) gact" where
  "auth_Identify E (IDPAuthenticator v) r = bindI (idp_Identify E v r) (\<lambda>(v, res). ret (IDPAuthenticator v, res))"
| "auth_Identify E (LocalAuthenticator s) r = bindI (local_Identify E s r) (\<lambda>(s, res). ret (LocalAuthenticator s, res))"

text \<open>The loop of \<^verbatim>\<open>Identity.Identify\<close>, over any implementation of the interface.\<close>

fun identify_loop :: "(GEnv \<Rightarrow> 'a \<Rightarrow> Request \<Rightarrow> ('a \<times> Subject result) gact) \<Rightarrow> GEnv \<Rightarrow> 'a list \<Rightarrow> Request
    \<Rightarrow> ('a list \<times> Subject result) gact" where
  "identify_loop f E [] r = ret ([], Inl ErrUnidentified)"
| "identify_loop f E (a # as) r =
     bindI (f E a r) (\<lambda>(a, res).
       case res of
         Inr subject \<Rightarrow>
           (if sub_ID subject \<noteq> [] then ret (a # as, Inr subject)
            else bindI (identify_loop f E as r) (\<lambda>(as, res). ret (a # as, res)))
       | Inl e \<Rightarrow> bindI (identify_loop f E as r) (\<lambda>(as, res). ret (a # as, res)))"

text \<open>A nil \<^verbatim>\<open>*Identity\<close> is \<open>None\<close>.\<close>

type_synonym Identity = "Authenticator list option"

definition Identify :: "GEnv \<Rightarrow> Identity \<Rightarrow> Request \<Rightarrow> (Identity \<times> Subject result) gact" where
  "Identify E i r =
     (case i of
        None \<Rightarrow> ret (None, Inl ErrNoAuthenticators)
      | Some as \<Rightarrow>
        (if as = [] then ret (Some [], Inl ErrNoAuthenticators)
         else bindI (identify_loop auth_Identify E as r) (\<lambda>(as, res). ret (Some as, res))))"

subsection \<open>The interface\<close>

text \<open>What identification may ask of the outside.\<close>

fun auth_event :: "GEvent \<Rightarrow> bool" where
  "auth_event (GvFetchJWKS _ _) = True"
| "auth_event (GvGetSecret _ _) = True"
| "auth_event _ = False"

locale authenticator =
  fixes identify :: "GEnv \<Rightarrow> 'a \<Rightarrow> Request \<Rightarrow> ('a \<times> Subject result) gact"
  assumes anonymous: "PresentedToken r = [] \<Longrightarrow> \<exists>e. identify E a r h = ((a, Inl e), h)"
    and asks: "emits auth_event (identify E a r)"
    and named: "identify E a r h = ((a', Inr subject), h') \<Longrightarrow> sub_ID subject \<noteq> []"
begin

lemma loop_anonymous:
  "PresentedToken r = [] \<Longrightarrow> identify_loop identify E as r h = ((as, Inl ErrUnidentified), h)"
proof (induction as arbitrary: h)
  case Nil
  show ?case by (simp add: ret_def)
next
  case (Cons a as)
  obtain e where "identify E a r h = ((a, Inl e), h)" using anonymous [OF Cons.prems] by blast
  then show ?case using Cons.IH [OF Cons.prems, of h] by (simp add: bindI_def ret_def)
qed

lemma loop_asks: "emits auth_event (identify_loop identify E as r)"
proof (induction as)
  case (Cons a as)
  show ?case
    unfolding identify_loop.simps
    by (intro emits_bindI asks emits_case_prod emits_case_sum emits_if emits_ret Cons)
qed (simp add: emits_ret)

lemma loop_named:
  "identify_loop identify E as r h = ((as', Inr subject), h') \<Longrightarrow> sub_ID subject \<noteq> []"
  by (induction as arbitrary: as' h)
     (auto simp: bindI_def ret_def split: prod.splits sum.splits if_splits dest: named)

text \<open>The first authenticator that accepts decides: those before it have refused, those after it are
  not asked.\<close>

lemma loop_first:
  assumes "identify E a r h = ((a', Inr subject), h')"
  shows "identify_loop identify E (a # as) r h = ((a' # as, Inr subject), h')"
  using assms named [OF assms] by (simp add: bindI_def ret_def)

lemma loop_falls_through:
  assumes "identify E a r h = ((a', Inl e), h')"
  shows "identify_loop identify E (a # as) r h =
    (case identify_loop identify E as r h' of ((as', res), h'') \<Rightarrow> ((a' # as', res), h''))"
  using assms by (simp add: bindI_def ret_def split: prod.split)

end

subsection \<open>Its implementations\<close>

lemma emits_users_read: "emits auth_event (users_read E s)"
  unfolding users_read_def by (intro emits_rules) simp

lemma emits_verifier: "emits auth_event (verifier_Verify E v token)"
  unfolding verifier_Verify_def verifier_key_def verifier_refresh_def
  by (intro emits_rules) simp

lemma emits_session_Verify: "emits auth_event (session_Verify E s token)"
  unfolding session_Verify_def Lookup_def Let_def
  by (intro emits_rules emits_users_read)

interpretation idp: authenticator idp_Identify
proof unfold_locales
  fix r E a h
  assume "PresentedToken r = []"
  then show "\<exists>e. idp_Identify E a r h = ((a, Inl e), h)"
    by (simp add: idp_Identify_def verifier_Verify_def bindI_def ret_def)
next
  fix r E a
  show "emits auth_event (idp_Identify E a r)"
    unfolding idp_Identify_def by (intro emits_rules emits_verifier)
next
  fix r E a h a' subject h'
  assume "idp_Identify E a r h = ((a', Inr subject), h')"
  then show "sub_ID subject \<noteq> []"
    by (auto simp: idp_Identify_def verifier_Verify_def bindI_def ret_def split: prod.splits sum.splits if_splits)
qed

lemma session_Verify_named: "session_Verify E s token h = (Inr subject, h') \<Longrightarrow> sub_ID subject \<noteq> []"
  by (auto simp: session_Verify_def bindI_def gnow_def peek_def ret_def ok_def fail_def Let_def
      split: prod.splits sum.splits option.splits if_splits)

interpretation own: authenticator local_Identify
proof unfold_locales
  fix r E a h
  assume "PresentedToken r = []"
  then show "\<exists>e. local_Identify E a r h = ((a, Inl e), h)"
    by (simp add: local_Identify_def session_Verify_def bindI_def ret_def fail_def)
next
  fix r E a
  show "emits auth_event (local_Identify E a r)"
    unfolding local_Identify_def by (intro emits_rules emits_session_Verify)
next
  fix r E a h a' subject h'
  assume "local_Identify E a r h = ((a', Inr subject), h')"
  then show "sub_ID subject \<noteq> []"
    by (auto simp: local_Identify_def bindI_def ret_def split: prod.splits dest: session_Verify_named)
qed

interpretation any: authenticator auth_Identify
proof unfold_locales
  fix r E a h
  assume t: "PresentedToken r = []"
  show "\<exists>e. auth_Identify E a r h = ((a, Inl e), h)"
  proof (cases a)
    case (IDPAuthenticator v)
    obtain e where "idp_Identify E v r h = ((v, Inl e), h)" using idp.anonymous [OF t] by blast
    then show ?thesis using IDPAuthenticator by (simp add: bindI_def ret_def)
  next
    case (LocalAuthenticator s)
    obtain e where "local_Identify E s r h = ((s, Inl e), h)" using own.anonymous [OF t] by blast
    then show ?thesis using LocalAuthenticator by (simp add: bindI_def ret_def)
  qed
next
  fix r E a
  show "emits auth_event (auth_Identify E a r)"
    by (cases a) (auto intro!: emits_bindI emits_ret idp.asks own.asks split: prod.split)
next
  fix r E a h a' subject h'
  assume "auth_Identify E a r h = ((a', Inr subject), h')"
  then show "sub_ID subject \<noteq> []"
    by (cases a) (auto simp: bindI_def ret_def split: prod.splits dest: idp.named own.named)
qed

lemma Identify_asks: "emits auth_event (Identify E i r)"
  unfolding Identify_def by (intro emits_rules any.loop_asks)

lemma Identify_anonymous:
  assumes "PresentedToken r = []"
  shows "\<exists>e. Identify E i r h = ((i, Inl e), h)"
  using any.loop_anonymous [OF assms, of E] by (auto simp: Identify_def bindI_def ret_def split: option.split)

subsection \<open>Bearer tokens\<close>

lemma verifier_key_cached:
  assumes "verifier_key E v kid h = ((v', Inr k), h')"
  shows "vf_keys v' kid = Some k \<and> vf_Issuer v' = vf_Issuer v \<and> vf_Audience v' = vf_Audience v"
  using assms
  by (auto simp: verifier_key_def verifier_refresh_def cachedKey_def bindI_def ret_def gnow_def peek_def call_def
      split: prod.splits sum.splits option.splits if_splits)

text \<open>A key in the cache is used without a request for as long as the cache is fresh, and a miss asks
  the identity provider once.\<close>

lemma verifier_key_requests:
  "runs (verifier_key E v kid) h (\<lambda>_ evs. length evs = (if cachedKey v (g_now E h) kid = None then 1 else 0))"
  by (auto simp: runs_def verifier_key_def verifier_refresh_def bindI_def ret_def gnow_def peek_def call_def
      split: sum.splits option.splits)


definition idp_env :: GEnv where
  "idp_env = genv0\<lparr>jwt_kid := (\<lambda>t. Inr ''k1''),
     jwt_ParseRSA := (\<lambda>iss aud k t now. if t = ''tok'' \<and> now < 9
        then Inr \<lparr>ic_Subject = ''alice'', ic_Issuer = iss, ic_Audience = [aud], ic_ExpiresAt = Some 9\<rparr> else Inl (Err []))\<rparr>"

definition verifier0 :: Verifier where
  "verifier0 = \<lparr>vf_Issuer = ''iss'', vf_Audience = ''aud'', JWKSURL = ''u'', RefreshInterval = 0,
     vf_keys = [''k1'' \<mapsto> \<lparr>rsa_N = 35, rsa_E = 5\<rparr>], fetchedAt = 0\<rparr>"

definition request0 :: Request where
  "request0 = \<lparr>rq_Method = ''GET'', rq_Path = ''/'', rq_Host = ''a.dev'',
     rq_Header = (\<lambda>n. if n = ''Authorization'' then ''Bearer tok'' else []), rq_Query = (\<lambda>n. []), rq_Body = None, rq_id = []\<rparr>"

lemma PresentedToken_request0: "PresentedToken request0 = ''tok''"
  unfolding request0_def by code_simp


end
