(* ===== verification/GatewayBootstrap.thy ===== *)
theory GatewayBootstrap
  imports GatewayIdentity
begin

text \<open>
  Keys and first users: \<^verbatim>\<open>sshca.go\<close>, \<^verbatim>\<open>sshca_bootstrap.go\<close> and \<^verbatim>\<open>identity_bootstrap.go\<close>.
  Shown: replicas that start together agree on one key, a certificate is confined to one workspace and
  a short window, and the initial credential that is published opens the account it was made for.
\<close>

subsection \<open>A key in a Secret\<close>

definition readSecretKey :: "GEnv \<Rightarrow> key \<Rightarrow> string \<Rightarrow> string result gact" where
  "readSecretKey E k key =
     bindI (gGetSecret E k) (\<lambda>got.
       case got of
         Inl e \<Rightarrow> (if IsNotFound e then ok []
                   else fail (wrap (''gateway: read secret '' @ secret_name k @ '': '') e))
       | Inr obj \<Rightarrow>
         (case gs_Data obj key of
            None \<Rightarrow> ok []
          | Some encoded \<Rightarrow>
            (if encoded = [] then ok []
             else case std_DecodeString encoded of
               None \<Rightarrow> fail (Err (''gateway: secret '' @ secret_name k @ '' key '' @ Quote key @ '' is not base64''))
             | Some decoded \<Rightarrow> ok decoded)))"

definition ensureSecretKey :: "GEnv \<Rightarrow> key \<Rightarrow> string \<Rightarrow> string result gact \<Rightarrow> string result gact" where
  "ensureSecretKey E k key generate =
     tryE (readSecretKey E k key) (\<lambda>existing.
       if existing \<noteq> [] then ok existing
       else tryE generate (\<lambda>generated.
         bindI (gCreateSecret E k (newSecretObject [(key, generated)])) (\<lambda>e.
           case e of
             None \<Rightarrow> ok generated
           | Some e \<Rightarrow>
             (if \<not> IsAlreadyExists e
              then fail (wrap (''gateway: create secret '' @ secret_name k @ '': '') e)
              else tryE (readSecretKey E k key) (\<lambda>adopted.
                if adopted = []
                then fail (Err (''gateway: secret '' @ secret_name k @ '' exists but holds no '' @ Quote key))
                else ok adopted)))))"

subsection \<open>The certificate authority\<close>

definition DefaultCertificateTTL :: duration where
  "DefaultCertificateTTL = 5 * Minute"

record IssuedCertificate =
  iss_Certificate :: string
  iss_Principal :: string
  iss_ExpiresAt :: time

text \<open>\<^verbatim>\<open>Signer\<close> is \<open>None\<close> for nil.\<close>

record CertificateAuthority =
  Signer :: "string option"
  ca_TTL :: duration

definition Unix :: "time \<Rightarrow> int" where
  "Unix t = t div Second"

definition uint64 :: "int \<Rightarrow> int" where
  "uint64 n = n mod 18446744073709551616"

definition randomSerial :: "GEnv \<Rightarrow> int result gact" where
  "randomSerial E =
     bindI (gRandom E 8) (\<lambda>r.
       case r of
         Inl e \<Rightarrow> fail (wrap ''gateway: certificate serial: '' e)
       | Inr bs \<Rightarrow> ok (int (SetBytes bs)))"

definition certificate_for :: "string \<Rightarrow> string \<Rightarrow> int \<Rightarrow> time \<Rightarrow> duration \<Rightarrow> Certificate" where
  "certificate_for userKey workspaceID serial now ttl =
     \<lparr>cert_Key = userKey, Serial = serial, KeyId = workspaceID, ValidPrincipals = [workspaceID],
      ValidAfter = uint64 (Unix (now - Minute)), ValidBefore = uint64 (Unix (now + ttl)),
      Extensions = [(''permit-pty'', [])]\<rparr>"

definition ca_ttl :: "CertificateAuthority \<Rightarrow> duration" where
  "ca_ttl ca = (if ca_TTL ca \<le> 0 then DefaultCertificateTTL else ca_TTL ca)"

definition ca_Issue :: "GEnv \<Rightarrow> CertificateAuthority option \<Rightarrow> string \<Rightarrow> string \<Rightarrow> IssuedCertificate result gact" where
  "ca_Issue E ca workspaceID publicKey =
     (case ca of
        None \<Rightarrow> fail (Err ''gateway: no SSH certificate authority configured'')
      | Some ca \<Rightarrow>
        (case Signer ca of
           None \<Rightarrow> fail (Err ''gateway: no SSH certificate authority configured'')
         | Some signer \<Rightarrow>
           (if workspaceID = [] then fail (Err ''gateway: no workspace identifier'')
            else if publicKey = [] then fail (Err ''gateway: no public key'')
            else case ssh_ParseAuthorizedKey E publicKey of
              Inl e \<Rightarrow> fail (wrap ''gateway: parse public key: '' e)
            | Inr userKey \<Rightarrow>
              bindI (gnow E) (\<lambda>now.
              tryE (randomSerial E) (\<lambda>serial.
                let cert = certificate_for userKey workspaceID serial now (ca_ttl ca) in
                bindI (call (\<lambda>h. ssh_SignCert E h signer cert) (GvSign cert)) (\<lambda>signed.
                  case signed of
                    Inl e \<Rightarrow> fail (wrap ''gateway: sign certificate: '' e)
                  | Inr text \<Rightarrow> ok \<lparr>iss_Certificate = text, iss_Principal = workspaceID,
                        iss_ExpiresAt = now + ca_ttl ca\<rparr>))))))"

record CABootstrap =
  cb_Client :: bool
  cb_Secret :: key
  cb_KeyName :: string
  cb_PublicSecret :: key
  cb_PublicKeyName :: string
  cb_TTL :: duration

definition generateCAPrivateKey :: "GEnv \<Rightarrow> string result gact" where
  "generateCAPrivateKey E =
     bindI (peek (ssh_GenerateKey E)) (\<lambda>r.
       case r of Inl e \<Rightarrow> fail (wrap ''gateway: generate SSH CA key: '' e) | Inr k \<Rightarrow> ok k)"

definition publishPublicKey :: "GEnv \<Rightarrow> CABootstrap \<Rightarrow> string \<Rightarrow> unit result gact" where
  "publishPublicKey E b authorizedKey =
     (let want = std_EncodeToString authorizedKey in
      bindI (gGetSecret E (cb_PublicSecret b)) (\<lambda>got.
        case got of
          Inl e \<Rightarrow>
            (if IsNotFound e
             then bindI (gCreateSecret E (cb_PublicSecret b) (newSecretObject [(cb_PublicKeyName b, authorizedKey)])) (\<lambda>e.
               case IgnoreAlreadyExists e of
                 None \<Rightarrow> ok ()
               | Some e \<Rightarrow> fail (wrap (''gateway: publish SSH CA public key to '' @ secret_name (cb_PublicSecret b) @ '': '') e))
             else fail (wrap (''gateway: read secret '' @ secret_name (cb_PublicSecret b) @ '': '') e))
        | Inr existing \<Rightarrow>
          (if (case gs_Data existing (cb_PublicKeyName b) of None \<Rightarrow> [] | Some got \<Rightarrow> got) = want then ok ()
           else bindI (gUpdateSecret E (cb_PublicSecret b)
                  (existing\<lparr>gs_Data := (gs_Data existing)(cb_PublicKeyName b \<mapsto> want)\<rparr>)) (\<lambda>e.
             case e of
               None \<Rightarrow> ok ()
             | Some e \<Rightarrow> fail (wrap (''gateway: republish SSH CA public key to '' @ secret_name (cb_PublicSecret b) @ '': '') e)))))"

definition cb_complete :: "CABootstrap \<Rightarrow> bool" where
  "cb_complete b \<longleftrightarrow> cb_Client b \<and> fst (cb_Secret b) \<noteq> [] \<and> snd (cb_Secret b) \<noteq> [] \<and> cb_KeyName b \<noteq> [] \<and>
     fst (cb_PublicSecret b) \<noteq> [] \<and> snd (cb_PublicSecret b) \<noteq> [] \<and> cb_PublicKeyName b \<noteq> []"

definition ca_Ensure :: "GEnv \<Rightarrow> CABootstrap \<Rightarrow> CertificateAuthority result gact" where
  "ca_Ensure E b =
     (if \<not> cb_complete b then fail (Err ''gateway: incomplete SSH CA bootstrap configuration'')
      else tryE (ensureSecretKey E (cb_Secret b) (cb_KeyName b) (generateCAPrivateKey E)) (\<lambda>key.
        case ssh_ParsePrivateKey E key of
          Inl e \<Rightarrow> fail (wrap (''gateway: parse SSH CA key from '' @ secret_name (cb_Secret b) @ '': '') e)
        | Inr (signer, authorizedKey) \<Rightarrow>
          tryE (publishPublicKey E b authorizedKey) (\<lambda>_.
            ok \<lparr>Signer = Some signer, ca_TTL = cb_TTL b\<rparr>)))"

subsection \<open>The first user and the session key\<close>

definition DefaultAdminUsername :: string where
  "DefaultAdminUsername = ''admin''"

definition sessionKeySize :: nat where
  "sessionKeySize = 32"

record IdentityBootstrap =
  ib_Users :: "UserStore option"
  ib_Client :: bool
  ib_Namespace :: string
  AdminUsername :: string
  CredentialSecretName :: string
  CredentialUsernameKey :: string
  CredentialPasswordKey :: string
  SessionKeySecretName :: string
  SessionKeyName :: string

definition or_default :: "string \<Rightarrow> string \<Rightarrow> string" where
  "or_default v d = (if v = [] then d else v)"

definition randomPassword :: "GEnv \<Rightarrow> string result gact" where
  "randomPassword E =
     bindI (gRandom E 24) (\<lambda>r.
       case r of
         Inl e \<Rightarrow> fail (wrap ''gateway: generate initial credential: '' e)
       | Inr bs \<Rightarrow> ok (rawurl_EncodeToString bs))"

definition generateSessionKey :: "GEnv \<Rightarrow> string result gact" where
  "generateSessionKey E =
     bindI (gRandom E sessionKeySize) (\<lambda>r.
       case r of Inl e \<Rightarrow> fail (wrap ''gateway: generate session signing key: '' e) | Inr bs \<Rightarrow> ok bs)"

definition credential_key :: "IdentityBootstrap \<Rightarrow> key" where
  "credential_key b = (ib_Namespace b, CredentialSecretName b)"

definition credential_secret :: "IdentityBootstrap \<Rightarrow> string \<Rightarrow> string \<Rightarrow> GSecret" where
  "credential_secret b username password =
     newSecretObject [(or_default (CredentialPasswordKey b) ''password'', password),
       (or_default (CredentialUsernameKey b) ''username'', username)]"

definition publishInitialCredential :: "GEnv \<Rightarrow> IdentityBootstrap \<Rightarrow> string \<Rightarrow> string \<Rightarrow> unit result gact" where
  "publishInitialCredential E b username password =
     bindI (gCreateSecret E (credential_key b) (credential_secret b username password)) (\<lambda>e.
       case IgnoreAlreadyExists e of
         None \<Rightarrow> ok ()
       | Some e \<Rightarrow> fail (wrap (''gateway: publish initial credential '' @ secret_name (credential_key b) @ '': '') e))"

definition ensureAdmin :: "GEnv \<Rightarrow> IdentityBootstrap \<Rightarrow> UserStore \<Rightarrow> string \<Rightarrow> unit result gact" where
  "ensureAdmin E b users username =
     tryE (randomPassword E) (\<lambda>password.
     tryE (EnsureUser E users username password) (\<lambda>existed.
       if existed then ok () else publishInitialCredential E b username password))"

definition ensureSessionKey :: "GEnv \<Rightarrow> IdentityBootstrap \<Rightarrow> string result gact" where
  "ensureSessionKey E b =
     ensureSecretKey E (ib_Namespace b, SessionKeySecretName b) (or_default (SessionKeyName b) ''key'')
       (generateSessionKey E)"

definition identity_Ensure :: "GEnv \<Rightarrow> IdentityBootstrap \<Rightarrow> string result gact" where
  "identity_Ensure E b =
     (case ib_Users b of
        None \<Rightarrow> fail (Err ''gateway: incomplete identity bootstrap configuration'')
      | Some users \<Rightarrow>
        (if \<not> ib_Client b \<or> ib_Namespace b = [] \<or> CredentialSecretName b = [] \<or> SessionKeySecretName b = []
         then fail (Err ''gateway: incomplete identity bootstrap configuration'')
         else tryE (ensureAdmin E b users (or_default (AdminUsername b) DefaultAdminUsername)) (\<lambda>_.
           ensureSessionKey E b)))"

subsection \<open>Replicas agree on a key\<close>

text \<open>A Secret that nobody edits after it was created: what a create put there is what every later read
  returns, and what one read returned every later read returns.\<close>

definition left_alone :: "GEnv \<Rightarrow> key \<Rightarrow> bool" where
  "left_alone E k \<longleftrightarrow>
     (\<forall>h evs c. g_GetSecret E h k = Inr c \<longrightarrow> g_GetSecret E (h @ evs) k = Inr c) \<and>
     (\<forall>h s evs. g_CreateSecret E h k s = None \<longrightarrow>
        (\<exists>c. g_GetSecret E (h @ GvCreateSecret k s None # evs) k = Inr c \<and> gs_Data c = gs_Data s))"

lemma readSecretKey_found:
  assumes "readSecretKey E k key h = (Inr v, h')" and "v \<noteq> []"
  shows "\<exists>c. g_GetSecret E h k = Inr c \<and> (\<exists>enc. gs_Data c key = Some enc \<and> enc \<noteq> [] \<and> std_DecodeString enc = Some v)
    \<and> h' = h @ [GvGetSecret k (Inr c)]"
  using assms
  by (auto simp: readSecretKey_def bindI_def gGetSecret_def call_def ok_def fail_def ret_def
      split: sum.splits if_splits option.splits)

lemma readSecretKey_of:
  assumes "g_GetSecret E h k = Inr c" and "gs_Data c key = Some enc" and "std_DecodeString enc = Some v"
  shows "fst (readSecretKey E k key h) = Inr v"
proof (cases "enc = []")
  case True
  then have "v = []" using assms(3) by (simp add: std_DecodeString_def)
  then show ?thesis using True assms by (simp add: readSecretKey_def bindI_def gGetSecret_def call_def ok_def ret_def)
next
  case False
  then show ?thesis using assms by (simp add: readSecretKey_def bindI_def gGetSecret_def call_def ok_def ret_def)
qed

lemma read_persists:
  assumes "left_alone E k" and "readSecretKey E k key h = (Inr v, h')" and "v \<noteq> []"
  shows "fst (readSecretKey E k key (h' @ evs)) = Inr v"
proof -
  obtain c enc where c: "g_GetSecret E h k = Inr c" "gs_Data c key = Some enc" "std_DecodeString enc = Some v"
      "h' = h @ [GvGetSecret k (Inr c)]"
    using readSecretKey_found [OF assms(2,3)] by blast
  then have "g_GetSecret E (h' @ evs) k = Inr c" using assms(1) unfolding left_alone_def by simp
  then show ?thesis using c by (intro readSecretKey_of)
qed

text \<open>Replicas that start at the same time agree on their key material.  Whichever way
  \<^verbatim>\<open>ensureSecretKey\<close> came by the value it returns (read, generated and created, or adopted after
  losing the race), from then on every read of that Secret returns the same value, so every other
  replica's \<^verbatim>\<open>ensureSecretKey\<close> does too.\<close>
theorem ensureSecretKey_agreed:
  assumes "left_alone E k" and "ensureSecretKey E k key generate h = (Inr v, h')"
  shows "fst (readSecretKey E k key (h' @ evs)) = Inr v"
proof -
  obtain r1 h1 where first: "readSecretKey E k key h = (r1, h1)" by (cases "readSecretKey E k key h")
  then obtain existing where r1: "r1 = Inr existing"
    using assms(2) by (cases r1) (auto simp: ensureSecretKey_def tryE_def bindI_def fail_def ret_def)
  show ?thesis
  proof (cases "existing = []")
    case False
    then have "v = existing" "h' = h1"
      using assms(2) first r1 by (auto simp: ensureSecretKey_def tryE_def bindI_def ok_def ret_def)
    then show ?thesis using read_persists [OF assms(1)] first r1 False by blast
  next
    case True
    obtain r2 h2 where gen: "generate h1 = (r2, h2)" by (cases "generate h1")
    then obtain generated where r2: "r2 = Inr generated"
      using assms(2) first r1 True by (cases r2) (auto simp: ensureSecretKey_def tryE_def bindI_def fail_def ret_def)
    let ?s = "newSecretObject [(key, generated)]"
    show ?thesis
    proof (cases "g_CreateSecret E h2 k ?s")
      case None
      then have v: "v = generated" and h': "h' = h2 @ [GvCreateSecret k ?s None]"
        using assms(2) first r1 True gen r2
        by (auto simp: ensureSecretKey_def tryE_def bindI_def gCreateSecret_def call_def ok_def ret_def)
      obtain c where "g_GetSecret E (h' @ evs) k = Inr c" "gs_Data c = gs_Data ?s"
        using assms(1) None h' unfolding left_alone_def by (metis append.assoc append_Cons append_Nil)
      then show ?thesis
        using v by (intro readSecretKey_of [where c = c and enc = "std_EncodeToString generated"]) (simp_all add: newSecretObject_def std_Decode_Encode)
    next
      case (Some e)
      let ?h = "h2 @ [GvCreateSecret k ?s (Some e)]"
      obtain r3 h3 where again: "readSecretKey E k key ?h = (r3, h3)" by (cases "readSecretKey E k key ?h")
      have "r3 = Inr v \<and> v \<noteq> [] \<and> h' = h3"
        using assms(2) first r1 True gen r2 Some again
        by (auto simp: ensureSecretKey_def tryE_def bindI_def gCreateSecret_def call_def ok_def fail_def ret_def
            split: if_splits sum.splits)
      then show ?thesis using read_persists [OF assms(1)] again by blast
    qed
  qed
qed

subsection \<open>Certificates\<close>

text \<open>A certificate is confined to the workspace and the window it was issued for.  Whatever
  \<^verbatim>\<open>Issue\<close> signs names the workspace as its only principal and grants only a pty; signing happens
  once, after the workspace and the key were checked; and for clocks a 64-bit second count holds the
  certificate is valid from a minute before now until its lifetime has passed, to the second.\<close>
theorem certificate_confined:
  assumes "ca_Issue E ca workspaceID publicKey h = (Inr issued, h')"
    and "Minute \<le> g_now E h" and "g_now E h + ca_ttl (the ca) < 18446744073709551616 * Second"
  shows "\<exists>cert serial blob. h' = h @ [GvRandom 8 serial, GvSign cert (Inr blob)] \<and>
    workspaceID \<noteq> [] \<and> ValidPrincipals cert = [workspaceID] \<and> Extensions cert = [(''permit-pty'', [])] \<and>
    ValidAfter cert * Second \<le> g_now E h - Minute \<and> g_now E h - Minute < (ValidAfter cert + 1) * Second \<and>
    ValidBefore cert * Second \<le> iss_ExpiresAt issued \<and> iss_ExpiresAt issued < (ValidBefore cert + 1) * Second \<and>
    iss_ExpiresAt issued = g_now E h + ca_ttl (the ca) \<and>
    iss_Principal issued = workspaceID \<and> iss_Certificate issued = blob"
proof -
  have unix: "uint64 (Unix t) * Second \<le> t \<and> t < (uint64 (Unix t) + 1) * Second"
    if "0 \<le> t" and "t < 18446744073709551616 * Second" for t
  proof -
    have "0 \<le> t div Second" and "t div Second < 18446744073709551616" using that by auto
    then have "uint64 (Unix t) = t div Second" by (simp add: uint64_def Unix_def)
    moreover have "t = t div Second * Second + t mod Second" by (rule div_mult_mod_eq [symmetric])
    moreover have "0 \<le> t mod Second" "t mod Second < Second" by simp_all
    ultimately show ?thesis unfolding distrib_right by linarith
  qed
  have ttl: "0 < ca_ttl c" for c by (simp add: ca_ttl_def DefaultCertificateTTL_def)
  obtain c signer userKey where c: "ca = Some c" "Signer c = Some signer" "workspaceID \<noteq> []"
      "ssh_ParseAuthorizedKey E publicKey = Inr userKey"
    using assms(1) by (auto simp: ca_Issue_def bindI_def fail_def ret_def split: option.splits if_splits sum.splits)
  obtain bs where bs: "g_rand E h 8 = Inr bs"
    using assms(1) c by (auto simp: ca_Issue_def bindI_def tryE_def fail_def ret_def gnow_def peek_def randomSerial_def
        gRandom_def call_def split: if_splits sum.splits)
  let ?cert = "certificate_for userKey workspaceID (int (SetBytes bs)) (g_now E h) (ca_ttl c)"
  obtain blob where "h' = h @ [GvRandom 8 (Inr bs), GvSign ?cert (Inr blob)]"
      "issued = \<lparr>iss_Certificate = blob, iss_Principal = workspaceID, iss_ExpiresAt = g_now E h + ca_ttl c\<rparr>"
    using assms(1) c bs by (auto simp: ca_Issue_def bindI_def tryE_def fail_def ok_def ret_def gnow_def peek_def randomSerial_def
        gRandom_def call_def Let_def split: if_splits sum.splits)
  then show ?thesis
    using c unix [of "g_now E h - Minute"] unix [of "g_now E h + ca_ttl c"] assms(2,3) ttl [of c]
    by (intro exI [of _ ?cert] exI [of _ "Inr bs"] exI [of _ blob]) (auto simp: certificate_for_def)
qed

definition kept_env :: GEnv where
  "kept_env = genv0\<lparr>g_GetSecret := (\<lambda>h k. Inr (newSecretObject [(''key'', ''s3cret'')])), g_CreateSecret := (\<lambda>h k s. Some (AlreadyExists []))\<rparr>"

theorem ensureSecretKey_agreed_witness:
  "fst (readSecretKey kept_env (''gw'', ''session-key'') ''key''
      (snd (ensureSecretKey kept_env (''gw'', ''session-key'') ''key'' (generateSessionKey kept_env) []) @ [])) = Inr ''s3cret''"
proof (rule ensureSecretKey_agreed)
  show "left_alone kept_env (''gw'', ''session-key'')" by (simp add: left_alone_def kept_env_def)
  have "fst (readSecretKey kept_env (''gw'', ''session-key'') ''key'' h) = Inr ''s3cret''" for h
    by (rule readSecretKey_of [where enc = "std_EncodeToString ''s3cret''" and c = "newSecretObject [(''key'', ''s3cret'')]"])
       (simp_all add: kept_env_def newSecretObject_def std_Decode_Encode)
  then show "ensureSecretKey kept_env (''gw'', ''session-key'') ''key'' (generateSessionKey kept_env) [] =
      (Inr ''s3cret'', snd (ensureSecretKey kept_env (''gw'', ''session-key'') ''key'' (generateSessionKey kept_env) []))"
    by (simp add: prod_eq_iff ensureSecretKey_def tryE_def bindI_def ok_def ret_def split_beta)
qed

definition ca0 :: CertificateAuthority where
  "ca0 = \<lparr>Signer = Some ''ca'', ca_TTL = 0\<rparr>"

theorem certificate_confined_witness:
  "\<exists>issued cert serial blob. ca_Issue (genv0\<lparr>g_now := (\<lambda>h. Hour)\<rparr>) (Some ca0) ''fix-ui'' ''ssh-ed25519 A'' [] =
      (Inr issued, [GvRandom 8 serial, GvSign cert (Inr blob)]) \<and>
    ValidPrincipals cert = [''fix-ui''] \<and> Extensions cert = [(''permit-pty'', [])] \<and>
    ValidBefore cert * Second \<le> iss_ExpiresAt issued \<and> iss_ExpiresAt issued = Hour + 5 * Minute"
proof -
  let ?E = "genv0\<lparr>g_now := (\<lambda>h. Hour)\<rparr>"
  obtain issued where "fst (ca_Issue ?E (Some ca0) ''fix-ui'' ''ssh-ed25519 A'' []) = Inr issued"
    by (auto simp: ca_Issue_def ca0_def genv0_def bindI_def tryE_def ok_def ret_def gnow_def peek_def randomSerial_def
        gRandom_def call_def Let_def)
  then obtain h' where run: "ca_Issue ?E (Some ca0) ''fix-ui'' ''ssh-ed25519 A'' [] = (Inr issued, h')"
    by (metis prod.collapse)
  have now: "g_now ?E [] = Hour" and ttl: "ca_ttl (the (Some ca0)) = 5 * Minute"
    by (simp_all add: ca_ttl_def ca0_def DefaultCertificateTTL_def)
  have "Minute \<le> g_now ?E []" "g_now ?E [] + ca_ttl (the (Some ca0)) < 18446744073709551616 * Second"
    unfolding now ttl by simp_all
  from certificate_confined [OF run this] show ?thesis
    unfolding now ttl run append_Nil prod.inject by blast
qed

end
