(* ===== verification/GatewayHandover.thy ===== *)
theory GatewayHandover
  imports GatewayStore "HOL-Library.AList"
begin

text \<open>
  Browser sessions and the single-writer rule: \<^verbatim>\<open>handover.go\<close> and the session socket's bridge of
  \<^verbatim>\<open>handler.go\<close>.  The connections are a map from workspace to an association list of
  \<^verbatim>\<open>(session id, writable)\<close>, one entry per id; every operation is one critical section of the
  source's mutex.  \<open>switch\<close> interleaves the critical sections of sockets and handovers, which do
  not exclude each other between them.  Shown: at most one connection of a workspace is writable in
  every reachable state, a promotion the supervisor does not record is undone, and how a takeover can
  outlive its connection.
\<close>

subsection \<open>browserSessions\<close>

type_synonym browserSessions = "string \<rightharpoonup> (string \<times> bool) list"

definition sessions_of :: "browserSessions \<Rightarrow> string \<Rightarrow> (string \<times> bool) list" where
  "sessions_of b ws = (case b ws of None \<Rightarrow> [] | Some m \<Rightarrow> m)"

definition attach :: "browserSessions \<Rightarrow> string \<Rightarrow> string \<Rightarrow> browserSessions \<times> int" where
  "attach b ws i =
     (let m = AList.update i False (sessions_of b ws) in (b(ws \<mapsto> m), int (length m)))"

definition detach :: "browserSessions \<Rightarrow> string \<Rightarrow> string \<Rightarrow> browserSessions \<times> int" where
  "detach b ws i =
     (let m = AList.delete i (sessions_of b ws) in
      (if m = [] then b(ws := None) else b(ws \<mapsto> m), int (length m)))"

text \<open>The result is the new state, \<^verbatim>\<open>ok\<close> and \<^verbatim>\<open>known\<close>.\<close>

definition promote :: "browserSessions \<Rightarrow> string \<Rightarrow> string \<Rightarrow> browserSessions \<times> bool \<times> bool" where
  "promote b ws i =
     (let m = sessions_of b ws in
      case map_of m i of
        None \<Rightarrow> (b, False, False)
      | Some _ \<Rightarrow>
        (if list_ex (\<lambda>(other, writable). writable \<and> other \<noteq> i) m then (b, False, True)
         else (b(ws \<mapsto> AList.update i True m), True, True)))"

definition release :: "browserSessions \<Rightarrow> string \<Rightarrow> string \<Rightarrow> browserSessions" where
  "release b ws i =
     (if map_of (sessions_of b ws) i = None then b
      else b(ws \<mapsto> AList.update i False (sessions_of b ws)))"

definition writable :: "browserSessions \<Rightarrow> string \<Rightarrow> string \<Rightarrow> bool" where
  "writable b ws i = (map_of (sessions_of b ws) i = Some True)"

subsection \<open>The supervisor's client list\<close>

text \<open>\<^verbatim>\<open>url.PathEscape\<close>\<close>

definition path_segment_char :: "char \<Rightarrow> bool" where
  "path_segment_char c \<longleftrightarrow>
     (let n = (of_char c :: nat) in 48 \<le> n \<and> n \<le> 57 \<or> 65 \<le> n \<and> n \<le> 90 \<or> 97 \<le> n \<and> n \<le> 122) \<or>
     c \<in> set ''-_.~$&+=:@''"

definition upper_hex :: "nat \<Rightarrow> char" where
  "upper_hex d = (if d < 10 then char_of (48 + d) else char_of (55 + d))"

definition escape_char :: "char \<Rightarrow> string" where
  "escape_char c =
     (if path_segment_char c then [c]
      else [CHR ''%'', upper_hex (of_char c div 16), upper_hex (of_char c mod 16)])"

definition PathEscape :: "string \<Rightarrow> string" where
  "PathEscape s = concat (map escape_char s)"

definition client_url :: "string \<Rightarrow> string \<Rightarrow> string" where
  "client_url endpoint sessionID = endpoint @ ''/clients/'' @ PathEscape sessionID"

definition declareWritable :: "GEnv \<Rightarrow> string \<Rightarrow> string \<Rightarrow> string \<Rightarrow> unit result gact" where
  "declareWritable E verb endpoint sessionID =
     tryE (gHttp E verb (client_url endpoint sessionID) None) (\<lambda>resp.
       if StatusCode resp \<noteq> 204
       then fail (Err (''gateway: session clients: status '' @ Itoa (StatusCode resp)))
       else ok ())"

definition releaseWritable :: "GEnv \<Rightarrow> string \<Rightarrow> string \<Rightarrow> unit gact" where
  "releaseWritable E endpoint sessionID =
     bindI (declareWritable E ''DELETE'' endpoint sessionID) (\<lambda>_. ret ())"

record SessionClient =
  cl_ID :: string
  cl_Writable :: bool

definition client_fields :: "SessionClient setter list" where
  "client_fields =
     [(''id'', \<lambda>j c. map_option (\<lambda>v. c\<lparr>cl_ID := v\<rparr>) (as_string j)),
      (''writable'', \<lambda>j c. map_option (\<lambda>v. c\<lparr>cl_Writable := v\<rparr>) (as_bool j))]"

definition client0 :: SessionClient where
  "client0 = \<lparr>cl_ID = [], cl_Writable = False\<rparr>"

fun decode_clients :: "Json option \<Rightarrow> SessionClient list option" where
  "decode_clients (Some (JList js)) = those (map (\<lambda>j. decode_struct client_fields (Some j) client0) js)"
| "decode_clients (Some JNull) = Some []"
| "decode_clients _ = None"

text \<open>The error of a body that does not decode; its text is the JSON package's.\<close>

definition json_error :: error where
  "json_error = Err ''json: cannot decode''"

definition refuseIfWritableClientPresent :: "GEnv \<Rightarrow> string \<Rightarrow> unit result gact" where
  "refuseIfWritableClientPresent E endpoint =
     tryE (gHttp E ''GET'' (endpoint @ ''/clients'') None) (\<lambda>resp.
       if StatusCode resp \<noteq> 200
       then fail (Err (''gateway: session clients: status '' @ Itoa (StatusCode resp)))
       else case decode_clients (Body resp) of
         None \<Rightarrow> fail json_error
       | Some clients \<Rightarrow>
         (case List.find cl_Writable clients of
            Some c \<Rightarrow> fail (Err (''gateway: client '' @ cl_ID c @ '' already holds this session read-write''))
          | None \<Rightarrow> ok ()))"

definition reportConnections :: "GEnv \<Rightarrow> string \<Rightarrow> int \<Rightarrow> unit gact" where
  "reportConnections E workspace n = bindI (SetBrowserConnections E workspace n) (\<lambda>_. ret ())"

definition newSessionID :: "GEnv \<Rightarrow> string gact" where
  "newSessionID E =
     bindI (gRandom E 8) (\<lambda>r.
       case r of Inl e \<Rightarrow> ret ''anonymous'' | Inr bs \<Rightarrow> ret (hex_encode (map of_char bs)))"

subsection \<open>The handover handler\<close>

definition writeStoreError :: "error \<Rightarrow> Reply" where
  "writeStoreError e =
     (if errors_Is e ErrNotFound then writeError 404 ''workspace not found''
      else if errors_Is e ErrAlreadyExists then writeError 409 ''workspace already exists for this branch''
      else if errors_Is e ErrInvalid then writeError 400 (Error e)
      else writeError 502 (Error e))"

definition handover_fields :: "string setter list" where
  "handover_fields = [(''sessionId'', \<lambda>j _. as_string j)]"

text \<open>From the promotion on.\<close>

definition take_over :: "GEnv \<Rightarrow> browserSessions \<Rightarrow> string \<Rightarrow> string \<Rightarrow> string \<Rightarrow> (browserSessions \<times> Reply) gact" where
  "take_over E b workspace endpoint sessionID =
     (case promote b workspace sessionID of (b, okay, known) \<Rightarrow>
        if \<not> known then ret (b, writeError 404 ''no such session connection'')
        else if \<not> okay then ret (b, writeError 409 ''another client already holds this session read-write'')
        else bindI (declareWritable E ''POST'' endpoint sessionID) (\<lambda>res.
          case res of
            Inl e \<Rightarrow> ret (release b workspace sessionID, writeError 502 (Error e))
          | Inr _ \<Rightarrow> ret (b, writeJSON 200 (JObject [(''writable'', JBool True)]))))"

definition handover :: "Store \<Rightarrow> GEnv \<Rightarrow> browserSessions \<Rightarrow> Request \<Rightarrow> (browserSessions \<times> Reply) gact" where
  "handover s E b r =
     bindI (ResolveHost E (rq_Host r)) (\<lambda>res.
       case res of
         Inl e \<Rightarrow> ret (b, writeStoreError e)
       | Inr ws \<Rightarrow>
         (case decode_struct handover_fields (rq_Body r) [] of
            None \<Rightarrow> ret (b, writeError 400 (Error json_error))
          | Some sessionID \<Rightarrow>
            bindI (SessionEndpoint s E ws) (\<lambda>res.
              case res of
                Inl e \<Rightarrow> ret (b, writeError 404 (Error e))
              | Inr endpoint \<Rightarrow>
                bindI (refuseIfWritableClientPresent E endpoint) (\<lambda>res.
                  case res of
                    Inl e \<Rightarrow> ret (b, writeError 409 (Error e))
                  | Inr _ \<Rightarrow> take_over E b (sum_Name ws) endpoint sessionID))))"

subsection \<open>The session socket\<close>

text \<open>What runs when a socket is established and, deferred, when it closes.\<close>

definition socket_opened :: "GEnv \<Rightarrow> browserSessions \<Rightarrow> string \<Rightarrow> string \<Rightarrow> browserSessions gact" where
  "socket_opened E b workspace sessionID =
     (case attach b workspace sessionID of (b, n) \<Rightarrow>
        bindI (reportConnections E workspace n) (\<lambda>_. ret b))"

definition socket_closed :: "GEnv \<Rightarrow> browserSessions \<Rightarrow> string \<Rightarrow> string \<Rightarrow> string \<Rightarrow> browserSessions gact" where
  "socket_closed E b endpoint workspace sessionID =
     bindI (if writable b workspace sessionID then releaseWritable E endpoint sessionID else ret ()) (\<lambda>_.
       case detach b workspace sessionID of (b, n) \<Rightarrow>
         bindI (reportConnections E workspace n) (\<lambda>_. ret b))"

text \<open>The answer to \<^verbatim>\<open>/input\<close> is read and dropped, whatever its status.\<close>

definition sendInput :: "GEnv \<Rightarrow> string \<Rightarrow> string \<Rightarrow> string \<Rightarrow> unit result gact" where
  "sendInput E endpoint sessionID text =
     tryE (gHttp E ''POST'' (endpoint @ ''/input'')
         (Some (JObject [(''clientId'', JString sessionID), (''text'', JString text)]))) (\<lambda>_. ok ())"

text \<open>The reading half of \<^verbatim>\<open>bridge\<close> for one frame; the result says whether it reads on.\<close>

definition bridge_input :: "GEnv \<Rightarrow> browserSessions \<Rightarrow> string \<Rightarrow> string \<Rightarrow> string \<Rightarrow> string \<Rightarrow> bool gact" where
  "bridge_input E b endpoint workspace sessionID frame =
     (if frame = [] \<or> \<not> writable b workspace sessionID then ret True
      else bindI (sendInput E endpoint sessionID frame) (\<lambda>res. ret (\<not> isl res)))"

record outputChunk =
  Seq :: int
  Data :: string

definition chunk_fields :: "outputChunk setter list" where
  "chunk_fields =
     [(''seq'', \<lambda>j c. map_option (\<lambda>v. c\<lparr>Seq := v\<rparr>) (as_int j)),
      (''data'', \<lambda>j c. map_option (\<lambda>v. c\<lparr>Data := v\<rparr>) (as_string j))]"

fun as_chunks :: "Json \<Rightarrow> outputChunk list option" where
  "as_chunks (JList js) = those (map (\<lambda>j. decode_struct chunk_fields (Some j) \<lparr>Seq = 0, Data = []\<rparr>) js)"
| "as_chunks _ = None"

definition output_fields :: "outputChunk list setter list" where
  "output_fields = [(''chunks'', \<lambda>j _. as_chunks j)]"

definition output_url :: "string \<Rightarrow> int \<Rightarrow> string" where
  "output_url endpoint since = endpoint @ ''/output?since='' @ Itoa since"

definition readOutput :: "GEnv \<Rightarrow> string \<Rightarrow> int \<Rightarrow> outputChunk list result gact" where
  "readOutput E endpoint since =
     tryE (gHttp E ''GET'' (output_url endpoint since) None) (\<lambda>resp.
       if StatusCode resp \<noteq> 200
       then fail (Err (''gateway: session output: status '' @ Itoa (StatusCode resp)))
       else case decode_struct output_fields (Body resp) [] of
         None \<Rightarrow> fail json_error
       | Some chunks \<Rightarrow> ok chunks)"

text \<open>The writing half of \<^verbatim>\<open>bridge\<close>.  A poll writes its chunks in turn; \<open>accepts\<close> says of the
  number of frames written so far whether the next \<^verbatim>\<open>conn.Write\<close> succeeds.  The frames on the
  socket and the offset are the loop's state; \<open>ticks\<close> polls are made before the context is done.
  The result is \<open>None\<close> for the offset when the loop returned early.\<close>

fun write_chunks :: "(nat \<Rightarrow> bool) \<Rightarrow> string list \<Rightarrow> int \<Rightarrow> outputChunk list \<Rightarrow> string list \<times> int option" where
  "write_chunks accepts frames since [] = (frames, Some since)"
| "write_chunks accepts frames since (c # cs) =
     (if accepts (length frames) then write_chunks accepts (frames @ [Data c]) (Seq c) cs else (frames, None))"

fun bridge_output :: "nat \<Rightarrow> (nat \<Rightarrow> bool) \<Rightarrow> GEnv \<Rightarrow> string \<Rightarrow> string list \<Rightarrow> int \<Rightarrow> (string list \<times> int option) gact" where
  "bridge_output 0 accepts E endpoint frames since = ret (frames, Some since)"
| "bridge_output (Suc ticks) accepts E endpoint frames since =
     bindI (readOutput E endpoint since) (\<lambda>res.
       case res of
         Inl e \<Rightarrow> ret (frames, None)
       | Inr chunks \<Rightarrow>
         (case write_chunks accepts frames since chunks of
            (frames, None) \<Rightarrow> ret (frames, None)
          | (frames, Some since) \<Rightarrow> bridge_output ticks accepts E endpoint frames since))"

subsection \<open>At most one writer\<close>

lemma map_of_update: "map_of (AList.update k v m) k' = (if k' = k then Some v else map_of m k')"
  by (simp add: update_conv')

lemma map_of_delete: "map_of (AList.delete k m) k' = (if k' = k then None else map_of m k')"
  by (simp add: delete_conv')

lemma sessions_of_upd:
  "sessions_of (b(ws \<mapsto> m)) ws' = (if ws' = ws then m else sessions_of b ws')"
  "sessions_of (b(ws := None)) ws' = (if ws' = ws then [] else sessions_of b ws')"
  by (simp_all add: sessions_of_def)

lemma writable_attach: "writable (fst (attach b ws i)) ws' j \<longleftrightarrow> writable b ws' j \<and> (ws', j) \<noteq> (ws, i)"
  by (auto simp: writable_def attach_def Let_def sessions_of_upd map_of_update)

lemma writable_detach: "writable (fst (detach b ws i)) ws' j \<longleftrightarrow> writable b ws' j \<and> (ws', j) \<noteq> (ws, i)"
proof -
  have "map_of (sessions_of (fst (detach b ws i)) ws') j =
      (if ws' = ws then map_of (AList.delete i (sessions_of b ws)) j else map_of (sessions_of b ws') j)"
    by (simp add: detach_def Let_def sessions_of_upd)
  then show ?thesis by (simp add: writable_def map_of_delete)
qed

lemma writable_release: "writable (release b ws i) ws' j \<longleftrightarrow> writable b ws' j \<and> (ws', j) \<noteq> (ws, i)"
  by (auto simp: writable_def release_def sessions_of_upd map_of_update)

lemma writable_promote:
  assumes "promote b ws i = (b', okay, known)"
  shows "writable b' ws' j \<longleftrightarrow> writable b ws' j \<or> okay \<and> ws' = ws \<and> j = i"
    and "okay \<Longrightarrow> writable b ws j \<Longrightarrow> j = i" and "okay \<Longrightarrow> known"
proof -
  consider (no) "\<not> okay" "b' = b"
    | (yes) "okay" "known" "b' = b(ws \<mapsto> AList.update i True (sessions_of b ws))"
        "\<not> list_ex (\<lambda>(other, w). w \<and> other \<noteq> i) (sessions_of b ws)"
    using assms by (auto simp: promote_def Let_def split: option.splits if_splits)
  note cases = this
  show "writable b' ws' j \<longleftrightarrow> writable b ws' j \<or> okay \<and> ws' = ws \<and> j = i"
    by (cases rule: cases) (simp_all add: writable_def sessions_of_upd map_of_update)
  show "j = i" if "okay" and "writable b ws j"
  proof (cases rule: cases)
    case yes
    have "(j, True) \<in> set (sessions_of b ws)" using that(2) unfolding writable_def by (rule map_of_SomeD)
    then show ?thesis using yes(4) unfolding list_ex_iff by fastforce
  qed (use that in simp)
  show "known" if "okay" using that by (cases rule: cases) simp_all
qed

definition single_writer :: "browserSessions \<Rightarrow> bool" where
  "single_writer b \<longleftrightarrow> (\<forall>ws i j. writable b ws i \<longrightarrow> writable b ws j \<longrightarrow> i = j)"

lemma single_writer_ops:
  assumes "single_writer b"
  shows "single_writer (fst (attach b ws i))" "single_writer (fst (detach b ws i))"
    "single_writer (release b ws i)" "promote b ws i = (b', okay, known) \<Longrightarrow> single_writer b'"
proof -
  show "single_writer (fst (attach b ws i))" "single_writer (fst (detach b ws i))" "single_writer (release b ws i)"
    using assms unfolding single_writer_def writable_attach writable_detach writable_release by blast+
  show "single_writer b'" if p: "promote b ws i = (b', okay, known)"
    using assms unfolding single_writer_def writable_promote(1) [OF p]
    using writable_promote(2) [OF p] by blast
qed

subsection \<open>Interleaving\<close>

text \<open>A handover is in flight between its critical sections: the question to the supervisor was
  answered with no writable client (\<open>Promoting\<close>), or the connection was promoted and the takeover is
  being declared (\<open>Declaring\<close>).  A closing socket that was writable is giving the session back
  (\<open>Releasing\<close>); every closing socket ends by detaching.  \<open>sb_declared\<close> is what the supervisors
  have on record.\<close>

datatype flight =
    Promoting string string
  | Declaring string string
  | Releasing string string
  | Detaching string string

record Switchboard =
  sb_sessions :: browserSessions
  sb_sockets :: "(string \<times> string) list"
  sb_flights :: "flight list"
  sb_declared :: "(string \<times> string) list"

definition switchboard0 :: Switchboard where
  "switchboard0 = \<lparr>sb_sessions = Map.empty, sb_sockets = [], sb_flights = [], sb_declared = []\<rparr>"

inductive switch :: "Switchboard \<Rightarrow> Switchboard \<Rightarrow> bool" where
  opened: "switch S (S\<lparr>sb_sessions := fst (attach (sb_sessions S) ws i), sb_sockets := (ws, i) # sb_sockets S\<rparr>)"
| asked: "ws \<notin> fst ` set (sb_declared S) \<Longrightarrow>
    switch S (S\<lparr>sb_flights := Promoting ws i # sb_flights S\<rparr>)"
| promoted: "Promoting ws i \<in> set (sb_flights S) \<Longrightarrow> promote (sb_sessions S) ws i = (b, True, known) \<Longrightarrow>
    switch S (S\<lparr>sb_sessions := b, sb_flights := Declaring ws i # remove1 (Promoting ws i) (sb_flights S)\<rparr>)"
| refused: "Promoting ws i \<in> set (sb_flights S) \<Longrightarrow> promote (sb_sessions S) ws i = (b, False, known) \<Longrightarrow>
    switch S (S\<lparr>sb_sessions := b, sb_flights := remove1 (Promoting ws i) (sb_flights S)\<rparr>)"
| declared: "Declaring ws i \<in> set (sb_flights S) \<Longrightarrow>
    switch S (S\<lparr>sb_declared := List.insert (ws, i) (sb_declared S),
      sb_flights := remove1 (Declaring ws i) (sb_flights S)\<rparr>)"
| undone: "Declaring ws i \<in> set (sb_flights S) \<Longrightarrow>
    switch S (S\<lparr>sb_sessions := release (sb_sessions S) ws i,
      sb_flights := remove1 (Declaring ws i) (sb_flights S)\<rparr>)"
| closing_writable: "(ws, i) \<in> set (sb_sockets S) \<Longrightarrow> writable (sb_sessions S) ws i \<Longrightarrow>
    switch S (S\<lparr>sb_sockets := remove1 (ws, i) (sb_sockets S), sb_flights := Releasing ws i # sb_flights S\<rparr>)"
| closing: "(ws, i) \<in> set (sb_sockets S) \<Longrightarrow> \<not> writable (sb_sessions S) ws i \<Longrightarrow>
    switch S (S\<lparr>sb_sockets := remove1 (ws, i) (sb_sockets S), sb_flights := Detaching ws i # sb_flights S\<rparr>)"
| released: "Releasing ws i \<in> set (sb_flights S) \<Longrightarrow>
    switch S (S\<lparr>sb_declared := removeAll (ws, i) (sb_declared S),
      sb_flights := Detaching ws i # remove1 (Releasing ws i) (sb_flights S)\<rparr>)"
| release_failed: "Releasing ws i \<in> set (sb_flights S) \<Longrightarrow>
    switch S (S\<lparr>sb_flights := Detaching ws i # remove1 (Releasing ws i) (sb_flights S)\<rparr>)"
| detached: "Detaching ws i \<in> set (sb_flights S) \<Longrightarrow>
    switch S (S\<lparr>sb_sessions := fst (detach (sb_sessions S) ws i),
      sb_flights := remove1 (Detaching ws i) (sb_flights S)\<rparr>)"

text \<open>A writable connection is on record with its supervisor, unless that is under way: it is being
  declared, or its socket has closed.\<close>

definition accounted :: "Switchboard \<Rightarrow> bool" where
  "accounted S \<longleftrightarrow> (\<forall>ws i. writable (sb_sessions S) ws i \<longrightarrow>
     (ws, i) \<in> set (sb_declared S) \<or> Declaring ws i \<in> set (sb_flights S) \<or> Detaching ws i \<in> set (sb_flights S))"

lemma notin_remove1: "x \<notin> set (remove1 y xs) \<Longrightarrow> x \<in> set xs \<Longrightarrow> x = y"
  by (metis in_set_remove1)

lemma switch_keeps:
  assumes "switch S T" and "single_writer (sb_sessions S)" and "accounted S"
  shows "single_writer (sb_sessions T) \<and> accounted T"
  using assms
proof (induction rule: switch.induct)
  case (promoted ws i S b known)
  then show ?case
    using single_writer_ops(4) [OF promoted.prems(1) promoted.hyps(2)] writable_promote(1) [OF promoted.hyps(2)]
    by (auto simp: accounted_def)
next
  case (refused ws i S b known)
  then show ?case
    using single_writer_ops(4) [OF refused.prems(1) refused.hyps(2)] writable_promote(1) [OF refused.hyps(2)]
    by (auto simp: accounted_def)
qed (auto simp: accounted_def single_writer_ops writable_attach writable_detach writable_release dest: notin_remove1)

text \<open>C7. At most one writer, however the gateway's critical sections interleave: in every state reachable by
  opening and closing sockets, asking for handovers and having their declarations succeed or fail, at
  most one connection of a workspace is writable; and once nothing is in flight, the supervisor has
  that connection on record, so its agent stands back.\<close>
theorem at_most_one_writer:
  assumes "switch\<^sup>*\<^sup>* switchboard0 S"
  shows "(\<forall>ws i j. writable (sb_sessions S) ws i \<longrightarrow> writable (sb_sessions S) ws j \<longrightarrow> i = j) \<and>
    (sb_flights S = [] \<longrightarrow> (\<forall>ws i. writable (sb_sessions S) ws i \<longrightarrow> (ws, i) \<in> set (sb_declared S)))"
proof -
  have "single_writer (sb_sessions S) \<and> accounted S"
    using assms
  proof (induction rule: rtranclp_induct)
    case base
    show ?case by (simp add: single_writer_def accounted_def switchboard0_def writable_def sessions_of_def)
  next
    case (step S T)
    then show ?case using switch_keeps by blast
  qed
  then show ?thesis by (auto simp: single_writer_def accounted_def)
qed

definition on_board :: "(string \<times> bool) list \<Rightarrow> (string \<times> string) list \<Rightarrow> flight list \<Rightarrow> (string \<times> string) list \<Rightarrow> Switchboard" where
  "on_board m sockets flights decl = \<lparr>sb_sessions = (if m = [] then Map.empty else [''ws'' \<mapsto> m]),
     sb_sockets = sockets, sb_flights = flights, sb_declared = decl\<rparr>"

lemmas on_board_simps = on_board_def attach_def detach_def promote_def release_def writable_def sessions_of_def Let_def

text \<open>One connection takes the session over.\<close>

lemma taken_over:
  "switch\<^sup>*\<^sup>* switchboard0 (on_board [(''a'', True)] [(''ws'', ''a'')] [] [(''ws'', ''a'')])"
proof -
  let ?sock = "[(''ws'', ''a'')]"
  note step = r_into_rtranclp [of switch]
  have s1: "switch\<^sup>*\<^sup>* switchboard0 (on_board [(''a'', False)] ?sock [] [])"
    using step [OF switch.opened [of switchboard0 "''ws''" "''a''"]] by (simp add: switchboard0_def on_board_simps)
  have s2: "switch\<^sup>*\<^sup>* (on_board [(''a'', False)] ?sock [] []) (on_board [(''a'', False)] ?sock [Promoting ''ws'' ''a''] [])"
    using step [OF switch.asked [of "''ws''" "on_board [(''a'', False)] ?sock [] []" "''a''"]] by (simp add: on_board_simps)
  have s3: "switch\<^sup>*\<^sup>* (on_board [(''a'', False)] ?sock [Promoting ''ws'' ''a''] []) (on_board [(''a'', True)] ?sock [Declaring ''ws'' ''a''] [])"
    using step [OF switch.promoted [of "''ws''" "''a''" "on_board [(''a'', False)] ?sock [Promoting ''ws'' ''a''] []"]]
    by (simp add: on_board_simps)
  have s4: "switch\<^sup>*\<^sup>* (on_board [(''a'', True)] ?sock [Declaring ''ws'' ''a''] []) (on_board [(''a'', True)] ?sock [] ?sock)"
    using step [OF switch.declared [of "''ws''" "''a''" "on_board [(''a'', True)] ?sock [Declaring ''ws'' ''a''] []"]]
    by (simp add: on_board_simps)
  show ?thesis by (rule rtranclp_trans [OF rtranclp_trans [OF rtranclp_trans [OF s1 s2] s3] s4])
qed

theorem at_most_one_writer_witness:
  "\<exists>S. switch\<^sup>*\<^sup>* switchboard0 S \<and> writable (sb_sessions S) ''ws'' ''a'' \<and> sb_flights S = [] \<and>
     (''ws'', ''a'') \<in> set (sb_declared S)"
proof -
  let ?S = "on_board [(''a'', True)] [(''ws'', ''a'')] [] [(''ws'', ''a'')]"
  have "writable (sb_sessions ?S) ''ws'' ''a''" "sb_flights ?S = []" by (simp_all add: on_board_simps)
  then show ?thesis using taken_over at_most_one_writer [OF taken_over] by blast
qed

text \<open>A takeover can outlive its connection.  A client that reconnects under its session id before
  its old socket has closed is registered read-only again, so neither socket gives the session back
  when it closes: with no browser left and nothing in flight the supervisor still has the takeover on
  record, and its agent never resumes.\<close>
theorem takeover_outlives_its_connection:
  "\<exists>S. switch\<^sup>*\<^sup>* switchboard0 S \<and> sb_sockets S = [] \<and> sb_flights S = [] \<and> sb_sessions S = Map.empty \<and>
     sb_declared S \<noteq> []"
proof -
  let ?d = "[(''ws'', ''a'')]" let ?two = "[(''ws'', ''a''), (''ws'', ''a'')]"
  note step = r_into_rtranclp [of switch]
  have s1: "switch\<^sup>*\<^sup>* (on_board [(''a'', True)] ?d [] ?d) (on_board [(''a'', False)] ?two [] ?d)"
    using step [OF switch.opened [of "on_board [(''a'', True)] ?d [] ?d" "''ws''" "''a''"]] by (simp add: on_board_simps)
  have s2: "switch\<^sup>*\<^sup>* (on_board [(''a'', False)] ?two [] ?d) (on_board [(''a'', False)] ?d [Detaching ''ws'' ''a''] ?d)"
    using step [OF switch.closing [of "''ws''" "''a''" "on_board [(''a'', False)] ?two [] ?d"]] by (simp add: on_board_simps)
  have s3: "switch\<^sup>*\<^sup>* (on_board [(''a'', False)] ?d [Detaching ''ws'' ''a''] ?d) (on_board [] ?d [] ?d)"
    using step [OF switch.detached [of "''ws''" "''a''" "on_board [(''a'', False)] ?d [Detaching ''ws'' ''a''] ?d"]]
    by (simp add: on_board_simps)
  have s4: "switch\<^sup>*\<^sup>* (on_board [] ?d [] ?d) (on_board [] [] [Detaching ''ws'' ''a''] ?d)"
    using step [OF switch.closing [of "''ws''" "''a''" "on_board [] ?d [] ?d"]] by (simp add: on_board_simps)
  have s5: "switch\<^sup>*\<^sup>* (on_board [] [] [Detaching ''ws'' ''a''] ?d) (on_board [] [] [] ?d)"
    using step [OF switch.detached [of "''ws''" "''a''" "on_board [] [] [Detaching ''ws'' ''a''] ?d"]]
    by (simp add: on_board_simps)
  note reach = rtranclp_trans [OF rtranclp_trans [OF rtranclp_trans [OF rtranclp_trans
    [OF rtranclp_trans [OF taken_over s1] s2] s3] s4] s5]
  then show ?thesis by (intro exI [of _ "on_board [] [] [] ?d"]) (simp add: on_board_def)
qed

subsection \<open>The handler\<close>

lemma take_over_cases:
  assumes "take_over E b ws endpoint i h = ((b', reply), h')"
  shows "rp_Status reply = 200 \<and> writable b' ws i \<and> (\<forall>j. writable b' ws j \<longrightarrow> j = i) \<and>
      (\<exists>resp. h' = h @ [GvHttp ''POST'' (client_url endpoint i) None (Inr resp)] \<and> StatusCode resp = 204)
    \<or> rp_Status reply \<noteq> 200 \<and> (\<forall>v j. writable b' v j \<longrightarrow> writable b v j)"
proof -
  obtain b1 okay known where p: "promote b ws i = (b1, okay, known)" by (cases "promote b ws i") auto
  note w = writable_promote [OF p]
  show ?thesis
  proof (cases okay)
    case False
    then show ?thesis using assms p w(1)
      by (auto simp: take_over_def ret_def writeError_def writeJSON_def split: if_splits)
  next
    case True
    obtain res h1 where d: "declareWritable E ''POST'' endpoint i h = (res, h1)" by (cases "declareWritable E ''POST'' endpoint i h")
    show ?thesis
    proof (cases res)
      case (Inl e)
      then show ?thesis using assms p True w d
        by (auto simp: take_over_def bindI_def ret_def writeError_def writeJSON_def writable_release)
    next
      case (Inr u)
      then have "\<exists>resp. h1 = h @ [GvHttp ''POST'' (client_url endpoint i) None (Inr resp)] \<and> StatusCode resp = 204"
        using d by (auto simp: declareWritable_def gHttp_def tryE_def bindI_def call_def ret_def fail_def ok_def
            split: option.splits sum.splits if_splits)
      moreover have "b' = b1" "h' = h1" "rp_Status reply = 200"
        using assms p True w(3) d Inr by (auto simp: take_over_def bindI_def ret_def writeJSON_def)
      ultimately show ?thesis using w(1,2) True by auto
    qed
  qed
qed

text \<open>C8. A handover is granted on record or not at all.  When the handler answers 200, the last two
  things it did were to read a client list without a writable client and to declare the takeover,
  which the supervisor confirmed, and the connection asked for is the only writable one of its
  workspace.  With any other answer no connection has become writable.\<close>
theorem handover_granted_on_record_or_not_at_all:
  assumes "handover s E b r h = ((b', reply), h')"
  shows "rp_Status reply = 200 \<and>
      (\<exists>h0 ws i endpoint clients asked confirmed.
        h' = h0 @ [GvHttp ''GET'' (endpoint @ ''/clients'') None (Inr asked),
          GvHttp ''POST'' (client_url endpoint i) None (Inr confirmed)] \<and>
        decode_clients (Body asked) = Some clients \<and> list_all (\<lambda>c. \<not> cl_Writable c) clients \<and>
        StatusCode confirmed = 204 \<and> writable b' ws i \<and> (\<forall>j. writable b' ws j \<longrightarrow> j = i))
    \<or> rp_Status reply \<noteq> 200 \<and> (\<forall>ws j. writable b' ws j \<longrightarrow> writable b ws j)"
proof -
  have err: "rp_Status (writeStoreError e) \<noteq> 200" for e
    by (simp add: writeStoreError_def writeError_def writeJSON_def)
  obtain r1 h1 where resolve: "ResolveHost E (rq_Host r) h = (r1, h1)" by (cases "ResolveHost E (rq_Host r) h")
  show ?thesis
  proof (cases "\<exists>ws i endpoint h2 u h3. r1 = Inr ws \<and> decode_struct handover_fields (rq_Body r) [] = Some i \<and>
      SessionEndpoint s E ws h1 = (Inr endpoint, h2) \<and> refuseIfWritableClientPresent E endpoint h2 = (Inr u, h3)")
    case False
    then have "rp_Status reply \<noteq> 200 \<and> b' = b"
      using assms resolve err
      by (auto simp: handover_def bindI_def ret_def writeError_def writeJSON_def split: sum.splits option.splits prod.splits)
    then show ?thesis by simp
  next
    case True
    then obtain ws i endpoint h2 u h3 where t: "r1 = Inr ws" "decode_struct handover_fields (rq_Body r) [] = Some i"
      "SessionEndpoint s E ws h1 = (Inr endpoint, h2)" "refuseIfWritableClientPresent E endpoint h2 = (Inr u, h3)" by blast
    then have take: "take_over E b (sum_Name ws) endpoint i h3 = ((b', reply), h')"
      using assms resolve by (simp add: handover_def bindI_def)
    obtain asked clients where a: "h3 = h2 @ [GvHttp ''GET'' (endpoint @ ''/clients'') None (Inr asked)]"
        "decode_clients (Body asked) = Some clients" "List.find cl_Writable clients = None"
      using t(4) by (auto simp: refuseIfWritableClientPresent_def gHttp_def tryE_def bindI_def call_def ret_def fail_def ok_def
          split: option.splits sum.splits if_splits)
    have "list_all (\<lambda>c. \<not> cl_Writable c) clients" using a(3) by (simp add: find_None_iff list_all_iff)
    with a(2) take_over_cases [OF take] show ?thesis unfolding a(1) append.assoc append.simps by blast
  qed
qed

definition handover_env :: GEnv where
  "handover_env = (serving [gw_object ''a'' ''a''])\<lparr>
     g_ListPods := (\<lambda>h sel. Inr [JObject [(''status'', JObject [(''phase'', JString ''Running''), (''podIP'', JString ''1'')])]]),
     g_Do := (\<lambda>h verb u body. Inr \<lparr>StatusCode = if verb = ''GET'' then 200 else 204, StatusText = [], Body = Some (JList []), BodyText = []\<rparr>)\<rparr>"

definition handover_request :: Request where
  "handover_request = \<lparr>rq_Method = ''POST'', rq_Path = ''/handover'', rq_Host = ''a.dev'', rq_Header = (\<lambda>n. []),
     rq_Query = (\<lambda>n. []), rq_Body = Some (JObject [(''sessionId'', JString ''s'')]), rq_id = []\<rparr>"

theorem handover_granted_on_record_or_not_at_all_witness:
  "\<exists>b' h' ws i. snd (handover \<lparr>st_Namespace = [], DefaultTemplateRef = [], SupervisorPort = 0\<rparr> handover_env [''a'' \<mapsto> [(''s'', False)]] handover_request []) = h' \<and>
     (\<exists>h0 endpoint confirmed. h' = h0 @ [GvHttp ''POST'' (client_url endpoint i) None (Inr confirmed)] \<and> StatusCode confirmed = 204) \<and>
     writable b' ws i"
proof -
  let ?run = "handover \<lparr>st_Namespace = [], DefaultTemplateRef = [], SupervisorPort = 0\<rparr> handover_env [''a'' \<mapsto> [(''s'', False)]] handover_request []"
  obtain b' reply h' where run: "?run = ((b', reply), h')" by (metis prod.collapse)
  have host: "host_label ''a.dev'' = ''a''" by code_simp
  have body: "decode_struct handover_fields (Some (JObject [(''sessionId'', JString ''s'')])) [] = Some ''s''"
    by code_simp
  have "rp_Status (snd (fst ?run)) = 200"
    by (simp add: handover_def body handover_request_def handover_env_def ResolveHost_def host store_Find_def serving_def
        gGetWorkspace_def SessionEndpoint_def gListPods_def pod_endpoint_def NestedString_def refuseIfWritableClientPresent_def
        gHttp_def genv0_def take_over_def promote_def sessions_of_def Let_def declareWritable_def
        bindI_def tryE_def call_def ok_def ret_def writeJSON_def)
  then have "rp_Status reply = 200" unfolding run by simp
  then obtain h0 ws i endpoint clients asked confirmed where
    "h' = h0 @ [GvHttp ''GET'' (endpoint @ ''/clients'') None (Inr asked),
          GvHttp ''POST'' (client_url endpoint i) None (Inr confirmed)]"
    "StatusCode confirmed = 204" "writable b' ws i"
    using handover_granted_on_record_or_not_at_all [OF run] by blast
  moreover have "snd ?run = h'" unfolding run by simp
  ultimately show ?thesis
    by (metis append.assoc append_Cons append_Nil)
qed

subsection \<open>Output\<close>

text \<open>The supervisor's side of the contract: \<^verbatim>\<open>/output\<close> answers with the part of an ever growing
  log that lies past the offset, cut into any chunks, each numbered with the offset just past it.\<close>

fun chained :: "int \<Rightarrow> outputChunk list \<Rightarrow> bool" where
  "chained since [] = True"
| "chained since (c # cs) = (Seq c = since + int (length (Data c)) \<and> chained (Seq c) cs)"

definition serves_output :: "GEnv \<Rightarrow> string \<Rightarrow> (GEvent list \<Rightarrow> string) \<Rightarrow> bool" where
  "serves_output E endpoint journal \<longleftrightarrow>
     (\<forall>since. g_NewRequest E ''GET'' (output_url endpoint since) = None) \<and>
     (\<forall>h n. n \<le> length (journal h) \<longrightarrow>
        (\<exists>resp chunks. g_Do E h ''GET'' (output_url endpoint (int n)) None = Inr resp \<and> StatusCode resp = 200 \<and>
          decode_struct output_fields (Body resp) [] = Some chunks \<and> chained (int n) chunks \<and>
          concat (map Data chunks) = drop n (journal h))) \<and>
     (\<forall>h evs. \<exists>new. journal (h @ evs) = journal h @ new)"

lemma readOutput_serves:
  assumes "serves_output E endpoint journal" and "n \<le> length (journal h)"
  shows "\<exists>chunks ev. readOutput E endpoint (int n) h = (Inr chunks, h @ [ev]) \<and> chained (int n) chunks \<and>
    concat (map Data chunks) = drop n (journal h)"
proof -
  obtain resp chunks where "g_Do E h ''GET'' (output_url endpoint (int n)) None = Inr resp" "StatusCode resp = 200"
      "decode_struct output_fields (Body resp) [] = Some chunks" "chained (int n) chunks"
      "concat (map Data chunks) = drop n (journal h)"
    using assms unfolding serves_output_def by blast
  moreover have "g_NewRequest E ''GET'' (output_url endpoint (int n)) = None"
    using assms(1) unfolding serves_output_def by blast
  ultimately show ?thesis
    by (simp add: readOutput_def gHttp_def tryE_def bindI_def call_def ok_def ret_def)
qed

lemma write_chunks_prefix:
  assumes "chained (int n) cs" and "concat frames = take n j" and "concat (map Data cs) = drop n j" and "n \<le> length j"
  shows "\<exists>k frames' fin. write_chunks accepts frames (int n) cs = (frames', fin) \<and> k \<le> length j \<and> concat frames' = take k j \<and>
    (\<forall>s. fin = Some s \<longrightarrow> k = length j \<and> s = int k) \<and> ((\<forall>m. accepts m) \<longrightarrow> fin \<noteq> None)"
  using assms
proof (induction cs arbitrary: n frames)
  case Nil
  then show ?case by (intro exI [of _ n]) simp
next
  case (Cons c cs)
  let ?n = "n + length (Data c)"
  have split: "Data c @ concat (map Data cs) = drop n j" using Cons.prems(3) by simp
  have len: "?n \<le> length j" using arg_cong [OF split, of length] Cons.prems(4) by simp
  have d: "Data c = take (length (Data c)) (drop n j)" "concat (map Data cs) = drop (length (Data c)) (drop n j)"
    unfolding split [symmetric] by simp_all
  show ?case
  proof (cases "accepts (length frames)")
    case True
    have "concat (frames @ [Data c]) = take ?n j" using d(1) Cons.prems(2) by (simp add: take_add)
    moreover have "concat (map Data cs) = drop ?n j" using d(2) by (simp add: add.commute)
    moreover have at_c: "Seq c = int ?n" "chained (int ?n) cs" using Cons.prems(1) by auto
    moreover have "write_chunks accepts frames (int n) (c # cs) = write_chunks accepts (frames @ [Data c]) (int ?n) cs"
      using True at_c(1) by simp
    ultimately show ?thesis using Cons.IH [of ?n "frames @ [Data c]"] len by presburger
  next
    case False
    then show ?thesis using Cons.prems(2,4) by (intro exI [of _ n]) auto
  qed
qed

lemma bridge_output_prefix:
  assumes "serves_output E endpoint journal" and "k \<le> length (journal h)" and "concat frames0 = take k (journal h)"
    and "bridge_output n accepts E endpoint frames0 (int k) h = ((frames, fin), h')"
  shows "(\<exists>k'. concat frames = take k' (journal h')) \<and> ((\<forall>m. accepts m) \<longrightarrow> 0 < n \<longrightarrow> concat frames = journal (butlast h'))"
  using assms(2,3,4)
proof (induction n arbitrary: k h frames0)
  case 0
  then show ?case by (auto simp: ret_def)
next
  case (Suc n)
  obtain chunks ev where read: "readOutput E endpoint (int k) h = (Inr chunks, h @ [ev])" "chained (int k) chunks"
      "concat (map Data chunks) = drop k (journal h)"
    using readOutput_serves [OF assms(1) Suc.prems(1)] by blast
  obtain new where grown: "journal (h @ [ev]) = journal h @ new"
    using assms(1) unfolding serves_output_def by blast
  obtain k' frames1 res where w: "write_chunks accepts frames0 (int k) chunks = (frames1, res)" "k' \<le> length (journal h)"
      "concat frames1 = take k' (journal h)" "\<forall>s. res = Some s \<longrightarrow> k' = length (journal h) \<and> s = int k'"
      "(\<forall>m. accepts m) \<longrightarrow> res \<noteq> None"
    using write_chunks_prefix [OF read(2) Suc.prems(2) read(3) Suc.prems(1), of accepts] by blast
  have prefix': "concat frames1 = take k' (journal (h @ [ev]))" using w(2,3) grown by simp
  show ?case
  proof (cases res)
    case None
    then show ?thesis using Suc.prems(3) read(1) w(1,5) prefix' by (auto simp: bindI_def ret_def)
  next
    case (Some s)
    then have k': "k' = length (journal h)" "s = int k'" using w(4) by auto
    have run: "bridge_output n accepts E endpoint frames1 (int k') (h @ [ev]) = ((frames, fin), h')"
      using Suc.prems(3) read(1) w(1) Some k' by (simp add: bindI_def)
    have "k' \<le> length (journal (h @ [ev]))" using w(2) grown by simp
    from Suc.IH [OF this prefix' run] show ?thesis
    proof (cases n)
      case 0
      then have "frames = frames1" "h' = h @ [ev]" using run by (auto simp: ret_def)
      then show ?thesis using w(3) k'(1) prefix' by (intro conjI exI [of _ k']) simp_all
    qed auto
  qed
qed


definition chunk_json :: "outputChunk \<Rightarrow> Json" where
  "chunk_json c = JObject [(''seq'', JInt (Seq c)), (''data'', JString (Data c))]"

definition output_env :: GEnv where
  "output_env = genv0\<lparr>g_Do := (\<lambda>h verb u body. Inr \<lparr>StatusCode = 200, StatusText = [],
     Body = Some (JObject [(''chunks'', JList (if u = output_url ''p'' 0 then [chunk_json \<lparr>Seq = 2, Data = ''ls''\<rparr>]
       else if u = output_url ''p'' 1 then [chunk_json \<lparr>Seq = 2, Data = ''s''\<rparr>] else []))]), BodyText = []\<rparr>)\<rparr>"

lemma output_env_serves: "serves_output output_env ''p'' (\<lambda>h. ''ls'')"
proof -
  have urls: "output_url ''p'' 0 \<noteq> output_url ''p'' 1" "output_url ''p'' 0 \<noteq> output_url ''p'' 2" "output_url ''p'' 1 \<noteq> output_url ''p'' 2"
    by code_simp+
  have bodies: "decode_struct output_fields (Some (JObject [(''chunks'', JList [chunk_json \<lparr>Seq = 2, Data = ''ls''\<rparr>])])) [] = Some [\<lparr>Seq = 2, Data = ''ls''\<rparr>]"
    "decode_struct output_fields (Some (JObject [(''chunks'', JList [chunk_json \<lparr>Seq = 2, Data = ''s''\<rparr>])])) [] = Some [\<lparr>Seq = 2, Data = ''s''\<rparr>]"
    "decode_struct output_fields (Some (JObject [(''chunks'', JList [])])) [] = Some []"
    by code_simp+
  have answers: "\<exists>resp chunks. g_Do output_env h ''GET'' (output_url ''p'' (int n)) None = Inr resp \<and> StatusCode resp = 200 \<and>
      decode_struct output_fields (Body resp) [] = Some chunks \<and> chained (int n) chunks \<and> concat (map Data chunks) = drop n ''ls''"
    if "n \<le> length ''ls''" for h n
  proof -
    consider "n = 0" | "n = 1" | "n = 2" using \<open>n \<le> length ''ls''\<close> by fastforce
    then show ?thesis using urls bodies by cases (simp_all add: output_env_def)
  qed
  show ?thesis unfolding serves_output_def using answers by (auto simp: output_env_def genv0_def)
qed


end
