(* ===== verification/GatewayHandler.thy ===== *)
theory GatewayHandler
  imports GatewayBootstrap GatewayHandover
begin

text \<open>
  The gateway's routes: \<^verbatim>\<open>handler.go\<close>, \<^verbatim>\<open>authroutes.go\<close>, the middleware of
  \<^verbatim>\<open>identity.go\<close> and the wiring of \<^verbatim>\<open>cmd/gateway/main.go\<close>.  A handler takes the
  \<open>Handler\<close> and returns it updated (key caches and browser sessions change) with what was served:
  a reply, or the parameters of a session socket.  Shown: an unidentified request learns nothing on any
  route, a login tells an unknown user and a wrong password apart in nothing, certificates are issued
  for existing workspaces only, and the gateway never starts without an authenticator.
\<close>

subsection \<open>The handler\<close>

record LocalAuth =
  la_Users :: UserStore
  la_Sessions :: JWTSessionIssuer
  la_SessionTTL :: duration

definition sessionTTL :: "LocalAuth \<Rightarrow> duration" where
  "sessionTTL l = (if la_SessionTTL l > 0 then la_SessionTTL l else DefaultSessionTTL)"

text \<open>\<^verbatim>\<open>Verifier\<close> and \<^verbatim>\<open>HTTPClient\<close> are left out: no route reads the first, and the second is
  the environment.\<close>

record Handler =
  hd_Store :: Store
  hd_Identity :: Identity
  hd_CA :: "CertificateAuthority option"
  hd_Local :: "LocalAuth option"
  hd_Version :: string
  MinClientVersion :: string
  MaxClientVersion :: string
  hd_PollInterval :: duration
  hd_sessions :: browserSessions

definition DefaultPollInterval :: duration where
  "DefaultPollInterval = 200 * (Second div 1000)"

definition gw_pollInterval :: "Handler \<Rightarrow> duration" where
  "gw_pollInterval g = (if hd_PollInterval g > 0 then hd_PollInterval g else DefaultPollInterval)"

datatype Served =
    Replied Reply
  | Upgraded WorkspaceSummary string string

type_synonym serve = "(Handler \<times> Served) gact"

definition status_only :: "int \<Rightarrow> Reply" where
  "status_only s = \<lparr>rp_Status = s, rp_Challenge = False, rp_Body = NoBody\<rparr>"

definition replied :: "Handler \<Rightarrow> Reply \<Rightarrow> serve" where
  "replied g r = ret (g, Replied r)"

subsection \<open>Bodies\<close>

text \<open>\<^verbatim>\<open>omitempty\<close>\<close>

definition nonempty :: "string \<Rightarrow> string \<Rightarrow> (string \<times> Json) list" where
  "nonempty k v = (if v = [] then [] else [(k, JString v)])"

definition summary_json :: "WorkspaceSummary \<Rightarrow> Json" where
  "summary_json ws = JObject ([(''name'', JString (sum_Name ws))] @ nonempty ''workspaceId'' (sum_WorkspaceId ws) @
     [(''repository'', JString (sum_Repository ws)), (''branch'', JString (sum_Branch ws)),
      (''templateRef'', JString (sum_TemplateRef ws))] @
     nonempty ''phase'' (sum_Phase ws) @ nonempty ''sessionId'' (sum_SessionId ws) @
     [(''urls'', JObject (nonempty ''preview'' (gw_Preview (sum_Urls ws)) @ nonempty ''session'' (gw_Session (sum_Urls ws)) @
        nonempty ''report'' (gw_Report (sum_Urls ws))))])"

definition subject_json :: "Subject \<Rightarrow> Json" where
  "subject_json s = JObject ([(''id'', JString (sub_ID s))] @ nonempty ''name'' (sub_Name s) @ nonempty ''source'' (sub_Source s))"

definition issued_json :: "GEnv \<Rightarrow> IssuedCertificate \<Rightarrow> Json" where
  "issued_json E c = JObject [(''certificate'', JString (iss_Certificate c)), (''principal'', JString (iss_Principal c)),
     (''expiresAt'', JString (g_FormatTime E (iss_ExpiresAt c)))]"

text \<open>A body of two required strings.\<close>

definition pair_fields :: "string \<Rightarrow> string \<Rightarrow> (string \<times> string) setter list" where
  "pair_fields a b =
     [(a, \<lambda>j (x, y). map_option (\<lambda>v. (v, y)) (as_string j)),
      (b, \<lambda>j (x, y). map_option (\<lambda>v. (x, v)) (as_string j))]"

definition required_pair :: "string \<Rightarrow> string \<Rightarrow> Request \<Rightarrow> (string \<times> string) option" where
  "required_pair a b r =
     (case decode_struct (pair_fields a b) (rq_Body r) ([], []) of
        Some (x, y) \<Rightarrow> if x = [] \<or> y = [] then None else Some (x, y)
      | None \<Rightarrow> None)"

definition create_fields :: "CreateWorkspaceRequest setter list" where
  "create_fields =
     [(''repository'', \<lambda>j q. map_option (\<lambda>v. q\<lparr>cw_Repository := v\<rparr>) (as_string j)),
      (''branch'', \<lambda>j q. map_option (\<lambda>v. q\<lparr>cw_Branch := v\<rparr>) (as_string j)),
      (''baseBranch'', \<lambda>j q. map_option (\<lambda>v. q\<lparr>cw_BaseBranch := v\<rparr>) (as_string j)),
      (''templateRef'', \<lambda>j q. map_option (\<lambda>v. q\<lparr>cw_TemplateRef := v\<rparr>) (as_string j)),
      (''gitCredentialSecretRef'', \<lambda>j q. map_option (\<lambda>v. q\<lparr>cw_GitCredentialSecretRef := v\<rparr>) (as_string j))]"

definition create0 :: CreateWorkspaceRequest where
  "create0 = \<lparr>cw_Repository = [], cw_Branch = [], cw_BaseBranch = [], cw_TemplateRef = [], cw_GitCredentialSecretRef = []\<rparr>"

subsection \<open>Own authentication (authroutes.go)\<close>

definition version :: "Handler \<Rightarrow> Reply" where
  "version g = writeJSON 200 (JObject [(''maxClientVersion'', JString (MaxClientVersion g)),
     (''minClientVersion'', JString (MinClientVersion g)), (''version'', JString (hd_Version g))])"

definition login :: "GEnv \<Rightarrow> Handler \<Rightarrow> Request \<Rightarrow> serve" where
  "login E g r =
     (case hd_Local g of
        None \<Rightarrow> replied g (writeError 503 ''local authentication is disabled'')
      | Some l \<Rightarrow>
        (case required_pair ''username'' ''password'' r of
           None \<Rightarrow> replied g (writeError 400 ''username and password are required'')
         | Some (username, password) \<Rightarrow>
           bindI (users_Verify E (la_Users l) username password) (\<lambda>res.
             case res of
               Inl e \<Rightarrow> replied g (writeError 401 ''invalid credentials'')
             | Inr _ \<Rightarrow>
               bindI (session_Issue E (la_Sessions l) \<lparr>sub_ID = username, sub_Name = username, sub_Source = ''local''\<rparr>
                   (sessionTTL l)) (\<lambda>res.
                 case res of
                   Inl e \<Rightarrow> replied g (writeError 500 (Error e))
                 | Inr (token, expiry) \<Rightarrow>
                   replied g (writeJSON 200 (JObject [(''expiresAt'', JString (g_FormatTime E expiry)),
                     (''session'', JString token)]))))))"

definition logout :: "Handler \<Rightarrow> Subject \<Rightarrow> serve" where
  "logout g subject = replied g (writeJSON 200 (JObject []))"

definition me :: "Handler \<Rightarrow> Subject \<Rightarrow> serve" where
  "me g subject = replied g (writeJSON 200 (subject_json subject))"

definition changePassword :: "GEnv \<Rightarrow> Handler \<Rightarrow> Request \<Rightarrow> Subject \<Rightarrow> serve" where
  "changePassword E g r subject =
     (case hd_Local g of
        None \<Rightarrow> replied g (writeError 503 ''local authentication is disabled'')
      | Some l \<Rightarrow>
        (case required_pair ''currentPassword'' ''newPassword'' r of
           None \<Rightarrow> replied g (writeError 400 ''currentPassword and newPassword are required'')
         | Some (current, new) \<Rightarrow>
           bindI (users_Verify E (la_Users l) (sub_ID subject) current) (\<lambda>res.
             case res of
               Inl e \<Rightarrow> replied g (writeError 401 ''invalid credentials'')
             | Inr _ \<Rightarrow>
               bindI (SetPassword E (la_Users l) (sub_ID subject) new) (\<lambda>res.
                 case res of
                   Inl e \<Rightarrow> replied g (if errors_Is e ErrUserNotFound then writeError 401 ''invalid credentials''
                       else writeError 500 (Error e))
                 | Inr _ \<Rightarrow> replied g (writeJSON 200 (JObject []))))))"

subsection \<open>The terminal and its socket\<close>

definition serveTerminal :: "GEnv \<Rightarrow> Handler \<Rightarrow> Request \<Rightarrow> serve" where
  "serveTerminal E g r =
     bindI (Identify E (hd_Identity g) r) (\<lambda>(i, res).
       let g = g\<lparr>hd_Identity := i\<rparr> in
       case res of
         Inl e \<Rightarrow> replied g \<lparr>rp_Status = 401, rp_Challenge = False, rp_Body = SignInPage\<rparr>
       | Inr _ \<Rightarrow>
         bindI (ResolveHost E (rq_Host r)) (\<lambda>res.
           case res of
             Inl e \<Rightarrow> replied g (writeStoreError e)
           | Inr ws \<Rightarrow> replied g \<lparr>rp_Status = 200, rp_Challenge = False,
               rp_Body = TerminalPage (sum_Name ws) (sum_Branch ws)\<rparr>))"

definition serveSessionSocket :: "GEnv \<Rightarrow> Handler \<Rightarrow> Request \<Rightarrow> serve" where
  "serveSessionSocket E g r =
     bindI (Identify E (hd_Identity g) r) (\<lambda>(i, res).
       let g = g\<lparr>hd_Identity := i\<rparr> in
       case res of
         Inl e \<Rightarrow> replied g unauthorized
       | Inr _ \<Rightarrow>
         bindI (ResolveHost E (rq_Host r)) (\<lambda>res.
           case res of
             Inl e \<Rightarrow> replied g (writeStoreError e)
           | Inr ws \<Rightarrow>
             bindI (SessionEndpoint (hd_Store g) E ws) (\<lambda>res.
               case res of
                 Inl e \<Rightarrow> replied g (writeError 502 (Error e))
               | Inr endpoint \<Rightarrow>
                 bindI (if rq_Query r ''sessionId'' = [] then newSessionID E else ret (rq_Query r ''sessionId''))
                   (\<lambda>sessionID. ret (g, Upgraded ws endpoint sessionID)))))"

subsection \<open>The control surface\<close>

definition gw_listWorkspaces :: "GEnv \<Rightarrow> Handler \<Rightarrow> serve" where
  "gw_listWorkspaces E g =
     bindI (store_List E) (\<lambda>res.
       case res of
         Inl e \<Rightarrow> replied g (writeError 502 (Error e))
       | Inr summaries \<Rightarrow> replied g (writeJSON 200 (JList (map summary_json summaries))))"

definition createWorkspace :: "GEnv \<Rightarrow> Handler \<Rightarrow> Request \<Rightarrow> serve" where
  "createWorkspace E g r =
     (case decode_struct create_fields (rq_Body r) create0 of
        None \<Rightarrow> replied g (writeError 400 (Error json_error))
      | Some req \<Rightarrow>
        bindI (store_Create (hd_Store g) E req) (\<lambda>res.
          case res of
            Inl e \<Rightarrow> replied g (writeStoreError e)
          | Inr created \<Rightarrow> replied g (writeJSON 201 (summary_json created))))"

definition deleteWorkspace :: "GEnv \<Rightarrow> Handler \<Rightarrow> Request \<Rightarrow> serve" where
  "deleteWorkspace E g r =
     bindI (store_Delete E (rq_id r)) (\<lambda>res.
       case res of
         Inl e \<Rightarrow> replied g (writeStoreError e)
       | Inr _ \<Rightarrow> replied g (status_only 204))"

text \<open>The raw body is passed through; encoding one that is not JSON fails after the status was sent.\<close>

definition readTurn :: "GEnv \<Rightarrow> string \<Rightarrow> Json option result gact" where
  "readTurn E endpoint =
     tryE (gHttp E ''GET'' (endpoint @ ''/turn'') None) (\<lambda>resp.
       if StatusCode resp \<noteq> 200
       then fail (Err (''gateway: session turn state: status '' @ Itoa (StatusCode resp)))
       else ok (Body resp))"

definition status_reply :: "WorkspaceSummary \<Rightarrow> Json option \<Rightarrow> Reply" where
  "status_reply ws turn =
     (case turn of
        None \<Rightarrow> status_only 200
      | Some turn \<Rightarrow> writeJSON 200 (JObject [(''name'', JString (sum_Name ws)), (''phase'', JString (sum_Phase ws)),
          (''sessionId'', JString (sum_SessionId ws)), (''turn'', turn), (''workspaceId'', JString (sum_WorkspaceId ws))]))"

definition sessionStatus :: "GEnv \<Rightarrow> Handler \<Rightarrow> Request \<Rightarrow> serve" where
  "sessionStatus E g r =
     bindI (store_Find E (rq_id r)) (\<lambda>res.
       case res of
         Inl e \<Rightarrow> replied g (writeStoreError e)
       | Inr ws \<Rightarrow>
         bindI (SessionEndpoint (hd_Store g) E ws) (\<lambda>res.
           case res of
             Inl e \<Rightarrow> replied g (writeError 502 (Error e))
           | Inr endpoint \<Rightarrow>
             bindI (readTurn E endpoint) (\<lambda>res.
               case res of
                 Inl e \<Rightarrow> replied g (writeError 502 (Error e))
               | Inr turn \<Rightarrow> replied g (status_reply ws turn))))"

definition signing_enabled :: "CertificateAuthority option \<Rightarrow> bool" where
  "signing_enabled ca \<longleftrightarrow> (case ca of None \<Rightarrow> False | Some c \<Rightarrow> Signer c \<noteq> None)"

definition issueCertificate :: "GEnv \<Rightarrow> Handler \<Rightarrow> Request \<Rightarrow> serve" where
  "issueCertificate E g r =
     (case decode_struct (pair_fields ''workspaceId'' ''publicKey'') (rq_Body r) ([], []) of
        None \<Rightarrow> replied g (writeError 400 (Error json_error))
      | Some (workspaceId, publicKey) \<Rightarrow>
        (if \<not> signing_enabled (hd_CA g)
         then replied g (writeError 503 ''no ssh certificate authority configured'')
         else bindI (store_Find E workspaceId) (\<lambda>res.
           case res of
             Inl e \<Rightarrow> replied g (writeStoreError e)
           | Inr ws \<Rightarrow>
             bindI (ca_Issue E (hd_CA g) (if sum_WorkspaceId ws = [] then sum_Name ws else sum_WorkspaceId ws) publicKey) (\<lambda>res.
               case res of
                 Inl e \<Rightarrow> replied g (writeError 400 (Error e))
               | Inr issued \<Rightarrow> replied g (writeJSON 200 (issued_json E issued))))))"

subsection \<open>Routes\<close>

definition require :: "GEnv \<Rightarrow> Handler \<Rightarrow> Request \<Rightarrow> (Handler \<Rightarrow> Subject \<Rightarrow> serve) \<Rightarrow> serve" where
  "require E g r handle =
     bindI (Identify E (hd_Identity g) r) (\<lambda>(i, res).
       let g = g\<lparr>hd_Identity := i\<rparr> in
       case res of
         Inl e \<Rightarrow> replied g unauthorized
       | Inr subject \<Rightarrow> handle g subject)"

datatype Route =
    Healthz | VersionRoute | Terminal | Socket | HandoverRoute | Login | Logout | Me | Password | Api

definition segments :: "string \<Rightarrow> string list" where
  "segments path = tl (Split (CHR ''/'') path)"

definition method_matches :: "string \<Rightarrow> string \<Rightarrow> bool" where
  "method_matches pattern m \<longleftrightarrow> m = pattern \<or> pattern = ''GET'' \<and> m = ''HEAD''"

text \<open>\<^verbatim>\<open>http.ServeMux\<close>: \<open>Inl\<close> is the status the multiplexer itself answers with.\<close>

definition exact_routes :: "(string list \<times> string \<times> Route) list" where
  "exact_routes =
     [([''healthz''], ''GET'', Healthz), ([''version''], ''GET'', VersionRoute), ([[]], ''GET'', Terminal),
      ([''ws''], ''GET'', Socket), ([''handover''], ''POST'', HandoverRoute),
      ([''auth'', ''login''], ''POST'', Login), ([''auth'', ''logout''], ''POST'', Logout),
      ([''auth'', ''me''], ''GET'', Me), ([''auth'', ''password''], ''POST'', Password)]"

definition route_of :: "Request \<Rightarrow> int + Route" where
  "route_of r =
     (let segs = segments (rq_Path r) in
      if segs = [''api''] then Inl 301
      else if segs \<noteq> [] \<and> hd segs = ''api'' then Inr Api
      else case map_of exact_routes segs of
        None \<Rightarrow> Inl 404
      | Some (m, route) \<Rightarrow> if method_matches m (rq_Method r) then Inr route else Inl 405)"

definition serve_api :: "GEnv \<Rightarrow> Handler \<Rightarrow> Request \<Rightarrow> serve" where
  "serve_api E g r =
     (case segments (rq_Path r) of
        [_, a] \<Rightarrow>
          (if a = ''workspaces''
           then if method_matches ''GET'' (rq_Method r) then gw_listWorkspaces E g
             else if method_matches ''POST'' (rq_Method r) then createWorkspace E g r
             else replied g (status_only 405)
           else replied g (status_only 404))
      | [_, a, b] \<Rightarrow>
          (if a = ''workspaces'' \<and> b \<noteq> []
           then if method_matches ''DELETE'' (rq_Method r) then deleteWorkspace E g (r\<lparr>rq_id := b\<rparr>)
             else replied g (status_only 405)
           else if a = ''ssh'' \<and> b = ''certificate''
           then if method_matches ''POST'' (rq_Method r) then issueCertificate E g r
             else replied g (status_only 405)
           else replied g (status_only 404))
      | [_, a, b, c] \<Rightarrow>
          (if a = ''workspaces'' \<and> b \<noteq> [] \<and> c = ''session''
           then if method_matches ''GET'' (rq_Method r) then sessionStatus E g (r\<lparr>rq_id := b\<rparr>)
             else replied g (status_only 405)
           else replied g (status_only 404))
      | _ \<Rightarrow> replied g (status_only 404))"

definition serve_handover :: "GEnv \<Rightarrow> Request \<Rightarrow> Handler \<Rightarrow> Subject \<Rightarrow> serve" where
  "serve_handover E r g subject =
     bindI (handover (hd_Store g) E (hd_sessions g) r) (\<lambda>(b, reply).
       replied (g\<lparr>hd_sessions := b\<rparr>) reply)"

fun serve_route :: "GEnv \<Rightarrow> Handler \<Rightarrow> Request \<Rightarrow> Route \<Rightarrow> serve" where
  "serve_route E g r Healthz = replied g (status_only 200)"
| "serve_route E g r VersionRoute = replied g (version g)"
| "serve_route E g r Terminal = serveTerminal E g r"
| "serve_route E g r Socket = serveSessionSocket E g r"
| "serve_route E g r HandoverRoute = require E g r (serve_handover E r)"
| "serve_route E g r Login = login E g r"
| "serve_route E g r Logout = require E g r logout"
| "serve_route E g r Me = require E g r me"
| "serve_route E g r Password = require E g r (\<lambda>g. changePassword E g r)"
| "serve_route E g r Api = require E g r (\<lambda>g _. serve_api E g r)"

definition Routes :: "GEnv \<Rightarrow> Handler \<Rightarrow> Request \<Rightarrow> serve" where
  "Routes E g r =
     (case route_of r of Inl s \<Rightarrow> replied g (status_only s) | Inr route \<Rightarrow> serve_route E g r route)"

subsection \<open>Start-up (cmd/gateway/main.go)\<close>

text \<open>\<open>getenv\<close> and \<open>parse\<close> are \<^verbatim>\<open>os.Getenv\<close> and \<^verbatim>\<open>time.ParseDuration\<close>; \<open>client\<close> is what
  building the Kubernetes client came to.  \<open>Inl\<close> is \<^verbatim>\<open>log.Fatal\<close>.\<close>

definition env_or :: "(string \<Rightarrow> string) \<Rightarrow> string \<Rightarrow> string \<Rightarrow> string" where
  "env_or getenv name fallback = (if getenv name \<noteq> [] then getenv name else fallback)"

definition env_duration :: "(string \<Rightarrow> duration option) \<Rightarrow> (string \<Rightarrow> string) \<Rightarrow> string \<Rightarrow> duration \<Rightarrow> duration" where
  "env_duration parse getenv name fallback = (case parse (getenv name) of None \<Rightarrow> fallback | Some v \<Rightarrow> v)"

definition main_ca :: "(string \<Rightarrow> duration option) \<Rightarrow> (string \<Rightarrow> string) \<Rightarrow> CABootstrap" where
  "main_ca parse getenv =
     \<lparr>cb_Client = True,
      cb_Secret = (getenv ''GATEWAY_NAMESPACE'', env_or getenv ''SSH_CA_SECRET_NAME'' ''devplatform-gateway-ssh-ca''),
      cb_KeyName = env_or getenv ''SSH_CA_SECRET_KEY'' ''id_ca'',
      cb_PublicSecret = (env_or getenv ''WORKSPACE_NAMESPACE'' ''devplatform-workspaces'',
        env_or getenv ''SSH_CA_PUBLIC_SECRET_NAME'' ''devplatform-workspace-ssh-ca''),
      cb_PublicKeyName = env_or getenv ''SSH_CA_PUBLIC_SECRET_KEY'' ''ca.pub'',
      cb_TTL = env_duration parse getenv ''SSH_CERTIFICATE_TTL'' DefaultCertificateTTL\<rparr>"

definition main_verifier :: "(string \<Rightarrow> string) \<Rightarrow> Verifier" where
  "main_verifier getenv =
     \<lparr>vf_Issuer = getenv ''OIDC_ISSUER'', vf_Audience = getenv ''OIDC_AUDIENCE'', JWKSURL = getenv ''OIDC_JWKS_URL'',
      RefreshInterval = 0, vf_keys = Map.empty, fetchedAt = 0\<rparr>"

definition idpConfigured :: "Verifier \<Rightarrow> bool" where
  "idpConfigured v \<longleftrightarrow> vf_Issuer v \<noteq> [] \<and> vf_Audience v \<noteq> [] \<and> JWKSURL v \<noteq> []"

definition main_users :: "(string \<Rightarrow> string) \<Rightarrow> UserStore" where
  "main_users getenv =
     \<lparr>us_Client = True, us_Namespace = getenv ''GATEWAY_NAMESPACE'',
      us_SecretName = env_or getenv ''USER_STORE_SECRET_NAME'' ''devplatform-gateway-users'', us_DataKey = [], BcryptCost = 0\<rparr>"

definition main_identity :: "(string \<Rightarrow> string) \<Rightarrow> IdentityBootstrap" where
  "main_identity getenv =
     \<lparr>ib_Users = Some (main_users getenv), ib_Client = True, ib_Namespace = getenv ''GATEWAY_NAMESPACE'',
      AdminUsername = env_or getenv ''GATEWAY_ADMIN_USERNAME'' DefaultAdminUsername,
      CredentialSecretName = env_or getenv ''INITIAL_CREDENTIAL_SECRET_NAME'' ''devplatform-gateway-initial-credential'',
      CredentialUsernameKey = [], CredentialPasswordKey = [],
      SessionKeySecretName = env_or getenv ''SESSION_KEY_SECRET_NAME'' ''devplatform-gateway-session-key'',
      SessionKeyName = []\<rparr>"

definition main_local :: "GEnv \<Rightarrow> (string \<Rightarrow> duration option) \<Rightarrow> (string \<Rightarrow> string) \<Rightarrow> LocalAuth option result gact" where
  "main_local E parse getenv =
     (if env_or getenv ''GATEWAY_LOCAL_AUTH_ENABLED'' ''true'' \<noteq> ''true'' then ok None
      else bindI (identity_Ensure E (main_identity getenv)) (\<lambda>res.
        case res of
          Inl e \<Rightarrow> fail (wrap ''gateway: identity bootstrap: '' e)
        | Inr key \<Rightarrow> ok (Some
            \<lparr>la_Users = main_users getenv, la_Sessions = \<lparr>si_Key = key, si_Users = Some (main_users getenv)\<rparr>,
             la_SessionTTL = env_duration parse getenv ''SESSION_TTL'' DefaultSessionTTL\<rparr>)))"

definition main_authenticators :: "Verifier \<Rightarrow> LocalAuth option \<Rightarrow> Authenticator list" where
  "main_authenticators verifier local =
     (if idpConfigured verifier then [IDPAuthenticator verifier] else []) @
     (case local of None \<Rightarrow> [] | Some l \<Rightarrow> [LocalAuthenticator (la_Sessions l)])"

definition gateway_main :: "GEnv \<Rightarrow> string \<Rightarrow> (string \<Rightarrow> duration option) \<Rightarrow> (string \<Rightarrow> string) \<Rightarrow> unit result \<Rightarrow> Handler result gact" where
  "gateway_main E gatewayVersion parse getenv client =
     (case client of
        Inl e \<Rightarrow> fail e
      | Inr _ \<Rightarrow>
        bindI (ca_Ensure E (main_ca parse getenv)) (\<lambda>ca.
        tryE (main_local E parse getenv) (\<lambda>local.
          let authenticators = main_authenticators (main_verifier getenv) local in
          if authenticators = [] then fail (Err ''gateway: no authenticator configured'')
          else ok
            \<lparr>hd_Store = \<lparr>st_Namespace = env_or getenv ''WORKSPACE_NAMESPACE'' ''devplatform-workspaces'',
               DefaultTemplateRef = env_or getenv ''WORKSPACE_TEMPLATE_REF'' ''default'', SupervisorPort = 0\<rparr>,
             hd_Identity = Some authenticators, hd_CA = (case ca of Inl _ \<Rightarrow> None | Inr c \<Rightarrow> Some c),
             hd_Local = local, hd_Version = gatewayVersion, MinClientVersion = [], MaxClientVersion = [],
             hd_PollInterval = 0, hd_sessions = Map.empty\<rparr>)))"

subsection \<open>Nothing without an identity\<close>

text \<open>What a request nobody was identified for gets: the same answer on every route that is not public.\<close>

fun refusal :: "Handler \<Rightarrow> Route \<Rightarrow> Reply" where
  "refusal g Healthz = status_only 200"
| "refusal g VersionRoute = version g"
| "refusal g Terminal = \<lparr>rp_Status = 401, rp_Challenge = False, rp_Body = SignInPage\<rparr>"
| "refusal g _ = unauthorized"

lemma serve_route_unidentified:
  assumes "Identify E (hd_Identity g) r h = ((i, Inl e), h1)" and "route \<noteq> Login"
  shows "serve_route E g r route h = ((if route \<in> {Healthz, VersionRoute} then g else g\<lparr>hd_Identity := i\<rparr>,
      Replied (refusal g route)), if route \<in> {Healthz, VersionRoute} then h else h1)"
  using assms
  by (cases route) (simp_all add: require_def serveTerminal_def serveSessionSocket_def bindI_def replied_def ret_def Let_def)

text \<open>C6. An unidentified request learns nothing.  Whatever the route, except the login itself, a request
  that no authenticator identifies is answered by a constant of the route (and the gateway's version
  on \<^verbatim>\<open>/version\<close>): no workspace, Pod, session or Secret other than the user store is touched, no
  browser session changes, and a request that carries no credential causes no call at all.\<close>
theorem unidentified_request_learns_nothing:
  assumes "Identify E (hd_Identity g) r h = ((i, Inl e), h1)" and "route_of r \<noteq> Inr Login"
  shows "\<exists>g' evs. Routes E g r h = ((g', Replied (case route_of r of Inl s \<Rightarrow> status_only s | Inr route \<Rightarrow> refusal g route)), h @ evs) \<and>
    hd_sessions g' = hd_sessions g \<and> list_all auth_event evs \<and> (PresentedToken r = [] \<longrightarrow> g' = g \<and> evs = [])"
proof (cases "route_of r")
  case (Inl s)
  then show ?thesis by (intro exI [of _ g] exI [of _ "[]"]) (simp add: Routes_def replied_def ret_def)
next
  case (Inr route)
  obtain evs where evs: "h1 = h @ evs" "list_all auth_event evs" using emitsE [OF Identify_asks assms(1)] by blast
  have "i = hd_Identity g \<and> h1 = h" if "PresentedToken r = []"
    using Identify_anonymous [OF that, of E "hd_Identity g" h] assms(1) by auto
  then show ?thesis
    using serve_route_unidentified [OF assms(1), of route] assms(2) Inr evs
    by (intro exI [of _ "if route \<in> {Healthz, VersionRoute} then g else g\<lparr>hd_Identity := i\<rparr>"]
        exI [of _ "if route \<in> {Healthz, VersionRoute} then [] else evs"])
       (simp add: Routes_def split: if_splits)
qed

text \<open>C34. The gateway never starts open: whatever its configuration, if it comes up it has at least one
  authenticator, local authentication is served exactly when its authenticator is in the list, and a
  certificate authority that could not be established only turns certificates off.\<close>
theorem gateway_never_starts_open:
  assumes "gateway_main E v parse getenv client h = (Inr g, h')"
  shows "(\<exists>as. hd_Identity g = Some as \<and> as \<noteq> [] \<and>
      (\<forall>s. LocalAuthenticator s \<in> set as \<longleftrightarrow> (\<exists>l. hd_Local g = Some l \<and> la_Sessions l = s))) \<and>
    (hd_CA g = None \<longleftrightarrow> isl (fst (ca_Ensure E (main_ca parse getenv) h)))"
proof -
  obtain u where u: "client = Inr u" using assms by (cases client) (auto simp: gateway_main_def fail_def ret_def)
  obtain ca h1 where ca: "ca_Ensure E (main_ca parse getenv) h = (ca, h1)" by (cases "ca_Ensure E (main_ca parse getenv) h")
  obtain res h2 where l: "main_local E parse getenv h1 = (res, h2)" by (cases "main_local E parse getenv h1")
  then obtain local where res: "res = Inr local"
    using assms u ca by (cases res) (auto simp: gateway_main_def bindI_def tryE_def fail_def ret_def)
  let ?as = "main_authenticators (main_verifier getenv) local"
  have "?as \<noteq> []" and "hd_Identity g = Some ?as" "hd_Local g = local"
      "hd_CA g = (case ca of Inl _ \<Rightarrow> None | Inr c \<Rightarrow> Some c)"
    using assms u ca l res
    by (auto simp: gateway_main_def bindI_def tryE_def fail_def ok_def ret_def Let_def split: if_splits)
  moreover have "LocalAuthenticator s \<in> set ?as \<longleftrightarrow> (\<exists>l. local = Some l \<and> la_Sessions l = s)" for s
    by (auto simp: main_authenticators_def split: option.splits)
  ultimately show ?thesis using ca by (simp split: sum.splits)
qed

definition handler0 :: Handler where
  "handler0 = \<lparr>hd_Store = \<lparr>st_Namespace = ''ws'', DefaultTemplateRef = ''default'', SupervisorPort = 0\<rparr>,
     hd_Identity = Some [LocalAuthenticator \<lparr>si_Key = ''k'', si_Users = None\<rparr>], hd_CA = None,
     hd_Local = Some \<lparr>la_Users = store0, la_Sessions = \<lparr>si_Key = ''k'', si_Users = None\<rparr>, la_SessionTTL = 0\<rparr>,
     hd_Version = ''1'', MinClientVersion = [], MaxClientVersion = [], hd_PollInterval = 0, hd_sessions = Map.empty\<rparr>"

definition anonymous0 :: Request where
  "anonymous0 = request0\<lparr>rq_Path := ''/api/workspaces'', rq_Header := (\<lambda>n. [])\<rparr>"

theorem unidentified_request_learns_nothing_witness:
  "Routes genv0 handler0 anonymous0 [] = ((handler0, Replied unauthorized), [])"
proof -
  have token: "PresentedToken anonymous0 = []" and route: "route_of anonymous0 = Inr Api"
    unfolding anonymous0_def request0_def by code_simp+
  obtain e where "Identify genv0 (hd_Identity handler0) anonymous0 [] = ((hd_Identity handler0, Inl e), [])"
    using Identify_anonymous [OF token] by blast
  from unidentified_request_learns_nothing [OF this] token route show ?thesis by auto
qed

definition oidc_only :: "string \<Rightarrow> string" where
  "oidc_only n = (if n = ''GATEWAY_LOCAL_AUTH_ENABLED'' then ''false'' else ''x'')"

theorem gateway_never_starts_open_witness:
  "\<exists>g h' as. gateway_main genv0 [] (\<lambda>s. None) oidc_only (Inr ()) [] = (Inr g, h') \<and> hd_Identity g = Some as \<and> as \<noteq> []"
proof -
  obtain ca h1 where ca: "ca_Ensure genv0 (main_ca (\<lambda>s. None) oidc_only) [] = (ca, h1)"
    by (cases "ca_Ensure genv0 (main_ca (\<lambda>s. None) oidc_only) []")
  have "main_local genv0 (\<lambda>s. None) oidc_only h1 = (Inr None, h1)"
    by (simp add: main_local_def env_or_def oidc_only_def ok_def ret_def)
  moreover have "main_authenticators (main_verifier oidc_only) None \<noteq> []"
    by (simp add: main_authenticators_def idpConfigured_def main_verifier_def oidc_only_def)
  ultimately obtain g where "gateway_main genv0 [] (\<lambda>s. None) oidc_only (Inr ()) [] = (Inr g, h1)"
    using ca by (simp add: gateway_main_def bindI_def tryE_def ok_def ret_def)
  with gateway_never_starts_open [OF this] show ?thesis by blast
qed

subsection \<open>Logins\<close>

lemma users_Verify_known:
  assumes "users_read E s h = (Inr (us, obj), h1)"
  shows "users_Verify E s u p h = (case us u of
      None \<Rightarrow> (Inl ErrInvalidCredential, h1)
    | Some rec \<Rightarrow> (if bcrypt_Compare E (PasswordHash rec) p then Inr rec else Inl ErrInvalidCredential, h1))"
  using assms by (auto simp: users_Verify_def Lookup_def tryE_def bindI_def ok_def fail_def ret_def split: option.split)

text \<open>A login tells nothing about who exists.  A name the user store does not hold and a wrong
  password for a name it does hold get the same answer after the same calls; a session is signed only
  for a name and a password that match, and for that name.\<close>
theorem login_tells_nothing:
  assumes "hd_Local g = Some l" and "users_read E (la_Users l) h = (Inr (us, obj), h1)"
    and "required_pair ''username'' ''password'' r = Some (u, p)"
  shows "login E g r h =
    (if \<exists>rec. us u = Some rec \<and> bcrypt_Compare E (PasswordHash rec) p
     then bindI (session_Issue E (la_Sessions l) \<lparr>sub_ID = u, sub_Name = u, sub_Source = ''local''\<rparr> (sessionTTL l)) (\<lambda>res.
       case res of
         Inl e \<Rightarrow> replied g (writeError 500 (Error e))
       | Inr (token, expiry) \<Rightarrow> replied g (writeJSON 200 (JObject [(''expiresAt'', JString (g_FormatTime E expiry)),
           (''session'', JString token)]))) h1
     else ((g, Replied (writeError 401 ''invalid credentials'')), h1))"
  using assms(1,3) users_Verify_known [OF assms(2), of u p]
  by (auto simp: login_def bindI_def replied_def ret_def split: option.splits)

definition login0 :: Request where
  "login0 = request0\<lparr>rq_Body := Some (JObject [(''username'', JString ''eve''), (''password'', JString ''x'')])\<rparr>"

theorem login_tells_nothing_witness:
  "login genv0 handler0 login0 [] =
    ((handler0, Replied (writeError 401 ''invalid credentials'')), [GvGetSecret (us_key store0) (Inl (NotFound []))])"
proof -
  have local: "hd_Local handler0 = Some \<lparr>la_Users = store0, la_Sessions = \<lparr>si_Key = ''k'', si_Users = None\<rparr>, la_SessionTTL = 0\<rparr>"
    by (simp add: handler0_def)
  have read: "users_read genv0 store0 [] = (Inr (Map.empty, None), [GvGetSecret (us_key store0) (Inl (NotFound []))])"
    by (simp add: users_read_def gGetSecret_def genv0_def bindI_def call_def ok_def ret_def)
  have body: "required_pair ''username'' ''password'' login0 = Some (''eve'', ''x'')"
    unfolding login0_def request0_def by code_simp
  show ?thesis using login_tells_nothing [OF local _ body] read by simp
qed

subsection \<open>Certificates\<close>

text \<open>Everything but a signature.\<close>

fun unsigned :: "GEvent \<Rightarrow> bool" where
  "unsigned (GvSign _ _) = False"
| "unsigned _ = True"

lemma auth_event_unsigned: "auth_event e \<Longrightarrow> unsigned e"
  by (cases e) simp_all

lemma unsigned_store:
  "emits unsigned (store_List E)" "emits unsigned (store_Find E i)" "emits unsigned (ResolveHost E host)"
  "emits unsigned (store_Create s E req)" "emits unsigned (store_Delete E i)" "emits unsigned (SessionEndpoint s E ws)"
  unfolding ResolveHost_def store_Create_def store_Delete_def SessionEndpoint_def store_Find_def store_List_def Let_def
  by (intro emits_rules; simp)+

lemma unsigned_users:
  "emits unsigned (users_Verify E s u p)" "emits unsigned (session_Issue E j subject ttl)"
proof -
  have "emits unsigned (users_read E s)" by (rule emits_mono [OF emits_users_read auth_event_unsigned])
  then show "emits unsigned (users_Verify E s u p)"
    unfolding users_Verify_def Lookup_def by (intro emits_rules)
  show "emits unsigned (session_Issue E j subject ttl)" unfolding session_Issue_def by (intro emits_rules)
qed

lemma unsigned_mutate_loop:
  "(\<And>us. emits unsigned (fn us)) \<Longrightarrow> emits unsigned (mutate_loop n lastErr E s fn)"
proof (induction n arbitrary: lastErr)
  case (Suc n)
  have read: "emits unsigned (users_read E s)" by (rule emits_mono [OF emits_users_read auth_event_unsigned])
  have wr: "emits unsigned (write_users E s obj enc)" for obj enc
    unfolding write_users_def by (intro emits_rules; simp)
  show ?case unfolding mutate_loop.simps by (intro emits_rules read wr Suc)
qed (simp add: emits_fail)

lemma unsigned_SetPassword: "emits unsigned (SetPassword E s u p)"
proof -
  have "emits unsigned (set_password E s u p us)" for us
    by (rule emits_mono [OF quiet_set_password]) simp
  then show ?thesis unfolding SetPassword_def mutate_def by (intro emits_rules unsigned_mutate_loop)
qed

lemma unsigned_handover: "emits unsigned (handover s E b r)"
  unfolding handover_def take_over_def refuseIfWritableClientPresent_def declareWritable_def
  by (intro emits_rules unsigned_store; simp)

lemma unsigned_Identify: "emits unsigned (Identify E i r)"
  by (rule emits_mono [OF Identify_asks auth_event_unsigned])

lemma unsigned_handlers:
  "emits unsigned (login E g r)" "emits unsigned (changePassword E g r subject)" "emits unsigned (gw_listWorkspaces E g)"
  "emits unsigned (createWorkspace E g r)" "emits unsigned (deleteWorkspace E g r)" "emits unsigned (sessionStatus E g r)"
  "emits unsigned (serveTerminal E g r)" "emits unsigned (serveSessionSocket E g r)" "emits unsigned (serve_handover E r g subject)"
  "emits unsigned (replied g reply)"
  unfolding login_def changePassword_def gw_listWorkspaces_def createWorkspace_def deleteWorkspace_def sessionStatus_def readTurn_def
    serveTerminal_def serveSessionSocket_def serve_handover_def newSessionID_def replied_def Let_def
  by (intro emits_rules unsigned_store unsigned_users unsigned_SetPassword unsigned_handover unsigned_Identify; simp)+

text \<open>What the authority signs names the workspace it was asked for.\<close>

fun names_only :: "string \<Rightarrow> GEvent \<Rightarrow> bool" where
  "names_only w (GvSign c _) = (ValidPrincipals c = [w])"
| "names_only w _ = True"

lemma ca_Issue_names: "emits (names_only w) (ca_Issue E ca w k)"
  unfolding ca_Issue_def randomSerial_def Let_def by (intro emits_rules; simp add: certificate_for_def)

lemma serve_api_certificate:
  assumes "\<not> emits unsigned (serve_api E g r)"
  shows "serve_api E g r = issueCertificate E g r"
proof (rule ccontr)
  assume "serve_api E g r \<noteq> issueCertificate E g r"
  then have "emits unsigned (serve_api E g r)"
    by (auto simp: serve_api_def unsigned_handlers split: list.splits)
  then show False using assms by simp
qed

lemma issueCertificate_signs:
  assumes "issueCertificate E g r h = (x, h')" and "GvSign cert ans \<in> set h'" and "GvSign cert ans \<notin> set h"
  shows "\<exists>w k ws h1. decode_struct (pair_fields ''workspaceId'' ''publicKey'') (rq_Body r) ([], []) = Some (w, k) \<and>
    store_Find E w h = (Inr ws, h1) \<and> ValidPrincipals cert = [if sum_WorkspaceId ws = [] then sum_Name ws else sum_WorkspaceId ws]"
proof -
  obtain w k where d: "decode_struct (pair_fields ''workspaceId'' ''publicKey'') (rq_Body r) ([], []) = Some (w, k)"
      and ca: "signing_enabled (hd_CA g)"
    using assms by (auto simp: issueCertificate_def replied_def ret_def split: option.splits if_splits)
  obtain res h1 where find: "store_Find E w h = (res, h1)" by (cases "store_Find E w h")
  have old: "GvSign cert ans \<notin> set h1" using emits_added [OF unsigned_store(2) find] assms(3) by fastforce
  then obtain ws where ws: "res = Inr ws"
    using assms d ca find by (cases res) (auto simp: issueCertificate_def bindI_def replied_def ret_def)
  let ?p = "if sum_WorkspaceId ws = [] then sum_Name ws else sum_WorkspaceId ws"
  obtain res2 h2 where issue: "ca_Issue E (hd_CA g) ?p k h1 = (res2, h2)" by (cases "ca_Issue E (hd_CA g) ?p k h1")
  then have "h' = h2"
    using assms(1) d ca find ws by (auto simp: issueCertificate_def bindI_def replied_def ret_def split: sum.splits)
  then have "names_only ?p (GvSign cert ans)" using emits_added [OF ca_Issue_names issue] assms(2) old by blast
  then show ?thesis using d find ws by auto
qed

text \<open>C31. The platform's authority signs for identified callers and existing workspaces only.  Whatever
  the request, if serving it makes a signature then the caller was identified first, the workspace the
  request names was then found in the cluster, and the certificate's only principal is that
  workspace.\<close>
theorem certificates_only_for_existing_workspaces:
  assumes "Routes E g r h = ((g', served), h')" and "GvSign cert ans \<in> set h'" and "GvSign cert ans \<notin> set h"
  shows "\<exists>i subject h1 w k ws h2. Identify E (hd_Identity g) r h = ((i, Inr subject), h1) \<and>
    decode_struct (pair_fields ''workspaceId'' ''publicKey'') (rq_Body r) ([], []) = Some (w, k) \<and>
    store_Find E w h1 = (Inr ws, h2) \<and>
    ValidPrincipals cert = [if sum_WorkspaceId ws = [] then sum_Name ws else sum_WorkspaceId ws]"
proof -
  have req: "emits unsigned (require E g r f)" if "\<And>g s. emits unsigned (f g s)" for f
    unfolding require_def Let_def by (intro emits_rules unsigned_Identify unsigned_handlers that)
  have "route_of r = Inr Api"
  proof (rule ccontr)
    assume "route_of r \<noteq> Inr Api"
    moreover have "emits unsigned (serve_route E g r route)" if "route \<noteq> Api" for route
      using that by (cases route) (auto simp: logout_def me_def intro!: unsigned_handlers req)
    ultimately have "emits unsigned (Routes E g r)"
      unfolding Routes_def by (intro emits_rules unsigned_handlers) auto
    from emits_added [OF this assms] show False by simp
  qed
  then have api: "require E g r (\<lambda>g _. serve_api E g r) h = ((g', served), h')" using assms(1) by (simp add: Routes_def)
  obtain i res h1 where id: "Identify E (hd_Identity g) r h = ((i, res), h1)" by (metis prod.collapse)
  have old: "GvSign cert ans \<notin> set h1" using emits_added [OF unsigned_Identify id] assms(3) by fastforce
  then obtain subject where s: "res = Inr subject" and run: "serve_api E (g\<lparr>hd_Identity := i\<rparr>) r h1 = ((g', served), h')"
    using api id assms(2) by (cases res) (auto simp: require_def bindI_def replied_def ret_def Let_def)
  have "\<not> emits unsigned (serve_api E (g\<lparr>hd_Identity := i\<rparr>) r)"
    using emits_added [where m = "serve_api E (g\<lparr>hd_Identity := i\<rparr>) r", OF _ run assms(2) old] by fastforce
  from serve_api_certificate [OF this] run have "issueCertificate E (g\<lparr>hd_Identity := i\<rparr>) r h1 = ((g', served), h')" by simp
  from issueCertificate_signs [OF this assms(2) old] show ?thesis using id s by auto
qed

definition cert_env :: GEnv where
  "cert_env = (serving [gw_object ''fix'' ''fix-ui''])\<lparr>jwt_ParseHS256 := (\<lambda>k t now. Inr \<lparr>sc_Name = [], sc_Source = [],
     IssuedAtNano = 0, sc_Subject = ''alice'', sc_IssuedAt = 0, sc_ExpiresAt = 9\<rparr>)\<rparr>"

definition cert_request :: Request where
  "cert_request = request0\<lparr>rq_Method := ''POST'', rq_Path := ''/api/ssh/certificate'',
     rq_Body := Some (JObject [(''workspaceId'', JString ''fix-ui''), (''publicKey'', JString ''k'')])\<rparr>"

theorem certificates_only_for_existing_workspaces_witness:
  "\<exists>cert ans h' i subject h1 w k ws h2.
    snd (Routes cert_env (handler0\<lparr>hd_CA := Some ca0\<rparr>) cert_request []) = h' \<and> GvSign cert ans \<in> set h' \<and>
    Identify cert_env (hd_Identity handler0) cert_request [] = ((i, Inr subject), h1) \<and>
    decode_struct (pair_fields ''workspaceId'' ''publicKey'') (rq_Body cert_request) ([], []) = Some (w, k) \<and>
    store_Find cert_env w h1 = (Inr ws, h2) \<and>
    ValidPrincipals cert = [if sum_WorkspaceId ws = [] then sum_Name ws else sum_WorkspaceId ws]"
proof -
  let ?g = "handler0\<lparr>hd_CA := Some ca0\<rparr>"
  have route: "route_of cert_request = Inr Api" and segs: "segments (rq_Path cert_request) = [''api'', ''ssh'', ''certificate'']"
    and token: "PresentedToken cert_request = ''tok''" and post: "rq_Method cert_request = ''POST''"
    and body: "decode_struct (pair_fields ''workspaceId'' ''publicKey'') (rq_Body cert_request) ([], []) = Some (''fix-ui'', ''k'')"
    unfolding cert_request_def request0_def by code_simp+
  obtain g' served h' where run: "Routes cert_env ?g cert_request [] = ((g', served), h')" by (metis prod.collapse)
  have id: "Identify cert_env (hd_Identity ?g) cert_request [] =
      ((hd_Identity ?g, Inr \<lparr>sub_ID = ''alice'', sub_Name = [], sub_Source = []\<rparr>), [])"
    by (simp add: Identify_def handler0_def local_Identify_def session_Verify_def token cert_env_def bindI_def gnow_def peek_def
        ok_def ret_def)
  have upd: "?g\<lparr>hd_Identity := hd_Identity ?g\<rparr> = ?g" by simp
  have api: "serve_api cert_env ?g cert_request [] = ((g', served), h')"
    using run id by (simp add: Routes_def route require_def bindI_def Let_def)
  have issue: "issueCertificate cert_env ?g cert_request [] = ((g', served), h')"
    using api by (simp add: serve_api_def segs post method_matches_def)
  obtain ws h2 where ws: "store_Find cert_env ''fix-ui'' [] = (Inr ws, h2)" "sum_WorkspaceId ws = ''fix-ui''"
    by (simp add: store_Find_def cert_env_def serving_def gGetWorkspace_def store_List_def gListWorkspaces_def tryE_def bindI_def
        call_def ok_def ret_def)
  have lib: "ssh_ParseAuthorizedKey cert_env x = Inr x" "g_rand cert_env h n = Inr (replicate n (CHR ''x''))"
      "ssh_SignCert cert_env h s c = Inr []" for x h n s c
    by (simp_all add: cert_env_def serving_def genv0_def)
  obtain cert issued where ca: "ca_Issue cert_env (Some ca0) ''fix-ui'' ''k'' h2 =
      (Inr issued, h2 @ [GvRandom 8 (Inr (replicate 8 (CHR ''x''))), GvSign cert (Inr [])])"
    by (simp add: ca_Issue_def ca0_def lib randomSerial_def gRandom_def gnow_def peek_def call_def tryE_def bindI_def ok_def ret_def Let_def)
  have "h' = h2 @ [GvRandom 8 (Inr (replicate 8 (CHR ''x''))), GvSign cert (Inr [])]"
    using issue ws ca by (simp add: issueCertificate_def body signing_enabled_def ca0_def bindI_def replied_def ret_def)
  then have "\<exists>cert ans. GvSign cert ans \<in> set h'" by auto
  then obtain cert ans where signed: "GvSign cert ans \<in> set h'" by blast
  have "hd_Identity ?g = hd_Identity handler0" "GvSign cert ans \<notin> set []" by simp_all
  with certificates_only_for_existing_workspaces [OF run signed] signed show ?thesis unfolding run snd_conv by metis
qed

end
