(* ===== verification/Supervisor.thy ===== *)
theory Supervisor
  imports Clients
begin

text \<open>
  The outside of the Session Supervisor, which runs inside a workspace Pod: its file system, the
  processes it runs (\<^verbatim>\<open>tmux\<close>, \<^verbatim>\<open>git\<close>, the repository's own commands), the object
  store and Hermes Agent over HTTP, and the clock.  Each answers as a function of the history
  (\<open>SEnv\<close>).  JSON text, date formats and the file paths of \<^verbatim>\<open>path/filepath\<close> are here too.
\<close>

subsection \<open>Paths\<close>

text \<open>\<^verbatim>\<open>filepath.Clean\<close>: \<open>clean_step\<close> processes one element, on the reversed elements kept so far.\<close>

definition clean_step :: "bool \<Rightarrow> string list \<Rightarrow> string \<Rightarrow> string list" where
  "clean_step rooted out seg =
     (if seg = [] \<or> seg = ''.'' then out
      else if seg = ''..''
      then (case out of
              [] \<Rightarrow> if rooted then [] else [seg]
            | s # rest \<Rightarrow> if s = ''..'' then seg # out else rest)
      else seg # out)"

definition clean_segments :: "bool \<Rightarrow> string \<Rightarrow> string list" where
  "clean_segments rooted p = rev (foldl (clean_step rooted) [] (Split (CHR ''/'') p))"

definition is_rooted :: "string \<Rightarrow> bool" where
  "is_rooted p \<longleftrightarrow> p \<noteq> [] \<and> hd p = CHR ''/''"

definition Clean :: "string \<Rightarrow> string" where
  "Clean p =
     (let body = Join (clean_segments (is_rooted p) p) ''/'' in
      if is_rooted p then CHR ''/'' # body else if body = [] then ''.'' else body)"

definition path_Join :: "string \<Rightarrow> string \<Rightarrow> string" where
  "path_Join a b =
     (if a \<noteq> [] then Clean (a @ ''/'' @ b) else if b \<noteq> [] then Clean b else [])"

subsection \<open>Events and environment\<close>

text \<open>A file operation answers with the content, the name of the temporary file, or nothing;
  \<^verbatim>\<open>fs.ErrNotExist\<close> is the class \<open>NotFound\<close>.  \<open>SvWalk\<close> lists the regular files below a
  directory with their modification times, in the order of \<^verbatim>\<open>filepath.WalkDir\<close>.  A command
  answers with its output and its error, which may come together.\<close>

datatype FileOp =
    ReadFile string
  | WriteFile string string
  | CreateTemp string
  | Chmod string
  | Rename string string
  | Remove string
  | RemoveAll string
  | MkdirAll string
  | Stat string
  | OpenFile string
  | MkdirTemp string

datatype SEvent =
    SvFile FileOp "string result"
  | SvWalk string "(string \<times> time) list result"
  | SvGlob string "string list"
  | SvExec string "string list" string "string \<times> error option"
  | SvLstat string "bool result"
  | SvLock string "error option"
  | SvUnlock string
  | SvServe string "string list" "error option"
  | SvStop "string list"
  | SvHttp string string "(string \<times> string) list" string "Response result"
  | SvDial string "error option"
  | SvSleep duration

type_synonym 'a sact = "(SEvent, 'a) io"

text \<open>An entry of an archive: its name, whether it is a regular file, its content and whether the
  content can be read to its end.\<close>

record TarEntry =
  te_Name :: string
  te_Regular :: bool
  te_Content :: string
  te_Read :: "error option"

text \<open>\<open>s_ParseURL\<close> gives the host, the escaped path and the query; \<open>s_untar\<close>, from at most so many
  bytes of the expanded archive, the entries that can be read and the error that ends them, if it is not the end of the archive; its own error is that of the
  decompressor.\<close>

record SEnv =
  s_now :: "SEvent list \<Rightarrow> time"
  s_file :: "SEvent list \<Rightarrow> FileOp \<Rightarrow> string result"
  s_walk :: "SEvent list \<Rightarrow> string \<Rightarrow> (string \<times> time) list result"
  s_glob :: "SEvent list \<Rightarrow> string \<Rightarrow> string list"
  s_exec :: "SEvent list \<Rightarrow> string \<Rightarrow> string list \<Rightarrow> string \<Rightarrow> string \<times> error option"
  s_lstat :: "SEvent list \<Rightarrow> string \<Rightarrow> bool result"
  s_lock :: "SEvent list \<Rightarrow> string \<Rightarrow> error option"
  s_serve :: "SEvent list \<Rightarrow> string \<Rightarrow> string list \<Rightarrow> error option"
  s_http :: "SEvent list \<Rightarrow> string \<Rightarrow> string \<Rightarrow> (string \<times> string) list \<Rightarrow> string \<Rightarrow> Response result"
  s_dial :: "SEvent list \<Rightarrow> string \<Rightarrow> error option"
  s_Unmarshal :: "string \<Rightarrow> Json option"
  s_DecodeFirst :: "string \<Rightarrow> Json option"
  s_Marshal :: "Json \<Rightarrow> string"
  s_MarshalIndent :: "Json \<Rightarrow> string"
  s_RFC3339 :: "time \<Rightarrow> string"
  s_Stamp :: "time \<Rightarrow> string"
  s_ParseURL :: "string \<Rightarrow> (string \<times> string \<times> string) result"
  s_TypeByExtension :: "string \<Rightarrow> string"
  s_tar :: "(string \<times> string) list \<Rightarrow> string"
  s_untar :: "nat \<Rightarrow> string \<Rightarrow> (TarEntry list \<times> error option) result"
  s_Getwd :: "string result"

definition snow :: "SEnv \<Rightarrow> time sact" where
  "snow E = peek (s_now E)"

definition sFile :: "SEnv \<Rightarrow> FileOp \<Rightarrow> string result sact" where
  "sFile E op = call (\<lambda>h. s_file E h op) (SvFile op)"

definition sWalk :: "SEnv \<Rightarrow> string \<Rightarrow> (string \<times> time) list result sact" where
  "sWalk E base = call (\<lambda>h. s_walk E h base) (SvWalk base)"

definition sGlob :: "SEnv \<Rightarrow> string \<Rightarrow> string list sact" where
  "sGlob E pattern = call (\<lambda>h. s_glob E h pattern) (SvGlob pattern)"

definition sExec :: "SEnv \<Rightarrow> string \<Rightarrow> string list \<Rightarrow> string \<Rightarrow> (string \<times> error option) sact" where
  "sExec E dir argv stdin = call (\<lambda>h. s_exec E h dir argv stdin) (SvExec dir argv stdin)"

definition sLstat :: "SEnv \<Rightarrow> string \<Rightarrow> bool result sact" where
  "sLstat E path = call (\<lambda>h. s_lstat E h path) (SvLstat path)"

definition sServe :: "SEnv \<Rightarrow> string \<Rightarrow> string list \<Rightarrow> error option sact" where
  "sServe E dir argv = call (\<lambda>h. s_serve E h dir argv) (SvServe dir argv)"

definition sStop :: "string list \<Rightarrow> unit sact" where
  "sStop argv = call (\<lambda>h. ()) (\<lambda>_. SvStop argv)"

definition sUnlock :: "string \<Rightarrow> unit sact" where
  "sUnlock path = call (\<lambda>h. ()) (\<lambda>_. SvUnlock path)"

definition sLock :: "SEnv \<Rightarrow> string \<Rightarrow> error option sact" where
  "sLock E path = call (\<lambda>h. s_lock E h path) (SvLock path)"

definition sHttp :: "SEnv \<Rightarrow> string \<Rightarrow> string \<Rightarrow> (string \<times> string) list \<Rightarrow> string \<Rightarrow> Response result sact" where
  "sHttp E verb url headers body = call (\<lambda>h. s_http E h verb url headers body) (SvHttp verb url headers body)"

definition sDial :: "SEnv \<Rightarrow> string \<Rightarrow> error option sact" where
  "sDial E addr = call (\<lambda>h. s_dial E h addr) (SvDial addr)"

definition sSleep :: "duration \<Rightarrow> unit sact" where
  "sSleep d = call (\<lambda>h. ()) (\<lambda>_. SvSleep d)"

text \<open>A file operation whose answer is only success or failure.\<close>

definition sDo :: "SEnv \<Rightarrow> FileOp \<Rightarrow> unit result sact" where
  "sDo E op = bindI (sFile E op) (\<lambda>r. ret (map_sum id (\<lambda>_. ()) r))"

lemmas s_call_defs = snow_def sFile_def sWalk_def sGlob_def sExec_def sLstat_def sServe_def sStop_def sLock_def sUnlock_def sHttp_def sDial_def sSleep_def

lemma emits_scalls [emits_rules]:
  "emits S (snow E)"
  "(\<And>r. S (SvFile op r)) \<Longrightarrow> emits S (sFile E op)"
  "(\<And>r. S (SvFile op r)) \<Longrightarrow> emits S (sDo E op)"
  "(\<And>r. S (SvWalk base r)) \<Longrightarrow> emits S (sWalk E base)"
  "(\<And>r. S (SvGlob p r)) \<Longrightarrow> emits S (sGlob E p)"
  "(\<And>r. S (SvExec dir argv stdin r)) \<Longrightarrow> emits S (sExec E dir argv stdin)"
  "(\<And>r. S (SvLock p r)) \<Longrightarrow> emits S (sLock E p)"
  "(\<And>r. S (SvLstat p r)) \<Longrightarrow> emits S (sLstat E p)"
  "(\<And>r. S (SvServe p argv r)) \<Longrightarrow> emits S (sServe E p argv)"
  "S (SvStop argv) \<Longrightarrow> emits S (sStop argv)"
  "S (SvUnlock p) \<Longrightarrow> emits S (sUnlock p)"
  "(\<And>r. S (SvHttp verb url hs b r)) \<Longrightarrow> emits S (sHttp E verb url hs b)"
  "(\<And>r. S (SvDial a r)) \<Longrightarrow> emits S (sDial E a)"
  "S (SvSleep d) \<Longrightarrow> emits S (sSleep d)"
  by (simp_all add: s_call_defs sDo_def emits_call emits_peek emits_bindI emits_ret)

lemma wp_scalls [wp_simps]:
  "wp (snow E) Q0 = (\<lambda>h. Q0 (s_now E h) h)"
  "wp (sFile E op) Q1 = (\<lambda>h. Q1 (s_file E h op) (h @ [SvFile op (s_file E h op)]))"
  "wp (sDo E op) Q2 = (\<lambda>h. Q2 (map_sum id (\<lambda>_. ()) (s_file E h op)) (h @ [SvFile op (s_file E h op)]))"
  "wp (sWalk E base) Q3 = (\<lambda>h. Q3 (s_walk E h base) (h @ [SvWalk base (s_walk E h base)]))"
  "wp (sGlob E p) Q4 = (\<lambda>h. Q4 (s_glob E h p) (h @ [SvGlob p (s_glob E h p)]))"
  "wp (sExec E dir argv stdin) Q5 = (\<lambda>h. Q5 (s_exec E h dir argv stdin) (h @ [SvExec dir argv stdin (s_exec E h dir argv stdin)]))"
  "wp (sLock E p) Q6 = (\<lambda>h. Q6 (s_lock E h p) (h @ [SvLock p (s_lock E h p)]))"
  "wp (sDial E a) Q7 = (\<lambda>h. Q7 (s_dial E h a) (h @ [SvDial a (s_dial E h a)]))"
  "wp (sHttp E v u hs b) Q9 = (\<lambda>h. Q9 (s_http E h v u hs b) (h @ [SvHttp v u hs b (s_http E h v u hs b)]))"
  "wp (sLstat E p) Q10 = (\<lambda>h. Q10 (s_lstat E h p) (h @ [SvLstat p (s_lstat E h p)]))"
  "wp (sServe E p argv) Q11 = (\<lambda>h. Q11 (s_serve E h p argv) (h @ [SvServe p argv (s_serve E h p argv)]))"
  "wp (sStop argv) Q12 = (\<lambda>h. Q12 () (h @ [SvStop argv]))"
  "wp (sUnlock p) Q13 = (\<lambda>h. Q13 () (h @ [SvUnlock p]))"
  "wp (sSleep d) Q8 = (\<lambda>h. Q8 () (h @ [SvSleep d]))"
  by (simp_all add: s_call_defs sDo_def wp_call wp_peek wp_bindI wp_ret)

text \<open>What a step that went well tells of its parts.\<close>

lemma tryE_InrD: "tryE m f h = (Inr y, h') \<Longrightarrow> \<exists>x h1. m h = (Inr x, h1) \<and> f x h1 = (Inr y, h')"
  by (auto simp: tryE_def bindI_def fail_def ret_def split: prod.splits sum.splits)

subsection \<open>Replies\<close>

record SReply =
  sr_Status :: int
  sr_Body :: "Json option"

definition writeJSONResponse :: "int \<Rightarrow> Json \<Rightarrow> SReply" where
  "writeJSONResponse status v = \<lparr>sr_Status = status, sr_Body = Some v\<rparr>"

definition error_reply :: "int \<Rightarrow> error \<Rightarrow> SReply" where
  "error_reply status e = writeJSONResponse status (JObject [(''error'', JString (Error e))])"

definition empty_reply :: "int \<Rightarrow> SReply" where
  "empty_reply status = \<lparr>sr_Status = status, sr_Body = None\<rparr>"

end
