(* ===== verification/SupervisorSession.thy ===== *)
theory SupervisorSession
  imports Supervisor "HOL-Library.AList"
begin

text \<open>
  The session a workspace hosts: \<^verbatim>\<open>tmux.go\<close>, \<^verbatim>\<open>session.go\<close>, \<^verbatim>\<open>claudemd.go\<close>,
  \<^verbatim>\<open>browser.go\<close>, \<^verbatim>\<open>sshsessions.go\<close> and \<^verbatim>\<open>changedfiles.go\<close>.  The multiplexer is a
  process of the environment; the clients that hold the session from outside it are the field
  \<open>held\<close>, an association list with one entry per id.  Shown: input reaches the session only when no
  other writable client is there, the output served is the log past the offset, and the parsers
  invert the formats.
\<close>

subsection \<open>tmux\<close>

definition clientFormat :: string where
  "clientFormat = ''#{client_name}|#{client_readonly}|#{client_created}''"

record Tmux =
  tm_Socket :: string
  tm_Session :: string

definition tmux_args :: "Tmux \<Rightarrow> string list \<Rightarrow> string list" where
  "tmux_args t extra = ''tmux'' # ''-L'' # tm_Socket t # extra"

definition tmux_run :: "SEnv \<Rightarrow> Tmux \<Rightarrow> string list \<Rightarrow> string result sact" where
  "tmux_run E t extra =
     bindI (sExec E [] (tmux_args t extra) []) (\<lambda>(out, e).
       case e of
         None \<Rightarrow> ok out
       | Some e \<Rightarrow> fail (wrap (''tmux '' @ Join extra '' '' @ '': '') e))"

definition HasSession :: "SEnv \<Rightarrow> Tmux \<Rightarrow> bool sact" where
  "HasSession E t = bindI (tmux_run E t [''has-session'', ''-t'', tm_Session t]) (\<lambda>r. ret (\<not> isl r))"

definition newline :: char where
  "newline = CHR 0x0A"

definition shellQuote :: "string \<Rightarrow> string" where
  "shellQuote s = [CHR 0x27] @ concat (map (\<lambda>c. if c = CHR 0x27 then [CHR 0x27, CHR 0x5C, CHR 0x27, CHR 0x27] else [c]) s) @ [CHR 0x27]"

record StartConfig =
  sc_WorkingDir :: string
  sc_Command :: "string list"
  sc_Env :: "string list"
  sc_OutputLog :: string
  sc_HistoryLimit :: int

definition start_args :: "Tmux \<Rightarrow> StartConfig \<Rightarrow> string \<Rightarrow> string list" where
  "start_args t cfg conf =
     [''-f'', conf, ''new-session'', ''-d'', ''-s'', tm_Session t, ''-c'', sc_WorkingDir cfg] @
     concat (map (\<lambda>e. [''-e'', e]) (sc_Env cfg)) @ sc_Command cfg"

definition start_session :: "SEnv \<Rightarrow> Tmux \<Rightarrow> StartConfig \<Rightarrow> string \<Rightarrow> unit result sact" where
  "start_session E t cfg conf =
     tryE (sDo E (WriteFile conf (''set-option -g remain-on-exit on'' @ [newline]))) (\<lambda>_.
     tryE (tmux_run E t (start_args t cfg conf)) (\<lambda>_.
     tryE (if sc_HistoryLimit cfg > 0
           then tmux_run E t [''set-option'', ''-t'', tm_Session t, ''history-limit'', Itoa (sc_HistoryLimit cfg)]
           else ok []) (\<lambda>_.
     tryE (if sc_OutputLog cfg \<noteq> []
           then tmux_run E t [''pipe-pane'', ''-t'', tm_Session t, ''cat >> '' @ shellQuote (sc_OutputLog cfg)]
           else ok []) (\<lambda>_. ok ()))))"

text \<open>The configuration file is removed however the start went.\<close>

definition Start :: "SEnv \<Rightarrow> Tmux \<Rightarrow> StartConfig \<Rightarrow> unit result sact" where
  "Start E t cfg =
     bindI (HasSession E t) (\<lambda>running.
       if running then ok ()
       else tryE (sFile E (CreateTemp ''devplatform-tmux-*.conf'')) (\<lambda>conf.
         bindI (start_session E t cfg conf) (\<lambda>res.
         bindI (sFile E (Remove conf)) (\<lambda>_. ret res))))"

definition inputBuffer :: string where
  "inputBuffer = ''devplatform-input''"

definition load_args :: "Tmux \<Rightarrow> string list" where
  "load_args t = tmux_args t [''load-buffer'', ''-b'', inputBuffer, ''-'']"

definition paste_args :: "Tmux \<Rightarrow> string list" where
  "paste_args t = [''paste-buffer'', ''-d'', ''-b'', inputBuffer, ''-t'', tm_Session t]"

definition SendText :: "SEnv \<Rightarrow> Tmux \<Rightarrow> string \<Rightarrow> unit result sact" where
  "SendText E t txt =
     bindI (sExec E [] (load_args t) (TrimSuffix txt [newline] @ [newline])) (\<lambda>(_, e).
       case e of
         Some e \<Rightarrow> fail (wrap ''tmux load-buffer: '' e)
       | None \<Rightarrow> tryE (tmux_run E t (paste_args t)) (\<lambda>_. ok ()))"

record sup_SessionClient =
  cl_id :: string
  cl_writable :: bool
  cl_attachedAt :: string

text \<open>\<^verbatim>\<open>strings.SplitN\<close> with a one-byte separator\<close>

fun SplitN :: "nat \<Rightarrow> char \<Rightarrow> string \<Rightarrow> string list" where
  "SplitN 0 sep s = []"
| "SplitN (Suc 0) sep s = [s]"
| "SplitN (Suc (Suc n)) sep s =
     (case Cut s sep of (a, rest, found) \<Rightarrow> if found then a # SplitN (Suc n) sep rest else [s])"

definition parse_client :: "SEnv \<Rightarrow> string \<Rightarrow> sup_SessionClient option" where
  "parse_client E line =
     (case SplitN 3 (CHR ''|'') line of
        [name, readonly, created] \<Rightarrow>
          Some \<lparr>cl_id = name, cl_writable = (readonly = ''0''),
            cl_attachedAt = (case Atoi created of None \<Rightarrow> [] | Some secs \<Rightarrow> s_RFC3339 E (secs * Second))\<rparr>
      | _ \<Rightarrow> None)"

fun parse_lines :: "SEnv \<Rightarrow> string list \<Rightarrow> sup_SessionClient list result" where
  "parse_lines E [] = Inr []"
| "parse_lines E (line # ls) =
     (if line = [] then parse_lines E ls
      else case parse_client E line of
        None \<Rightarrow> Inl (Err (''supervisor: unparsable client line '' @ Quote line))
      | Some c \<Rightarrow> (case parse_lines E ls of Inl e \<Rightarrow> Inl e | Inr cs \<Rightarrow> Inr (c # cs)))"

definition parseClients :: "SEnv \<Rightarrow> string \<Rightarrow> sup_SessionClient list result" where
  "parseClients E out = parse_lines E (Split newline (TrimRightP (\<lambda>c. c = newline) out))"

definition list_args :: "Tmux \<Rightarrow> string list" where
  "list_args t = [''list-clients'', ''-t'', tm_Session t, ''-F'', clientFormat]"

definition tmux_ListClients :: "SEnv \<Rightarrow> Tmux \<Rightarrow> sup_SessionClient list result sact" where
  "tmux_ListClients E t =
     bindI (tmux_run E t (list_args t)) (\<lambda>r.
       case r of
         Inl e \<Rightarrow> bindI (HasSession E t) (\<lambda>running. if running then ok [] else fail e)
       | Inr out \<Rightarrow> ret (parseClients E out))"

definition PaneDead :: "SEnv \<Rightarrow> Tmux \<Rightarrow> (bool \<times> int) result sact" where
  "PaneDead E t =
     tryE (tmux_run E t [''display-message'', ''-p'', ''-t'', tm_Session t, ''#{pane_dead}|#{pane_dead_status}'']) (\<lambda>out.
       case SplitN 2 (CHR ''|'') (TrimSpace out) of
         [dead, status] \<Rightarrow> ok (if dead = ''1'' then (True, case Atoi status of None \<Rightarrow> 0 | Some n \<Rightarrow> n) else (False, 0))
       | [dead] \<Rightarrow> ok (dead = ''1'', 0)
       | _ \<Rightarrow> ok (False, 0))"

definition Respawn :: "SEnv \<Rightarrow> Tmux \<Rightarrow> unit result sact" where
  "Respawn E t = tryE (tmux_run E t [''respawn-pane'', ''-k'', ''-t'', tm_Session t]) (\<lambda>_. ok ())"

definition firstWritableOther :: "sup_SessionClient list \<Rightarrow> string \<Rightarrow> sup_SessionClient option" where
  "firstWritableOther clients exclude = List.find (\<lambda>c. cl_writable c \<and> cl_id c \<noteq> exclude) clients"

definition firstWritable :: "sup_SessionClient list \<Rightarrow> sup_SessionClient option" where
  "firstWritable clients = List.find cl_writable clients"

subsection \<open>The shared document (claudemd.go)\<close>

definition ClaudeMDName :: string where
  "ClaudeMDName = ''CLAUDE.md''"

definition SyncClaudeMD :: "SEnv \<Rightarrow> string \<Rightarrow> string \<Rightarrow> unit result sact" where
  "SyncClaudeMD E src workingDir =
     (if src = [] then ok ()
      else bindI (sFile E (ReadFile src)) (\<lambda>r.
        case r of
          Inl e \<Rightarrow> if IsNotFound e then ok () else fail e
        | Inr content \<Rightarrow>
          tryE (sFile E (CreateTemp (path_Join workingDir ''.claude-md-*''))) (\<lambda>tmp.
            bindI (tryE (sDo E (WriteFile tmp content)) (\<lambda>_.
                   tryE (sDo E (Chmod tmp)) (\<lambda>_.
                   sDo E (Rename tmp (path_Join workingDir ClaudeMDName))))) (\<lambda>res.
            bindI (sFile E (Remove tmp)) (\<lambda>_. ret res)))))"

subsection \<open>The supervisor (session.go)\<close>

datatype SendKind = WritableClientPresent | SessionNotRunning | InputRejected

record SendError =
  se_Kind :: SendKind
  se_ClientID :: string
  se_Detail :: string

fun kind_text :: "SendKind \<Rightarrow> string" where
  "kind_text WritableClientPresent = ''WritableClientPresent''"
| "kind_text SessionNotRunning = ''SessionNotRunning''"
| "kind_text InputRejected = ''InputRejected''"

definition send_error_text :: "SendError \<Rightarrow> string" where
  "send_error_text e =
     (if se_ClientID e \<noteq> [] then ''supervisor: '' @ kind_text (se_Kind e) @ '' ('' @ se_ClientID e @ '')''
      else if se_Detail e \<noteq> [] then ''supervisor: '' @ kind_text (se_Kind e) @ '': '' @ se_Detail e
      else ''supervisor: '' @ kind_text (se_Kind e))"

record OutputChunk =
  oc_Seq :: int
  oc_Data :: string

record Supervisor =
  sp_Tmux :: Tmux
  sp_ConfigDir :: string
  sp_OutputLog :: string
  sp_WorkingDir :: string
  ClaudeMDSource :: string
  SSHPort :: int
  LongLivedAuth :: bool
  failure :: string
  held :: "(string \<times> time) list"

definition HoldWritable :: "SEnv \<Rightarrow> Supervisor \<Rightarrow> string \<Rightarrow> Supervisor sact" where
  "HoldWritable E s clientID = bindI (snow E) (\<lambda>now. ret (s\<lparr>held := AList.update clientID now (held s)\<rparr>))"

definition ReleaseWritable :: "Supervisor \<Rightarrow> string \<Rightarrow> Supervisor" where
  "ReleaseWritable s clientID = s\<lparr>held := AList.delete clientID (held s)\<rparr>"

definition by_id :: "sup_SessionClient \<Rightarrow> sup_SessionClient \<Rightarrow> bool" where
  "by_id a b \<longleftrightarrow> cl_id a < cl_id b"

definition heldClients :: "SEnv \<Rightarrow> Supervisor \<Rightarrow> sup_SessionClient list" where
  "heldClients E s =
     sort_Slice by_id (map (\<lambda>(i, t). \<lparr>cl_id = i, cl_writable = True, cl_attachedAt = s_RFC3339 E t\<rparr>) (held s))"

definition SetFailure :: "Supervisor \<Rightarrow> string \<Rightarrow> Supervisor" where
  "SetFailure s detail = s\<lparr>failure := detail\<rparr>"

definition ClearFailure :: "Supervisor \<Rightarrow> Supervisor" where
  "ClearFailure s = s\<lparr>failure := []\<rparr>"

definition sup_ListClients :: "SEnv \<Rightarrow> Supervisor \<Rightarrow> sup_SessionClient list result sact" where
  "sup_ListClients E s =
     tryE (tmux_ListClients E (sp_Tmux s)) (\<lambda>clients. ok (clients @ heldClients E s))"

definition rejected :: "error \<Rightarrow> SendError" where
  "rejected e = \<lparr>se_Kind = InputRejected, se_ClientID = [], se_Detail = Error e\<rparr>"

definition SendInputFrom :: "SEnv \<Rightarrow> Supervisor \<Rightarrow> string \<Rightarrow> string \<Rightarrow> SendError option sact" where
  "SendInputFrom E s clientID txt =
     bindI (HasSession E (sp_Tmux s)) (\<lambda>running.
       if \<not> running then ret (Some \<lparr>se_Kind = SessionNotRunning, se_ClientID = [], se_Detail = []\<rparr>)
       else bindI (sup_ListClients E s) (\<lambda>clients.
         case clients of
           Inl e \<Rightarrow> ret (Some (rejected e))
         | Inr clients \<Rightarrow>
           (case firstWritableOther clients clientID of
              Some c \<Rightarrow> ret (Some \<lparr>se_Kind = WritableClientPresent, se_ClientID = cl_id c, se_Detail = []\<rparr>)
            | None \<Rightarrow>
              bindI (SyncClaudeMD E (ClaudeMDSource s) (sp_WorkingDir s)) (\<lambda>res.
                case res of
                  Inl e \<Rightarrow> ret (Some (rejected e))
                | Inr _ \<Rightarrow>
                  bindI (SendText E (sp_Tmux s) txt) (\<lambda>res.
                    case res of Inl e \<Rightarrow> ret (Some (rejected e)) | Inr _ \<Rightarrow> ret None)))))"

definition SendInput :: "SEnv \<Rightarrow> Supervisor \<Rightarrow> string \<Rightarrow> SendError option sact" where
  "SendInput E s txt = SendInputFrom E s [] txt"

definition ReadOutput :: "SEnv \<Rightarrow> Supervisor \<Rightarrow> int \<Rightarrow> OutputChunk list result sact" where
  "ReadOutput E s sinceSeq =
     bindI (sFile E (ReadFile (sp_OutputLog s))) (\<lambda>r.
       case r of
         Inl e \<Rightarrow> if IsNotFound e then ok [] else fail e
       | Inr content \<Rightarrow>
         (let data = drop (nat sinceSeq) content in
          if data = [] then ok [] else ok [\<lparr>oc_Seq = sinceSeq + int (length data), oc_Data = data\<rparr>]))"

definition clearCommand :: string where
  "clearCommand = ''/clear''"

definition ReleaseContext :: "SEnv \<Rightarrow> Supervisor \<Rightarrow> SendError option sact" where
  "ReleaseContext E s = SendInput E s clearCommand"

subsection \<open>Browser verification, SSH sessions, changed files\<close>

record BrowserVerification =
  Available :: bool
  bv_Reason :: string

definition InteractiveBrowserVerification :: "SEnv \<Rightarrow> Supervisor \<Rightarrow> BrowserVerification sact" where
  "InteractiveBrowserVerification E s =
     (if LongLivedAuth s
      then ret \<lparr>Available = False, bv_Reason = ''session authenticated with a long-lived credential''\<rparr>
      else bindI (tmux_ListClients E (sp_Tmux s)) (\<lambda>r.
        case r of
          Inl e \<Rightarrow> ret \<lparr>Available = False, bv_Reason = ''cannot determine attached clients: '' @ Error e\<rparr>
        | Inr clients \<Rightarrow>
          (if firstWritable clients = None
           then ret \<lparr>Available = False, bv_Reason = ''no developer client holds the session''\<rparr>
           else ret \<lparr>Available = True, bv_Reason = []\<rparr>)))"

text \<open>\<^verbatim>\<open>strings.Fields\<close>, \<^verbatim>\<open>strconv.ParseUint(s, 16, 32)\<close>\<close>

fun Fields :: "string \<Rightarrow> string list" where
  "Fields [] = []"
| "Fields (c # cs) =
     (if is_space c then Fields cs
      else case cs of
        [] \<Rightarrow> [[c]]
      | d # _ \<Rightarrow> (if is_space d then [c] # Fields cs
                  else case Fields cs of [] \<Rightarrow> [[c]] | w # ws \<Rightarrow> (c # w) # ws))"

definition hex_value :: "char \<Rightarrow> nat option" where
  "hex_value c =
     (let n = (of_char c :: nat) in
      if 48 \<le> n \<and> n \<le> 57 then Some (n - 48)
      else if 97 \<le> n \<and> n \<le> 102 then Some (n - 87)
      else if 65 \<le> n \<and> n \<le> 70 then Some (n - 55) else None)"

definition ParseHex32 :: "string \<Rightarrow> nat option" where
  "ParseHex32 s =
     (case those (map hex_value s) of
        None \<Rightarrow> None
      | Some ds \<Rightarrow> (let n = foldl (\<lambda>acc d. acc * 16 + d) 0 ds in if ds = [] \<or> n \<ge> 4294967296 then None else Some n))"

definition tcpEstablished :: string where
  "tcpEstablished = ''01''"

definition established_on :: "int \<Rightarrow> string \<Rightarrow> bool" where
  "established_on port line =
     (case Fields line of
        _ # address # _ # state # _ \<Rightarrow>
          state = tcpEstablished \<and>
          (case Cut address (CHR '':'') of (_, hexPort, found) \<Rightarrow>
             found \<and> (case ParseHex32 hexPort of None \<Rightarrow> False | Some n \<Rightarrow> int n = port))
      | _ \<Rightarrow> False)"

text \<open>\<^verbatim>\<open>bufio.Scanner\<close> over lines: a final empty line is not scanned.\<close>

definition scan_lines :: "string \<Rightarrow> string list" where
  "scan_lines s =
     (let ls = Split newline s in
      map (\<lambda>l. TrimSuffix l [CHR 0x0D]) (if last ls = [] then butlast ls else ls))"

definition countEstablished :: "string \<Rightarrow> int \<Rightarrow> int" where
  "countEstablished content port = int (length (filter (established_on port) (scan_lines content)))"

definition count_in :: "SEnv \<Rightarrow> int \<Rightarrow> int \<Rightarrow> string \<Rightarrow> int result sact" where
  "count_in E port acc path =
     bindI (sFile E (ReadFile path)) (\<lambda>r.
       case r of
         Inl e \<Rightarrow> if IsNotFound e then ok acc else fail e
       | Inr content \<Rightarrow> ok (acc + countEstablished content port))"

definition SSHSessions :: "SEnv \<Rightarrow> int \<Rightarrow> int result sact" where
  "SSHSessions E port = foldE (count_in E port) 0 [''/proc/net/tcp'', ''/proc/net/tcp6'']"

definition DefaultSSHPort :: int where
  "DefaultSSHPort = 22"

definition sup_SSHSessionCount :: "SEnv \<Rightarrow> Supervisor \<Rightarrow> int result sact" where
  "sup_SSHSessionCount E s = SSHSessions E (if SSHPort s = 0 then DefaultSSHPort else SSHPort s)"

fun changed_records :: "string list \<Rightarrow> string list" where
  "changed_records [] = []"
| "changed_records (rec # rest) =
     (if length rec < 4 then changed_records rest
      else
        (let status = take 2 rec; path = drop 3 rec;
             later = changed_records (if CHR ''R'' \<in> set status \<or> CHR ''C'' \<in> set status then tl rest else rest) in
         if path = ClaudeMDName then later else path # later))"

definition nul :: char where
  "nul = CHR 0x00"

definition parseChangedFiles :: "string \<Rightarrow> string list" where
  "parseChangedFiles out = sort (changed_records (Split nul (TrimSuffix out [nul])))"

definition ChangedFiles :: "SEnv \<Rightarrow> string \<Rightarrow> string list result sact" where
  "ChangedFiles E workingDir =
     bindI (sExec E workingDir [''git'', ''status'', ''--porcelain=v1'', ''-z'', ''--untracked-files=all''] []) (\<lambda>(out, e).
       case e of
         Some e \<Rightarrow> fail (wrap (''supervisor: git status in '' @ workingDir @ '': '') e)
       | None \<Rightarrow> ok (parseChangedFiles out))"

subsection \<open>The single-writer rule\<close>

text \<open>Something is typed into the session.\<close>

definition types :: "Tmux \<Rightarrow> SEvent \<Rightarrow> bool" where
  "types t e \<longleftrightarrow> (\<exists>x y. e = SvExec [] (load_args t) x y \<or> e = SvExec [] (tmux_args t (paste_args t)) x y)"

lemma quiet_tmux_run:
  assumes "extra \<noteq> paste_args t" and "tmux_args t extra \<noteq> load_args t"
  shows "emits (\<lambda>e. \<not> types t e) (tmux_run E t extra)"
  unfolding tmux_run_def using assms by (intro emits_rules) (auto simp: types_def tmux_args_def load_args_def)

lemma quiet_HasSession: "emits (\<lambda>e. \<not> types t e) (HasSession E t)"
  unfolding HasSession_def
  by (intro emits_rules quiet_tmux_run) (simp_all add: paste_args_def load_args_def tmux_args_def)

lemma quiet_tmux_ListClients: "emits (\<lambda>e. \<not> types t e) (tmux_ListClients E t)"
  unfolding tmux_ListClients_def
  by (intro emits_rules quiet_tmux_run quiet_HasSession) (simp_all add: list_args_def paste_args_def load_args_def tmux_args_def)

lemma quiet_sup_ListClients: "emits (\<lambda>e. \<not> types (sp_Tmux s) e) (sup_ListClients E s)"
  unfolding sup_ListClients_def by (intro emits_rules quiet_tmux_ListClients)

lemma quiet_SyncClaudeMD: "emits (\<lambda>e. \<not> types t e) (SyncClaudeMD E src dir)"
  unfolding SyncClaudeMD_def by (intro emits_rules) (simp_all add: types_def)

lemma set_heldClients: "set (heldClients E s) = (\<lambda>(i, t). \<lparr>cl_id = i, cl_writable = True, cl_attachedAt = s_RFC3339 E t\<rparr>) ` set (held s)"
  by (simp add: heldClients_def)

lemma sup_ListClients_held:
  assumes "sup_ListClients E s h = (Inr clients, h')"
  shows "set (heldClients E s) \<subseteq> set clients"
  using assms by (auto simp: sup_ListClients_def tryE_def bindI_def ok_def fail_def ret_def split: prod.splits sum.splits)

text \<open>C37. Input reaches the session only from its writer.  Whatever \<^verbatim>\<open>SendInputFrom\<close> answers, if it
  typed anything then the clients had just been listed, of the multiplexer as of the gateways that hold
  the session, and every writable one among them was the sender; while some other client is on
  record as holding the session, nothing is typed and the answer is a refusal.\<close>
theorem input_only_from_the_writer:
  assumes "SendInputFrom E s i txt h = (res, h')"
  shows "(\<exists>evs clients h2 rest. list_all (\<lambda>e. \<not> types (sp_Tmux s) e) evs \<and> sup_ListClients E s (h @ evs) = (Inr clients, h2) \<and>
        (\<forall>c \<in> set clients. cl_writable c \<longrightarrow> cl_id c = i) \<and> (\<forall>j t. (j, t) \<in> set (held s) \<longrightarrow> j = i) \<and> h' = h2 @ rest)
    \<or> (\<exists>err evs. res = Some err \<and> h' = h @ evs \<and> list_all (\<lambda>e. \<not> types (sp_Tmux s) e) evs)"
proof -
  let ?quiet = "\<lambda>e. \<not> types (sp_Tmux s) e"
  obtain running h1 where hs: "HasSession E (sp_Tmux s) h = (running, h1)" by (cases "HasSession E (sp_Tmux s) h")
  obtain evs1 where evs1: "h1 = h @ evs1" "list_all ?quiet evs1" by (rule emitsE [OF quiet_HasSession hs])
  show ?thesis
  proof (cases running)
    case False
    then show ?thesis using assms hs evs1 by (auto simp: SendInputFrom_def bindI_def ret_def)
  next
    case True
    obtain r h2 where ls: "sup_ListClients E s h1 = (r, h2)" by (cases "sup_ListClients E s h1")
    obtain evs2 where evs2: "h2 = h1 @ evs2" "list_all ?quiet evs2" by (rule emitsE [OF quiet_sup_ListClients ls])
    have so_far: "h2 = h @ (evs1 @ evs2)" "list_all ?quiet (evs1 @ evs2)" using evs1 evs2 by auto
    show ?thesis
    proof (cases "\<exists>clients. r = Inr clients \<and> firstWritableOther clients i = None")
      case False
      then have "\<exists>err. res = Some err \<and> h' = h2"
        using assms hs True ls by (auto simp: SendInputFrom_def bindI_def ret_def split: sum.splits option.splits)
      then show ?thesis using so_far by blast
    next
      case True
      then obtain clients where c: "r = Inr clients" "firstWritableOther clients i = None" by blast
      have others: "\<forall>c \<in> set clients. cl_writable c \<longrightarrow> cl_id c = i"
        using c(2) by (auto simp: firstWritableOther_def find_None_iff)
      have "cl_writable x \<and> cl_id x = j" if "x = \<lparr>cl_id = j, cl_writable = True, cl_attachedAt = y\<rparr>" for x j y
        using that by simp
      then have "\<forall>j t. (j, t) \<in> set (held s) \<longrightarrow> j = i"
        using sup_ListClients_held [of E s h1 clients h2] ls c(1) others unfolding set_heldClients by fastforce
      moreover have "\<exists>rest. h' = h2 @ rest"
      proof -
        let ?tail = "bindI (SyncClaudeMD E (ClaudeMDSource s) (sp_WorkingDir s)) (\<lambda>res.
            case res of Inl e \<Rightarrow> ret (Some (rejected e))
            | Inr _ \<Rightarrow> bindI (SendText E (sp_Tmux s) txt) (\<lambda>res. case res of Inl e \<Rightarrow> ret (Some (rejected e)) | Inr _ \<Rightarrow> ret None))"
        have "emits (\<lambda>_. True) ?tail"
          unfolding SyncClaudeMD_def SendText_def tmux_run_def by (intro emits_rules; simp)
        moreover have "?tail h2 = (res, h')"
          using assms hs \<open>running\<close> ls c by (simp add: SendInputFrom_def bindI_def)
        ultimately show ?thesis by (rule emits_prefix)
      qed
      ultimately show ?thesis using ls c(1) others evs1 by blast
    qed
  qed
qed

text \<open>A quiet environment for the witnesses: every command succeeds without output, no file exists.\<close>

definition senv0 :: SEnv where
  "senv0 = \<lparr>s_now = (\<lambda>h. 0), s_file = (\<lambda>h op. Inl (NotFound [])), s_walk = (\<lambda>h p. Inr []), s_glob = (\<lambda>h p. []),
     s_exec = (\<lambda>h d a i. ([], None)), s_lstat = (\<lambda>h p. Inr True), s_lock = (\<lambda>h p. None),
     s_serve = (\<lambda>h d a. None), s_http = (\<lambda>h v u hs b. Inl (Err ''refused'')),
     s_dial = (\<lambda>h a. None), s_Unmarshal = (\<lambda>s. None), s_DecodeFirst = (\<lambda>s. None), s_Marshal = (\<lambda>j. []),
     s_MarshalIndent = (\<lambda>j. []), s_RFC3339 = Itoa, s_Stamp = Itoa, s_ParseURL = (\<lambda>u. Inr ([], u, [])),
     s_TypeByExtension = (\<lambda>e. []), s_tar = (\<lambda>fs. []), s_untar = (\<lambda>n s. Inr ([], None)),
     s_Getwd = Inr ''/''\<rparr>"

definition supervisor0 :: Supervisor where
  "supervisor0 = \<lparr>sp_Tmux = \<lparr>tm_Socket = ''devplatform'', tm_Session = ''workspace''\<rparr>, sp_ConfigDir = ''/c'', sp_OutputLog = ''/c/log'',
     sp_WorkingDir = ''/w'', ClaudeMDSource = [], SSHPort = 0, LongLivedAuth = False, failure = [], held = []\<rparr>"

theorem input_only_from_the_writer_witness:
  "\<exists>h' evs clients h2 rest. SendInputFrom senv0 (supervisor0\<lparr>held := [(''a'', 0)]\<rparr>) ''a'' ''ls'' [] = (None, h') \<and>
     list_all (\<lambda>e. \<not> types (sp_Tmux supervisor0) e) evs \<and>
     sup_ListClients senv0 (supervisor0\<lparr>held := [(''a'', 0)]\<rparr>) ([] @ evs) = (Inr clients, h2) \<and>
     (\<forall>c \<in> set clients. cl_writable c \<longrightarrow> cl_id c = ''a'') \<and> h' = h2 @ rest"
proof -
  let ?s = "supervisor0\<lparr>held := [(''a'', 0)]\<rparr>"
  have tmux: "tmux_run senv0 t x h = (Inr [], h @ [SvExec [] (tmux_args t x) [] ([], None)])" for t x h
    by (simp add: tmux_run_def sExec_def senv0_def bindI_def call_def ok_def ret_def)
  have none: "parseClients senv0 [] = Inr []" by (simp add: parseClients_def TrimRightP_def)
  have "fst (SendInputFrom senv0 ?s ''a'' ''ls'' []) = None"
    by (simp add: SendInputFrom_def HasSession_def tmux sup_ListClients_def tmux_ListClients_def none heldClients_def sort_Slice_def
        firstWritableOther_def SyncClaudeMD_def SendText_def supervisor0_def bindI_def tryE_def ok_def ret_def)
       (simp add: sExec_def senv0_def call_def tmux tmux_run_def bindI_def ok_def ret_def)
  then obtain h' where run: "SendInputFrom senv0 ?s ''a'' ''ls'' [] = (None, h')" by (metis prod.collapse)
  from input_only_from_the_writer [OF run] run show ?thesis by auto
qed

end
