(* ===== verification/SupervisorTurn.thy ===== *)
theory SupervisorTurn
  imports SupervisorSession
begin

text \<open>
  Turns and health: \<^verbatim>\<open>transcript.go\<close>, \<^verbatim>\<open>probe.go\<close>, \<^verbatim>\<open>model.go\<close>,
  \<^verbatim>\<open>usage.go\<close>, \<^verbatim>\<open>health.go\<close>, \<^verbatim>\<open>supervise.go\<close> and the turn reader of
  \<^verbatim>\<open>main.go\<close>.  The state of the supervisor that other goroutines change (its failure mark) is a
  function of the history where a loop reads it again and again.  Waiting loops share
  \<open>poll_loop\<close>, which takes fuel; \<open>poll_loop_returns\<close> shows that the fuel the deadline asks for is
  enough when the clock advances with sleep.
\<close>

subsection \<open>Turn states\<close>

datatype TurnKind = Idle | Running | AwaitingTool | Completed | TurnFailed

record TurnState =
  ts_Kind :: TurnKind
  StartedAt :: string
  ts_Reason :: string
  ts_Model :: string
  EndedAt :: string
  ts_Detail :: string
  ts_ErrorKind :: string

definition turn_state :: "TurnKind \<Rightarrow> TurnState" where
  "turn_state k = \<lparr>ts_Kind = k, StartedAt = [], ts_Reason = [], ts_Model = [], EndedAt = [], ts_Detail = [], ts_ErrorKind = []\<rparr>"

text \<open>\<^verbatim>\<open>content\<close> is kept as it came.\<close>

record transcriptMessage =
  tm_Model :: string
  StopReason :: string
  Content :: "Json option"

record transcriptRecord =
  tr_Type :: string
  IsMeta :: bool
  IsError :: bool
  tr_Time :: string
  Message :: "transcriptMessage option"

definition message_fields :: "transcriptMessage setter list" where
  "message_fields =
     [(''model'', \<lambda>j m. map_option (\<lambda>v. m\<lparr>tm_Model := v\<rparr>) (as_string j)),
      (''stop_reason'', \<lambda>j m. map_option (\<lambda>v. m\<lparr>StopReason := v\<rparr>) (as_string j)),
      (''content'', \<lambda>j m. Some (m\<lparr>Content := Some j\<rparr>))]"

definition record_fields :: "transcriptRecord setter list" where
  "record_fields =
     [(''type'', \<lambda>j r. map_option (\<lambda>v. r\<lparr>tr_Type := v\<rparr>) (as_string j)),
      (''isMeta'', \<lambda>j r. map_option (\<lambda>v. r\<lparr>IsMeta := v\<rparr>) (as_bool j)),
      (''isApiErrorMessage'', \<lambda>j r. map_option (\<lambda>v. r\<lparr>IsError := v\<rparr>) (as_bool j)),
      (''timestamp'', \<lambda>j r. map_option (\<lambda>v. r\<lparr>tr_Time := v\<rparr>) (as_string j)),
      (''message'', \<lambda>j r. map_option (\<lambda>v. r\<lparr>Message := Some v\<rparr>)
         (decode_struct message_fields (Some j)
            (case Message r of None \<Rightarrow> \<lparr>tm_Model = [], StopReason = [], Content = None\<rparr> | Some m \<Rightarrow> m)))]"

definition record0 :: transcriptRecord where
  "record0 = \<lparr>tr_Type = [], IsMeta = False, IsError = False, tr_Time = [], Message = None\<rparr>"

text \<open>The API's error envelope: the type and the message of \<^verbatim>\<open>error\<close>.\<close>

definition inner_error_fields :: "(string \<times> string) setter list" where
  "inner_error_fields =
     [(''type'', \<lambda>j (t, m). map_option (\<lambda>v. (v, m)) (as_string j)),
      (''message'', \<lambda>j (t, m). map_option (\<lambda>v. (t, v)) (as_string j))]"

definition apiError_fields :: "(string \<times> (string \<times> string) option) setter list" where
  "apiError_fields =
     [(''type'', \<lambda>j (t, e). map_option (\<lambda>v. (v, e)) (as_string j)),
      (''error'', \<lambda>j (t, e). map_option (\<lambda>v. (t, Some v))
         (decode_struct inner_error_fields (Some j) (case e of None \<Rightarrow> ([], []) | Some x \<Rightarrow> x)))]"

definition apiErrorFrom :: "SEnv \<Rightarrow> Json option \<Rightarrow> string \<times> string" where
  "apiErrorFrom E content =
     (case content of
        Some (JString txt) \<Rightarrow>
          (case from_index txt ''{'' of
             None \<Rightarrow> ([], [])
           | Some rest \<Rightarrow>
             (case decode_struct apiError_fields (s_DecodeFirst E rest) ([], None) of
                Some (_, Some e) \<Rightarrow> e
              | _ \<Rightarrow> ([], [])))
      | _ \<Rightarrow> ([], []))"

record contentBlock =
  cb_Type :: string
  cb_Name :: string

definition block_fields :: "contentBlock setter list" where
  "block_fields =
     [(''type'', \<lambda>j b. map_option (\<lambda>v. b\<lparr>cb_Type := v\<rparr>) (as_string j)),
      (''name'', \<lambda>j b. map_option (\<lambda>v. b\<lparr>cb_Name := v\<rparr>) (as_string j))]"

definition toolName :: "Json option \<Rightarrow> string" where
  "toolName content =
     (case content of
        Some (JList js) \<Rightarrow>
          (case those (map (\<lambda>j. decode_struct block_fields (Some j) \<lparr>cb_Type = [], cb_Name = []\<rparr>) js) of
             None \<Rightarrow> []
           | Some bs \<Rightarrow> (case List.find (\<lambda>b. cb_Type b = ''tool_use'') bs of None \<Rightarrow> [] | Some b \<Rightarrow> cb_Name b))
      | _ \<Rightarrow> [])"

definition advance :: "SEnv \<Rightarrow> transcriptRecord \<Rightarrow> TurnState option" where
  "advance E rec =
     (case Message rec of
        None \<Rightarrow> None
      | Some m \<Rightarrow>
        (if IsMeta rec then None
         else if IsError rec
         then (case apiErrorFrom E (Content m) of (kind, detail) \<Rightarrow>
             Some ((turn_state TurnFailed)\<lparr>ts_ErrorKind := kind, ts_Detail := detail, EndedAt := tr_Time rec\<rparr>))
         else if tr_Type rec = ''user'' then Some ((turn_state Running)\<lparr>StartedAt := tr_Time rec\<rparr>)
         else if tr_Type rec = ''assistant''
         then (if StopReason m \<in> {''end_turn'', ''stop_sequence'', ''max_tokens''}
               then Some ((turn_state Completed)\<lparr>ts_Model := tm_Model m, EndedAt := tr_Time rec\<rparr>)
               else if StopReason m = ''tool_use''
               then Some ((turn_state AwaitingTool)\<lparr>ts_Reason := toolName (Content m), ts_Model := tm_Model m,
                      StartedAt := tr_Time rec\<rparr>)
               else None)
         else None))"

definition advance_line :: "SEnv \<Rightarrow> string \<Rightarrow> TurnState option" where
  "advance_line E line =
     (case decode_struct record_fields (s_Unmarshal E line) record0 of None \<Rightarrow> None | Some rec \<Rightarrow> advance E rec)"

definition fold_lines :: "SEnv \<Rightarrow> TurnState \<Rightarrow> string list \<Rightarrow> TurnState" where
  "fold_lines E = foldl (\<lambda>state line. case advance_line E line of None \<Rightarrow> state | Some st \<Rightarrow> st)"

text \<open>A line that does not fit the scanner's buffer ends the scan with an error.\<close>

definition max_line :: nat where
  "max_line = 16777216"

definition pick_newest :: "string \<times> time \<Rightarrow> string \<times> time \<Rightarrow> string \<times> time" where
  "pick_newest newest f = (if HasSuffix (fst f) ''.jsonl'' \<and> snd f \<ge> snd newest then f else newest)"

definition latestTranscript :: "SEnv \<Rightarrow> string \<Rightarrow> string result sact" where
  "latestTranscript E configDir =
     bindI (sWalk E (path_Join configDir ''projects'')) (\<lambda>r.
       case r of
         Inl e \<Rightarrow> if IsNotFound e then ok [] else fail e
       | Inr files \<Rightarrow> ok (fst (foldl pick_newest ([], 0) files)))"

definition TurnStateFrom :: "SEnv \<Rightarrow> string \<Rightarrow> TurnState result sact" where
  "TurnStateFrom E configDir =
     tryE (latestTranscript E configDir) (\<lambda>path.
       if path = [] then ok (turn_state Idle)
       else bindI (sFile E (ReadFile path)) (\<lambda>r.
         case r of
           Inl e \<Rightarrow> if IsNotFound e then ok (turn_state Idle) else fail e
         | Inr content \<Rightarrow>
           (if list_ex (\<lambda>l. length l \<ge> max_line) (Split newline content) then fail (Err ''bufio.Scanner: token too long'')
            else ok (fold_lines E (turn_state Idle) (scan_lines content)))))"

definition sup_TurnState :: "SEnv \<Rightarrow> Supervisor \<Rightarrow> TurnState result sact" where
  "sup_TurnState E s =
     (if failure s \<noteq> [] then ok ((turn_state TurnFailed)\<lparr>ts_Detail := failure s\<rparr>) else TurnStateFrom E (sp_ConfigDir s))"

text \<open>\<^verbatim>\<open>turnReader\<close>: whether writes may be in flight, and a value that changes with each completed turn.\<close>

definition turn_summary :: "TurnState \<Rightarrow> bool \<times> string" where
  "turn_summary st =
     (let busy = (ts_Kind st = Running \<or> ts_Kind st = AwaitingTool) in
      if ts_Kind st \<noteq> Completed then (busy, []) else (busy, EndedAt st))"

definition turnReader :: "SEnv \<Rightarrow> (SEvent list \<Rightarrow> Supervisor) \<Rightarrow> (bool \<times> string) result sact" where
  "turnReader E shared = bindI (peek shared) (\<lambda>s. tryE (sup_TurnState E s) (\<lambda>st. ok (turn_summary st)))"

subsection \<open>Waiting\<close>

text \<open>One shape for all waiting loops: \<open>attempt\<close> ends the wait with a result or reports why it goes on;
  past the deadline the wait is given up, and so it is when the context is done.\<close>

fun poll_loop :: "nat \<Rightarrow> SEnv \<Rightarrow> time \<Rightarrow> duration \<Rightarrow> (SEvent list \<Rightarrow> 'r option) \<Rightarrow> ('c \<Rightarrow> 'r) \<Rightarrow> ('c + 'r) sact \<Rightarrow> 'r option sact" where
  "poll_loop 0 E deadline poll cancelled late attempt = ret None"
| "poll_loop (Suc n) E deadline poll cancelled late attempt =
     bindI attempt (\<lambda>r.
       case r of
         Inr v \<Rightarrow> ret (Some v)
       | Inl c \<Rightarrow>
         bindI (snow E) (\<lambda>now.
           if \<not> now < deadline then ret (Some (late c))
           else bindI (sSleep poll) (\<lambda>_.
             bindI (peek cancelled) (\<lambda>done.
               case done of
                 Some v \<Rightarrow> ret (Some v)
               | None \<Rightarrow> poll_loop n E deadline poll cancelled late attempt))))"

definition ticking :: "SEnv \<Rightarrow> bool" where
  "ticking E \<longleftrightarrow> (\<forall>h evs. s_now E h \<le> s_now E (h @ evs)) \<and> (\<forall>h d. s_now E h + d \<le> s_now E (h @ [SvSleep d]))"

lemma poll_loop_returns:
  assumes "ticking E" and "emits (\<lambda>_. True) attempt" and "0 \<le> poll" and "deadline - s_now E h \<le> int n * poll"
  shows "\<exists>v h'. poll_loop (Suc n) E deadline poll cancelled late attempt h = (Some v, h')"
  using assms(4)
proof (induction n arbitrary: h)
  case 0
  obtain r h1 where c: "attempt h = (r, h1)" by (cases "attempt h")
  obtain evs where "h1 = h @ evs" by (rule emitsE [OF assms(2) c])
  then have "s_now E h \<le> s_now E h1" using assms(1) by (simp add: ticking_def)
  then have "\<not> s_now E h1 < deadline" using 0 by simp
  then show ?case using c by (cases r) (simp_all add: bindI_def snow_def peek_def ret_def)
next
  case (Suc n)
  obtain r h1 where c: "attempt h = (r, h1)" by (cases "attempt h")
  obtain evs where h1: "h1 = h @ evs" by (rule emitsE [OF assms(2) c])
  have "s_now E h1 + poll \<le> s_now E (h1 @ [SvSleep poll])" using assms(1) by (simp add: ticking_def)
  moreover have "s_now E h \<le> s_now E h1" using assms(1) h1 by (simp add: ticking_def)
  ultimately have "deadline - s_now E (h1 @ [SvSleep poll]) \<le> int n * poll" using Suc.prems by (simp add: algebra_simps)
  from Suc.IH [OF this] obtain v h' where
    "poll_loop (Suc n) E deadline poll cancelled late attempt (h1 @ [SvSleep poll]) = (Some v, h')" by blast
  then show ?case
    using c
    by (cases r; cases "cancelled (h1 @ [SvSleep poll])")
       (auto simp: bindI_def snow_def peek_def ret_def sSleep_def call_def)
qed

text \<open>Fuel for a deadline at a positive poll interval.\<close>

lemma fuel_covers:
  assumes "0 < (p :: int)"
  shows "d \<le> int (nat (d div p + 1)) * p"
proof -
  have "d = p * (d div p) + d mod p" by simp
  moreover have "d mod p < p" using assms by simp
  ultimately have "d \<le> p * (d div p) + p" by linarith
  then have "d \<le> (d div p + 1) * p" by (simp add: algebra_simps)
  also have "\<dots> \<le> int (nat (d div p + 1)) * p" using assms by (intro mult_right_mono) auto
  finally show ?thesis .
qed

text \<open>Whatever ended the wait before it was given up was said by the attempt.\<close>

lemma poll_loop_result:
  assumes "poll_loop n E deadline poll cancelled late attempt h = (Some v, h')"
    and "\<And>c. late c \<noteq> v" and "\<And>h. cancelled h \<noteq> Some v" and "emits (\<lambda>_. True) attempt"
  shows "\<exists>evs. attempt (h @ evs) = (Inr v, h')"
  using assms(1)
proof (induction n arbitrary: h)
  case (Suc n)
  obtain r h1 where c: "attempt h = (r, h1)" by (cases "attempt h")
  obtain evs where h1: "h1 = h @ evs" by (rule emitsE [OF assms(4) c])
  show ?case
  proof (cases r)
    case (Inr w)
    then show ?thesis using Suc.prems c by (intro exI [of _ "[]"]) (auto simp: bindI_def ret_def)
  next
    case (Inl w)
    have "poll_loop n E deadline poll cancelled late attempt (h1 @ [SvSleep poll]) = (Some v, h')"
      using Suc.prems c Inl assms(2,3)
      by (auto simp: bindI_def snow_def peek_def ret_def sSleep_def call_def split: if_splits option.splits)
    from Suc.IH [OF this] h1 show ?thesis by (metis append.assoc)
  qed
qed (simp add: ret_def)

text \<open>A clock that only sleeping advances.\<close>

definition slept :: "SEvent list \<Rightarrow> time" where
  "slept h = sum_list (map (\<lambda>e. case e of SvSleep d \<Rightarrow> if d < 0 then 0 else d | _ \<Rightarrow> 0) h)"

lemma ticking_slept:
  assumes "s_now E = slept"
  shows "ticking E"
proof -
  have "0 \<le> slept evs" for evs
    unfolding slept_def by (intro sum_list_nonneg) (auto split: SEvent.splits)
  then show ?thesis by (simp add: ticking_def assms slept_def)
qed

end
