(* ===== verification/SupervisorHealth.thy ===== *)
theory SupervisorHealth
  imports SupervisorTurn
begin

text \<open>
  Requests and health: \<^verbatim>\<open>probe.go\<close>, \<^verbatim>\<open>model.go\<close>, \<^verbatim>\<open>usage.go\<close>,
  \<^verbatim>\<open>health.go\<close>, \<^verbatim>\<open>supervise.go\<close> and the watchers of \<^verbatim>\<open>main.go\<close>.
  The supervisor's record is shared between goroutines, so a loop reads it as a function of the history.
\<close>

subsection \<open>Durations as text\<close>

definition frac_digits :: "nat \<Rightarrow> nat \<Rightarrow> string" where
  "frac_digits f p =
     (if f = 0 then []
      else (let ds = decimal f in CHR ''.'' # TrimRightP (\<lambda>c. c = CHR ''0'') (replicate (p - length ds) (CHR ''0'') @ ds)))"

definition scaled :: "nat \<Rightarrow> nat \<Rightarrow> string" where
  "scaled u p = decimal (u div 10 ^ p) @ frac_digits (u mod 10 ^ p) p"

definition Duration_body :: "nat \<Rightarrow> string" where
  "Duration_body u =
     (if u < 1000 then decimal u @ ''ns''
      else if u < 1000000 then scaled u 3 @ [CHR 0xC2, CHR 0xB5, CHR ''s'']
      else if u < 1000000000 then scaled u 6 @ ''ms''
      else
        (let secs = u div 1000000000; h = secs div 3600; m = secs div 60 mod 60 in
         (if h > 0 then decimal h @ ''h'' else []) @ (if h > 0 \<or> m > 0 then decimal m @ ''m'' else []) @
         decimal (secs mod 60) @ frac_digits (u mod 1000000000) 9 @ ''s''))"

definition Duration_String :: "duration \<Rightarrow> string" where
  "Duration_String d =
     (if d = 0 then ''0s'' else (if d < 0 then ''-'' else []) @ Duration_body (nat \<bar>d\<bar>))"

subsection \<open>Requests (probe.go)\<close>

fun turn_kind_text :: "TurnKind \<Rightarrow> string" where
  "turn_kind_text Idle = ''Idle''"
| "turn_kind_text Running = ''Running''"
| "turn_kind_text AwaitingTool = ''AwaitingTool''"
| "turn_kind_text Completed = ''Completed''"
| "turn_kind_text TurnFailed = ''Failed''"

definition read_failed :: "string \<Rightarrow> error \<Rightarrow> error" where
  "read_failed label e = wrap (''supervisor: '' @ label @ '' could not read the turn state: '') e"

text \<open>One round of the wait: \<open>Inr\<close> ends it, \<open>Inl\<close> is the kind that was seen.\<close>

definition request_round :: "SEnv \<Rightarrow> (SEvent list \<Rightarrow> Supervisor) \<Rightarrow> string \<Rightarrow> TurnState \<Rightarrow> (TurnKind + unit result) sact" where
  "request_round E shared label before =
     bindI (peek shared) (\<lambda>s.
     bindI (sup_TurnState E s) (\<lambda>r.
       case r of
         Inl e \<Rightarrow> ret (Inr (Inl (read_failed label e)))
       | Inr state \<Rightarrow>
         (if EndedAt state \<noteq> EndedAt before \<and> ts_Kind state = Completed then ret (Inr (Inr ()))
          else if EndedAt state \<noteq> EndedAt before \<and> ts_Kind state = TurnFailed
          then ret (Inr (Inl (Err (''supervisor: '' @ label @ '' failed: '' @ ts_Detail state))))
          else ret (Inl (ts_Kind state)))))"

definition request_late :: "string \<Rightarrow> duration \<Rightarrow> TurnKind \<Rightarrow> unit result" where
  "request_late label timeout k =
     Inl (Err (''supervisor: '' @ label @ '' did not complete within '' @ Duration_String timeout @ '' (last state '' @ Quote (turn_kind_text k) @ '')''))"

definition send_err :: "SendError \<Rightarrow> error" where
  "send_err e = Err (send_error_text e)"

definition request_poll :: "duration \<Rightarrow> duration" where
  "request_poll poll = (if poll \<le> 0 then Second else poll)"

definition session_Request :: "nat \<Rightarrow> SEnv \<Rightarrow> (SEvent list \<Rightarrow> Supervisor) \<Rightarrow> string \<Rightarrow> string \<Rightarrow> duration \<Rightarrow> duration \<Rightarrow> unit result option sact" where
  "session_Request n E shared label prompt timeout poll =
     bindI (peek shared) (\<lambda>s.
     bindI (sup_TurnState E s) (\<lambda>r.
       case r of
         Inl e \<Rightarrow> ret (Some (Inl (read_failed label e)))
       | Inr before \<Rightarrow>
         bindI (peek shared) (\<lambda>s.
         bindI (SendInput E s prompt) (\<lambda>sent.
           case sent of
             Some e \<Rightarrow> ret (Some (Inl (wrap (''supervisor: '' @ label @ '' could not reach the session: '') (send_err e))))
           | None \<Rightarrow>
             bindI (snow E) (\<lambda>now.
               poll_loop n E (now + timeout) (request_poll poll) (\<lambda>_. None) (request_late label timeout)
                 (request_round E shared label before))))))"

text \<open>Fuel that is enough for the deadline: the loop looks once more after every poll interval.\<close>

definition request_fuel :: "duration \<Rightarrow> duration \<Rightarrow> nat" where
  "request_fuel timeout poll = Suc (nat (timeout div request_poll poll + 1))"

subsection \<open>Notifications and the working directory's lock (supervise.go)\<close>

record SupEvent =
  ev_Kind :: string
  ev_Workspace :: string
  ev_Detail :: string
  ev_At :: string

definition event_json :: "SupEvent \<Rightarrow> Json" where
  "event_json e =
     JObject ([(''kind'', JString (ev_Kind e)), (''workspace'', JString (ev_Workspace e))] @
       (if ev_Detail e = [] then [] else [(''detail'', JString (ev_Detail e))]) @ [(''at'', JString (ev_At e))])"

definition NotifyHermes :: "SEnv \<Rightarrow> string \<Rightarrow> SupEvent \<Rightarrow> unit result sact" where
  "NotifyHermes E endpoint e =
     (if endpoint = [] then ok ()
      else bindI (snow E) (\<lambda>now.
        let e' = (if ev_At e = [] then e\<lparr>ev_At := s_RFC3339 E now\<rparr> else e) in
        tryE (sHttp E ''POST'' endpoint [(''Content-Type'', ''application/json'')] (s_Marshal E (event_json e'))) (\<lambda>resp.
          if StatusCode resp \<ge> 300 then fail (Err (''supervisor: hermes returned '' @ StatusText resp)) else ok ())))"

definition AcquireWorkingDirLock :: "SEnv \<Rightarrow> string \<Rightarrow> unit result sact" where
  "AcquireWorkingDirLock E path =
     tryE (sDo E (OpenFile path)) (\<lambda>_.
     bindI (sLock E path) (\<lambda>e.
       case e of
         Some e \<Rightarrow> fail (wrap (''supervisor: another session already holds '' @ path @ '': '') e)
       | None \<Rightarrow> ok ()))"

definition EventClaudeProcessExited :: string where
  "EventClaudeProcessExited = ''ClaudeProcessExited''"

text \<open>\<open>onExit\<close> works on a state of the caller's.\<close>

definition CheckProcess :: "SEnv \<Rightarrow> Tmux \<Rightarrow> string \<Rightarrow> (SupEvent \<Rightarrow> 's \<Rightarrow> 's sact) \<Rightarrow> 's \<Rightarrow> (unit result \<times> 's) sact" where
  "CheckProcess E tm workspace onExit st =
     bindI (HasSession E tm) (\<lambda>running.
       if \<not> running then ret (Inr (), st)
       else bindI (PaneDead E tm) (\<lambda>r.
         case r of
           Inl e \<Rightarrow> ret (Inl e, st)
         | Inr (dead, status) \<Rightarrow>
           (if \<not> dead then ret (Inr (), st)
            else bindI (snow E) (\<lambda>now.
              bindI (onExit \<lparr>ev_Kind = EventClaudeProcessExited, ev_Workspace = workspace,
                  ev_Detail = ''exit status '' @ Itoa status, ev_At = s_RFC3339 E now\<rparr> st) (\<lambda>st'.
              bindI (Respawn E tm) (\<lambda>res. ret (res, st')))))))"

subsection \<open>The model a turn ran on (model.go)\<close>

definition Contains :: "string \<Rightarrow> string \<Rightarrow> bool" where
  "Contains s t \<longleftrightarrow> from_index s t \<noteq> None"

definition EventModelMismatch :: string where
  "EventModelMismatch = ''ModelMismatch''"

definition syntheticModel :: string where
  "syntheticModel = ''<synthetic>''"

record ModelMonitor =
  mm_Expected :: string
  mm_Workspace :: string
  reported :: string

definition modelMatches :: "string \<Rightarrow> string \<Rightarrow> bool" where
  "modelMatches expected actual =
     (let e = ToLower (TrimSpace expected); a = ToLower (TrimSpace actual) in Contains a e \<or> Contains e a)"

definition mismatch_event :: "ModelMonitor \<Rightarrow> string \<Rightarrow> SupEvent" where
  "mismatch_event m actual =
     \<lparr>ev_Kind = EventModelMismatch, ev_Workspace = mm_Workspace m,
      ev_Detail = ''turn ran on '' @ Quote actual @ '', configured model is '' @ Quote (mm_Expected m), ev_At = []\<rparr>"

definition model_step :: "ModelMonitor \<Rightarrow> string \<Rightarrow> ModelMonitor \<times> SupEvent option" where
  "model_step m actual =
     (if actual = [] \<or> actual = syntheticModel then (m, None)
      else if modelMatches (mm_Expected m) actual then (m\<lparr>reported := []\<rparr>, None)
      else if actual = reported m then (m, None)
      else (m\<lparr>reported := actual\<rparr>, Some (mismatch_event m actual)))"

definition model_Check :: "(SupEvent \<Rightarrow> unit sact) \<Rightarrow> TurnState result sact \<Rightarrow> ModelMonitor \<Rightarrow> (unit result \<times> ModelMonitor) sact" where
  "model_Check notify turn m =
     (if mm_Expected m = [] then ret (Inr (), m)
      else bindI turn (\<lambda>r.
        case r of
          Inl e \<Rightarrow> ret (Inl e, m)
        | Inr state \<Rightarrow>
          (case model_step m (ts_Model state) of
             (m', None) \<Rightarrow> ret (Inr (), m')
           | (m', Some e) \<Rightarrow> bindI (notify e) (\<lambda>_. ret (Inr (), m')))))"

subsection \<open>Quota readings (usage.go)\<close>

record sup_UsageSnapshot =
  su_Kind :: string
  su_Group :: string
  UsedPercent :: rat
  su_RemainingPercent :: rat
  su_ResetsAt :: string
  su_Model :: string
  su_Active :: bool
  FetchedAt :: string

record claudeLimit =
  lim_Kind :: string
  lim_Group :: string
  lim_Percent :: "rat option"
  lim_ResetsAt :: "string option"
  lim_IsActive :: bool
  lim_Scope :: "string option option"

text \<open>\<open>lim_Scope\<close> is the scope, in it the model, in it the display name.\<close>

definition model_fields :: "string setter list" where
  "model_fields = [(''display_name'', \<lambda>j _. as_string j)]"

definition scope_fields :: "string option setter list" where
  "scope_fields =
     [(''model'', \<lambda>j m. map_option Some (decode_struct model_fields (Some j) (case m of None \<Rightarrow> [] | Some n \<Rightarrow> n)))]"

definition limit_fields :: "claudeLimit setter list" where
  "limit_fields =
     [(''kind'', \<lambda>j l. map_option (\<lambda>v. l\<lparr>lim_Kind := v\<rparr>) (as_string j)),
      (''group'', \<lambda>j l. map_option (\<lambda>v. l\<lparr>lim_Group := v\<rparr>) (as_string j)),
      (''percent'', \<lambda>j l. map_option (\<lambda>v. l\<lparr>lim_Percent := Some v\<rparr>) (as_number j)),
      (''resets_at'', \<lambda>j l. map_option (\<lambda>v. l\<lparr>lim_ResetsAt := Some v\<rparr>) (as_string j)),
      (''is_active'', \<lambda>j l. map_option (\<lambda>v. l\<lparr>lim_IsActive := v\<rparr>) (as_bool j)),
      (''scope'', \<lambda>j l. map_option (\<lambda>v. l\<lparr>lim_Scope := Some v\<rparr>)
         (decode_struct scope_fields (Some j) (case lim_Scope l of None \<Rightarrow> None | Some m \<Rightarrow> m)))]"

definition limit0 :: claudeLimit where
  "limit0 = \<lparr>lim_Kind = [], lim_Group = [], lim_Percent = None, lim_ResetsAt = None, lim_IsActive = False, lim_Scope = None\<rparr>"

fun as_limits :: "Json \<Rightarrow> claudeLimit list option" where
  "as_limits (JList js) = those (map (\<lambda>j. decode_struct limit_fields (Some j) limit0) js)"
| "as_limits _ = None"

definition utilization_fields :: "claudeLimit list setter list" where
  "utilization_fields = [(''limits'', \<lambda>j _. as_limits j)]"

definition cached_fields :: "(int \<times> claudeLimit list option) setter list" where
  "cached_fields =
     [(''fetchedAtMs'', \<lambda>j (t, u). map_option (\<lambda>v. (v, u)) (as_int j)),
      (''utilization'', \<lambda>j (t, u). map_option (\<lambda>v. (t, Some v))
         (decode_struct utilization_fields (Some j) (case u of None \<Rightarrow> [] | Some ls \<Rightarrow> ls)))]"

definition claudeState_fields :: "(int \<times> claudeLimit list option) option setter list" where
  "claudeState_fields =
     [(''cachedUsageUtilization'', \<lambda>j c. map_option Some
         (decode_struct cached_fields (Some j) (case c of None \<Rightarrow> (0, None) | Some x \<Rightarrow> x)))]"

definition snapshot_of :: "string \<Rightarrow> claudeLimit \<Rightarrow> sup_UsageSnapshot list" where
  "snapshot_of fetchedAt l =
     (case lim_Percent l of
        None \<Rightarrow> []
      | Some p \<Rightarrow>
        [\<lparr>su_Kind = lim_Kind l, su_Group = lim_Group l, UsedPercent = p, su_RemainingPercent = 100 - p,
          su_ResetsAt = (case lim_ResetsAt l of None \<Rightarrow> [] | Some t \<Rightarrow> t),
          su_Model = (case lim_Scope l of Some (Some m) \<Rightarrow> m | _ \<Rightarrow> []),
          su_Active = lim_IsActive l, FetchedAt = fetchedAt\<rparr>])"

definition Usage :: "SEnv \<Rightarrow> string \<Rightarrow> sup_UsageSnapshot list result sact" where
  "Usage E configDir =
     bindI (sFile E (ReadFile (path_Join configDir ''.claude.json''))) (\<lambda>r.
       case r of
         Inl e \<Rightarrow> if IsNotFound e then ok [] else fail e
       | Inr content \<Rightarrow>
         (case decode_struct claudeState_fields (s_Unmarshal E content) None of
            None \<Rightarrow> fail (Err ''supervisor: parse claude state'')
          | Some (Some (fetched, Some limits)) \<Rightarrow>
              ok (concat (map (snapshot_of (s_RFC3339 E (fetched * 1000000))) limits))
          | Some _ \<Rightarrow> ok []))"

text \<open>\<^verbatim>\<open>omitempty\<close>\<close>

definition opt_string :: "string \<Rightarrow> string \<Rightarrow> (string \<times> Json) list" where
  "opt_string k v = (if v = [] then [] else [(k, JString v)])"

definition usage_json :: "sup_UsageSnapshot \<Rightarrow> Json" where
  "usage_json u =
     JObject ([(''kind'', JString (su_Kind u)), (''group'', JString (su_Group u)), (''usedPercent'', JNum (UsedPercent u)),
        (''remainingPercent'', JNum (su_RemainingPercent u))] @ opt_string ''resetsAt'' (su_ResetsAt u) @
        opt_string ''model'' (su_Model u) @ [(''active'', JBool (su_Active u)), (''fetchedAt'', JString (FetchedAt u))])"

subsection \<open>Usability (health.go)\<close>

record Health =
  he_ConfigDir :: string
  he_Source :: string
  unusable :: string

definition unusablePrefix :: string where
  "unusablePrefix = ''unusable-''"

definition markPath :: "Health \<Rightarrow> string" where
  "markPath hl =
     (if he_ConfigDir hl = [] \<or> he_Source hl = [] then [] else path_Join (he_ConfigDir hl) (unusablePrefix @ he_Source hl))"

definition MarkUnusable :: "SEnv \<Rightarrow> Health \<Rightarrow> string \<Rightarrow> Health sact" where
  "MarkUnusable E hl detail =
     bindI (if markPath hl \<noteq> [] then sDo E (WriteFile (markPath hl) detail) else ok ()) (\<lambda>_.
       ret (hl\<lparr>unusable := detail\<rparr>))"

definition ClearUnusable :: "SEnv \<Rightarrow> Health \<Rightarrow> Health sact" where
  "ClearUnusable E hl =
     bindI (if markPath hl \<noteq> [] then sDo E (Remove (markPath hl)) else ok ()) (\<lambda>_. ret (hl\<lparr>unusable := []\<rparr>))"

fun first_mark :: "SEnv \<Rightarrow> string list \<Rightarrow> (bool \<times> string) sact" where
  "first_mark E [] = ret (True, [])"
| "first_mark E (path # paths) =
     bindI (sFile E (ReadFile path)) (\<lambda>r. case r of Inl _ \<Rightarrow> first_mark E paths | Inr b \<Rightarrow> ret (False, b))"

definition health_Status :: "SEnv \<Rightarrow> Health \<Rightarrow> (bool \<times> string) sact" where
  "health_Status E hl =
     (if unusable hl \<noteq> [] \<or> he_ConfigDir hl = [] then ret (unusable hl = [], unusable hl)
      else bindI (sGlob E (path_Join (he_ConfigDir hl) (unusablePrefix @ ''*''))) (first_mark E))"

definition health_endpoint :: "SEnv \<Rightarrow> Health \<Rightarrow> SReply sact" where
  "health_endpoint E hl =
     bindI (health_Status E hl) (\<lambda>(usable, detail).
       ret (writeJSONResponse 200 (JObject [(''usable'', JBool usable), (''detail'', JString detail)])))"

definition usage_endpoint :: "SEnv \<Rightarrow> Health \<Rightarrow> SReply sact" where
  "usage_endpoint E hl =
     bindI (Usage E (he_ConfigDir hl)) (\<lambda>r.
       case r of
         Inl e \<Rightarrow> ret (error_reply 500 e)
       | Inr snapshots \<Rightarrow> ret (writeJSONResponse 200 (JList (map usage_json snapshots))))"

subsection \<open>The authentication probe (probe.go)\<close>

definition EventAuthProbeFailed :: string where
  "EventAuthProbeFailed = ''AuthProbeFailed''"

record ProbeConfig =
  pc_Prompt :: string
  pc_Timeout :: duration
  pc_Poll :: duration
  Settle :: duration
  pc_Workspace :: string
  HermesURL :: string

definition runProbe :: "nat \<Rightarrow> SEnv \<Rightarrow> (SEvent list \<Rightarrow> Supervisor) \<Rightarrow> ProbeConfig \<Rightarrow> unit result option sact" where
  "runProbe n E shared cfg =
     bindI (sSleep (Settle cfg)) (\<lambda>_. session_Request n E shared ''auth probe'' (pc_Prompt cfg) (pc_Timeout cfg) (pc_Poll cfg))"

text \<open>The result comes with the health record that serves \<^verbatim>\<open>/health\<close>; \<open>None\<close> is a probe still waiting.\<close>

definition AuthProbe :: "nat \<Rightarrow> SEnv \<Rightarrow> (SEvent list \<Rightarrow> Supervisor) \<Rightarrow> Health \<Rightarrow> ProbeConfig \<Rightarrow> (unit result \<times> Health) option sact" where
  "AuthProbe n E shared hl cfg =
     (let own = \<lparr>he_ConfigDir = he_ConfigDir hl, he_Source = ''auth'', unusable = []\<rparr> in
      bindI (runProbe n E shared cfg) (\<lambda>r.
        case r of
          None \<Rightarrow> ret None
        | Some (Inr _) \<Rightarrow> bindI (ClearUnusable E own) (\<lambda>_. ret (Some (Inr (), hl)))
        | Some (Inl e) \<Rightarrow>
          bindI (MarkUnusable E hl (Error e)) (\<lambda>hl'.
          bindI (MarkUnusable E own (Error e)) (\<lambda>_.
          bindI (NotifyHermes E (HermesURL cfg) \<lparr>ev_Kind = EventAuthProbeFailed, ev_Workspace = pc_Workspace cfg,
              ev_Detail = Error e, ev_At = []\<rparr>) (\<lambda>_. ret (Some (Inl e, hl')))))))"

subsection \<open>The watchers of main.go\<close>

text \<open>A ticker loop seen for \<open>n\<close> ticks: at each one it may be cancelled instead.\<close>

fun watch :: "nat \<Rightarrow> duration \<Rightarrow> (SEvent list \<Rightarrow> bool) \<Rightarrow> ('s \<Rightarrow> 's sact) \<Rightarrow> 's \<Rightarrow> 's sact" where
  "watch 0 poll cancelled tick s = ret s"
| "watch (Suc n) poll cancelled tick s =
     bindI (sSleep poll) (\<lambda>_.
     bindI (peek cancelled) (\<lambda>over.
       if over then ret s else bindI (tick s) (watch n poll cancelled tick)))"

definition crashPollInterval :: duration where
  "crashPollInterval = 2 * Second"

definition process_tick :: "SEnv \<Rightarrow> string \<Rightarrow> string \<Rightarrow> Supervisor \<Rightarrow> Supervisor sact" where
  "process_tick E workspace hermesURL s =
     bindI (CheckProcess E (sp_Tmux s) workspace
              (\<lambda>e (s, _). bindI (NotifyHermes E hermesURL e) (\<lambda>_. ret (SetFailure s (ev_Detail e), True))) (s, False)) (\<lambda>(res, s', crashed).
       case res of
         Inl _ \<Rightarrow> ret s'
       | Inr _ \<Rightarrow> ret (if crashed then s' else ClearFailure s'))"

definition watchProcess :: "nat \<Rightarrow> SEnv \<Rightarrow> (SEvent list \<Rightarrow> bool) \<Rightarrow> string \<Rightarrow> string \<Rightarrow> Supervisor \<Rightarrow> Supervisor sact" where
  "watchProcess n E cancelled workspace hermesURL = watch n crashPollInterval cancelled (process_tick E workspace hermesURL)"

definition modelPollInterval :: duration where
  "modelPollInterval = 5 * Second"

definition watchModel :: "nat \<Rightarrow> SEnv \<Rightarrow> (SEvent list \<Rightarrow> bool) \<Rightarrow> (SEvent list \<Rightarrow> Supervisor) \<Rightarrow> string \<Rightarrow> string \<Rightarrow> string \<Rightarrow> ModelMonitor sact" where
  "watchModel n E cancelled shared expected workspace hermesURL =
     (let m = \<lparr>mm_Expected = expected, mm_Workspace = workspace, reported = []\<rparr> in
      if expected = [] then ret m
      else watch n modelPollInterval cancelled
        (\<lambda>m. bindI (model_Check (\<lambda>e. bindI (NotifyHermes E hermesURL e) (\<lambda>_. ret ()))
                   (bindI (peek shared) (sup_TurnState E)) m) (\<lambda>(_, m'). ret m')) m)"

subsection \<open>A request returns, and only its own turn ends it\<close>

lemma emits_TurnState [emits_rules]: "emits (\<lambda>_. True) (sup_TurnState E s)"
  unfolding sup_TurnState_def TurnStateFrom_def latestTranscript_def by (intro emits_rules; simp)

lemma emits_request_round: "emits (\<lambda>_. True) (request_round E shared label before)"
  unfolding request_round_def by (intro emits_rules)

lemma request_poll_pos: "0 < request_poll poll"
  by (simp add: request_poll_def)

lemma request_round_done:
  assumes "request_round E shared label before h = (Inr (Inr ()), h')"
  shows "\<exists>state. sup_TurnState E (shared h) h = (Inr state, h') \<and> ts_Kind state = Completed \<and> EndedAt state \<noteq> EndedAt before"
  using assms
  by (auto simp: request_round_def bindI_def peek_def ret_def split: prod.splits sum.splits if_splits)

text \<open>C38. A request returns, and it succeeds only on a turn of its own.  Given a clock that advances
  with sleep, the wait ends within the rounds that fit the deadline, whatever the transcript does; and
  when it reports success, then the prompt was delivered after the first reading of the turn, and a later
  reading found a completed turn whose end differs from that first one.\<close>
theorem request_returns_on_its_own_turn:
  assumes "ticking E" and "session_Request (request_fuel timeout poll) E shared label prompt timeout poll h = (r, h')"
  shows "\<exists>res. r = Some res \<and>
    (res = Inr () \<longrightarrow>
      (\<exists>before h1 h2 evs state. sup_TurnState E (shared h) h = (Inr before, h1) \<and> SendInput E (shared h1) prompt h1 = (None, h2) \<and>
        sup_TurnState E (shared (h2 @ evs)) (h2 @ evs) = (Inr state, h') \<and>
        ts_Kind state = Completed \<and> EndedAt state \<noteq> EndedAt before))"
proof -
  obtain r1 h1 where t: "sup_TurnState E (shared h) h = (r1, h1)" by (cases "sup_TurnState E (shared h) h")
  show ?thesis
  proof (cases r1)
    case (Inl e)
    then show ?thesis using assms(2) t by (auto simp: session_Request_def bindI_def peek_def ret_def)
  next
    case (Inr before)
    obtain sent h2 where s: "SendInput E (shared h1) prompt h1 = (sent, h2)" by (cases "SendInput E (shared h1) prompt h1")
    show ?thesis
    proof (cases sent)
      case (Some e)
      then show ?thesis using assms(2) t Inr s by (auto simp: session_Request_def bindI_def peek_def ret_def)
    next
      case None
      let ?p = "request_poll poll" and ?d = "s_now E h2 + timeout" and ?n = "nat (timeout div request_poll poll + 1)"
      have run: "poll_loop (Suc ?n) E ?d ?p (\<lambda>_. None) (request_late label timeout) (request_round E shared label before) h2 = (r, h')"
        using assms(2) t Inr s None by (simp add: session_Request_def request_fuel_def bindI_def peek_def snow_def del: poll_loop.simps)
      have "?d - s_now E h2 \<le> int ?n * ?p" using fuel_covers [OF request_poll_pos] by simp
      from poll_loop_returns [OF assms(1) emits_request_round _ this] request_poll_pos
      obtain res where r: "r = Some res" using run by (metis less_imp_le prod.inject)
      have "\<exists>evs state. sup_TurnState E (shared (h2 @ evs)) (h2 @ evs) = (Inr state, h') \<and>
          ts_Kind state = Completed \<and> EndedAt state \<noteq> EndedAt before" if "res = Inr ()"
      proof -
        have "poll_loop (Suc ?n) E ?d ?p (\<lambda>_. None) (request_late label timeout) (request_round E shared label before) h2 = (Some (Inr ()), h')"
          using run r that by simp
        from poll_loop_result [OF this _ _ emits_request_round]
        obtain evs where "request_round E shared label before (h2 @ evs) = (Inr (Inr ()), h')"
          by (auto simp: request_late_def)
        from request_round_done [OF this] show ?thesis by blast
      qed
      then show ?thesis using r t Inr s None by blast
    qed
  qed
qed

text \<open>A session that crashed reports no end.  Where the first reading had none either, the wait takes the
  crash for the state it started from and goes on.\<close>

theorem crash_before_the_first_turn_is_waited_out:
  assumes "EndedAt before = []" and "failure (shared h) \<noteq> []"
  shows "request_round E shared label before h = (Inl TurnFailed, h)"
  using assms by (simp add: request_round_def sup_TurnState_def turn_state_def bindI_def peek_def ok_def ret_def)

subsection \<open>Quota readings cross the Pod boundary\<close>

definition reading_of :: "sup_UsageSnapshot \<Rightarrow> UsageSnapshot" where
  "reading_of u =
     \<lparr>us_Kind = su_Kind u, Group = su_Group u, RemainingPercent = su_RemainingPercent u, ResetsAt = su_ResetsAt u,
      us_Model = su_Model u, us_Active = su_Active u\<rparr>"

lemma decode_usage_json: "decode_struct usage_fields (Some (usage_json u)) usage0 = Some (reading_of u)"
  by (cases "su_ResetsAt u = []"; cases "su_Model u = []")
     (simp_all add: usage_json_def opt_string_def decode_struct_def find_setter_def usage_fields_def usage0_def reading_of_def
        EqualFold_def ToLower_def lower_char_def is_upper_def)

lemma decode_usage_list: "decode_usage (Some (JList (map usage_json us))) = Some (map reading_of us)"
proof -
  have "those (map (\<lambda>u. Some (reading_of u)) us) = Some (map reading_of us)" by (induction us) simp_all
  then show ?thesis by (simp add: decode_usage_json o_def)
qed

lemma snapshot_of_remaining: "u \<in> set (snapshot_of t l) \<Longrightarrow> su_RemainingPercent u = 100 - UsedPercent u \<and> lim_Percent l = Some (UsedPercent u)"
  by (auto simp: snapshot_of_def split: option.splits)

lemma Usage_remaining:
  assumes "Usage E dir h = (Inr us, h')" and "u \<in> set us"
  shows "su_RemainingPercent u = 100 - UsedPercent u"
  using assms snapshot_of_remaining
  by (auto simp: Usage_def bindI_def sFile_def call_def ok_def fail_def ret_def split: sum.splits if_splits option.splits prod.splits)

text \<open>The controller reads the quota windows that the supervisor published.  What \<^verbatim>\<open>/usage\<close>
  answers with 200 decodes on the controller's side to the same windows in the same order, each with its
  name, group, model, reset time and activity, and with what remains equal to 100 less what is used.\<close>
theorem quota_readings_cross:
  assumes "usage_endpoint E hl h = (reply, h')" and "sr_Status reply = 200"
  shows "\<exists>us. Usage E (he_ConfigDir hl) h = (Inr us, h') \<and> decode_usage (sr_Body reply) = Some (map reading_of us) \<and>
    (\<forall>u \<in> set us. RemainingPercent (reading_of u) = 100 - UsedPercent u)"
proof -
  obtain r h1 where u: "Usage E (he_ConfigDir hl) h = (r, h1)" by (cases "Usage E (he_ConfigDir hl) h")
  then obtain us where r: "r = Inr us" "reply = writeJSONResponse 200 (JList (map usage_json us))" "h1 = h'"
    using assms by (auto simp: usage_endpoint_def bindI_def ret_def error_reply_def writeJSONResponse_def split: sum.splits)
  have "decode_usage (sr_Body reply) = Some (map reading_of us)"
    unfolding r(2) writeJSONResponse_def by (simp del: decode_usage.simps add: decode_usage_list)
  then show ?thesis using u r(1,3) Usage_remaining [of E "he_ConfigDir hl" h us h'] by (auto simp: reading_of_def)
qed

definition usage_json0 :: Json where
  "usage_json0 = JObject [(''cachedUsageUtilization'', JObject [(''fetchedAtMs'', JInt 5), (''utilization'', JObject [(''limits'',
     JList [JObject [(''kind'', JString ''session''), (''group'', JString ''session''), (''percent'', JInt 40), (''is_active'', JBool True)],
            JObject [(''kind'', JString ''weekly''), (''percent'', JNull)]])])])]"

definition usage_senv :: SEnv where
  "usage_senv = senv0\<lparr>s_file := (\<lambda>h op. Inr ''{}''), s_Unmarshal := (\<lambda>s. Some usage_json0)\<rparr>"

theorem quota_readings_cross_witness:
  "decode_usage (sr_Body (fst (usage_endpoint usage_senv \<lparr>he_ConfigDir = ''/c'', he_Source = [], unusable = []\<rparr> []))) =
     Some [\<lparr>us_Kind = ''session'', Group = ''session'', RemainingPercent = 60, ResetsAt = [], us_Model = [], us_Active = True\<rparr>]"
proof -
  let ?h = "\<lparr>he_ConfigDir = ''/c'', he_Source = [], unusable = []\<rparr>"
  obtain reply h' where run: "usage_endpoint usage_senv ?h [] = (reply, h')" by (cases "usage_endpoint usage_senv ?h []")
  have state: "decode_struct claudeState_fields (Some usage_json0) None =
      Some (Some (5, Some [limit0\<lparr>lim_Kind := ''session'', lim_Group := ''session'', lim_Percent := Some 40, lim_IsActive := True\<rparr>,
        limit0\<lparr>lim_Kind := ''weekly''\<rparr>]))"
    by code_simp
  have u: "fst (Usage usage_senv ''/c'' []) = Inr [\<lparr>su_Kind = ''session'', su_Group = ''session'', UsedPercent = 40,
      su_RemainingPercent = 60, su_ResetsAt = [], su_Model = [], su_Active = True, FetchedAt = Itoa 5000000\<rparr>]"
    using state by (simp add: Usage_def usage_senv_def senv0_def bindI_def sFile_def call_def ok_def ret_def snapshot_of_def limit0_def)
  have "sr_Status reply = 200"
    using run u by (auto simp: usage_endpoint_def bindI_def ret_def writeJSONResponse_def split: prod.splits sum.splits)
  from quota_readings_cross [OF run this] show ?thesis using u run by (auto simp: reading_of_def)
qed

subsection \<open>The verdict of the probe\<close>

text \<open>The files a probe's verdict touches.\<close>

definition mark_event :: "string \<Rightarrow> SEvent \<Rightarrow> bool" where
  "mark_event p e \<longleftrightarrow> (\<exists>d r. e = SvFile (WriteFile p d) r) \<or> (\<exists>r. e = SvFile (Remove p) r)"

lemma emits_verdict:
  assumes "markPath hl \<noteq> []"
  shows "emits (mark_event (markPath hl)) (MarkUnusable E hl d)" "emits (mark_event (markPath hl)) (ClearUnusable E hl)"
  unfolding MarkUnusable_def ClearUnusable_def using assms by (intro emits_rules; auto simp: mark_event_def)+

lemma MarkUnusable_state: "MarkUnusable E hl d h = (hl', h') \<Longrightarrow> hl' = hl\<lparr>unusable := d\<rparr>"
  by (auto simp: MarkUnusable_def bindI_def ret_def split: prod.splits)

text \<open>A failed probe keeps work away from the workspace, whatever happens to the volume or to the
  notification.  Once \<^verbatim>\<open>AuthProbe\<close> has returned an error, \<^verbatim>\<open>/health\<close> of that process answers
  from then on, at any later history, that the workspace is unusable, with the error as the reason.\<close>
theorem failed_probe_is_reported:
  assumes "AuthProbe n E shared hl cfg h = (Some (Inl e, hl'), h')" and "Error e \<noteq> []"
  shows "fst (health_endpoint E hl' h'') = writeJSONResponse 200 (JObject [(''usable'', JBool False), (''detail'', JString (Error e))])"
proof -
  have "unusable hl' = Error e"
    using assms(1)
    by (auto simp: AuthProbe_def Let_def bindI_def ret_def split: prod.splits option.splits sum.splits dest!: MarkUnusable_state)
  then show ?thesis using assms(2) by (simp add: health_endpoint_def health_Status_def bindI_def ret_def)
qed

theorem failed_probe_is_reported_witness:
  "let (r, h') = AuthProbe 1 senv0 (\<lambda>h. supervisor0\<lparr>failure := ''exit status 1''\<rparr>) \<lparr>he_ConfigDir = ''/c'', he_Source = [], unusable = []\<rparr>
     \<lparr>pc_Prompt = ''ok'', pc_Timeout = 0, pc_Poll = 0, Settle = 0, pc_Workspace = ''w'', HermesURL = []\<rparr> []
   in \<exists>e hl'. r = Some (Inl e, hl') \<and> sr_Body (fst (health_endpoint senv0 hl' h')) =
     Some (JObject [(''usable'', JBool False), (''detail'', JString (Error e))])"
proof -
  let ?shared = "\<lambda>h. supervisor0\<lparr>failure := ''exit status 1''\<rparr>"
  let ?hl = "\<lparr>he_ConfigDir = ''/c'', he_Source = [], unusable = []\<rparr>"
  let ?cfg = "\<lparr>pc_Prompt = ''ok'', pc_Timeout = 0, pc_Poll = 0, Settle = 0, pc_Workspace = ''w'', HermesURL = []\<rparr>"
  have tmux: "tmux_run senv0 t x h = (Inr [], h @ [SvExec [] (tmux_args t x) [] ([], None)])" for t x h
    by (simp add: tmux_run_def sExec_def senv0_def bindI_def call_def ok_def ret_def)
  have none: "parseClients senv0 [] = Inr []" by (simp add: parseClients_def TrimRightP_def)
  have sent: "fst (SendInput senv0 (supervisor0\<lparr>failure := f\<rparr>) t h) = None" for f t h
    by (simp add: SendInput_def SendInputFrom_def HasSession_def tmux sup_ListClients_def tmux_ListClients_def none heldClients_def
        sort_Slice_def firstWritableOther_def SyncClaudeMD_def SendText_def supervisor0_def bindI_def tryE_def ok_def ret_def)
       (simp add: sExec_def senv0_def call_def)
  have turn: "sup_TurnState senv0 (supervisor0\<lparr>failure := ''exit status 1''\<rparr>) h = (Inr ((turn_state TurnFailed)\<lparr>ts_Detail := ''exit status 1''\<rparr>), h)" for h
    by (simp add: sup_TurnState_def ok_def ret_def)
  have waiting: "request_round senv0 ?shared ''auth probe'' ((turn_state TurnFailed)\<lparr>ts_Detail := ''exit status 1''\<rparr>) h = (Inl TurnFailed, h)" for h
    by (simp add: request_round_def bindI_def peek_def turn ret_def turn_state_def)
  have "fst (session_Request 1 senv0 ?shared ''auth probe'' ''ok'' 0 0 h) = Some (request_late ''auth probe'' 0 TurnFailed)" for h
  proof -
    obtain h2 where s: "SendInput senv0 (supervisor0\<lparr>failure := ''exit status 1''\<rparr>) ''ok'' h = (None, h2)" using sent by (metis prod.collapse)
    show ?thesis
      by (simp add: session_Request_def bindI_def peek_def turn s snow_def waiting ret_def)
  qed
  then have late: "\<exists>h'. session_Request 1 senv0 ?shared ''auth probe'' ''ok'' 0 0 h = (Some (request_late ''auth probe'' 0 TurnFailed), h')" for h
    by (metis prod.collapse)
  obtain e where e: "request_late ''auth probe'' 0 TurnFailed = Inl e" "Error e \<noteq> []" by (simp add: request_late_def)
  obtain h1 where req: "session_Request (Suc 0) senv0 ?shared ''auth probe'' ''ok'' 0 0 [SvSleep 0] = (Some (Inl e), h1)"
    using late [of "[SvSleep 0]"] e(1) by auto
  have "\<exists>hl' h'. AuthProbe 1 senv0 ?shared ?hl ?cfg [] = (Some (Inl e, hl'), h')"
    by (auto simp add: AuthProbe_def runProbe_def Let_def bindI_def sSleep_def call_def ret_def req split: prod.splits)
  then obtain hl' h' where run: "AuthProbe 1 senv0 ?shared ?hl ?cfg [] = (Some (Inl e, hl'), h')" by blast
  from failed_probe_is_reported [OF run e(2), of h'] show ?thesis unfolding run by (simp add: writeJSONResponse_def)
qed

subsection \<open>Model mismatches\<close>

definition model_run :: "ModelMonitor \<Rightarrow> string list \<Rightarrow> ModelMonitor \<times> SupEvent list" where
  "model_run m xs = foldl (\<lambda>(m, evs) a. case model_step m a of (m', None) \<Rightarrow> (m', evs) | (m', Some e) \<Rightarrow> (m', evs @ [e])) (m, []) xs"

lemma model_run_snoc:
  "model_run m (xs @ [a]) = (case model_run m xs of (m', evs) \<Rightarrow> case model_step m' a of (m'', None) \<Rightarrow> (m'', evs) | (m'', Some e) \<Rightarrow> (m'', evs @ [e]))"
  by (simp add: model_run_def split: prod.splits)

text \<open>A switched model is reported once.  Over any readings that name no model or name one and the same
  model that does not answer to the configured name, exactly one report is sent, at the first of them;
  the readings between, which carry no model, do not make it be sent again.\<close>
theorem mismatch_reported_once:
  assumes "\<not> modelMatches (mm_Expected m) a" and "a \<noteq> []" and "a \<noteq> syntheticModel" and "reported m \<noteq> a"
    and "set xs \<subseteq> {a, [], syntheticModel}"
  shows "snd (model_run m xs) = (if a \<in> set xs then [mismatch_event m a] else [])"
proof -
  have "model_run m xs = (if a \<in> set xs then (m\<lparr>reported := a\<rparr>, [mismatch_event m a]) else (m, []))"
    using assms(5)
  proof (induction xs rule: rev_induct)
    case Nil
    then show ?case by (simp add: model_run_def)
  next
    case (snoc x xs)
    then show ?case using assms(1-4) by (auto simp: model_run_snoc model_step_def mismatch_event_def)
  qed
  then show ?thesis by simp
qed

theorem mismatch_reported_once_witness:
  "snd (model_run \<lparr>mm_Expected = ''opus'', mm_Workspace = ''w'', reported = []\<rparr> [[], ''claude-haiku-4'', [], ''claude-haiku-4'']) =
     [mismatch_event \<lparr>mm_Expected = ''opus'', mm_Workspace = ''w'', reported = []\<rparr> ''claude-haiku-4'']"
proof -
  let ?m = "\<lparr>mm_Expected = ''opus'', mm_Workspace = ''w'', reported = []\<rparr>"
  have "\<not> modelMatches (mm_Expected ?m) ''claude-haiku-4''" "''claude-haiku-4'' \<noteq> syntheticModel" by code_simp+
  from mismatch_reported_once [OF this(1) _ this(2), of "[[], ''claude-haiku-4'', [], ''claude-haiku-4'']"] show ?thesis by simp
qed

subsection \<open>A crash is on record until the next look at the process\<close>

theorem crash_mark_is_cleared_by_the_next_tick:
  assumes "CheckProcess E (sp_Tmux s) workspace (\<lambda>e (s, _). bindI (NotifyHermes E hermesURL e) (\<lambda>_. ret (SetFailure s (ev_Detail e), True)))
      (s, False) h = ((Inr (), s', False), h')"
  shows "failure (fst (process_tick E workspace hermesURL s h)) = []"
  using assms by (simp add: process_tick_def bindI_def ret_def ClearFailure_def)

text \<open>A session that completes a turn as soon as something is typed into it.\<close>

definition busy_senv :: SEnv where
  "busy_senv = senv0\<lparr>s_now := slept, s_walk := (\<lambda>h p. Inr [(''/c/projects/t.jsonl'', 1)]),
     s_file := (\<lambda>h op. case op of ReadFile p \<Rightarrow> Inr (if list_ex (\<lambda>e. case e of SvExec d a i r \<Rightarrow> i \<noteq> [] | _ \<Rightarrow> False) h then ''t'' else [])
                     | _ \<Rightarrow> Inr []),
     s_Unmarshal := (\<lambda>s. Some (JObject [(''type'', JString ''assistant''), (''timestamp'', JString ''t1''),
        (''message'', JObject [(''model'', JString ''opus''), (''stop_reason'', JString ''end_turn'')])]))\<rparr>"

theorem request_returns_on_its_own_turn_witness:
  "\<exists>h'. session_Request (request_fuel 0 0) busy_senv (\<lambda>h. supervisor0) ''probe'' ''ok'' 0 0 [] = (Some (Inr ()), h') \<and>
    (\<exists>before h1 h2 evs state. sup_TurnState busy_senv supervisor0 [] = (Inr before, h1) \<and> SendInput busy_senv supervisor0 ''ok'' h1 = (None, h2) \<and>
        sup_TurnState busy_senv supervisor0 (h2 @ evs) = (Inr state, h') \<and> ts_Kind state = Completed \<and> EndedAt state \<noteq> EndedAt before)"
proof -
  let ?E = busy_senv
  have tick: "ticking ?E" by (rule ticking_slept) (simp add: busy_senv_def)
  have tmux: "tmux_run ?E t x h = (Inr [], h @ [SvExec [] (tmux_args t x) [] ([], None)])" for t x h
    by (simp add: tmux_run_def sExec_def busy_senv_def senv0_def bindI_def call_def ok_def ret_def)
  have none: "parseClients ?E [] = Inr []" by (simp add: parseClients_def TrimRightP_def)
  have line: "advance_line ?E ''t'' = Some ((turn_state Completed)\<lparr>ts_Model := ''opus'', EndedAt := ''t1''\<rparr>)"
    unfolding advance_line_def busy_senv_def by simp code_simp
  have lines: "scan_lines ''t'' = [''t'']" "scan_lines [] = []" "Split newline ''t'' = [''t'']" "Split newline [] = [[]]" by code_simp+
  define typed where "typed h = list_ex (\<lambda>e. case e of SvExec d a i r \<Rightarrow> i \<noteq> [] | _ \<Rightarrow> False) h" for h :: "SEvent list"
  let ?text = "\<lambda>h. if typed h then ''t'' else []"
  have walk: "\<exists>ev. latestTranscript ?E ''/c'' h = (Inr ''/c/projects/t.jsonl'', h @ [ev])" for h
  proof -
    have "HasSuffix ''/c/projects/t.jsonl'' ''.jsonl''" by code_simp
    then show ?thesis
      by (simp add: latestTranscript_def bindI_def sWalk_def call_def busy_senv_def ok_def ret_def pick_newest_def)
  qed
  have content: "\<exists>ev. sFile ?E (ReadFile ''/c/projects/t.jsonl'') h = (Inr (?text h), h @ [ev])" for h
    by (simp add: sFile_def call_def busy_senv_def typed_def)
  have short: "\<not> list_ex (\<lambda>l. length l \<ge> max_line) (Split newline (?text h))" for h
    by (simp only: lines if_distrib [of "Split newline"] split: if_splits) (simp add: max_line_def)
  have folded: "fold_lines ?E (turn_state Idle) (scan_lines (?text h)) = (if typed h
      then (turn_state Completed)\<lparr>ts_Model := ''opus'', EndedAt := ''t1''\<rparr> else turn_state Idle)" for h
    by (simp only: lines if_distrib [of scan_lines] split: if_splits) (simp add: fold_lines_def line)
  have grown: "typed (h @ [ev]) = typed h" if "latestTranscript ?E ''/c'' h = (r, h @ [ev])" for h r ev
    using that by (auto simp: latestTranscript_def bindI_def sWalk_def call_def busy_senv_def ok_def ret_def typed_def)
  have turn: "\<exists>h'. sup_TurnState ?E supervisor0 h = (Inr (if typed h
      then (turn_state Completed)\<lparr>ts_Model := ''opus'', EndedAt := ''t1''\<rparr> else turn_state Idle), h') \<and> typed h' = typed h" for h
  proof -
    obtain ev where w: "latestTranscript ?E ''/c'' h = (Inr ''/c/projects/t.jsonl'', h @ [ev])" using walk by blast
    note g = grown [OF w]
    obtain ev' where f: "sFile ?E (ReadFile ''/c/projects/t.jsonl'') (h @ [ev]) = (Inr (?text h), (h @ [ev]) @ [ev'])"
      using content [of "h @ [ev]"] unfolding g by blast
    have "typed ((h @ [ev]) @ [ev']) = typed h"
      using f g by (auto simp: sFile_def call_def typed_def)
    moreover have "TurnStateFrom ?E ''/c'' h = (Inr (if typed h
      then (turn_state Completed)\<lparr>ts_Model := ''opus'', EndedAt := ''t1''\<rparr> else turn_state Idle), (h @ [ev]) @ [ev'])"
      unfolding TurnStateFrom_def tryE_def bindI_def w by (simp only: prod.case sum.case f short folded if_False ok_def ret_def list.distinct)
    ultimately show ?thesis by (simp add: sup_TurnState_def supervisor0_def)
  qed
  have sent: "\<exists>evs. SendInput ?E supervisor0 ''ok'' h = (None, h @ evs) \<and> typed (h @ evs)" for h
    by (simp add: SendInput_def SendInputFrom_def HasSession_def tmux sup_ListClients_def tmux_ListClients_def none heldClients_def
        sort_Slice_def firstWritableOther_def SyncClaudeMD_def SendText_def supervisor0_def bindI_def tryE_def ok_def ret_def)
       (simp add: sExec_def busy_senv_def senv0_def call_def typed_def TrimSuffix_def)
  obtain h1 where t1: "sup_TurnState ?E supervisor0 [] = (Inr (turn_state Idle), h1)" using turn [of "[]"] by (auto simp: typed_def [of "[]"])
  obtain evs where s: "SendInput ?E supervisor0 ''ok'' h1 = (None, h1 @ evs)" "typed (h1 @ evs)" using sent by blast
  obtain h3 where t2: "sup_TurnState ?E supervisor0 (h1 @ evs) = (Inr ((turn_state Completed)\<lparr>ts_Model := ''opus'', EndedAt := ''t1''\<rparr>), h3)"
    using turn [of "h1 @ evs"] s(2) by auto
  have run: "session_Request (request_fuel 0 0) ?E (\<lambda>h. supervisor0) ''probe'' ''ok'' 0 0 [] = (Some (Inr ()), h3)"
    by (simp add: session_Request_def request_fuel_def request_poll_def request_round_def bindI_def peek_def ret_def snow_def t1 s(1) t2 turn_state_def)
  from request_returns_on_its_own_turn [OF tick run] run show ?thesis by auto
qed

end
