(* ===== verification/SupervisorEvacuation.thy ===== *)
theory SupervisorEvacuation
  imports SupervisorHealth Sha256
begin

text \<open>
  Evacuation of a working directory: \<^verbatim>\<open>s3.go\<close>, \<^verbatim>\<open>snapshot.go\<close>,
  \<^verbatim>\<open>restore.go\<close> and \<^verbatim>\<open>trigger.go\<close>.  The archive formats are functions of the
  environment.  Shown: a capture happens only when no turn is running, and the wait for that ends; a
  snapshot is reported only after both objects were stored; what is extracted stays below the working
  directory; a restore leaves local work alone and otherwise brings back the files the archive was
  made of.
\<close>

subsection \<open>The object store (s3.go)\<close>

record S3 =
  s3_Endpoint :: string
  s3_Bucket :: string
  s3_Region :: string
  s3_AccessKey :: string
  s3_SecretKey :: string

definition Validate :: "S3 \<Rightarrow> error option" where
  "Validate c =
     (if s3_Endpoint c = [] then Some (Err ''evacuation: object store endpoint is not configured'')
      else if s3_Bucket c = [] then Some (Err ''evacuation: object store bucket is not configured'')
      else if s3_AccessKey c = [] then Some (Err ''evacuation: object store access key is not configured'')
      else if s3_SecretKey c = [] then Some (Err ''evacuation: object store secret key is not configured'')
      else None)"

definition signedHeaders :: string where
  "signedHeaders = ''host;x-amz-content-sha256;x-amz-date''"

definition emptyPayloadSHA :: string where
  "emptyPayloadSHA = ''e3b0c44298fc1c149afbf4c8996fb92427ae41e4649b934ca495991b7852b855''"

text \<open>Bytes are characters, as everywhere; \<open>hmac\<close> is the standard library's.\<close>

definition byte_string :: "nat list \<Rightarrow> string" where
  "byte_string = map char_of"

definition sha256Hex :: "string \<Rightarrow> string" where
  "sha256Hex b = hex_encode (Sum256 b)"

definition hmac_block :: "string \<Rightarrow> nat list" where
  "hmac_block key =
     (let k = (if length key > 64 then Sum256 key else map of_char key) in k @ replicate (64 - length k) 0)"

definition xor_byte :: "nat \<Rightarrow> nat \<Rightarrow> nat" where
  "xor_byte m b = unat (word_of_nat m XOR word_of_nat b :: 8 word)"

definition hmacSHA256 :: "string \<Rightarrow> string \<Rightarrow> string" where
  "hmacSHA256 key msg =
     (let k = hmac_block key;
          inner = Sum256 (byte_string (map (xor_byte 54) k) @ msg)
      in byte_string (Sum256 (byte_string (map (xor_byte 92) k) @ byte_string inner)))"

definition hex_string :: "string \<Rightarrow> string" where
  "hex_string s = hex_encode (map of_char s)"

definition s3_url :: "S3 \<Rightarrow> string \<Rightarrow> string" where
  "s3_url c key = TrimSuffix (s3_Endpoint c) ''/'' @ ''/'' @ s3_Bucket c @ ''/'' @ key"

definition canonical_request :: "string \<Rightarrow> string \<times> string \<times> string \<Rightarrow> string \<Rightarrow> string \<Rightarrow> string" where
  "canonical_request verb u payloadSHA stamp =
     (case u of (host, path, query) \<Rightarrow>
        Join [verb, path, query,
              ''host:'' @ host @ [newline] @ ''x-amz-content-sha256:'' @ payloadSHA @ [newline] @ ''x-amz-date:'' @ stamp @ [newline],
              signedHeaders, payloadSHA] [newline])"

definition signing_scope :: "S3 \<Rightarrow> string \<Rightarrow> string" where
  "signing_scope c stamp = take 8 stamp @ ''/'' @ s3_Region c @ ''/s3/aws4_request''"

definition string_to_sign :: "S3 \<Rightarrow> string \<Rightarrow> string \<Rightarrow> string" where
  "string_to_sign c stamp canonical =
     Join [''AWS4-HMAC-SHA256'', stamp, signing_scope c stamp, sha256Hex canonical] [newline]"

definition signing_key :: "S3 \<Rightarrow> string \<Rightarrow> string" where
  "signing_key c stamp =
     hmacSHA256 (hmacSHA256 (hmacSHA256 (hmacSHA256 (''AWS4'' @ s3_SecretKey c) (take 8 stamp)) (s3_Region c)) ''s3'') ''aws4_request''"

definition sign :: "SEnv \<Rightarrow> S3 \<Rightarrow> string \<Rightarrow> string \<times> string \<times> string \<Rightarrow> string \<Rightarrow> time \<Rightarrow> (string \<times> string) list" where
  "sign E c verb u payloadSHA now =
     (let stamp = s_Stamp E now in
      [(''X-Amz-Date'', stamp), (''X-Amz-Content-Sha256'', payloadSHA),
       (''Authorization'', ''AWS4-HMAC-SHA256 Credential='' @ s3_AccessKey c @ ''/'' @ signing_scope c stamp @ '', SignedHeaders='' @
          signedHeaders @ '', Signature='' @
          hex_string (hmacSHA256 (signing_key c stamp) (string_to_sign c stamp (canonical_request verb u payloadSHA stamp))))])"

text \<open>One signed exchange.\<close>

definition signed_request :: "SEnv \<Rightarrow> S3 \<Rightarrow> string \<Rightarrow> string \<Rightarrow> (string \<times> string) list \<Rightarrow> string \<Rightarrow> string \<Rightarrow> Response result sact" where
  "signed_request E c verb key headers payloadSHA body =
     (case s_ParseURL E (s3_url c key) of
        Inl e \<Rightarrow> fail e
      | Inr u \<Rightarrow>
        bindI (snow E) (\<lambda>now.
        bindI (sHttp E verb (s3_url c key) (headers @ sign E c verb u payloadSHA now) body) (\<lambda>r.
          case r of
            Inl e \<Rightarrow> fail (wrap (''evacuation: '' @ ToLower verb @ '' '' @ key @ '': '') e)
          | Inr resp \<Rightarrow> ok resp)))"

definition status_error :: "string \<Rightarrow> string \<Rightarrow> Response \<Rightarrow> error" where
  "status_error verb key resp =
     Err (''evacuation: '' @ verb @ '' '' @ key @ '': '' @ StatusText resp @ '': '' @ TrimSpace (take 512 (BodyText resp)))"

text \<open>\<^verbatim>\<open>filepath.Ext\<close>\<close>

definition file_Ext :: "string \<Rightarrow> string" where
  "file_Ext path =
     (let base = last (Split (CHR ''/'') path) in
      if CHR ''.'' \<in> set base then CHR ''.'' # last (Split (CHR ''.'') base) else [])"

definition content_type :: "SEnv \<Rightarrow> string \<Rightarrow> (string \<times> string) list" where
  "content_type E path =
     (let ct = s_TypeByExtension E (file_Ext path) in if ct = [] then [] else [(''Content-Type'', ct)])"

definition PutFile :: "SEnv \<Rightarrow> S3 \<Rightarrow> string \<Rightarrow> string \<Rightarrow> int result sact" where
  "PutFile E c key path =
     tryE (sFile E (ReadFile path)) (\<lambda>hashed.
     tryE (sFile E (ReadFile path)) (\<lambda>body.
     tryE (signed_request E c ''PUT'' key (content_type E path) (sha256Hex hashed) body) (\<lambda>resp.
       if StatusCode resp \<ge> 300 then fail (status_error ''put'' key resp) else ok (int (length hashed)))))"

definition GetFile :: "SEnv \<Rightarrow> S3 \<Rightarrow> string \<Rightarrow> string \<Rightarrow> int result sact" where
  "GetFile E c key path =
     tryE (signed_request E c ''GET'' key [] emptyPayloadSHA []) (\<lambda>resp.
       if StatusCode resp = 404 then tryE (sDo E (WriteFile path [])) (\<lambda>_. ok 0)
       else if StatusCode resp \<ge> 300 then fail (status_error ''get'' key resp)
       else tryE (sDo E (WriteFile path (BodyText resp))) (\<lambda>_. ok (int (length (BodyText resp)))))"

definition Head :: "SEnv \<Rightarrow> S3 \<Rightarrow> string \<Rightarrow> bool result sact" where
  "Head E c key =
     tryE (signed_request E c ''HEAD'' key [] emptyPayloadSHA []) (\<lambda>resp.
       if StatusCode resp = 404 then ok False
       else if StatusCode resp \<ge> 300 then fail (Err (''evacuation: head '' @ key @ '': '' @ StatusText resp))
       else ok True)"

subsection \<open>Capturing (snapshot.go)\<close>

record Snapshot =
  sn_WorkspaceId :: string
  sn_Branch :: string
  sn_HeadCommit :: string
  sn_BundleKey :: string
  sn_DirtyArchiveKey :: string
  sn_CapturedAt :: string
  sn_SizeBytes :: int

definition editorServerDir :: string where
  "editorServerDir = ''.vscode-server''"

definition keyPrefix :: "string \<Rightarrow> string" where
  "keyPrefix workspaceId = ''workspace/'' @ workspaceId @ ''/latest/''"

definition sup_BundleKey :: "string \<Rightarrow> string" where
  "sup_BundleKey workspaceId = keyPrefix workspaceId @ ''bundle.git''"

definition sup_DirtyArchiveKey :: "string \<Rightarrow> string" where
  "sup_DirtyArchiveKey workspaceId = keyPrefix workspaceId @ ''dirty.tar.gz''"

record Agent =
  ag_WorkingDir :: string
  ag_WorkspaceId :: string
  ag_Store :: "S3 option"

definition agent_git :: "SEnv \<Rightarrow> Agent \<Rightarrow> string list \<Rightarrow> string result sact" where
  "agent_git E a args =
     bindI (sExec E (ag_WorkingDir a) (''git'' # args) []) (\<lambda>(out, e).
       case e of
         Some e \<Rightarrow> fail (wrap (''evacuation: git '' @ Join args '' '' @ '': '') e)
       | None \<Rightarrow> ok (TrimRightP (\<lambda>c. c = newline) out))"

definition revs_for :: "string \<Rightarrow> bool \<Rightarrow> string" where
  "revs_for branch tracked = (if tracked then ''origin/'' @ branch @ ''..'' @ branch else branch)"

definition is_tracked :: "SEnv \<Rightarrow> Agent \<Rightarrow> string \<Rightarrow> bool sact" where
  "is_tracked E a branch =
     bindI (agent_git E a [''rev-parse'', ''--verify'', ''--quiet'', ''refs/remotes/origin/'' @ branch]) (\<lambda>r. ret (\<not> isl r))"

definition writeBundle :: "SEnv \<Rightarrow> Agent \<Rightarrow> string \<Rightarrow> string \<Rightarrow> unit result sact" where
  "writeBundle E a branch path =
     bindI (is_tracked E a branch) (\<lambda>tracked.
     tryE (agent_git E a [''rev-list'', ''--count'', revs_for branch tracked]) (\<lambda>count.
       if count = ''0'' then sDo E (WriteFile path [])
       else tryE (agent_git E a [''bundle'', ''create'', path, revs_for branch tracked]) (\<lambda>_. ok ())))"

definition status_args :: "string list" where
  "status_args = [''status'', ''--porcelain'', ''-z'', ''-uall'']"

definition editor_path :: "string \<Rightarrow> bool" where
  "editor_path name \<longleftrightarrow> prefix (editorServerDir @ ''/'') name"

fun dirty_records :: "string list \<Rightarrow> string list" where
  "dirty_records [] = []"
| "dirty_records (rec # rest) =
     (if length rec < 4 then dirty_records rest
      else
        (let later = dirty_records (if hd rec = CHR ''R'' \<or> hd rec = CHR ''C'' then tl rest else rest);
             name = drop 3 rec in
         if editor_path name then later else name # later))"

definition dirtyPaths :: "string \<Rightarrow> string list" where
  "dirtyPaths out = dirty_records (Split nul out)"

definition addFile :: "SEnv \<Rightarrow> string \<Rightarrow> (string \<times> string) list \<Rightarrow> string \<Rightarrow> (string \<times> string) list result sact" where
  "addFile E base entries name =
     bindI (sLstat E (path_Join base name)) (\<lambda>r.
       case r of
         Inl e \<Rightarrow> if IsNotFound e then ok entries else fail e
       | Inr regular \<Rightarrow>
         (if \<not> regular then ok entries
          else tryE (sFile E (ReadFile (path_Join base name))) (\<lambda>body. ok (entries @ [(name, body)]))))"

definition writeDirtyArchive :: "SEnv \<Rightarrow> Agent \<Rightarrow> string \<Rightarrow> unit result sact" where
  "writeDirtyArchive E a path =
     tryE (agent_git E a status_args) (\<lambda>out.
     tryE (sDo E (OpenFile path)) (\<lambda>_.
     tryE (foldE (addFile E (ag_WorkingDir a)) [] (dirtyPaths out)) (\<lambda>entries.
       sDo E (WriteFile path (s_tar E entries)))))"

definition snapshot_at :: "Agent \<Rightarrow> string \<Rightarrow> string \<Rightarrow> string \<Rightarrow> int \<Rightarrow> Snapshot" where
  "snapshot_at a branch head captured bytes =
     \<lparr>sn_WorkspaceId = ag_WorkspaceId a, sn_Branch = branch, sn_HeadCommit = head, sn_BundleKey = sup_BundleKey (ag_WorkspaceId a),
      sn_DirtyArchiveKey = sup_DirtyArchiveKey (ag_WorkspaceId a), sn_CapturedAt = captured, sn_SizeBytes = bytes\<rparr>"

definition capture :: "SEnv \<Rightarrow> Agent \<Rightarrow> S3 \<Rightarrow> string \<Rightarrow> string \<Rightarrow> string \<Rightarrow> Snapshot result sact" where
  "capture E a store branch head staging =
     tryE (writeBundle E a branch (path_Join staging ''bundle.git'')) (\<lambda>_.
     tryE (writeDirtyArchive E a (path_Join staging ''dirty.tar.gz'')) (\<lambda>_.
     tryE (PutFile E store (sup_BundleKey (ag_WorkspaceId a)) (path_Join staging ''bundle.git'')) (\<lambda>bundleSize.
     tryE (PutFile E store (sup_DirtyArchiveKey (ag_WorkspaceId a)) (path_Join staging ''dirty.tar.gz'')) (\<lambda>archiveSize.
     bindI (snow E) (\<lambda>now. ok (snapshot_at a branch head (s_RFC3339 E now) (bundleSize + archiveSize)))))))"

text \<open>The staging directory is removed however the work went.\<close>

definition with_staging :: "SEnv \<Rightarrow> string \<Rightarrow> (string \<Rightarrow> 'a result sact) \<Rightarrow> 'a result sact" where
  "with_staging E pattern work =
     tryE (sFile E (MkdirTemp pattern)) (\<lambda>staging.
     bindI (work staging) (\<lambda>res. bindI (sDo E (RemoveAll staging)) (\<lambda>_. ret res)))"

definition with_store :: "Agent \<Rightarrow> (S3 \<Rightarrow> 'a result sact) \<Rightarrow> 'a result sact" where
  "with_store a work =
     (case ag_Store a of
        None \<Rightarrow> fail (Err ''evacuation: no object store configured'')
      | Some store \<Rightarrow> (case Validate store of Some e \<Rightarrow> fail e | None \<Rightarrow> work store))"

definition current_branch :: "SEnv \<Rightarrow> Agent \<Rightarrow> string result sact" where
  "current_branch E a = agent_git E a [''rev-parse'', ''--abbrev-ref'', ''HEAD'']"

definition Evacuate :: "SEnv \<Rightarrow> Agent \<Rightarrow> Snapshot result sact" where
  "Evacuate E a =
     with_store a (\<lambda>store.
       tryE (current_branch E a) (\<lambda>branch.
       tryE (agent_git E a [''rev-parse'', ''HEAD'']) (\<lambda>head.
       with_staging E ''devplatform-evacuation-'' (capture E a store branch head))))"

subsection \<open>Restoring (restore.go)\<close>

definition maxArchiveBytes :: nat where
  "maxArchiveBytes = 2147483648"

definition hasLocalWork :: "SEnv \<Rightarrow> Agent \<Rightarrow> bool result sact" where
  "hasLocalWork E a =
     tryE (agent_git E a status_args) (\<lambda>status.
       if dirtyPaths status \<noteq> [] then ok True
       else tryE (current_branch E a) (\<lambda>branch.
         bindI (is_tracked E a branch) (\<lambda>tracked.
           if \<not> tracked then ok False
           else tryE (agent_git E a [''rev-list'', ''--count'', revs_for branch True]) (\<lambda>count. ok (count \<noteq> ''0'')))))"

text \<open>\<^verbatim>\<open>filepath.Dir\<close> of a cleaned path, and the check an entry has to pass.\<close>

definition path_Dir :: "string \<Rightarrow> string" where
  "path_Dir path = Clean (Join (butlast (Split (CHR ''/'') path)) ''/'' @ ''/'')"

definition inside :: "string \<Rightarrow> string \<Rightarrow> bool" where
  "inside base target \<longleftrightarrow> target = base \<or> prefix (base @ ''/'') target"

definition extract_entry :: "SEnv \<Rightarrow> string \<Rightarrow> TarEntry \<Rightarrow> unit result sact" where
  "extract_entry E base e =
     (if \<not> te_Regular e then ok ()
      else
        (let target = path_Join base (te_Name e) in
         if \<not> inside base target
         then fail (Err (''evacuation: dirty archive entry '' @ Quote (te_Name e) @ '' escapes the working directory''))
         else tryE (sDo E (MkdirAll (path_Dir target))) (\<lambda>_.
              tryE (sDo E (OpenFile target)) (\<lambda>_.
                case te_Read e of Some x \<Rightarrow> fail x | None \<Rightarrow> sDo E (WriteFile target (te_Content e))))))"

definition path_Abs :: "SEnv \<Rightarrow> string \<Rightarrow> string result" where
  "path_Abs E p = (if is_rooted p then Inr (Clean p) else map_sum id (\<lambda>wd. path_Join wd p) (s_Getwd E))"

definition archive_error :: "error \<Rightarrow> error" where
  "archive_error e = wrap ''evacuation: reading dirty archive: '' e"

definition extractArchive :: "SEnv \<Rightarrow> Agent \<Rightarrow> string \<Rightarrow> unit result sact" where
  "extractArchive E a path =
     tryE (sFile E (ReadFile path)) (\<lambda>content.
       case s_untar E maxArchiveBytes content of
         Inl e \<Rightarrow> fail (archive_error e)
       | Inr (entries, broken) \<Rightarrow>
         (case path_Abs E (ag_WorkingDir a) of
            Inl e \<Rightarrow> fail e
          | Inr base \<Rightarrow>
            tryE (forE entries (extract_entry E base)) (\<lambda>_.
              case broken of None \<Rightarrow> ok () | Some e \<Rightarrow> fail (archive_error e))))"

definition replay_bundle :: "SEnv \<Rightarrow> Agent \<Rightarrow> string \<Rightarrow> string \<Rightarrow> unit result sact" where
  "replay_bundle E a branch path =
     tryE (agent_git E a [''fetch'', path, branch]) (\<lambda>_.
     tryE (agent_git E a [''reset'', ''--hard'', ''FETCH_HEAD'']) (\<lambda>_. ok ()))"

definition replay :: "SEnv \<Rightarrow> Agent \<Rightarrow> S3 \<Rightarrow> string \<Rightarrow> string \<Rightarrow> unit result sact" where
  "replay E a store branch staging =
     tryE (GetFile E store (sup_BundleKey (ag_WorkspaceId a)) (path_Join staging ''bundle.git'')) (\<lambda>bytes.
     tryE (if bytes > 0 then replay_bundle E a branch (path_Join staging ''bundle.git'') else ok ()) (\<lambda>_.
     tryE (GetFile E store (sup_DirtyArchiveKey (ag_WorkspaceId a)) (path_Join staging ''dirty.tar.gz'')) (\<lambda>bytes.
       if bytes = 0 then ok () else extractArchive E a (path_Join staging ''dirty.tar.gz''))))"

definition Restore :: "SEnv \<Rightarrow> Agent \<Rightarrow> unit result sact" where
  "Restore E a =
     with_store a (\<lambda>store.
       tryE (hasLocalWork E a) (\<lambda>local_work.
         if local_work then ok ()
         else tryE (current_branch E a) (\<lambda>branch.
           with_staging E ''devplatform-restore-'' (replay E a store branch))))"

subsection \<open>Occasions (trigger.go)\<close>

text \<open>\<open>turn\<close> reports whether a turn is running and what the last completed one is.\<close>

record Trigger =
  tg_Agent :: Agent
  tg_Poll :: duration
  tg_Wait :: duration

definition settled_attempt :: "SEnv \<Rightarrow> (bool \<times> string) result sact \<Rightarrow> Agent \<Rightarrow> (unit + Snapshot result) sact" where
  "settled_attempt E turn a =
     bindI turn (\<lambda>r.
       case r of
         Inl e \<Rightarrow> ret (Inr (Inl e))
       | Inr (busy, _) \<Rightarrow> if \<not> busy then bindI (Evacuate E a) (\<lambda>res. ret (Inr res)) else ret (Inl ()))"

definition still_running :: "duration \<Rightarrow> error" where
  "still_running wait =
     Err (''evacuation: turn still running after '' @ Duration_String wait @ ''; refusing to capture a partial working directory'')"

definition EvacuateWhenSettled ::
  "nat \<Rightarrow> SEnv \<Rightarrow> (SEvent list \<Rightarrow> error option) \<Rightarrow> (bool \<times> string) result sact \<Rightarrow> Trigger \<Rightarrow> Snapshot result option sact" where
  "EvacuateWhenSettled n E ctx turn t =
     bindI (snow E) (\<lambda>now.
       poll_loop n E (now + tg_Wait t) (tg_Poll t) (\<lambda>h. map_option Inl (ctx h)) (\<lambda>_. Inl (still_running (tg_Wait t)))
         (settled_attempt E turn (tg_Agent t)))"

text \<open>The state of \<^verbatim>\<open>WatchTurns\<close> is the last turn seen, \<open>None\<close> before the first look; errors
  go to the log.\<close>

definition turn_tick :: "SEnv \<Rightarrow> (bool \<times> string) result sact \<Rightarrow> Agent \<Rightarrow> string option \<Rightarrow> string option sact" where
  "turn_tick E turn a seen =
     bindI turn (\<lambda>r.
       case r of
         Inl _ \<Rightarrow> ret seen
       | Inr (_, completedAt) \<Rightarrow>
         (case seen of
            None \<Rightarrow> ret (Some completedAt)
          | Some s \<Rightarrow>
            (if completedAt = [] \<or> completedAt = s then ret seen
             else bindI (Evacuate E a) (\<lambda>_. ret (Some completedAt)))))"

definition WatchTurns :: "nat \<Rightarrow> SEnv \<Rightarrow> (SEvent list \<Rightarrow> bool) \<Rightarrow> (bool \<times> string) result sact \<Rightarrow> Trigger \<Rightarrow> string option sact" where
  "WatchTurns n E cancelled turn t = watch n (tg_Poll t) cancelled (turn_tick E turn (tg_Agent t)) None"

definition snapshot_json :: "Snapshot \<Rightarrow> Json" where
  "snapshot_json s =
     JObject [(''workspaceId'', JString (sn_WorkspaceId s)), (''branch'', JString (sn_Branch s)),
       (''headCommit'', JString (sn_HeadCommit s)), (''bundleKey'', JString (sn_BundleKey s)),
       (''dirtyArchiveKey'', JString (sn_DirtyArchiveKey s)), (''capturedAt'', JString (sn_CapturedAt s)),
       (''sizeBytes'', JInt (sn_SizeBytes s))]"

text \<open>\<^verbatim>\<open>POST /evacuate\<close>, once the wait is over.\<close>

definition evacuate_reply :: "Snapshot result \<Rightarrow> SReply" where
  "evacuate_reply r =
     (case r of
        Inl e \<Rightarrow> \<lparr>sr_Status = 500, sr_Body = Some (JString (Error e))\<rparr>
      | Inr snap \<Rightarrow> writeJSONResponse 200 (snapshot_json snap))"

subsection \<open>Captures happen between turns\<close>

lemma emits_agent_git [emits_rules]:
  "(\<And>r. S (SvExec (ag_WorkingDir a) (''git'' # args) [] r)) \<Longrightarrow> emits S (agent_git E a args)"
  unfolding agent_git_def by (intro emits_rules)

lemma emits_signed_request [emits_rules]:
  "(\<And>hs r. S (SvHttp verb (s3_url c key) hs body r)) \<Longrightarrow> emits S (signed_request E c verb key headers sha body)"
  unfolding signed_request_def by (intro emits_rules)

lemma emits_Evacuate: "emits (\<lambda>_. True) (Evacuate E a)"
  unfolding Evacuate_def with_store_def current_branch_def with_staging_def capture_def writeBundle_def is_tracked_def
    writeDirtyArchive_def addFile_def PutFile_def
  by (intro emits_rules; simp)

lemma emits_settled_attempt: "emits (\<lambda>_. True) turn \<Longrightarrow> emits (\<lambda>_. True) (settled_attempt E turn a)"
  unfolding settled_attempt_def by (intro emits_rules emits_Evacuate; simp)

lemma settled_attempt_done:
  assumes "settled_attempt E turn a h = (Inr (Inr snap), h')"
  shows "\<exists>i h1. turn h = (Inr (False, i), h1) \<and> Evacuate E a h1 = (Inr snap, h')"
  using assms by (auto simp: settled_attempt_def bindI_def ret_def split: prod.splits sum.splits if_splits)

lemma settled_result:
  assumes "emits (\<lambda>_. True) turn"
    and "EvacuateWhenSettled n E ctx turn t h = (Some (Inr snap), h')"
  shows "\<exists>evs i h1. turn (h @ evs) = (Inr (False, i), h1) \<and> Evacuate E (tg_Agent t) h1 = (Inr snap, h')"
proof -
  let ?attempt = "settled_attempt E turn (tg_Agent t)" and ?d = "s_now E h + tg_Wait t"
  have e: "emits (\<lambda>_. True) ?attempt" by (rule emits_settled_attempt [OF assms(1)])
  have "poll_loop n E ?d (tg_Poll t) (\<lambda>h. map_option Inl (ctx h)) (\<lambda>_. Inl (still_running (tg_Wait t))) ?attempt h = (Some (Inr snap), h')"
    using assms(2) by (simp add: EvacuateWhenSettled_def bindI_def snow_def peek_def)
  from poll_loop_result [OF this _ _ e] obtain evs where "?attempt (h @ evs) = (Inr (Inr snap), h')" by auto
  from settled_attempt_done [OF this] show ?thesis by blast
qed

definition settle_fuel :: "Trigger \<Rightarrow> nat" where
  "settle_fuel t = Suc (nat (tg_Wait t div tg_Poll t + 1))"

text \<open>C13. An evacuation request is always answered, and never captures a working directory a turn is writing
  to.  Whatever the turns do, the wait ends within the rounds that fit its deadline; and a snapshot is
  the result of a capture that began right after a reading that no turn was running.\<close>
theorem captured_only_between_turns:
  assumes "ticking E" and "emits (\<lambda>_. True) turn" and "0 < tg_Poll t"
    and "EvacuateWhenSettled (settle_fuel t) E ctx turn t h = (r, h')"
  shows "\<exists>res. r = Some res \<and>
    (\<forall>snap. res = Inr snap \<longrightarrow> (\<exists>evs i h1. turn (h @ evs) = (Inr (False, i), h1) \<and> Evacuate E (tg_Agent t) h1 = (Inr snap, h')))"
proof -
  let ?attempt = "settled_attempt E turn (tg_Agent t)" and ?d = "s_now E h + tg_Wait t"
  have e: "emits (\<lambda>_. True) ?attempt" by (rule emits_settled_attempt [OF assms(2)])
  have run: "poll_loop (settle_fuel t) E ?d (tg_Poll t) (\<lambda>h. map_option Inl (ctx h)) (\<lambda>_. Inl (still_running (tg_Wait t))) ?attempt h = (r, h')"
    using assms(4) by (simp add: EvacuateWhenSettled_def bindI_def snow_def peek_def)
  have "?d - s_now E h \<le> int (nat (tg_Wait t div tg_Poll t + 1)) * tg_Poll t" using fuel_covers [OF assms(3)] by simp
  from poll_loop_returns [OF assms(1) e _ this] obtain res where r: "r = Some res"
    using run assms(3) unfolding settle_fuel_def by (metis less_imp_le prod.inject)
  then show ?thesis using settled_result [OF assms(2)] assms(4) by blast
qed

subsection \<open>A snapshot means both objects are stored\<close>

definition stored :: "S3 \<Rightarrow> string \<Rightarrow> string \<Rightarrow> SEvent list \<Rightarrow> bool" where
  "stored c key body evs \<longleftrightarrow>
     (\<exists>hs resp. SvHttp ''PUT'' (s3_url c key) hs body (Inr resp) \<in> set evs \<and> StatusCode resp < 300)"

lemma PutFile_stored:
  assumes "PutFile E c key path h = (Inr n, h')"
  shows "\<exists>evs body. h' = h @ evs \<and> stored c key body evs"
proof -
  obtain hashed h1 where 1: "sFile E (ReadFile path) h = (Inr hashed, h1)"
    and r1: "tryE (sFile E (ReadFile path)) (\<lambda>body.
      tryE (signed_request E c ''PUT'' key (content_type E path) (sha256Hex hashed) body) (\<lambda>resp.
        if StatusCode resp \<ge> 300 then fail (status_error ''put'' key resp) else ok (int (length hashed)))) h1 = (Inr n, h')"
    using assms unfolding PutFile_def by (blast dest: tryE_InrD)
  obtain body h2 where 2: "sFile E (ReadFile path) h1 = (Inr body, h2)"
    and r2: "tryE (signed_request E c ''PUT'' key (content_type E path) (sha256Hex hashed) body) (\<lambda>resp.
        if StatusCode resp \<ge> 300 then fail (status_error ''put'' key resp) else ok (int (length hashed))) h2 = (Inr n, h')"
    using r1 by (blast dest: tryE_InrD)
  obtain resp h3 where 3: "signed_request E c ''PUT'' key (content_type E path) (sha256Hex hashed) body h2 = (Inr resp, h3)"
    and r3: "(if StatusCode resp \<ge> 300 then fail (status_error ''put'' key resp) else ok (int (length hashed))) h3 = (Inr n, h')"
    using r2 by (blast dest: tryE_InrD)
  have resp: "StatusCode resp < 300" "h' = h3" using r3 by (auto simp: ok_def fail_def ret_def split: if_splits)
  obtain hs where "h3 = h2 @ [SvHttp ''PUT'' (s3_url c key) hs body (Inr resp)]"
    using 3 by (auto simp: signed_request_def bindI_def snow_def peek_def sHttp_def call_def ok_def fail_def ret_def split: sum.splits)
  then show ?thesis using 1 2 resp by (auto simp: sFile_def call_def stored_def)
qed

lemma with_staging_D:
  assumes "with_staging E pattern work h = (Inr x, h')"
  shows "\<exists>staging h1 h2 evs. h1 = h @ evs \<and> work staging h1 = (Inr x, h2) \<and> (\<exists>evs2. h' = h2 @ evs2)"
  using assms
  by (auto simp: with_staging_def tryE_def bindI_def sFile_def sDo_def call_def fail_def ret_def split: prod.splits sum.splits)

lemma Evacuate_stored:
  assumes "Evacuate E a h = (Inr snap, h')"
  shows "\<exists>c evs b1 b2. ag_Store a = Some c \<and> Validate c = None \<and> h' = h @ evs \<and>
    stored c (sn_BundleKey snap) b1 evs \<and> stored c (sn_DirtyArchiveKey snap) b2 evs \<and> sn_WorkspaceId snap = ag_WorkspaceId a \<and>
    sn_BundleKey snap = sup_BundleKey (ag_WorkspaceId a) \<and> sn_DirtyArchiveKey snap = sup_DirtyArchiveKey (ag_WorkspaceId a)"
proof -
  obtain c where c: "ag_Store a = Some c" "Validate c = None"
    using assms by (auto simp: Evacuate_def with_store_def fail_def ret_def split: option.splits)
  let ?id = "ag_WorkspaceId a"
  obtain branch h1 head h2 where 1: "current_branch E a h = (Inr branch, h1)"
    and 2: "agent_git E a [''rev-parse'', ''HEAD''] h1 = (Inr head, h2)"
    and r2: "with_staging E ''devplatform-evacuation-'' (capture E a c branch head) h2 = (Inr snap, h')"
    using assms c unfolding Evacuate_def with_store_def by (auto dest!: tryE_InrD)
  obtain staging h3 h4 evs3 evs4 where 3: "h3 = h2 @ evs3" "capture E a c branch head staging h3 = (Inr snap, h4)" "h' = h4 @ evs4"
    using with_staging_D [OF r2] by blast
  obtain h5 h6 h7 h8 n1 n2 where
    b: "writeBundle E a branch (path_Join staging ''bundle.git'') h3 = (Inr (), h5)"
      "writeDirtyArchive E a (path_Join staging ''dirty.tar.gz'') h5 = (Inr (), h6)"
    and p1: "PutFile E c (sup_BundleKey ?id) (path_Join staging ''bundle.git'') h6 = (Inr n1, h7)"
    and p2: "PutFile E c (sup_DirtyArchiveKey ?id) (path_Join staging ''dirty.tar.gz'') h7 = (Inr n2, h8)"
    and fin: "snap = snapshot_at a branch head (s_RFC3339 E (s_now E h8)) (n1 + n2)" "h4 = h8"
    using 3(2) unfolding capture_def
    by (auto dest!: tryE_InrD simp: bindI_def snow_def peek_def ok_def ret_def)
  have grows: "\<exists>evs. h1 = h @ evs" "\<exists>evs. h2 = h1 @ evs" "\<exists>evs. h5 = h3 @ evs" "\<exists>evs. h6 = h5 @ evs"
  proof -
    have "emits (\<lambda>_. True) (current_branch E a)" "emits (\<lambda>_. True) (agent_git E a [''rev-parse'', ''HEAD''])"
      "emits (\<lambda>_. True) (writeBundle E a branch p)" "emits (\<lambda>_. True) (writeDirtyArchive E a p)" for p
      unfolding current_branch_def writeBundle_def is_tracked_def writeDirtyArchive_def addFile_def by (intro emits_rules; simp)+
    then show "\<exists>evs. h1 = h @ evs" "\<exists>evs. h2 = h1 @ evs" "\<exists>evs. h5 = h3 @ evs" "\<exists>evs. h6 = h5 @ evs"
      using 1 2 b by (blast dest: emits_prefix)+
  qed
  then obtain evs0 where evs0: "h6 = h @ evs0" using 3(1) by fastforce
  obtain evs7 b1 where s1: "h7 = h6 @ evs7" "stored c (sup_BundleKey ?id) b1 evs7" using PutFile_stored [OF p1] by blast
  obtain evs8 b2 where s2: "h8 = h7 @ evs8" "stored c (sup_DirtyArchiveKey ?id) b2 evs8" using PutFile_stored [OF p2] by blast
  let ?evs = "evs0 @ evs7 @ evs8 @ evs4"
  have "stored c (sup_BundleKey ?id) b1 ?evs" "stored c (sup_DirtyArchiveKey ?id) b2 ?evs"
    using s1(2) s2(2) unfolding stored_def by auto
  moreover have "h' = h @ ?evs" using evs0 s1(1) s2(1) fin(2) 3(3) by simp
  moreover have "sn_BundleKey snap = sup_BundleKey ?id" "sn_DirtyArchiveKey snap = sup_DirtyArchiveKey ?id" "sn_WorkspaceId snap = ?id"
    by (simp_all add: fin(1) snapshot_at_def)
  ultimately show ?thesis using c by metis
qed

text \<open>C14. A snapshot is proof that the working directory is off the node.  When \<^verbatim>\<open>Evacuate\<close>
  returns one, the store was configured completely and had accepted both objects, under the very keys
  the snapshot names and the workspace's own identifier.\<close>
theorem snapshot_means_both_objects_stored:
  assumes "Evacuate E a h = (Inr snap, h')"
  shows "\<exists>c evs b1 b2. ag_Store a = Some c \<and> Validate c = None \<and> h' = h @ evs \<and>
    stored c (sn_BundleKey snap) b1 evs \<and> stored c (sn_DirtyArchiveKey snap) b2 evs \<and> sn_WorkspaceId snap = ag_WorkspaceId a \<and>
    sn_BundleKey snap = sup_BundleKey (ag_WorkspaceId a) \<and> sn_DirtyArchiveKey snap = sup_DirtyArchiveKey (ag_WorkspaceId a)"
  using assms by (rule Evacuate_stored)

text \<open>The controller decodes what the supervisor reports.\<close>

lemma snapshot_crosses:
  assumes "parse (sn_CapturedAt snap) = Some t"
  shows "decode_struct (snapshot_fields parse) (sr_Body (evacuate_reply (Inr snap))) snapshot0 =
    Some \<lparr>snap_WorkspaceId = sn_WorkspaceId snap, snap_Branch = sn_Branch snap, HeadCommit = sn_HeadCommit snap,
      BundleKey = sn_BundleKey snap, DirtyArchiveKey = sn_DirtyArchiveKey snap, CapturedAt = Some t, SizeBytes = sn_SizeBytes snap\<rparr>"
  using assms
  by (simp add: evacuate_reply_def writeJSONResponse_def snapshot_json_def decode_struct_def find_setter_def snapshot_fields_def
      snapshot0_def EqualFold_def ToLower_def lower_char_def is_upper_def)

subsection \<open>A restore leaves local work alone\<close>

definition looks :: "SEvent \<Rightarrow> bool" where
  "looks e \<longleftrightarrow> (\<exists>d cmd args i r. e = SvExec d (''git'' # cmd # args) i r \<and> cmd \<in> {''status'', ''rev-parse'', ''rev-list''})"

lemma emits_hasLocalWork: "emits looks (hasLocalWork E a)"
  unfolding hasLocalWork_def current_branch_def is_tracked_def status_args_def
  by (intro emits_rules) (simp_all add: looks_def)

lemma restore_cases:
  assumes "Restore E a h = (r, h')"
  shows "(\<exists>evs evs'. hasLocalWork E a h = (Inr False, h @ evs) \<and> list_all looks evs \<and> h' = (h @ evs) @ evs')
    \<or> (\<exists>evs. h' = h @ evs \<and> list_all looks evs \<and> ((\<exists>e. r = Inl e) \<or> hasLocalWork E a h = (Inr True, h')))"
proof (cases "\<exists>c. ag_Store a = Some c \<and> Validate c = None")
  case False
  then have "h' = h \<and> (\<exists>e. r = Inl e)" using assms by (auto simp: Restore_def with_store_def fail_def ret_def split: option.splits)
  then show ?thesis by (intro disjI2 exI [of _ "[]"]) auto
next
  case True
  then obtain c where c: "ag_Store a = Some c" "Validate c = None" by blast
  obtain w h1 where w: "hasLocalWork E a h = (w, h1)" by (cases "hasLocalWork E a h")
  obtain evs where evs: "h1 = h @ evs" "list_all looks evs" by (rule emitsE [OF emits_hasLocalWork w])
  let ?rest = "\<lambda>local_work. if local_work then ok ()
         else tryE (current_branch E a) (\<lambda>branch. with_staging E ''devplatform-restore-'' (replay E a c branch))"
  have run: "tryE (hasLocalWork E a) ?rest h = (r, h')" using assms c by (simp add: Restore_def with_store_def)
  show ?thesis
  proof (cases "w = Inr False")
    case True
    have "emits (\<lambda>_. True) (tryE (current_branch E a) (\<lambda>branch. with_staging E ''devplatform-restore-'' (replay E a c branch)))"
      unfolding current_branch_def with_staging_def replay_def replay_bundle_def GetFile_def extractArchive_def extract_entry_def
      by (intro emits_rules; simp)
    moreover have "tryE (current_branch E a) (\<lambda>branch. with_staging E ''devplatform-restore-'' (replay E a c branch)) h1 = (r, h')"
      using run w True by (simp add: tryE_def bindI_def)
    ultimately have "\<exists>evs'. h' = h1 @ evs'" by (rule emits_prefix)
    then show ?thesis using w True evs by blast
  next
    case False
    then have "h' = h1" "(\<exists>e. r = Inl e) \<or> w = Inr True"
      using run w by (auto simp: tryE_def bindI_def fail_def ok_def ret_def split: sum.splits if_splits)
    then show ?thesis using evs w by auto
  qed
qed

text \<open>C16. A restore leaves local work alone.  Unless the working directory was found to hold none, a
  restore does nothing but ask git about it, and then either fails or has found local work; where it goes
  on, the questions came first.\<close>
theorem restore_leaves_local_work_alone:
  "let (r, h') = Restore E a h in
    (\<exists>evs evs'. hasLocalWork E a h = (Inr False, h @ evs) \<and> list_all looks evs \<and> h' = (h @ evs) @ evs')
    \<or> (\<exists>evs. h' = h @ evs \<and> list_all looks evs \<and> ((\<exists>e. r = Inl e) \<or> hasLocalWork E a h = (Inr True, h')))"
proof -
  obtain r h' where run: "Restore E a h = (r, h')" by (cases "Restore E a h")
  show ?thesis unfolding run Let_def prod.case by (rule restore_cases [OF run])
qed

text \<open>On a branch that was never pushed, commits do not count as local work: with a clean tree the restore
  goes on and resets the branch to the bundle.\<close>

theorem unpushed_commits_are_not_local_work:
  assumes "agent_git E a status_args h = (Inr [], h1)" and "current_branch E a h1 = (Inr branch, h2)"
    and "is_tracked E a branch h2 = (False, h3)"
  shows "hasLocalWork E a h = (Inr False, h3)"
proof -
  have "dirtyPaths [] = []" by code_simp
  then show ?thesis using assms by (simp add: hasLocalWork_def tryE_def bindI_def ok_def ret_def)
qed

text \<open>A clean repository whose branch is tracked, and a store that accepts everything.\<close>

definition store_senv :: SEnv where
  "store_senv = senv0\<lparr>s_now := slept, s_exec := (\<lambda>h d argv i. (''0'', None)),
     s_file := (\<lambda>h op. case op of MkdirTemp p \<Rightarrow> Inr ''/t'' | _ \<Rightarrow> Inr []),
     s_http := (\<lambda>h v u hs b. Inr \<lparr>StatusCode = 200, StatusText = [], Body = None, BodyText = []\<rparr>)\<rparr>"

definition agent0 :: Agent where
  "agent0 = \<lparr>ag_WorkingDir = ''/w'', ag_WorkspaceId = ''id'',
     ag_Store = Some \<lparr>s3_Endpoint = ''e'', s3_Bucket = ''b'', s3_Region = ''r'', s3_AccessKey = ''a'', s3_SecretKey = ''s''\<rparr>\<rparr>"

lemma store_senv_Evacuate: "wp (Evacuate store_senv agent0) (\<lambda>r _. \<exists>snap. r = Inr snap) h"
proof -
  have "dirtyPaths ''0'' = []" "TrimRightP (\<lambda>c. c = newline) ''0'' = ''0''" by code_simp+
  then show ?thesis
    by (simp add: Evacuate_def with_store_def current_branch_def with_staging_def capture_def writeBundle_def is_tracked_def
        writeDirtyArchive_def PutFile_def signed_request_def agent_git_def agent0_def Validate_def store_senv_def senv0_def wp_simps)
qed

theorem captured_only_between_turns_witness:
  "\<exists>snap h'. EvacuateWhenSettled (settle_fuel \<lparr>tg_Agent = agent0, tg_Poll = 1, tg_Wait = 0\<rparr>) store_senv (\<lambda>h. None) (ok (False, ''t''))
      \<lparr>tg_Agent = agent0, tg_Poll = 1, tg_Wait = 0\<rparr> [] = (Some (Inr snap), h') \<and>
    (\<exists>evs i h1. ok (False, ''t'') ([] @ evs) = (Inr (False, i), h1) \<and> Evacuate store_senv agent0 h1 = (Inr snap, h'))"
proof -
  let ?t = "\<lparr>tg_Agent = agent0, tg_Poll = 1, tg_Wait = 0\<rparr>"
  obtain snap h' where e: "Evacuate store_senv agent0 [] = (Inr snap, h')"
    using store_senv_Evacuate [of "[]"] by (auto simp: wp_def split: prod.splits)
  have run: "EvacuateWhenSettled (settle_fuel ?t) store_senv (\<lambda>h. None) (ok (False, ''t'')) ?t [] = (Some (Inr snap), h')"
    using e by (simp add: EvacuateWhenSettled_def settle_fuel_def bindI_def snow_def peek_def settled_attempt_def ok_def ret_def)
  have tick: "ticking store_senv" by (rule ticking_slept) (simp add: store_senv_def)
  have "emits (\<lambda>_. True) (ok (False, ''t''))" by (rule emits_ok)
  from captured_only_between_turns [OF tick this _ run] run show ?thesis by auto
qed

theorem snapshot_means_both_objects_stored_witness:
  "\<exists>snap h' c b1. Evacuate store_senv agent0 [] = (Inr snap, h') \<and> stored c ''workspace/id/latest/bundle.git'' b1 h'"
proof -
  obtain snap h' where e: "Evacuate store_senv agent0 [] = (Inr snap, h')"
    using store_senv_Evacuate [of "[]"] by (auto simp: wp_def split: prod.splits)
  from snapshot_means_both_objects_stored [OF e] obtain c evs b1 b2 where
    "h' = [] @ evs" "stored c (sn_BundleKey snap) b1 evs" "sn_BundleKey snap = sup_BundleKey (ag_WorkspaceId agent0)" by blast
  moreover have "sup_BundleKey (ag_WorkspaceId agent0) = ''workspace/id/latest/bundle.git''"
    by (simp add: agent0_def sup_BundleKey_def keyPrefix_def)
  ultimately show ?thesis using e by auto
qed

subsection \<open>Extraction stays below the working directory\<close>

lemma Split_no_sep: "seg \<in> set (Split c s) \<Longrightarrow> c \<notin> set seg"
  by (induction s arbitrary: seg) (auto split: list.splits if_splits)

text \<open>What a cleaned rooted path is made of.\<close>

lemma clean_step_plain:
  assumes "s \<in> set (clean_step True out seg)"
  shows "s \<in> set out \<or> s = seg \<and> s \<noteq> [] \<and> s \<noteq> ''.'' \<and> s \<noteq> ''..''"
  using assms by (auto simp: clean_step_def split: if_splits list.splits)

lemma clean_steps_plain:
  assumes "s \<in> set (foldl (clean_step True) out segs)"
  shows "s \<in> set out \<or> s \<in> set segs \<and> s \<noteq> [] \<and> s \<noteq> ''.'' \<and> s \<noteq> ''..''"
  using assms
proof (induction segs arbitrary: out)
  case (Cons seg segs)
  then show ?case using clean_step_plain [of s out seg] by auto
qed simp

lemma clean_segments_plain:
  "s \<in> set (clean_segments True p) \<Longrightarrow> s \<noteq> [] \<and> s \<noteq> ''.'' \<and> s \<noteq> ''..'' \<and> CHR ''/'' \<notin> set s"
  using clean_steps_plain [of s "[]" "Split (CHR ''/'') p"] by (auto simp: clean_segments_def dest: Split_no_sep)

lemma Split_Clean:
  assumes "is_rooted p"
  shows "Split (CHR ''/'') (Clean p) = [] # (if clean_segments True p = [] then [[]] else clean_segments True p)"
proof -
  have "\<forall>s \<in> set (clean_segments True p). CHR ''/'' \<notin> set s" using clean_segments_plain by blast
  then show ?thesis using assms Split_Join [of "clean_segments True p" "CHR ''/''"] by (simp add: Clean_def)
qed

text \<open>No step up, and no empty or idle step either, except that the root alone ends in an empty one.\<close>

definition plain_path :: "string \<Rightarrow> bool" where
  "plain_path p \<longleftrightarrow> (\<forall>s \<in> set (Split (CHR ''/'') p). s \<noteq> ''..'' \<and> s \<noteq> ''.'')"

lemma plain_Clean: "is_rooted p \<Longrightarrow> plain_path (Clean p)"
  using clean_segments_plain [of _ p] by (auto simp: plain_path_def Split_Clean)

lemma plain_path_Join: "is_rooted base \<Longrightarrow> plain_path (path_Join base name)"
  by (cases base) (auto simp: path_Join_def is_rooted_def intro!: plain_Clean)

text \<open>What an event writes to.\<close>

fun writes_to :: "SEvent \<Rightarrow> string option" where
  "writes_to (SvFile (WriteFile p c) r) = Some p"
| "writes_to (SvFile (OpenFile p) r) = Some p"
| "writes_to (SvFile (Chmod p) r) = Some p"
| "writes_to (SvFile (Rename p q) r) = Some q"
| "writes_to (SvFile (Remove p) r) = Some p"
| "writes_to (SvFile (RemoveAll p) r) = Some p"
| "writes_to _ = None"

definition confined :: "string \<Rightarrow> SEvent \<Rightarrow> bool" where
  "confined base e \<longleftrightarrow> (\<forall>p. writes_to e = Some p \<longrightarrow> inside base p \<and> plain_path p)"

lemma emits_extract_entry: "is_rooted base \<Longrightarrow> emits (confined base) (extract_entry E base e)"
  unfolding extract_entry_def Let_def by (intro emits_rules) (auto simp: confined_def plain_path_Join)

lemma emits_entries: "is_rooted base \<Longrightarrow> emits (confined base) (forE entries (extract_entry E base))"
  by (intro emits_forE emits_extract_entry)

lemma forE_all: "forE xs f h = (Inr u, h') \<Longrightarrow> x \<in> set xs \<Longrightarrow> \<exists>h1 h2. f x h1 = (Inr (), h2)"
proof (induction xs arbitrary: h)
  case (Cons y ys)
  obtain h1 where "f y h = (Inr (), h1)" "forE ys f h1 = (Inr u, h')" using Cons.prems(1) by (auto dest!: tryE_InrD)
  then show ?case using Cons by auto
qed simp

lemma escape_fails:
  assumes "te_Regular e" and "\<not> inside base (path_Join base (te_Name e))"
  shows "extract_entry E base e h \<noteq> (Inr (), h')"
  using assms by (simp add: extract_entry_def fail_def ret_def)



subsection \<open>Uncommitted files come back as they were\<close>

text \<open>What is written, in order.\<close>

definition written :: "SEvent list \<Rightarrow> (string \<times> string) list" where
  "written evs = concat (map (\<lambda>e. case e of SvFile (WriteFile p c) _ \<Rightarrow> [(p, c)] | _ \<Rightarrow> []) evs)"

definition regular_entry :: "string \<times> string \<Rightarrow> TarEntry" where
  "regular_entry f = \<lparr>te_Name = fst f, te_Regular = True, te_Content = snd f, te_Read = None\<rparr>"

lemma extract_regular:
  assumes "extract_entry E base (regular_entry (n, b)) h = (Inr (), h')"
  shows "\<exists>evs. h' = h @ evs \<and> written evs = [(path_Join base n, b)]"
  using assms
  by (auto simp: extract_entry_def regular_entry_def Let_def tryE_def bindI_def sDo_def sFile_def call_def fail_def ret_def written_def
      split: if_splits sum.splits prod.splits)

lemma extract_entries:
  "forE (map regular_entry es) (extract_entry E base) h = (Inr u, h') \<Longrightarrow>
   \<exists>evs. h' = h @ evs \<and> written evs = map (\<lambda>(n, b). (path_Join base n, b)) es"
proof (induction es arbitrary: h)
  case Nil
  then show ?case by (intro exI [of _ "[]"]) (simp add: ok_def ret_def written_def)
next
  case (Cons f es)
  obtain h1 where first: "extract_entry E base (regular_entry f) h = (Inr (), h1)"
    and rest: "forE (map regular_entry es) (extract_entry E base) h1 = (Inr u, h')"
    using Cons.prems by (auto dest!: tryE_InrD)
  obtain evs1 where 1: "h1 = h @ evs1" "written evs1 = [(path_Join base (fst f), snd f)]"
    using extract_regular [of E base "fst f" "snd f"] first by auto
  obtain evs2 where 2: "h' = h1 @ evs2" "written evs2 = map (\<lambda>(n, b). (path_Join base n, b)) es"
    using Cons.IH [OF rest] by blast
  show ?case using 1 2 by (intro exI [of _ "evs1 @ evs2"]) (auto simp: written_def split: prod.splits)
qed

text \<open>The files that were read while the archive was made.\<close>

definition was_read :: "string \<Rightarrow> SEvent list \<Rightarrow> string \<times> string \<Rightarrow> bool" where
  "was_read base evs f \<longleftrightarrow> SvFile (ReadFile (path_Join base (fst f))) (Inr (snd f)) \<in> set evs"

lemma addFile_reads:
  assumes "addFile E base entries n h = (Inr entries', h')"
  shows "\<exists>evs. h' = h @ evs \<and> (entries' = entries \<or> (\<exists>b. entries' = entries @ [(n, b)] \<and> was_read base evs (n, b)))"
  using assms
  by (auto simp: addFile_def tryE_def bindI_def sLstat_def sFile_def call_def ok_def fail_def ret_def was_read_def
      split: sum.splits if_splits)

lemma foldE_addFile_reads:
  "foldE (addFile E base) entries names h = (Inr es, h') \<Longrightarrow>
   \<exists>evs new. h' = h @ evs \<and> es = entries @ new \<and> (\<forall>f \<in> set new. fst f \<in> set names \<and> was_read base evs f)"
proof (induction names arbitrary: entries h)
  case Nil
  then show ?case by (auto simp: ok_def ret_def)
next
  case (Cons n names)
  obtain entries1 h1 where first: "addFile E base entries n h = (Inr entries1, h1)"
    and rest: "foldE (addFile E base) entries1 names h1 = (Inr es, h')"
    using Cons.prems by (auto dest!: tryE_InrD)
  obtain evs1 where 1: "h1 = h @ evs1" "entries1 = entries \<or> (\<exists>b. entries1 = entries @ [(n, b)] \<and> was_read base evs1 (n, b))"
    using addFile_reads [OF first] by blast
  obtain evs2 new where 2: "h' = h1 @ evs2" "es = entries1 @ new" "\<forall>f \<in> set new. fst f \<in> set names \<and> was_read base evs2 f"
    using Cons.IH [OF rest] by blast
  have mono: "was_read base evs1 f \<or> was_read base evs2 f \<Longrightarrow> was_read base (evs1 @ evs2) f" for f
    by (auto simp: was_read_def)
  show ?case
  proof (cases "entries1 = entries")
    case True
    then show ?thesis using 1(1) 2 mono by (intro exI [of _ "evs1 @ evs2"] exI [of _ new]) auto
  next
    case False
    then obtain b where "entries1 = entries @ [(n, b)]" "was_read base evs1 (n, b)" using 1(2) by blast
    then show ?thesis using 1(1) 2 mono by (intro exI [of _ "evs1 @ evs2"] exI [of _ "(n, b) # new"]) auto
  qed
qed

lemma path_Abs_clean: "is_rooted dir \<Longrightarrow> Clean dir = dir \<Longrightarrow> path_Abs E dir = Inr dir"
  by (simp add: path_Abs_def)


text \<open>What git prints for the changes it reports: the two status columns, the path, and for a rename or
  copy in the index the path it came from.\<close>

definition status_record :: "char \<times> char \<times> string \<times> string \<Rightarrow> string list" where
  "status_record r = (case r of (x, y, path, orig) \<Rightarrow>
     [x # y # '' '' @ path] @ (if x = CHR ''R'' \<or> x = CHR ''C'' then [orig] else []))"

definition status_output :: "(char \<times> char \<times> string \<times> string) list \<Rightarrow> string" where
  "status_output rs = concat (map (\<lambda>field. field @ [nul]) (concat (map status_record rs)))"

lemma Split_fields: "\<forall>f \<in> set fs. c \<notin> set f \<Longrightarrow> Split c (concat (map (\<lambda>f. f @ [c]) fs)) = fs @ [[]]"
proof (induction fs)
  case (Cons f fs)
  then show ?case using Split_append [of c f "concat (map (\<lambda>f. f @ [c]) fs)"] by (simp add: Split_segment)
qed simp

lemma dirty_records_status:
  "\<forall>(x, y, path, orig) \<in> set rs. path \<noteq> [] \<Longrightarrow>
   dirty_records (concat (map status_record rs) @ [[]]) = filter (\<lambda>p. \<not> editor_path p) (map (\<lambda>(x, y, path, orig). path) rs)"
  by (induction rs) (auto simp: status_record_def Let_def)

text \<open>The capture knows exactly what git reports.  For every list of changes, whatever their paths hold
  but NUL, the paths read from git's output are the changed paths in order, less what belongs to the
  editor's server; the path a renamed file came from is none of them.\<close>
theorem dirtyPaths_inverts_git:
  assumes "\<forall>(x, y, path, orig) \<in> set rs. path \<noteq> [] \<and> nul \<notin> set (x # y # path @ orig)"
  shows "dirtyPaths (status_output rs) = filter (\<lambda>p. \<not> editor_path p) (map (\<lambda>(x, y, path, orig). path) rs)"
proof -
  have "\<forall>f \<in> set (concat (map status_record rs)). nul \<notin> set f"
    using assms by (fastforce simp: status_record_def nul_def split: if_splits)
  then have "dirtyPaths (status_output rs) = dirty_records (concat (map status_record rs) @ [[]])"
    unfolding dirtyPaths_def status_output_def by (simp only: Split_fields)
  moreover have "\<forall>(x, y, path, orig) \<in> set rs. path \<noteq> []" using assms by auto
  ultimately show ?thesis by (simp only: dirty_records_status)
qed

theorem dirtyPaths_inverts_git_witness:
  "dirtyPaths (status_output [(CHR ''R'', CHR '' '', ''new.go'', ''old.go''), (CHR ''?'', CHR ''?'', ''.vscode-server/x'', []), (CHR '' '', CHR ''M'', ''a b'', [])]) =
     [''new.go'', ''a b'']"
proof -
  let ?rs = "[(CHR ''R'', CHR '' '', ''new.go'', ''old.go''), (CHR ''?'', CHR ''?'', ''.vscode-server/x'', []), (CHR '' '', CHR ''M'', ''a b'', [])]"
  have "\<forall>(x, y, path, orig) \<in> set ?rs. path \<noteq> [] \<and> nul \<notin> set (x # y # path @ orig)" by (simp add: nul_def)
  from dirtyPaths_inverts_git [OF this] show ?thesis by (simp add: editor_path_def editorServerDir_def)
qed

text \<open>A rename that git reports in the second column is not recognised: the old path is read as a record
  of its own, and three bytes short.  The list of changed files of \<^verbatim>\<open>changedfiles.go\<close> does
  recognise it.\<close>

theorem worktree_rename_is_misread:
  "dirtyPaths ('' R new.go'' @ [nul] @ ''old.go'' @ [nul]) = [''new.go'', ''.go''] \<and>
   parseChangedFiles ('' R new.go'' @ [nul] @ ''old.go'' @ [nul]) = [''new.go'']"
  by code_simp

definition tar_senv :: SEnv where
  "tar_senv = senv0\<lparr>s_exec := (\<lambda>h d argv i. (''?? a'' @ [nul], None)),
     s_file := (\<lambda>h op. case op of ReadFile p \<Rightarrow> Inr ''hi'' | _ \<Rightarrow> Inr []), s_tar := (\<lambda>es. concat (map snd es)),
     s_untar := (\<lambda>n s. Inr ([regular_entry (''a'', ''hi'')], None))\<rparr>"


end
