(* ===== verification/SupervisorConfig.thy ===== *)
theory SupervisorConfig
  imports SupervisorHealth
begin

text \<open>
  What a repository declares about itself, and its database: \<^verbatim>\<open>repocfg/config.go\<close> and
  \<^verbatim>\<open>dbboot/dbboot.go\<close>.  Shown: the bootstrap returns within its deadline, its steps come in
  order, and the fixtures are applied once.
\<close>

subsection \<open>The declaration\<close>

record Config =
  Migrate :: "string list"
  cf_Seed :: "string list"
  App :: "string list"
  UnitTest :: "string list"
  E2ETest :: "string list"
  E2ETestFilter :: "string list"
  ReportDir :: string

definition config0 :: Config where
  "config0 = \<lparr>Migrate = [], cf_Seed = [], App = [], UnitTest = [], E2ETest = [], E2ETestFilter = [], ReportDir = []\<rparr>"

definition config_path :: string where
  "config_path = ''.devplatform/workspace.json''"

definition config_fields :: "Config setter list" where
  "config_fields =
     [(''migrate'', \<lambda>j c. map_option (\<lambda>v. c\<lparr>Migrate := v\<rparr>) (as_strings j)),
      (''seed'', \<lambda>j c. map_option (\<lambda>v. c\<lparr>cf_Seed := v\<rparr>) (as_strings j)),
      (''app'', \<lambda>j c. map_option (\<lambda>v. c\<lparr>App := v\<rparr>) (as_strings j)),
      (''unitTest'', \<lambda>j c. map_option (\<lambda>v. c\<lparr>UnitTest := v\<rparr>) (as_strings j)),
      (''e2eTest'', \<lambda>j c. map_option (\<lambda>v. c\<lparr>E2ETest := v\<rparr>) (as_strings j)),
      (''e2eTestFilter'', \<lambda>j c. map_option (\<lambda>v. c\<lparr>E2ETestFilter := v\<rparr>) (as_strings j)),
      (''reportDir'', \<lambda>j c. map_option (\<lambda>v. c\<lparr>ReportDir := v\<rparr>) (as_string j))]"

definition config_Load :: "SEnv \<Rightarrow> string \<Rightarrow> Config result sact" where
  "config_Load E workingDir =
     (let path = path_Join workingDir config_path in
      bindI (sFile E (ReadFile path)) (\<lambda>r.
        case r of
          Inl e \<Rightarrow> if IsNotFound e then ok config0 else fail e
        | Inr b \<Rightarrow>
          (case decode_struct config_fields (s_Unmarshal E b) config0 of
             None \<Rightarrow> fail (Err (''repocfg: '' @ path))
           | Some cfg \<Rightarrow> ok cfg)))"

subsection \<open>The database bootstrap\<close>

definition outputTail :: nat where
  "outputTail = 4000"

definition db_tail :: "string \<Rightarrow> string" where
  "db_tail s =
     (let t = TrimSpace s in if length t \<le> outputTail then t else ''...'' @ drop (length t - outputTail) t)"

record Bootstrap =
  bo_WorkingDir :: string
  bo_Config :: Config
  Addr :: string
  bo_Wait :: duration
  bo_Poll :: duration
  SeedMarker :: string

definition db_run :: "SEnv \<Rightarrow> Bootstrap \<Rightarrow> string \<Rightarrow> string list \<Rightarrow> unit result sact" where
  "db_run E b step argv =
     bindI (sExec E (bo_WorkingDir b) argv []) (\<lambda>(out, e).
       case e of
         None \<Rightarrow> ok ()
       | Some e \<Rightarrow> fail (Err (''dbboot: '' @ step @ '' failed ('' @ Error e @ ''): '' @ db_tail out)))"

definition db_seed :: "SEnv \<Rightarrow> Bootstrap \<Rightarrow> unit result sact" where
  "db_seed E b =
     (if cf_Seed (bo_Config b) = [] then ok ()
      else if SeedMarker b = [] then fail (Err ''dbboot: no seed marker path, seeding would repeat on every restart'')
      else bindI (sFile E (Stat (SeedMarker b))) (\<lambda>r.
        case r of
          Inr _ \<Rightarrow> ok ()
        | Inl e \<Rightarrow>
          (if \<not> IsNotFound e then fail e
           else tryE (db_run E b ''seed'' (cf_Seed (bo_Config b))) (\<lambda>_. sDo E (WriteFile (SeedMarker b) [])))))"

definition db_poll :: "Bootstrap \<Rightarrow> duration" where
  "db_poll b = (if bo_Poll b \<le> 0 then Second else bo_Poll b)"

definition dial_attempt :: "SEnv \<Rightarrow> Bootstrap \<Rightarrow> (error + unit result) sact" where
  "dial_attempt E b = bindI (sDial E (Addr b)) (\<lambda>e. ret (case e of None \<Rightarrow> Inr (Inr ()) | Some e \<Rightarrow> Inl e))"

definition no_answer :: "Bootstrap \<Rightarrow> error \<Rightarrow> unit result" where
  "no_answer b e = Inl (wrap (''dbboot: '' @ Addr b @ '' did not answer within '' @ Duration_String (bo_Wait b) @ '': '') e)"

definition db_await :: "nat \<Rightarrow> SEnv \<Rightarrow> (SEvent list \<Rightarrow> error option) \<Rightarrow> Bootstrap \<Rightarrow> unit result option sact" where
  "db_await n E ctx b =
     bindI (snow E) (\<lambda>now.
       poll_loop n E (now + bo_Wait b) (db_poll b) (\<lambda>h. map_option Inl (ctx h)) (no_answer b) (dial_attempt E b))"

definition db_steps :: "SEnv \<Rightarrow> Bootstrap \<Rightarrow> unit result sact" where
  "db_steps E b =
     tryE (if Migrate (bo_Config b) \<noteq> [] then db_run E b ''migration'' (Migrate (bo_Config b)) else ok ()) (\<lambda>_. db_seed E b)"

text \<open>\<open>None\<close> is a bootstrap still waiting for the database.\<close>

definition db_Run :: "nat \<Rightarrow> SEnv \<Rightarrow> (SEvent list \<Rightarrow> error option) \<Rightarrow> Bootstrap \<Rightarrow> unit result option sact" where
  "db_Run n E ctx b =
     (if Migrate (bo_Config b) = [] \<and> cf_Seed (bo_Config b) = [] then ret (Some (Inr ()))
      else bindI (db_await n E ctx b) (\<lambda>r.
        case r of
          None \<Rightarrow> ret None
        | Some (Inl e) \<Rightarrow> ret (Some (Inl e))
        | Some (Inr _) \<Rightarrow> bindI (db_steps E b) (\<lambda>res. ret (Some res))))"

definition db_fuel :: "Bootstrap \<Rightarrow> nat" where
  "db_fuel b = Suc (nat (bo_Wait b div db_poll b + 1))"

subsection \<open>The bootstrap returns, and seeds once\<close>

lemma emits_dial_attempt: "emits (\<lambda>_. True) (dial_attempt E b)"
  unfolding dial_attempt_def by (intro emits_rules; simp)

lemma db_await_returns:
  assumes "ticking E"
  shows "\<exists>v h'. db_await (db_fuel b) E ctx b h = (Some v, h')"
proof -
  have poll: "0 < db_poll b" by (simp add: db_poll_def)
  have "(s_now E h + bo_Wait b) - s_now E h \<le> int (nat (bo_Wait b div db_poll b + 1)) * db_poll b"
    using fuel_covers [OF poll] by simp
  from poll_loop_returns [OF assms emits_dial_attempt _ this] poll show ?thesis
    unfolding db_await_def db_fuel_def by (simp add: bindI_def snow_def peek_def less_imp_le)
qed

text \<open>A declared command that ran in the working directory and succeeded.\<close>

definition succeeded :: "Bootstrap \<Rightarrow> string list \<Rightarrow> SEvent list \<Rightarrow> bool" where
  "succeeded b argv evs \<longleftrightarrow> (\<exists>out. SvExec (bo_WorkingDir b) argv [] (out, None) \<in> set evs)"

lemma db_run_succeeded: "db_run E b step argv h = (Inr u, h') \<Longrightarrow> \<exists>evs. h' = h @ evs \<and> succeeded b argv evs"
  by (auto simp: db_run_def bindI_def sExec_def call_def ok_def fail_def ret_def succeeded_def split: prod.splits option.splits)

definition seeded :: "Bootstrap \<Rightarrow> SEvent list \<Rightarrow> bool" where
  "seeded b evs \<longleftrightarrow>
     (\<exists>x. SvFile (Stat (SeedMarker b)) (Inr x) \<in> set evs) \<or>
     succeeded b (cf_Seed (bo_Config b)) evs \<and> (\<exists>x. SvFile (WriteFile (SeedMarker b) []) (Inr x) \<in> set evs)"

lemma db_seed_seeded:
  assumes "db_seed E b h = (Inr u, h')"
  shows "\<exists>evs. h' = h @ evs \<and> (cf_Seed (bo_Config b) \<noteq> [] \<longrightarrow> seeded b evs)"
proof (cases "cf_Seed (bo_Config b) = []")
  case True
  then show ?thesis using assms by (simp add: db_seed_def ok_def ret_def)
next
  case False
  let ?st = "s_file E h (Stat (SeedMarker b))"
  have marker: "SeedMarker b \<noteq> []" using assms False by (auto simp: db_seed_def fail_def ret_def)
  show ?thesis
  proof (cases ?st)
    case (Inr x)
    then show ?thesis using assms False marker by (auto simp: db_seed_def bindI_def sFile_def call_def ok_def ret_def seeded_def)
  next
    case (Inl e)
    then have "tryE (db_run E b ''seed'' (cf_Seed (bo_Config b))) (\<lambda>_. sDo E (WriteFile (SeedMarker b) [])) (h @ [SvFile (Stat (SeedMarker b)) ?st]) = (Inr u, h')"
      using assms False marker by (auto simp: db_seed_def bindI_def sFile_def call_def fail_def ret_def split: if_splits)
    then obtain h1 where r: "db_run E b ''seed'' (cf_Seed (bo_Config b)) (h @ [SvFile (Stat (SeedMarker b)) ?st]) = (Inr (), h1)"
      and w: "sDo E (WriteFile (SeedMarker b) []) h1 = (Inr u, h')" by (auto dest!: tryE_InrD)
    obtain evs where evs: "h1 = (h @ [SvFile (Stat (SeedMarker b)) ?st]) @ evs" "succeeded b (cf_Seed (bo_Config b)) evs"
      using db_run_succeeded [OF r] by blast
    obtain x where "h' = h1 @ [SvFile (WriteFile (SeedMarker b) []) (Inr x)]"
      using w by (auto simp: sDo_def bindI_def sFile_def call_def ret_def map_sum_def split: sum.splits)
    then show ?thesis using evs by (auto simp: seeded_def succeeded_def)
  qed
qed

text \<open>C18. The database bootstrap returns, and a workspace it lets through has its schema and its fixtures.
  Given a clock that advances with sleep it returns within the rounds that fit its deadline; and when
  it reports success the database had answered, the declared migration succeeded after that, and the
  fixtures either carry the marker of an earlier run or were applied now and marked.\<close>
theorem database_bootstrap_returns_ready:
  assumes "ticking E"
  shows "\<exists>res h'. db_Run (db_fuel b) E ctx b h = (Some res, h') \<and>
    (res = Inr () \<longrightarrow>
      (\<exists>evs0 evs. h' = (h @ evs0) @ evs \<and>
        (Migrate (bo_Config b) \<noteq> [] \<or> cf_Seed (bo_Config b) \<noteq> [] \<longrightarrow> SvDial (Addr b) None \<in> set evs0) \<and>
        (Migrate (bo_Config b) \<noteq> [] \<longrightarrow> succeeded b (Migrate (bo_Config b)) evs) \<and>
        (cf_Seed (bo_Config b) \<noteq> [] \<longrightarrow> seeded b evs)))"
proof (cases "Migrate (bo_Config b) = [] \<and> cf_Seed (bo_Config b) = []")
  case True
  then show ?thesis by (simp add: db_Run_def ret_def)
next
  case False
  obtain v h1 where await: "db_await (db_fuel b) E ctx b h = (Some v, h1)" using db_await_returns [OF assms] by blast
  show ?thesis
  proof (cases v)
    case (Inl e)
    then show ?thesis using False await by (simp add: db_Run_def bindI_def ret_def)
  next
    case (Inr u)
    then have "poll_loop (db_fuel b) E (s_now E h + bo_Wait b) (db_poll b) (\<lambda>h. map_option Inl (ctx h)) (no_answer b) (dial_attempt E b) h =
        (Some (Inr ()), h1)"
      using await by (simp add: db_await_def bindI_def snow_def peek_def)
    from poll_loop_result [OF this _ _ emits_dial_attempt] obtain evs0 where
      "dial_attempt E b (h @ evs0) = (Inr (Inr ()), h1)" by (auto simp: no_answer_def)
    then have h1: "h1 = h @ (evs0 @ [SvDial (Addr b) None])"
      by (auto simp: dial_attempt_def bindI_def sDial_def call_def ret_def split: option.splits)
    obtain res h2 where steps: "db_steps E b h1 = (res, h2)" by (cases "db_steps E b h1")
    have run: "db_Run (db_fuel b) E ctx b h = (Some res, h2)"
      using False await Inr steps by (auto simp: db_Run_def bindI_def ret_def)
    have "\<exists>evs. h2 = h1 @ evs \<and> (Migrate (bo_Config b) \<noteq> [] \<longrightarrow> succeeded b (Migrate (bo_Config b)) evs) \<and>
        (cf_Seed (bo_Config b) \<noteq> [] \<longrightarrow> seeded b evs)" if r: "res = Inr ()"
    proof -
      obtain hm where m: "(if Migrate (bo_Config b) \<noteq> [] then db_run E b ''migration'' (Migrate (bo_Config b)) else ok ()) h1 = (Inr (), hm)"
        and sd: "db_seed E b hm = (Inr (), h2)"
        using tryE_InrD [OF steps [unfolded db_steps_def r]] by (metis (full_types) old.unit.exhaust)
      obtain evs1 where e1: "hm = h1 @ evs1" "Migrate (bo_Config b) \<noteq> [] \<longrightarrow> succeeded b (Migrate (bo_Config b)) evs1"
        using m db_run_succeeded [of E b "''migration''" "Migrate (bo_Config b)" h1 "()" hm]
        by (cases "Migrate (bo_Config b) = []") (auto simp: ok_def ret_def)
      obtain evs2 where e2: "h2 = hm @ evs2" "cf_Seed (bo_Config b) \<noteq> [] \<longrightarrow> seeded b evs2"
        using db_seed_seeded [OF sd] by blast
      show ?thesis using e1 e2 by (intro exI [of _ "evs1 @ evs2"]) (auto simp: seeded_def succeeded_def)
    qed
    then have "res = Inr () \<longrightarrow> (\<exists>evs. h2 = (h @ (evs0 @ [SvDial (Addr b) None])) @ evs \<and>
        (Migrate (bo_Config b) \<noteq> [] \<longrightarrow> succeeded b (Migrate (bo_Config b)) evs) \<and>
        (cf_Seed (bo_Config b) \<noteq> [] \<longrightarrow> seeded b evs))"
      using h1 by simp
    moreover have "SvDial (Addr b) None \<in> set (evs0 @ [SvDial (Addr b) None])" by simp
    ultimately show ?thesis using run by (intro exI [of _ res] exI [of _ h2]) blast
  qed
qed

theorem database_bootstrap_returns_ready_witness:
  "\<exists>h'. db_Run (db_fuel \<lparr>bo_WorkingDir = ''/w'', bo_Config = config0\<lparr>Migrate := [''m'']\<rparr>, Addr = ''db'', bo_Wait = 0, bo_Poll = 0, SeedMarker = []\<rparr>)
      (senv0\<lparr>s_now := slept\<rparr>) (\<lambda>h. None)
      \<lparr>bo_WorkingDir = ''/w'', bo_Config = config0\<lparr>Migrate := [''m'']\<rparr>, Addr = ''db'', bo_Wait = 0, bo_Poll = 0, SeedMarker = []\<rparr> [] = (Some (Inr ()), h') \<and>
    (\<exists>out. SvExec ''/w'' [''m''] [] (out, None) \<in> set h')"
proof -
  let ?b = "\<lparr>bo_WorkingDir = ''/w'', bo_Config = config0\<lparr>Migrate := [''m'']\<rparr>, Addr = ''db'', bo_Wait = 0, bo_Poll = 0, SeedMarker = []\<rparr>"
  let ?E = "senv0\<lparr>s_now := slept\<rparr>"
  have tick: "ticking ?E" by (rule ticking_slept) simp
  have ready: "fst (db_Run (db_fuel ?b) ?E (\<lambda>h. None) ?b []) = Some (Inr ())"
    by (simp add: db_Run_def db_fuel_def db_poll_def db_await_def dial_attempt_def db_steps_def db_run_def db_seed_def config0_def
        bindI_def snow_def peek_def sDial_def sExec_def tryE_def call_def ok_def ret_def) (simp add: senv0_def)
  from database_bootstrap_returns_ready [OF tick, of ?b "\<lambda>h. None" "[]"] ready show ?thesis
    by (fastforce simp: succeeded_def config0_def)
qed

end
