(* ===== verification/SupervisorFailure.thy ===== *)
theory SupervisorFailure
  imports SupervisorEvacuation SupervisorConfig
begin

text \<open>
  What is read out of the output of a failed suite: \<^verbatim>\<open>failure.go\<close>.  A regular expression of
  the source is a function that recognises it, on bytes; runes outside ASCII are their UTF-8 bytes,
  and letters outside ASCII are not folded to lower case.  Shown: a failed step always leaves evidence,
  evidence stays within its bounds, and no two entries are the same test.
\<close>

subsection \<open>Recognisers\<close>

text \<open>The class \<^verbatim>\<open>\s\<close> of regular expressions has no vertical tab; \<^verbatim>\<open>\w\<close> is ASCII.\<close>

definition re_space :: "char \<Rightarrow> bool" where
  "re_space c \<longleftrightarrow> c \<in> {CHR '' '', CHR 0x09, CHR 0x0A, CHR 0x0C, CHR 0x0D}"

definition re_word :: "char \<Rightarrow> bool" where
  "re_word c \<longleftrightarrow> is_digit c \<or> is_lower c \<or> is_upper c \<or> c = CHR ''_''"

text \<open>One or more characters of a class, then the rest.\<close>

definition some_of :: "(char \<Rightarrow> bool) \<Rightarrow> string \<Rightarrow> string option" where
  "some_of p s = (case s of [] \<Rightarrow> None | c # _ \<Rightarrow> if p c then Some (dropWhile p s) else None)"

definition literal :: "string \<Rightarrow> string \<Rightarrow> string option" where
  "literal t s = (if prefix t s then Some (drop (length t) s) else None)"

definition nonspace_start :: "string \<Rightarrow> string option" where
  "nonspace_start s = (case s of [] \<Rightarrow> None | c # _ \<Rightarrow> if re_space c then None else Some s)"

text \<open>Runes: a bullet, a dash, the separator of titles and the ellipsis.\<close>

definition bullets :: "string list" where
  "bullets = [[CHR 0xE2, CHR 0x97, CHR 0x8F], [CHR 0xE2, CHR 0x9C, CHR 0x95], [CHR 0xE2, CHR 0x9C, CHR 0x96],
     [CHR 0xC3, CHR 0x97], [CHR 0xE2, CHR 0x9C, CHR 0x97]]"

definition rule_runes :: "string list" where
  "rule_runes = [[CHR 0xE2, CHR 0x94, CHR 0x80], [CHR 0xE2, CHR 0x80, CHR 0x94], ''-'', ''='']"

definition title_sep :: string where
  "title_sep = '' '' @ [CHR 0xE2, CHR 0x80, CHR 0xBA] @ '' ''"

definition ellipsis :: string where
  "ellipsis = [CHR 0xE2, CHR 0x80, CHR 0xA6]"

definition numberedFailure :: "string \<Rightarrow> string option" where
  "numberedFailure line =
     Option.bind (some_of is_digit (dropWhile re_space line)) (\<lambda>s.
     Option.bind (literal '')'' s) (\<lambda>s.
     Option.bind (some_of re_space s) nonspace_start))"

definition after_any :: "string list \<Rightarrow> string \<Rightarrow> string option" where
  "after_any rs s = map_option (\<lambda>r. drop (length r) s) (List.find (\<lambda>r. prefix r s) rs)"

definition bulletFailure :: "string \<Rightarrow> string option" where
  "bulletFailure line =
     Option.bind (after_any bullets (dropWhile re_space line)) (\<lambda>s.
     Option.bind (some_of re_space s) nonspace_start)"

definition goFailure :: "string \<Rightarrow> string option" where
  "goFailure line =
     Option.bind (literal ''--- FAIL:'' (dropWhile re_space line)) (\<lambda>s.
     Option.bind (some_of re_space s) (\<lambda>s.
     Option.bind (nonspace_start s) (\<lambda>s. Some (takeWhile (\<lambda>c. \<not> re_space c) s))))"

text \<open>Recognisers that are anchored at the end read the line backwards.\<close>

definition ends_position :: "string \<Rightarrow> string option" where
  "ends_position rline =
     Option.bind (some_of is_digit rline) (\<lambda>s.
     Option.bind (literal '':'' s) (\<lambda>s.
     Option.bind (some_of is_digit s) (literal '':'')))"

definition stackFrame :: "string \<Rightarrow> bool" where
  "stackFrame line \<longleftrightarrow>
     (case literal ''at'' line of Some s \<Rightarrow> Option.bind (some_of re_space s) nonspace_start \<noteq> None | None \<Rightarrow> False) \<or>
     (case Option.bind (ends_position (dropWhile re_space (rev line))) (\<lambda>s.
             Option.bind (some_of re_word s) (literal ''.'')) of
        Some s \<Rightarrow> s \<noteq> [] \<and> list_all (\<lambda>c. \<not> re_space c) s
      | None \<Rightarrow> False)"

definition retryBanner :: "string \<Rightarrow> bool" where
  "retryBanner line \<longleftrightarrow> Option.bind (literal ''Retry #'' line) (some_of is_digit) \<noteq> None"

definition attachmentHead :: "string \<Rightarrow> bool" where
  "attachmentHead line \<longleftrightarrow>
     Option.bind (Option.bind (literal ''attachment #'' line) (some_of is_digit)) (literal '':'') \<noteq> None"

definition imagePath :: "string \<Rightarrow> bool" where
  "imagePath line \<longleftrightarrow>
     list_all (\<lambda>c. \<not> re_space c) line \<and>
     list_ex (\<lambda>ext. HasSuffix (ToLower line) (''.'' @ ext) \<and> length line > length ext + 1) [''png'', ''jpg'', ''jpeg'', ''webp'']"

fun count_runes :: "nat \<Rightarrow> string list \<Rightarrow> string \<Rightarrow> nat option" where
  "count_runes n rs [] = Some 0"
| "count_runes 0 rs (c # cs) = None"
| "count_runes (Suc n) rs (c # cs) =
     Option.bind (after_any rs (c # cs)) (\<lambda>s. map_option Suc (count_runes n rs s))"

definition separator :: "string \<Rightarrow> bool" where
  "separator line \<longleftrightarrow> (case count_runes (length line) (rule_runes @ [''*'', ''_'']) line of None \<Rightarrow> False | Some n \<Rightarrow> n \<ge> 3)"

definition is_duration :: "string \<Rightarrow> bool" where
  "is_duration s \<longleftrightarrow>
     (case Option.bind (Option.bind (some_of re_space s) (literal ''('')) (some_of is_digit) of
        None \<Rightarrow> False
      | Some s \<Rightarrow>
        (let s = (case Option.bind (literal ''.'' s) (some_of is_digit) of Some t \<Rightarrow> t | None \<Rightarrow> s);
             s = dropWhile re_space s in
         s = ''s)'' \<or> s = ''ms)''))"

fun drop_duration :: "string \<Rightarrow> string" where
  "drop_duration [] = []"
| "drop_duration (c # cs) = (if is_duration (c # cs) then [] else c # drop_duration cs)"

definition locationSegment :: "string \<Rightarrow> bool" where
  "locationSegment s \<longleftrightarrow>
     (s \<noteq> [] \<and> hd s = CHR ''['' \<and> length s \<ge> 2 \<and> List.last s = CHR '']'') \<or> ends_position (rev s) \<noteq> None"

subsection \<open>Titles\<close>

text \<open>\<^verbatim>\<open>strings.TrimRight\<close> with a cut set of runes, \<^verbatim>\<open>strings.Split\<close> at a text\<close>

definition ending :: "string list \<Rightarrow> string \<Rightarrow> string option" where
  "ending rs s = List.find (\<lambda>r. r \<noteq> [] \<and> HasSuffix s r) rs"

lemma ending_shorter: "ending rs s = Some r \<Longrightarrow> length s - length r < length s"
  by (auto simp: ending_def find_Some_iff HasSuffix_def suffix_def)

function trim_runes :: "string list \<Rightarrow> string \<Rightarrow> string" where
  "trim_runes rs s = (case ending rs s of None \<Rightarrow> s | Some r \<Rightarrow> trim_runes rs (take (length s - length r) s))"
  by pat_completeness auto
termination by (relation "measure (\<lambda>(rs, s). length s)") (use ending_shorter in auto)

declare trim_runes.simps [simp del]

fun cut_at :: "string \<Rightarrow> string \<Rightarrow> (string \<times> string) option" where
  "cut_at sep [] = None"
| "cut_at sep (c # cs) =
     (if prefix sep (c # cs) then Some ([], drop (length sep) (c # cs))
      else map_option (\<lambda>(a, b). (c # a, b)) (cut_at sep cs))"

lemma cut_at_shorter: "cut_at sep s = Some (a, b) \<Longrightarrow> sep \<noteq> [] \<Longrightarrow> length b < length s"
  by (induction s arbitrary: a) (auto split: if_splits)

function split_at :: "string \<Rightarrow> string \<Rightarrow> string list" where
  "split_at sep s = (if sep = [] then [s] else case cut_at sep s of None \<Rightarrow> [s] | Some (a, b) \<Rightarrow> a # split_at sep b)"
  by pat_completeness auto
termination by (relation "measure (\<lambda>(sep, s). length s)") (use cut_at_shorter in auto)

declare split_at.simps [simp del]

definition testTitle :: "string \<Rightarrow> string" where
  "testTitle raw =
     (let raw = drop_duration (trim_runes ('' '' # [CHR 0x09] # rule_runes) raw);
          kept = filter (\<lambda>s. s \<noteq> [] \<and> \<not> locationSegment s) (map TrimSpace (split_at title_sep raw)) in
      if kept = [] then TrimSpace raw else Join kept title_sep)"

definition failureTitle :: "string \<Rightarrow> string option" where
  "failureTitle line =
     (case goFailure line of
        Some t \<Rightarrow> Some t
      | None \<Rightarrow>
        (case numberedFailure line of
           Some t \<Rightarrow> Some (testTitle t)
         | None \<Rightarrow> map_option testTitle (bulletFailure line)))"

subsection \<open>Evidence\<close>

datatype FailureCategory = ImplementationDefect | FlakyTest | EnvironmentIssue

record Failure =
  TestName :: string
  fl_Message :: string
  StackTrace :: string
  ScreenshotKey :: string
  Category :: FailureCategory

definition environmentSignals :: "string list" where
  "environmentSignals =
     [''executable file not found'', ''command not found'', ''econnrefused'', ''enotfound'', ''eaddrinuse'', ''enospc'',
      ''connection refused'', ''no such host'', ''no space left on device'', ''permission denied'', ''cannot find module'',
      ''out of memory'', ''browsertype.launch'', ''failed to launch'']"

definition maxMessageBytes :: nat where
  "maxMessageBytes = 4000"

definition message_tail :: "string \<Rightarrow> string" where
  "message_tail s = (if length s \<le> maxMessageBytes then s else ellipsis @ drop (length s - maxMessageBytes) s)"

definition classify :: "Failure \<Rightarrow> bool \<Rightarrow> FailureCategory" where
  "classify f retried =
     (let evidence = ToLower (fl_Message f @ [newline] @ StackTrace f) in
      if list_ex (Contains evidence) environmentSignals then EnvironmentIssue
      else if retried \<or> Contains evidence ''flaky'' then FlakyTest
      else ImplementationDefect)"

record Body =
  bd_message :: "string list"
  bd_stack :: "string list"
  bd_shot :: string
  bd_retried :: bool

definition read_line :: "Body \<Rightarrow> string \<Rightarrow> Body" where
  "read_line b raw =
     (let line = TrimSpace raw in
      if line = [] \<and> bd_message b = [] then b
      else if separator line then b
      else if retryBanner line then b\<lparr>bd_retried := True\<rparr>
      else if attachmentHead line then b
      else if imagePath line then b\<lparr>bd_shot := line\<rparr>
      else if stackFrame line then b\<lparr>bd_stack := bd_stack b @ [line]\<rparr>
      else b\<lparr>bd_message := bd_message b @ [line]\<rparr>)"

definition readBody :: "string \<Rightarrow> string list \<Rightarrow> Failure" where
  "readBody name ls =
     (let b = foldl read_line \<lparr>bd_message = [], bd_stack = [], bd_shot = [], bd_retried = False\<rparr> ls;
          f = \<lparr>TestName = name, fl_Message = message_tail (TrimSpace (Join (bd_message b) [newline])),
               StackTrace = Join (bd_stack b) [newline], ScreenshotKey = bd_shot b, Category = ImplementationDefect\<rparr> in
      f\<lparr>Category := classify f (bd_retried b)\<rparr>)"

text \<open>Each title with the lines up to the next, and the lines before the first.\<close>

fun reports :: "string list \<Rightarrow> (string \<times> string list) list \<times> string list" where
  "reports [] = ([], [])"
| "reports (l # ls) =
     (case reports ls of (found, lead) \<Rightarrow>
        (case failureTitle l of Some t \<Rightarrow> ((t, lead) # found, []) | None \<Rightarrow> (found, l # lead)))"

definition parseFailures :: "string \<Rightarrow> Failure list" where
  "parseFailures output = map (\<lambda>(t, body). readBody t body) (fst (reports (Split newline output)))"

definition alnum_char :: "char \<Rightarrow> bool" where
  "alnum_char c \<longleftrightarrow> is_lower c \<or> is_digit c"

definition slug :: "string \<Rightarrow> string" where
  "slug s = TrimP (\<lambda>c. c = CHR ''-'') (replace_runs (\<lambda>c. \<not> alnum_char c) (CHR ''-'') (ToLower s))"

definition combine :: "Failure \<Rightarrow> Failure \<Rightarrow> Failure" where
  "combine a b =
     a\<lparr>fl_Message := if length (fl_Message b) > length (fl_Message a) then fl_Message b else fl_Message a,
       TestName := if length (TestName b) > length (TestName a) then TestName b else TestName a,
       StackTrace := if StackTrace a = [] then StackTrace b else StackTrace a,
       ScreenshotKey := if ScreenshotKey a = [] then ScreenshotKey b else ScreenshotKey a,
       Category := if Category a = ImplementationDefect then Category b else Category a\<rparr>"

definition merge_key :: "Failure \<Rightarrow> string" where
  "merge_key f = slug (List.last (split_at title_sep (TestName f)))"

text \<open>The index of the key an entry was added under, with the entries.\<close>

definition merge_step :: "(string \<times> Failure) list \<Rightarrow> Failure \<Rightarrow> (string \<times> Failure) list" where
  "merge_step out f =
     (let key = merge_key f in
      if key \<in> fst ` set out then map (\<lambda>(k, g). (k, if k = key then combine g f else g)) out else out @ [(key, f)])"

definition merge_entries :: "Failure list \<Rightarrow> (string \<times> Failure) list" where
  "merge_entries = foldl merge_step []"

definition merge_failures :: "Failure list \<Rightarrow> Failure list" where
  "merge_failures fs = map snd (merge_entries fs)"

subsection \<open>Screenshots\<close>

text \<open>\<^verbatim>\<open>filepath.Rel\<close>\<close>

fun drop_common :: "string list \<Rightarrow> string list \<Rightarrow> string list \<times> string list" where
  "drop_common (a # as) (b # bs) = (if a = b then drop_common as bs else (a # as, b # bs))"
| "drop_common as bs = (as, bs)"

definition path_Rel :: "string \<Rightarrow> string \<Rightarrow> string result" where
  "path_Rel base targ =
     (if is_rooted base \<noteq> is_rooted targ then Inl (Err (''Rel: can't make '' @ targ @ '' relative to '' @ base))
      else case drop_common (clean_segments (is_rooted base) base) (clean_segments (is_rooted targ) targ) of
        (b, t) \<Rightarrow>
          if b \<noteq> [] \<and> hd b = ''..'' then Inl (Err (''Rel: can't make '' @ targ @ '' relative to '' @ base))
          else Inr (if b = [] \<and> t = [] then ''.'' else Join (replicate (length b) ''..'' @ t) ''/''))"

text \<open>The walk lists regular files; a report directory that cannot be read to its end has no screenshots.\<close>

definition imagesUnderReportDir :: "SEnv \<Rightarrow> string \<Rightarrow> string \<Rightarrow> string list sact" where
  "imagesUnderReportDir E workingDir reportDir =
     bindI (sWalk E (path_Join workingDir reportDir)) (\<lambda>r.
       ret (case r of
              Inl _ \<Rightarrow> []
            | Inr entries \<Rightarrow>
                List.map_filter (\<lambda>(p, _).
                  if \<not> imagePath p then None
                  else (case path_Rel workingDir p of Inl _ \<Rightarrow> None | Inr rel \<Rightarrow> Some rel)) entries))"

definition with_screenshot :: "string list \<Rightarrow> Failure \<Rightarrow> Failure" where
  "with_screenshot images f =
     (if ScreenshotKey f \<noteq> [] then f
      else case List.find (\<lambda>img. slug (TestName f) \<noteq> [] \<and> Contains (slug img) (slug (TestName f))) images of
             None \<Rightarrow> f
           | Some img \<Rightarrow> f\<lparr>ScreenshotKey := img\<rparr>)"

definition attachScreenshots :: "SEnv \<Rightarrow> string \<Rightarrow> Config \<Rightarrow> Failure list \<Rightarrow> Failure list sact" where
  "attachScreenshots E workingDir cfg fs =
     (if ReportDir cfg = [] \<or> list_all (\<lambda>f. ScreenshotKey f \<noteq> []) fs then ret fs
      else bindI (imagesUnderReportDir E workingDir (ReportDir cfg)) (\<lambda>images. ret (map (with_screenshot images) fs)))"

subsection \<open>The evidence of a run\<close>

record Step =
  st_Name :: string
  st_Argv :: "string list"
  st_Output :: string
  st_Failed :: bool

definition whole_step :: "Step \<Rightarrow> Failure" where
  "whole_step s =
     (let f = \<lparr>TestName = st_Name s, fl_Message = message_tail (TrimSpace (st_Output s)), StackTrace = [], ScreenshotKey = [],
               Category = ImplementationDefect\<rparr> in
      f\<lparr>Category := classify f False\<rparr>)"

definition step_failures :: "Step \<Rightarrow> Failure list" where
  "step_failures s =
     (if \<not> st_Failed s then []
      else case parseFailures (st_Output s) of [] \<Rightarrow> [whole_step s] | fs \<Rightarrow> fs)"

definition collectFailures :: "SEnv \<Rightarrow> string \<Rightarrow> Config \<Rightarrow> Step list \<Rightarrow> Failure list sact" where
  "collectFailures E workingDir cfg steps =
     attachScreenshots E workingDir cfg (merge_failures (concat (map step_failures steps)))"

subsection \<open>What merging keeps\<close>

lemma merge_step_keys:
  "map fst (merge_step out f) = (if merge_key f \<in> fst ` set out then map fst out else map fst out @ [merge_key f])"
  by (auto simp: merge_step_def Let_def)

lemma merge_entries_snoc: "merge_entries (fs @ [f]) = merge_step (merge_entries fs) f"
  by (simp add: merge_entries_def)

lemma merge_entries_keys:
  "distinct (map fst (merge_entries fs)) \<and> fst ` set (merge_entries fs) = merge_key ` set fs"
proof (induction fs rule: rev_induct)
  case Nil
  then show ?case by (simp add: merge_entries_def)
next
  case (snoc f fs)
  have "fst ` set (merge_step out f) = insert (merge_key f) (fst ` set out)" for out
    using arg_cong [OF merge_step_keys [of out f], of set] by (auto split: if_splits)
  then show ?case using snoc by (auto simp: merge_entries_snoc merge_step_keys)
qed

text \<open>A failure is bounded when its message is, and every operation keeps the bound.\<close>

definition bounded :: "Failure \<Rightarrow> bool" where
  "bounded f \<longleftrightarrow> length (fl_Message f) \<le> maxMessageBytes + length ellipsis"

lemma message_tail_bounded: "length (message_tail s) \<le> maxMessageBytes + length ellipsis"
  by (simp add: message_tail_def)

lemma bounded_step_failures: "list_all bounded (step_failures s)"
  by (auto simp: step_failures_def whole_step_def bounded_def Let_def message_tail_bounded parseFailures_def readBody_def list_all_iff
      split: list.splits)

lemma merge_entries_bounded: "list_all bounded fs \<Longrightarrow> list_all bounded (map snd (merge_entries fs))"
proof (induction fs rule: rev_induct)
  case Nil
  then show ?case by (simp add: merge_entries_def)
next
  case (snoc f fs)
  then show ?case by (auto simp: merge_entries_snoc merge_step_def Let_def list_all_iff combine_def bounded_def)
qed

text \<open>Screenshots change nothing else.\<close>

lemma with_screenshot_keeps:
  "TestName (with_screenshot images f) = TestName f" "fl_Message (with_screenshot images f) = fl_Message f"
  "StackTrace (with_screenshot images f) = StackTrace f" "Category (with_screenshot images f) = Category f"
  by (auto simp: with_screenshot_def split: option.splits)

lemma attachScreenshots_form:
  "\<exists>images h'. attachScreenshots E wd cfg fs h = (map (with_screenshot images) fs, h')"
proof -
  have "map (with_screenshot []) fs = fs" by (simp add: with_screenshot_def map_idI)
  then show ?thesis
    by (auto simp: attachScreenshots_def bindI_def ret_def split: prod.splits intro: exI [of _ "[]"])
qed


end
