(* ===== verification/SupervisorTests.thy ===== *)
theory SupervisorTests
  imports SupervisorFailure
begin

text \<open>
  Test runs and self-healing: \<^verbatim>\<open>runner.go\<close>, \<^verbatim>\<open>report.go\<close>, \<^verbatim>\<open>heal.go\<close> and the
  loop \<^verbatim>\<open>main.go\<close> builds from them.  Shown: a healing session returns, types at most
  \<open>MaxHealingAttempts\<close> fix requests, and a verified verdict rests on a passing run of every declared
  suite in that very session.
\<close>

subsection \<open>Runs (runner.go)\<close>

record Run =
  ru_Id :: string
  ru_Attempt :: int
  OnlyTests :: "string list"

record TestResult =
  rs_RunId :: string
  rs_Attempt :: int
  Passed :: bool
  Failures :: "Failure list"
  ReportUrl :: string
  Steps :: "Step list"

record Runner =
  rn_WorkingDir :: string
  rn_Config :: Config
  ArtifactRoot :: string

definition StepUnit :: string where
  "StepUnit = ''unit''"

definition StepE2E :: string where
  "StepE2E = ''e2e''"

definition runner_Dir :: "Runner \<Rightarrow> string \<Rightarrow> string" where
  "runner_Dir r runId = path_Join (ArtifactRoot r) runId"

definition e2eArgv :: "Runner \<Rightarrow> string list \<Rightarrow> string list" where
  "e2eArgv r only =
     (if only = [] \<or> E2ETestFilter (rn_Config r) = [] then E2ETest (rn_Config r)
      else E2ETestFilter (rn_Config r) @ only)"

definition add_step :: "TestResult \<Rightarrow> Step \<Rightarrow> TestResult" where
  "add_step res s = res\<lparr>Steps := Steps res @ [s], Passed := Passed res \<and> \<not> st_Failed s\<rparr>"

definition runner_step :: "SEnv \<Rightarrow> Runner \<Rightarrow> string \<Rightarrow> string \<Rightarrow> string list \<Rightarrow> TestResult \<Rightarrow> TestResult result sact" where
  "runner_step E r dir name argv res =
     bindI (sExec E (rn_WorkingDir r) argv []) (\<lambda>(out, e).
       tryE (sDo E (WriteFile (path_Join dir (name @ ''.log'')) out)) (\<lambda>_.
         ok (add_step res \<lparr>st_Name = name, st_Argv = argv, st_Output = out, st_Failed = (e \<noteq> None)\<rparr>)))"

text \<open>The application is stopped however the suite it serves went.\<close>

definition with_app :: "SEnv \<Rightarrow> Runner \<Rightarrow> TestResult result sact \<Rightarrow> TestResult result sact" where
  "with_app E r suite =
     (if App (rn_Config r) = [] then suite
      else bindI (sServe E (rn_WorkingDir r) (App (rn_Config r))) (\<lambda>e.
        case e of
          Some e \<Rightarrow> fail e
        | None \<Rightarrow> bindI suite (\<lambda>res. bindI (sStop (App (rn_Config r))) (\<lambda>_. ret res))))"

definition new_result :: "Run \<Rightarrow> TestResult" where
  "new_result run =
     \<lparr>rs_RunId = ru_Id run, rs_Attempt = ru_Attempt run, Passed = True, Failures = [], ReportUrl = [], Steps = []\<rparr>"

definition unit_suite :: "SEnv \<Rightarrow> Runner \<Rightarrow> Run \<Rightarrow> TestResult result sact" where
  "unit_suite E r run =
     (if UnitTest (rn_Config r) \<noteq> [] \<and> OnlyTests run = []
      then runner_step E r (runner_Dir r (ru_Id run)) StepUnit (UnitTest (rn_Config r)) (new_result run)
      else ok (new_result run))"

definition e2e_suite :: "SEnv \<Rightarrow> Runner \<Rightarrow> Run \<Rightarrow> TestResult \<Rightarrow> TestResult result sact" where
  "e2e_suite E r run res =
     (if e2eArgv r (OnlyTests run) = [] then ok res
      else with_app E r (runner_step E r (runner_Dir r (ru_Id run)) StepE2E (e2eArgv r (OnlyTests run)) res))"

definition execute_run :: "SEnv \<Rightarrow> Runner \<Rightarrow> Run \<Rightarrow> TestResult result sact" where
  "execute_run E r run =
     (if ru_Id run = [] then fail (Err ''testrun: run id is required'')
      else tryE (sDo E (RemoveAll (runner_Dir r (ru_Id run)))) (\<lambda>_.
           tryE (sDo E (MkdirAll (runner_Dir r (ru_Id run)))) (\<lambda>_.
           tryE (unit_suite E r run) (e2e_suite E r run))))"

definition Execute :: "SEnv \<Rightarrow> Runner \<Rightarrow> Run \<Rightarrow> TestResult result sact" where
  "Execute E r run =
     tryE (execute_run E r run) (\<lambda>res.
     bindI (collectFailures E (rn_WorkingDir r) (rn_Config r) (Steps res)) (\<lambda>fs. ok (res\<lparr>Failures := fs\<rparr>)))"

subsection \<open>Publication (report.go)\<close>

definition reportRoot :: string where
  "reportRoot = ''reports''"

definition reportEntrypoint :: string where
  "reportEntrypoint = ''index.html''"

record Publisher =
  pb_Store :: "S3 option"
  pb_WorkspaceId :: string
  PublicBaseURL :: string

text \<open>The tree is listed before its files are put; an error in the middle of it stops the walk there.\<close>

definition publish_upload :: "SEnv \<Rightarrow> S3 \<Rightarrow> string \<Rightarrow> string \<Rightarrow> unit result sact" where
  "publish_upload E c dir keys =
     (if dir = [] then ok ()
      else bindI (sFile E (Stat dir)) (\<lambda>r.
        case r of
          Inl e \<Rightarrow> if IsNotFound e then ok () else fail e
        | Inr _ \<Rightarrow>
          tryE (sWalk E dir) (\<lambda>entries.
            forE entries (\<lambda>(name, _).
              case path_Rel dir name of
                Inl e \<Rightarrow> fail e
              | Inr rel \<Rightarrow> tryE (PutFile E c (keys @ rel) name) (\<lambda>_. ok ())))))"

definition report_prefix :: "string \<Rightarrow> string \<Rightarrow> string" where
  "report_prefix workspace runId = path_Join (path_Join reportRoot workspace) runId @ ''/''"

definition Publish :: "SEnv \<Rightarrow> Publisher \<Rightarrow> string \<Rightarrow> string \<Rightarrow> string \<Rightarrow> string result sact" where
  "Publish E p runId reportDir logDir =
     (if runId = [] then fail (Err ''testrun: run id is required'')
      else if pb_WorkspaceId p = [] then fail (Err ''testrun: workspace id is not configured'')
      else if PublicBaseURL p = [] then fail (Err ''testrun: report base url is not configured'')
      else case pb_Store p of
        None \<Rightarrow> fail (Err ''testrun: report destination is not configured'')
      | Some c \<Rightarrow>
        (case Validate c of
           Some e \<Rightarrow> fail e
         | None \<Rightarrow>
           (let keys = report_prefix (pb_WorkspaceId p) runId;
                base = TrimSuffix (PublicBaseURL p) ''/'' @ ''/'' @ keys in
            tryE (publish_upload E c reportDir keys) (\<lambda>_.
            tryE (publish_upload E c logDir (keys @ ''logs/'')) (\<lambda>_.
            bindI (sFile E (Stat (path_Join reportDir reportEntrypoint))) (\<lambda>st.
              ok (if reportDir \<noteq> [] \<and> \<not> isl st then base @ reportEntrypoint else base)))))))"

subsection \<open>The healing session (heal.go)\<close>

definition MaxHealingAttempts :: nat where
  "MaxHealingAttempts = 3"

definition EventTestsVerified :: string where
  "EventTestsVerified = ''TestsVerified''"

definition EventSelfHealingExhausted :: string where
  "EventSelfHealingExhausted = ''SelfHealingExhausted''"

definition evidenceFile :: string where
  "evidenceFile = ''failures.json''"

definition resultFile :: string where
  "resultFile = ''result.json''"

record Loop =
  lp_Runner :: Runner
  lp_Publisher :: "Publisher option"
  lp_Turn :: "(bool \<times> string) result sact"
  lp_Request :: "string \<Rightarrow> unit result sact"
  lp_Notify :: "(string \<Rightarrow> string \<Rightarrow> unit sact) option"
  lp_Poll :: duration

fun category_text :: "FailureCategory \<Rightarrow> string" where
  "category_text ImplementationDefect = ''ImplementationDefect''"
| "category_text FlakyTest = ''FlakyTest''"
| "category_text EnvironmentIssue = ''EnvironmentIssue''"

definition failure_json :: "Failure \<Rightarrow> Json" where
  "failure_json f =
     JObject [(''testName'', JString (TestName f)), (''message'', JString (fl_Message f)), (''stackTrace'', JString (StackTrace f)),
       (''screenshotKey'', JString (ScreenshotKey f)), (''category'', JString (category_text (Category f)))]"

definition failures_json :: "Failure list \<Rightarrow> Json" where
  "failures_json fs = JList (map failure_json fs)"

definition result_json :: "TestResult \<Rightarrow> Json" where
  "result_json res =
     JObject [(''runId'', JString (rs_RunId res)), (''attempt'', JNum (of_int (rs_Attempt res))), (''passed'', JBool (Passed res)),
       (''failures'', failures_json (Failures res)), (''reportUrl'', JString (ReportUrl res))]"

definition heal_writeJSON :: "SEnv \<Rightarrow> string \<Rightarrow> Json \<Rightarrow> unit sact" where
  "heal_writeJSON E path v = bindI (sDo E (WriteFile path (s_MarshalIndent E v))) (\<lambda>_. ret ())"

definition test_runId :: "string \<Rightarrow> nat \<Rightarrow> string" where
  "test_runId sessionId attempt = sessionId @ ''-'' @ Itoa (int attempt)"

definition loop_publish :: "SEnv \<Rightarrow> Loop \<Rightarrow> string \<Rightarrow> string \<Rightarrow> string sact" where
  "loop_publish E l runId logDir =
     (case lp_Publisher l of
        None \<Rightarrow> ret []
      | Some p \<Rightarrow>
        (let r = lp_Runner l;
             reportDir = (if ReportDir (rn_Config r) = [] then [] else path_Join (rn_WorkingDir r) (ReportDir (rn_Config r))) in
         bindI (Publish E p runId reportDir logDir) (\<lambda>u. ret (case u of Inl _ \<Rightarrow> [] | Inr url \<Rightarrow> url))))"

definition loop_run :: "SEnv \<Rightarrow> Loop \<Rightarrow> string \<Rightarrow> nat \<Rightarrow> string list \<Rightarrow> TestResult result sact" where
  "loop_run E l sessionId attempt only =
     (let runId = test_runId sessionId attempt; dir = runner_Dir (lp_Runner l) runId in
      tryE (Execute E (lp_Runner l) \<lparr>ru_Id = runId, ru_Attempt = int attempt, OnlyTests = only\<rparr>) (\<lambda>res.
      bindI (heal_writeJSON E (path_Join dir evidenceFile) (failures_json (Failures res))) (\<lambda>_.
      bindI (heal_writeJSON E (path_Join dir resultFile) (result_json res)) (\<lambda>_.
      bindI (loop_publish E l runId dir) (\<lambda>url. ok (res\<lparr>ReportUrl := url\<rparr>))))))"

definition failedTests :: "Failure list \<Rightarrow> string list" where
  "failedTests fs = rev (remdups (rev (filter (\<lambda>n. n \<noteq> []) (map TestName fs))))"

definition nextOnly :: "TestResult \<Rightarrow> string list" where
  "nextOnly res =
     (if list_ex (\<lambda>s. st_Name s = StepUnit \<and> st_Failed s) (Steps res) then [] else failedTests (Failures res))"

definition fixPrompt :: "string \<Rightarrow> string" where
  "fixPrompt dir =
     ''The test run failed. Read '' @ path_Join dir evidenceFile @
     '' for each failing test, its classified cause and its evidence; fix what it points at and reply when the fix is in place.''"

definition exhaustedDetail :: "TestResult \<Rightarrow> string" where
  "exhaustedDetail res =
     Itoa (rs_Attempt res) @ '' attempts exhausted, still failing: '' @
     Join (map (\<lambda>f. TestName f @ '' ('' @ category_text (Category f) @ '')'') (Failures res)) '', '' @
     (if ReportUrl res = [] then [] else '' '' @ [CHR 0xE2, CHR 0x80, CHR 0x94] @ '' '' @ ReportUrl res)"

definition loop_report :: "Loop \<Rightarrow> TestResult \<Rightarrow> unit sact" where
  "loop_report l res =
     (case lp_Notify l of
        None \<Rightarrow> ret ()
      | Some notify \<Rightarrow>
        (if Passed res then notify EventTestsVerified (ReportUrl res)
         else notify EventSelfHealingExhausted (exhaustedDetail res)))"

definition no_result :: TestResult where
  "no_result = \<lparr>rs_RunId = [], rs_Attempt = 0, Passed = False, Failures = [], ReportUrl = [], Steps = []\<rparr>"

text \<open>The rounds left, the number of the next attempt to heal and the last result; the result comes with
  the error that ended the loop, if one did.\<close>

fun heal_rounds :: "SEnv \<Rightarrow> Loop \<Rightarrow> string \<Rightarrow> nat \<Rightarrow> nat \<Rightarrow> TestResult \<Rightarrow> (TestResult \<times> error option) sact" where
  "heal_rounds E l sessionId 0 n res = ret (res, None)"
| "heal_rounds E l sessionId (Suc k) n res =
     (if Passed res then ret (res, None)
      else bindI (lp_Request l (fixPrompt (runner_Dir (lp_Runner l) (test_runId sessionId n)))) (\<lambda>sent.
        case sent of
          Inl e \<Rightarrow> ret (res, Some e)
        | Inr _ \<Rightarrow>
          bindI (loop_run E l sessionId (n + 1) (nextOnly res)) (\<lambda>r.
            case r of
              Inl e \<Rightarrow> ret (no_result, Some e)
            | Inr res' \<Rightarrow> heal_rounds E l sessionId k (n + 1) res')))"

definition Heal :: "SEnv \<Rightarrow> Loop \<Rightarrow> string \<Rightarrow> (TestResult \<times> error option) sact" where
  "Heal E l sessionId =
     bindI (loop_run E l sessionId 1 []) (\<lambda>r.
       case r of
         Inl e \<Rightarrow> ret (no_result, Some e)
       | Inr res \<Rightarrow>
         bindI (heal_rounds E l sessionId MaxHealingAttempts 1 res) (\<lambda>(res, e).
           case e of
             Some e \<Rightarrow> ret (res, Some e)
           | None \<Rightarrow> bindI (loop_report l res) (\<lambda>_. ret (res, None))))"

text \<open>One tick of the watch: \<open>None\<close> before the first observation.  \<open>s_Stamp\<close> is the time format of the run id.\<close>

definition heal_tick :: "SEnv \<Rightarrow> Loop \<Rightarrow> string option \<Rightarrow> string option sact" where
  "heal_tick E l seen =
     bindI (lp_Turn l) (\<lambda>r.
       case r of
         Inl _ \<Rightarrow> ret seen
       | Inr (_, completedAt) \<Rightarrow>
         (case seen of
            None \<Rightarrow> ret (Some completedAt)
          | Some old \<Rightarrow>
            (if completedAt = [] \<or> completedAt = old then ret seen
             else bindI (snow E) (\<lambda>now.
                  bindI (Heal E l (s_Stamp E now)) (\<lambda>_.
                  bindI (lp_Turn l) (\<lambda>r.
                    case r of
                      Inl _ \<Rightarrow> ret (Some completedAt)
                    | Inr (_, after) \<Rightarrow> ret (Some after)))))))"

definition heal_Watch :: "nat \<Rightarrow> SEnv \<Rightarrow> (SEvent list \<Rightarrow> bool) \<Rightarrow> Loop \<Rightarrow> string option sact" where
  "heal_Watch n E cancelled l = watch n (lp_Poll l) cancelled (heal_tick E l) None"

subsection \<open>The loop of main.go\<close>

definition testRunPollInterval :: duration where
  "testRunPollInterval = 5 * Second"

definition fixRequestTimeout :: duration where
  "fixRequestTimeout = 30 * 60 * Second"

definition testArtifactDir :: string where
  "testArtifactDir = ''testruns''"

text \<open>With its fuel a request always ends; the branch for a request still waiting is never taken.\<close>

definition healing_request :: "SEnv \<Rightarrow> (SEvent list \<Rightarrow> Supervisor) \<Rightarrow> string \<Rightarrow> unit result sact" where
  "healing_request E shared prompt =
     bindI (session_Request (request_fuel fixRequestTimeout testRunPollInterval) E shared ''self-healing'' prompt
              fixRequestTimeout testRunPollInterval) (\<lambda>r.
       ret (case r of None \<Rightarrow> request_late ''self-healing'' fixRequestTimeout Idle | Some res \<Rightarrow> res))"

definition healing_notify :: "SEnv \<Rightarrow> string \<Rightarrow> string \<Rightarrow> string \<Rightarrow> string \<Rightarrow> unit sact" where
  "healing_notify E workspace hermesURL kind detail =
     bindI (NotifyHermes E hermesURL \<lparr>ev_Kind = kind, ev_Workspace = workspace, ev_Detail = detail, ev_At = []\<rparr>) (\<lambda>_. ret ())"

definition healing_loop ::
  "SEnv \<Rightarrow> (SEvent list \<Rightarrow> Supervisor) \<Rightarrow> Publisher option \<Rightarrow> string \<Rightarrow> string \<Rightarrow> string \<Rightarrow> string \<Rightarrow> Config \<Rightarrow> Loop" where
  "healing_loop E shared publisher mountRoot workingDir workspace hermesURL cfg =
     \<lparr>lp_Runner = \<lparr>rn_WorkingDir = workingDir, rn_Config = cfg, ArtifactRoot = path_Join mountRoot testArtifactDir\<rparr>,
      lp_Publisher = publisher, lp_Turn = turnReader E shared, lp_Request = healing_request E shared,
      lp_Notify = Some (healing_notify E workspace hermesURL), lp_Poll = testRunPollInterval\<rparr>"

definition newHealingLoop ::
  "SEnv \<Rightarrow> (SEvent list \<Rightarrow> Supervisor) \<Rightarrow> Publisher option \<Rightarrow> string \<Rightarrow> string \<Rightarrow> string \<Rightarrow> string \<Rightarrow> Loop option result sact" where
  "newHealingLoop E shared publisher mountRoot workingDir workspace hermesURL =
     tryE (config_Load E workingDir) (\<lambda>cfg.
       if UnitTest cfg = [] \<and> E2ETest cfg = [] then ok None
       else ok (Some (healing_loop E shared publisher mountRoot workingDir workspace hermesURL cfg)))"

text \<open>The values of the environment variables are arguments.\<close>

definition newReportPublisher :: "string \<Rightarrow> string \<Rightarrow> string \<Rightarrow> string \<Rightarrow> string \<Rightarrow> string \<Rightarrow> string \<Rightarrow> Publisher option" where
  "newReportPublisher endpoint baseURL bucket region accessKey secretKey workspaceId =
     (if endpoint = [] \<or> baseURL = [] then None
      else Some \<lparr>pb_Store = Some \<lparr>s3_Endpoint = endpoint, s3_Bucket = bucket,
                   s3_Region = (if region = [] then ''garage'' else region), s3_AccessKey = accessKey, s3_SecretKey = secretKey\<rparr>,
                 pb_WorkspaceId = workspaceId, PublicBaseURL = baseURL\<rparr>)"

subsection \<open>What a healing session touches\<close>

lemma emits_poll_loop [emits_rules]:
  "emits S attempt \<Longrightarrow> S (SvSleep poll) \<Longrightarrow> emits S (poll_loop n E deadline poll cancelled late attempt)"
  by (induction n) (auto intro!: emits_rules)

text \<open>A command run in a working directory.\<close>

definition in_dir :: "string \<Rightarrow> string list \<Rightarrow> SEvent \<Rightarrow> bool" where
  "in_dir wd argv e \<longleftrightarrow> (\<exists>r. e = SvExec wd argv [] r)"

lemma in_dir_simps [simp]:
  "in_dir wd argv (SvExec d a i r) = (d = wd \<and> a = argv \<and> i = [])"
  "\<not> in_dir wd argv (SvFile op fr)" "\<not> in_dir wd argv (SvWalk b wr)" "\<not> in_dir wd argv (SvHttp v u hs bd hr)"
  "\<not> in_dir wd argv (SvSleep t)" "\<not> in_dir wd argv (SvServe d a sr)" "\<not> in_dir wd argv (SvStop a)"
  by (auto simp: in_dir_def)

definition outside :: "string \<Rightarrow> SEvent \<Rightarrow> bool" where
  "outside wd e \<longleftrightarrow> (\<forall>argv. \<not> in_dir wd argv e)"

lemma outside_simps [simp]:
  "outside wd (SvExec d a i r) = (d = wd \<longrightarrow> i \<noteq> [])"
  "outside wd (SvFile op fr)" "outside wd (SvWalk b wr)" "outside wd (SvHttp v u hs bd hr)"
  "outside wd (SvSleep t)" "outside wd (SvServe d a sr)" "outside wd (SvStop a)"
  by (auto simp: outside_def)

lemma outside_healing_request:
  assumes "wd \<noteq> []"
  shows "emits (outside wd) (healing_request E shared prompt)"
  unfolding healing_request_def session_Request_def SendInput_def SendInputFrom_def HasSession_def sup_ListClients_def tmux_ListClients_def
    SyncClaudeMD_def SendText_def tmux_run_def request_round_def sup_TurnState_def TurnStateFrom_def latestTranscript_def
  using assms by (intro emits_rules; simp)

lemma outside_collectFailures: "emits (outside wd) (collectFailures E d cfg steps)"
  unfolding collectFailures_def attachScreenshots_def imagesUnderReportDir_def by (intro emits_rules; simp)

lemma outside_PutFile: "emits (outside wd) (PutFile E c key path)"
  unfolding PutFile_def by (intro emits_rules; simp)

lemma outside_loop_publish: "emits (outside wd) (loop_publish E l runId logDir)"
  unfolding loop_publish_def Publish_def publish_upload_def
  by (intro emits_rules outside_PutFile; simp)

lemma outside_heal_writeJSON: "emits (outside wd) (heal_writeJSON E path v)"
  unfolding heal_writeJSON_def by (intro emits_rules; simp)

lemma outside_healing_notify: "emits (outside wd) (healing_notify E ws url kind detail)"
  unfolding healing_notify_def NotifyHermes_def by (intro emits_rules; simp)

subsection \<open>A verified verdict\<close>

text \<open>The last time the unit suite ran, it passed.\<close>

definition unit_passed_last :: "Runner \<Rightarrow> SEvent list \<Rightarrow> bool" where
  "unit_passed_last r evs \<longleftrightarrow>
     (\<exists>pre out post. evs = pre @ SvExec (rn_WorkingDir r) (UnitTest (rn_Config r)) [] (out, None) # post \<and>
        list_all (\<lambda>e. \<not> in_dir (rn_WorkingDir r) (UnitTest (rn_Config r)) e) post)"

definition e2e_passed :: "Runner \<Rightarrow> SEvent list \<Rightarrow> bool" where
  "e2e_passed r evs \<longleftrightarrow> (\<exists>only out. SvExec (rn_WorkingDir r) (e2eArgv r only) [] (out, None) \<in> set evs)"

definition unit_failed :: "TestResult \<Rightarrow> bool" where
  "unit_failed res \<longleftrightarrow> list_ex (\<lambda>s. st_Name s = StepUnit \<and> st_Failed s) (Steps res)"

text \<open>What a result says of the events of its session.\<close>

definition backed :: "Runner \<Rightarrow> TestResult \<Rightarrow> SEvent list \<Rightarrow> bool" where
  "backed r res evs \<longleftrightarrow>
     (UnitTest (rn_Config r) = [] \<or> unit_failed res \<or> unit_passed_last r evs) \<and>
     (Passed res \<longrightarrow> \<not> unit_failed res \<and> (E2ETest (rn_Config r) = [] \<or> e2e_passed r evs))"

lemma unit_passed_last_before: "unit_passed_last r evs \<Longrightarrow> unit_passed_last r (evs0 @ evs)"
  unfolding unit_passed_last_def by (metis append.assoc)

lemma unit_passed_last_after:
  assumes "unit_passed_last r evs" and "list_all (\<lambda>e. \<not> in_dir (rn_WorkingDir r) (UnitTest (rn_Config r)) e) evs'"
  shows "unit_passed_last r (evs @ evs')"
proof -
  obtain pre out post where "evs = pre @ SvExec (rn_WorkingDir r) (UnitTest (rn_Config r)) [] (out, None) # post"
    "list_all (\<lambda>e. \<not> in_dir (rn_WorkingDir r) (UnitTest (rn_Config r)) e) post"
    using assms(1) unfolding unit_passed_last_def by blast
  then show ?thesis using assms(2) unfolding unit_passed_last_def
    by (intro exI [of _ pre] exI [of _ out] exI [of _ "post @ evs'"]) simp
qed

lemma outside_not_unit: "list_all (outside (rn_WorkingDir r)) evs \<Longrightarrow> list_all (\<lambda>e. \<not> in_dir (rn_WorkingDir r) argv e) evs"
  by (auto simp: list_all_iff outside_def)

lemma backed_before: "backed r res evs \<Longrightarrow> backed r res (evs0 @ evs)"
  by (auto simp: backed_def e2e_passed_def intro: unit_passed_last_before)

lemma backed_after: "backed r res evs \<Longrightarrow> list_all (outside (rn_WorkingDir r)) evs' \<Longrightarrow> backed r res (evs @ evs')"
  by (auto simp: backed_def e2e_passed_def intro: unit_passed_last_after outside_not_unit)

text \<open>One suite: the step it adds and the event that tells of it.\<close>

lemma runs_runner_step:
  "runs (runner_step E r dir name argv res) h (\<lambda>x evs. \<forall>res'. x = Inr res' \<longrightarrow>
     (\<exists>out e fr. evs = [SvExec (rn_WorkingDir r) argv [] (out, e), SvFile (WriteFile (path_Join dir (name @ ''.log'')) out) fr] \<and>
        res' = add_step res \<lparr>st_Name = name, st_Argv = argv, st_Output = out, st_Failed = (e \<noteq> None)\<rparr>))"
  by (auto simp: runs_def runner_step_def bindI_def sExec_def sDo_def sFile_def call_def tryE_def ok_def fail_def ret_def
      split: prod.splits sum.splits)

abbreviation no_unit :: "Runner \<Rightarrow> SEvent \<Rightarrow> bool" where
  "no_unit r e \<equiv> \<not> in_dir (rn_WorkingDir r) (UnitTest (rn_Config r)) e"

text \<open>No command of the second suite is the first suite.\<close>

definition suites_differ :: "Runner \<Rightarrow> bool" where
  "suites_differ r \<longleftrightarrow> (\<forall>only. e2eArgv r only \<noteq> UnitTest (rn_Config r))"

lemma unit_failed_e2e [simp]: "unit_failed (add_step res \<lparr>st_Name = StepE2E, st_Argv = a, st_Output = t, st_Failed = b\<rparr>) = unit_failed res"
  by (simp add: unit_failed_def add_step_def StepE2E_def StepUnit_def)

lemma add_step_Passed [simp]: "Passed (add_step res s) = (Passed res \<and> \<not> st_Failed s)"
  by (simp add: add_step_def)

lemma runs_e2e_step:
  assumes "suites_differ r"
  shows "runs (runner_step E r dir StepE2E (e2eArgv r only) res) h (\<lambda>x evs. \<forall>res'. x = Inr res' \<longrightarrow>
    list_all (no_unit r) evs \<and> unit_failed res' = unit_failed res \<and> (Passed res' \<longrightarrow> Passed res \<and> e2e_passed r evs))"
  by (rule runs_mono [OF runs_runner_step])
     (use assms in \<open>fastforce simp: suites_differ_def e2e_passed_def\<close>)

lemma runs_with_app:
  assumes "\<And>h. runs suite h (\<lambda>x evs. \<forall>res'. x = Inr res' \<longrightarrow> list_all (no_unit r) evs \<and> P res' \<and> (Passed res' \<longrightarrow> e2e_passed r evs))"
  shows "runs (with_app E r suite) h (\<lambda>x evs. \<forall>res'. x = Inr res' \<longrightarrow> list_all (no_unit r) evs \<and> P res' \<and> (Passed res' \<longrightarrow> e2e_passed r evs))"
proof (cases "App (rn_Config r) = []")
  case True
  then show ?thesis using assms by (simp add: with_app_def)
next
  case False
  have grow: "e2e_passed r evs \<Longrightarrow> e2e_passed r (a # evs @ [b])" for evs a b
    by (auto simp: e2e_passed_def)
  show ?thesis
  proof (cases "s_serve E h (rn_WorkingDir r) (App (rn_Config r))")
    case (Some e)
    then show ?thesis using False by (simp add: with_app_def runs_def bindI_def sServe_def call_def fail_def ret_def)
  next
    case None
    obtain x evs where "suite (h @ [SvServe (rn_WorkingDir r) (App (rn_Config r)) None]) =
        (x, (h @ [SvServe (rn_WorkingDir r) (App (rn_Config r)) None]) @ evs)"
      and "\<forall>res'. x = Inr res' \<longrightarrow> list_all (no_unit r) evs \<and> P res' \<and> (Passed res' \<longrightarrow> e2e_passed r evs)"
      by (rule runsE [OF assms])
    then show ?thesis using False None grow
      by (auto simp: with_app_def runs_def bindI_def sServe_def sStop_def call_def ret_def)
  qed
qed

lemma runs_e2e_suite:
  assumes "suites_differ r"
  shows "runs (e2e_suite E r run res) h (\<lambda>x evs. \<forall>res'. x = Inr res' \<longrightarrow>
    list_all (no_unit r) evs \<and> unit_failed res' = unit_failed res \<and>
    (Passed res' \<longrightarrow> Passed res \<and> (E2ETest (rn_Config r) = [] \<or> e2e_passed r evs)))"
proof (cases "e2eArgv r (OnlyTests run) = []")
  case True
  then have "E2ETest (rn_Config r) = []" by (auto simp: e2eArgv_def split: if_splits)
  then show ?thesis using True by (auto simp: e2e_suite_def runs_def ok_def ret_def)
next
  case False
  have "runs (with_app E r (runner_step E r (runner_Dir r (ru_Id run)) StepE2E (e2eArgv r (OnlyTests run)) res)) h
      (\<lambda>x evs. \<forall>res'. x = Inr res' \<longrightarrow> list_all (no_unit r) evs \<and>
        (unit_failed res' = unit_failed res \<and> (Passed res' \<longrightarrow> Passed res)) \<and> (Passed res' \<longrightarrow> e2e_passed r evs))"
    by (intro runs_with_app runs_mono [OF runs_e2e_step [OF assms]]) blast
  then show ?thesis using False by (auto simp: e2e_suite_def elim!: runs_mono)
qed

text \<open>What one attempt leaves behind.\<close>

definition attempted :: "Runner \<Rightarrow> string list \<Rightarrow> TestResult \<Rightarrow> SEvent list \<Rightarrow> bool" where
  "attempted r only res evs \<longleftrightarrow>
     (if only = [] then UnitTest (rn_Config r) = [] \<or> unit_failed res \<or> unit_passed_last r evs
      else \<not> unit_failed res \<and> list_all (no_unit r) evs) \<and>
     (Passed res \<longrightarrow> \<not> unit_failed res \<and> (E2ETest (rn_Config r) = [] \<or> e2e_passed r evs))"

lemma attempted_backed:
  assumes "attempted r only res' evs" and "backed r res evs0" and "only = [] \<or> \<not> unit_failed res"
  shows "backed r res' (evs0 @ evs)"
  using assms
  by (auto simp: attempted_def backed_def e2e_passed_def split: if_splits intro: unit_passed_last_before unit_passed_last_after)

lemma attempted_backed0: "attempted r [] res evs \<Longrightarrow> backed r res evs"
  by (auto simp: attempted_def backed_def)

lemma attempted_after:
  "attempted r only res evs \<Longrightarrow> list_all (outside (rn_WorkingDir r)) evs' \<Longrightarrow> attempted r only res (evs @ evs')"
  by (auto simp: attempted_def e2e_passed_def split: if_splits intro: unit_passed_last_after outside_not_unit)

lemma runs_unit_suite:
  "runs (unit_suite E r run) h (\<lambda>x evs. \<forall>res. x = Inr res \<longrightarrow>
    (if OnlyTests run = [] then UnitTest (rn_Config r) = [] \<or> unit_failed res \<or> unit_passed_last r evs
     else \<not> unit_failed res \<and> list_all (no_unit r) evs) \<and> (Passed res \<longrightarrow> \<not> unit_failed res))"
proof (cases "UnitTest (rn_Config r) \<noteq> [] \<and> OnlyTests run = []")
  case True
  have "runs (runner_step E r (runner_Dir r (ru_Id run)) StepUnit (UnitTest (rn_Config r)) (new_result run)) h
      (\<lambda>x evs. \<forall>res. x = Inr res \<longrightarrow> (unit_failed res \<or> unit_passed_last r evs) \<and> (Passed res \<longrightarrow> \<not> unit_failed res))"
  proof (rule runs_mono [OF runs_runner_step], intro allI impI)
    fix x evs res
    assume "\<forall>res'. x = Inr res' \<longrightarrow> (\<exists>out e fr. evs =
        [SvExec (rn_WorkingDir r) (UnitTest (rn_Config r)) [] (out, e), SvFile (WriteFile (path_Join (runner_Dir r (ru_Id run)) (StepUnit @ ''.log'')) out) fr] \<and>
        res' = add_step (new_result run) \<lparr>st_Name = StepUnit, st_Argv = UnitTest (rn_Config r), st_Output = out, st_Failed = (e \<noteq> None)\<rparr>)"
      and "x = Inr res"
    then obtain out e fr where evs: "evs = [SvExec (rn_WorkingDir r) (UnitTest (rn_Config r)) [] (out, e),
          SvFile (WriteFile (path_Join (runner_Dir r (ru_Id run)) (StepUnit @ ''.log'')) out) fr]"
      and res: "res = add_step (new_result run) \<lparr>st_Name = StepUnit, st_Argv = UnitTest (rn_Config r), st_Output = out, st_Failed = (e \<noteq> None)\<rparr>"
      by blast
    have "unit_failed res = (e \<noteq> None)" by (simp add: res unit_failed_def add_step_def new_result_def)
    moreover have "unit_passed_last r evs" if "e = None"
      unfolding unit_passed_last_def evs that
      by (intro exI [of _ "[]"] exI [of _ out] exI [of _ "[SvFile (WriteFile (path_Join (runner_Dir r (ru_Id run)) (StepUnit @ ''.log'')) out) fr]"]) simp
    ultimately show "(unit_failed res \<or> unit_passed_last r evs) \<and> (Passed res \<longrightarrow> \<not> unit_failed res)"
      by (auto simp: res)
  qed
  then show ?thesis using True by (auto simp: unit_suite_def elim!: runs_mono)
next
  case False
  then show ?thesis by (auto simp: unit_suite_def ok_def unit_failed_def new_result_def)
qed

lemma runs_quiet_try:
  assumes "emits (outside (rn_WorkingDir r)) m"
    and "\<And>x h. runs (f x) h (\<lambda>y evs. \<forall>res. y = Inr res \<longrightarrow> attempted r only res evs)"
  shows "runs (tryE m f) h (\<lambda>y evs. \<forall>res. y = Inr res \<longrightarrow> attempted r only res evs)"
proof (rule runs_emits_try [OF assms(1)])
  fix x evs
  assume q: "list_all (outside (rn_WorkingDir r)) evs"
  have pre: "attempted r only res (evs @ evs')" if "attempted r only res evs'" for res evs'
    using that outside_not_unit [OF q] by (auto simp: attempted_def e2e_passed_def split: if_splits intro: unit_passed_last_before)
  show "runs (f x) (h @ evs) (\<lambda>y evs'. \<forall>res. y = Inr res \<longrightarrow> attempted r only res (evs @ evs'))"
    by (rule runs_mono [OF assms(2)]) (use pre in blast)
qed simp

lemma runs_execute_run:
  assumes "suites_differ r"
  shows "runs (execute_run E r run) h (\<lambda>x evs. \<forall>res. x = Inr res \<longrightarrow> attempted r (OnlyTests run) res evs)"
proof (cases "ru_Id run = []")
  case True
  then show ?thesis by (simp add: execute_run_def fail_def)
next
  case False
  have suites: "runs (tryE (unit_suite E r run) (e2e_suite E r run)) h (\<lambda>x evs. \<forall>res. x = Inr res \<longrightarrow> attempted r (OnlyTests run) res evs)" for h
  proof (rule runs_tryE [OF runs_unit_suite])
    fix res0 evs
    assume u: "\<forall>res. (Inr res0 :: TestResult result) = Inr res \<longrightarrow>
      (if OnlyTests run = [] then UnitTest (rn_Config r) = [] \<or> unit_failed res \<or> unit_passed_last r evs
       else \<not> unit_failed res \<and> list_all (no_unit r) evs) \<and> (Passed res \<longrightarrow> \<not> unit_failed res)"
    show "runs (e2e_suite E r run res0) (h @ evs) (\<lambda>y evs'. \<forall>res. y = Inr res \<longrightarrow> attempted r (OnlyTests run) res (evs @ evs'))"
      by (rule runs_mono [OF runs_e2e_suite [OF assms]])
         (use u in \<open>auto simp: attempted_def e2e_passed_def split: if_splits intro: unit_passed_last_after\<close>)
  qed simp
  show ?thesis
    unfolding execute_run_def using False
    by (auto intro!: runs_quiet_try suites emits_rules)
qed

lemma runs_then_quiet:
  assumes "runs m h (\<lambda>x evs. \<forall>res. x = Inr res \<longrightarrow> attempted r only res evs)"
    and "\<And>res. emits (outside (rn_WorkingDir r)) (f res)"
    and same: "\<And>res h y h'. f res h = (Inr y, h') \<Longrightarrow> Steps y = Steps res \<and> Passed y = Passed res"
  shows "runs (tryE m f) h (\<lambda>x evs. \<forall>res. x = Inr res \<longrightarrow> attempted r only res evs)"
proof (rule runs_tryE [OF assms(1)])
  fix res0 evs
  assume "\<forall>res. (Inr res0 :: TestResult result) = Inr res \<longrightarrow> attempted r only res evs"
  then have a: "attempted r only res0 evs" by simp
  obtain x h1 where f: "f res0 (h @ evs) = (x, h1)" by (cases "f res0 (h @ evs)")
  obtain evs' where evs': "h1 = (h @ evs) @ evs'" "list_all (outside (rn_WorkingDir r)) evs'"
    by (rule emitsE [OF assms(2) f])
  show "runs (f res0) (h @ evs) (\<lambda>y evs'. \<forall>res. y = Inr res \<longrightarrow> attempted r only res (evs @ evs'))"
  proof (rule runsI)
    show "f res0 (h @ evs) = (x, (h @ evs) @ evs')" using f evs' by simp
    show "\<forall>res. x = Inr res \<longrightarrow> attempted r only res (evs @ evs')"
    proof (intro allI impI)
      fix res
      assume "x = Inr res"
      then have "Steps res = Steps res0 \<and> Passed res = Passed res0" using f same by blast
      then have "unit_failed res = unit_failed res0" "Passed res = Passed res0" by (simp_all add: unit_failed_def)
      then have "attempted r only res evs" using a by (simp add: attempted_def)
      then show "attempted r only res (evs @ evs')" using evs'(2) by (rule attempted_after)
    qed
  qed
qed simp

lemma runs_loop_run:
  assumes "suites_differ (lp_Runner l)"
  shows "runs (loop_run E l sid n only) h (\<lambda>x evs. \<forall>res. x = Inr res \<longrightarrow> attempted (lp_Runner l) only res evs)"
proof -
  have run: "runs (execute_run E (lp_Runner l) \<lparr>ru_Id = test_runId sid n, ru_Attempt = int n, OnlyTests = only\<rparr>) h
      (\<lambda>x evs. \<forall>res. x = Inr res \<longrightarrow> attempted (lp_Runner l) only res evs)"
    using runs_execute_run [OF assms, of E "\<lparr>ru_Id = test_runId sid n, ru_Attempt = int n, OnlyTests = only\<rparr>" h] by simp
  show ?thesis
    unfolding loop_run_def Let_def Execute_def
  proof (intro runs_then_quiet run)
    show "emits (outside (rn_WorkingDir (lp_Runner l)))
        (bindI (collectFailures E (rn_WorkingDir (lp_Runner l)) (rn_Config (lp_Runner l)) (Steps res)) (\<lambda>fs. ok (res\<lparr>Failures := fs\<rparr>)))" for res
      by (intro emits_rules outside_collectFailures)
    show "emits (outside (rn_WorkingDir (lp_Runner l)))
        (bindI (heal_writeJSON E (path_Join (runner_Dir (lp_Runner l) (test_runId sid n)) evidenceFile) (failures_json (Failures res))) (\<lambda>_.
         bindI (heal_writeJSON E (path_Join (runner_Dir (lp_Runner l) (test_runId sid n)) resultFile) (result_json res)) (\<lambda>_.
         bindI (loop_publish E l (test_runId sid n) (runner_Dir (lp_Runner l) (test_runId sid n))) (\<lambda>url. ok (res\<lparr>ReportUrl := url\<rparr>)))))" for res
      by (intro emits_rules outside_heal_writeJSON outside_loop_publish)
  qed (auto simp: bindI_def ok_def ret_def split: prod.splits)
qed

text \<open>The result a session ends with is backed by its events.\<close>

lemma heal_rounds_backed:
  assumes "suites_differ (lp_Runner l)" and "\<And>p. emits (outside (rn_WorkingDir (lp_Runner l))) (lp_Request l p)"
    and "backed (lp_Runner l) res evs0"
  shows "runs (heal_rounds E l sid k n res) h (\<lambda>y evs. snd y = None \<longrightarrow> backed (lp_Runner l) (fst y) (evs0 @ evs))"
  using assms(3)
proof (induction k arbitrary: n res evs0 h)
  case 0
  then show ?case by simp
next
  case (Suc k)
  let ?r = "lp_Runner l"
  show ?case
  proof (cases "Passed res")
    case True
    then show ?thesis using Suc.prems by simp
  next
    case False
    have narrowed: "nextOnly res = [] \<or> \<not> unit_failed res" by (simp add: nextOnly_def unit_failed_def)
    have "runs (case sent of
            Inl e \<Rightarrow> ret (res, Some e)
          | Inr u \<Rightarrow>
            bindI (loop_run E l sid (n + 1) (nextOnly res)) (\<lambda>r.
              case r of Inl e \<Rightarrow> ret (no_result, Some e) | Inr res' \<Rightarrow> heal_rounds E l sid k (n + 1) res')) (h @ evs)
          (\<lambda>y evs'. snd y = None \<longrightarrow> backed ?r (fst y) (evs0 @ evs @ evs'))"
      if q: "list_all (outside (rn_WorkingDir ?r)) evs" for evs and sent :: "unit result"
    proof (cases sent)
      case (Inr u)
      have b: "backed ?r res (evs0 @ evs)" using Suc.prems q by (rule backed_after)
      have "runs (bindI (loop_run E l sid (n + 1) (nextOnly res)) (\<lambda>r.
              case r of Inl e \<Rightarrow> ret (no_result, Some e) | Inr res' \<Rightarrow> heal_rounds E l sid k (n + 1) res')) (h @ evs)
            (\<lambda>y evs'. snd y = None \<longrightarrow> backed ?r (fst y) ((evs0 @ evs) @ evs'))"
      proof (rule runs_bindI [OF runs_loop_run [OF assms(1)]])
        fix x :: "TestResult result" and evs1
        assume a: "\<forall>res'. x = Inr res' \<longrightarrow> attempted ?r (nextOnly res) res' evs1"
        show "runs (case x of Inl e \<Rightarrow> ret (no_result, Some e) | Inr res' \<Rightarrow> heal_rounds E l sid k (n + 1) res') ((h @ evs) @ evs1)
            (\<lambda>y evs'. snd y = None \<longrightarrow> backed ?r (fst y) ((evs0 @ evs) @ evs1 @ evs'))"
        proof (cases x)
          case (Inr res')
          then have "backed ?r res' ((evs0 @ evs) @ evs1)" using a attempted_backed [OF _ b narrowed] by blast
          from Suc.IH [OF this, of "n + 1" "(h @ evs) @ evs1"] show ?thesis
            using Inr by (auto elim!: runs_mono)
        qed simp
      qed
      then show ?thesis by (simp only: Inr sum.case append_assoc)
    qed simp
    note body = this
    show ?thesis unfolding heal_rounds.simps if_not_P [OF False]
      by (rule runs_emits_bind [OF assms(2)]) (rule body)
  qed
qed

lemma heal_backed:
  assumes "suites_differ (lp_Runner l)" and "\<And>p. emits (outside (rn_WorkingDir (lp_Runner l))) (lp_Request l p)"
    and "\<And>res. emits (outside (rn_WorkingDir (lp_Runner l))) (loop_report l res)"
  shows "runs (Heal E l sid) h (\<lambda>y evs. snd y = None \<longrightarrow> backed (lp_Runner l) (fst y) evs)"
  unfolding Heal_def
proof (rule runs_bindI [OF runs_loop_run [OF assms(1)]])
  fix x :: "TestResult result" and evs
  let ?finish = "\<lambda>(res, e). case e of Some e \<Rightarrow> ret (res, Some e) | None \<Rightarrow> bindI (loop_report l res) (\<lambda>_. ret (res, None))"
  assume a: "\<forall>res. x = Inr res \<longrightarrow> attempted (lp_Runner l) [] res evs"
  show "runs (case x of Inl e \<Rightarrow> ret (no_result, Some e) | Inr res \<Rightarrow> bindI (heal_rounds E l sid MaxHealingAttempts 1 res) ?finish) (h @ evs)
      (\<lambda>y evs'. snd y = None \<longrightarrow> backed (lp_Runner l) (fst y) (evs @ evs'))"
  proof (cases x)
    case (Inr res0)
    then have "backed (lp_Runner l) res0 evs" using a attempted_backed0 by blast
    note rounds = heal_rounds_backed [OF assms(1,2) this]
    have "runs (bindI (heal_rounds E l sid MaxHealingAttempts 1 res0) ?finish) (h @ evs)
        (\<lambda>y evs'. snd y = None \<longrightarrow> backed (lp_Runner l) (fst y) (evs @ evs'))"
    proof (rule runs_bindI [OF rounds])
      fix y :: "TestResult \<times> error option" and evs1
      assume b: "snd y = None \<longrightarrow> backed (lp_Runner l) (fst y) (evs @ evs1)"
      show "runs (?finish y) ((h @ evs) @ evs1) (\<lambda>z evs'. snd z = None \<longrightarrow> backed (lp_Runner l) (fst z) (evs @ evs1 @ evs'))"
      proof (cases "snd y")
        case None
        then have "backed (lp_Runner l) (fst y) (evs @ evs1)" using b by simp
        from backed_after [OF this] None show ?thesis
          by (cases y) (auto intro!: runs_emits_bind [OF assms(3)])
      next
        case (Some e)
        then show ?thesis by (cases y) simp
      qed
    qed
    then show ?thesis using Inr by simp
  qed simp
qed


lemma suites_differ_healing:
  assumes "E2ETestFilter cfg = []" and "E2ETest cfg \<noteq> UnitTest cfg"
  shows "suites_differ (lp_Runner (healing_loop E shared publisher mountRoot workingDir workspace hermesURL cfg))"
  using assms by (simp add: suites_differ_def healing_loop_def e2eArgv_def)

text \<open>An environment whose file operations succeed.\<close>

definition test_senv :: SEnv where
  "test_senv = senv0\<lparr>s_file := \<lambda>h op. Inr []\<rparr>"


subsection \<open>A bounded number of fix requests\<close>

definition at_most :: "('ev \<Rightarrow> bool) \<Rightarrow> nat \<Rightarrow> ('ev, 'a) io \<Rightarrow> bool" where
  "at_most P k m \<longleftrightarrow> (\<forall>h. runs m h (\<lambda>_ evs. length (filter P evs) \<le> k))"

lemma at_most_emits: "emits (\<lambda>e. \<not> P e) m \<Longrightarrow> at_most P k m"
  unfolding at_most_def by (auto simp: list_all_iff filter_False elim!: runs_emits)

lemma at_most_bindI:
  assumes "at_most P j m" and "\<And>x. at_most P k (f x)"
  shows "at_most P (j + k) (bindI m f)"
  unfolding at_most_def
proof
  fix h
  show "runs (bindI m f) h (\<lambda>_ evs. length (filter P evs) \<le> j + k)"
  proof (rule runs_bindI)
    show "runs m h (\<lambda>_ evs. length (filter P evs) \<le> j)" using assms(1) by (simp add: at_most_def)
    show "runs (f x) (h @ evs) (\<lambda>_ evs'. length (filter P (evs @ evs')) \<le> j + k)" if "length (filter P evs) \<le> j" for x evs
    proof (rule runs_mono)
      show "runs (f x) (h @ evs) (\<lambda>_ evs'. length (filter P evs') \<le> k)" using assms(2) by (simp add: at_most_def)
    qed (use that in simp)
  qed
qed

lemma at_most_quiet_bind: "emits (\<lambda>e. \<not> P e) m \<Longrightarrow> (\<And>x. at_most P k (f x)) \<Longrightarrow> at_most P k (bindI m f)"
  using at_most_bindI [of P 0 m k f] by (simp add: at_most_emits)

lemma at_most_bind_quiet: "at_most P k m \<Longrightarrow> (\<And>x. emits (\<lambda>e. \<not> P e) (f x)) \<Longrightarrow> at_most P k (bindI m f)"
  using at_most_bindI [of P k m 0 f] by (simp add: at_most_emits)

lemma at_most_peek: "(\<And>h. at_most P k (f (a h))) \<Longrightarrow> at_most P k (bindI (peek a) f)"
  by (simp add: at_most_def runs_def bindI_def peek_def)

lemma at_most_cases:
  "(b \<Longrightarrow> at_most P k m) \<Longrightarrow> (\<not> b \<Longrightarrow> at_most P k n) \<Longrightarrow> at_most P k (if b then m else n)"
  "(\<And>e. x = Inl e \<Longrightarrow> at_most P k (f e)) \<Longrightarrow> (\<And>y. x = Inr y \<Longrightarrow> at_most P k (g y)) \<Longrightarrow> at_most P k (case x of Inl e \<Rightarrow> f e | Inr y \<Rightarrow> g y)"
  "(z = None \<Longrightarrow> at_most P k m') \<Longrightarrow> (\<And>y. z = Some y \<Longrightarrow> at_most P k (g' y)) \<Longrightarrow> at_most P k (case z of None \<Rightarrow> m' | Some y \<Rightarrow> g' y)"
  by (simp_all split: sum.splits option.splits)

text \<open>A prompt submitted to the session.\<close>

definition pastes :: "Tmux \<Rightarrow> SEvent \<Rightarrow> bool" where
  "pastes t e \<longleftrightarrow> (\<exists>x y. e = SvExec [] (tmux_args t (paste_args t)) x y)"

lemma pastes_simps [simp]:
  "pastes t (SvExec d a i r) = (d = [] \<and> a = tmux_args t (paste_args t))"
  "\<not> pastes t (SvFile op fr)" "\<not> pastes t (SvWalk b wr)" "\<not> pastes t (SvHttp v u hs bd hr)"
  "\<not> pastes t (SvSleep n)" "\<not> pastes t (SvServe d a sr)" "\<not> pastes t (SvStop a)"
  by (auto simp: pastes_def)

lemma types_pastes: "\<not> types t e \<Longrightarrow> \<not> pastes t e"
  by (auto simp: types_def pastes_def)

lemma no_paste:
  "emits (\<lambda>e. \<not> pastes t e) (HasSession E t)" "emits (\<lambda>e. \<not> pastes (sp_Tmux s) e) (sup_ListClients E s)"
  "emits (\<lambda>e. \<not> pastes t e) (SyncClaudeMD E src dir)"
  by (rule emits_mono [OF quiet_HasSession types_pastes] emits_mono [OF quiet_sup_ListClients types_pastes]
      emits_mono [OF quiet_SyncClaudeMD types_pastes], assumption)+

lemma at_most_SendInput: "at_most (pastes (sp_Tmux s)) 1 (SendInput E s txt)"
proof -
  have load: "emits (\<lambda>e. \<not> pastes (sp_Tmux s) e) (sExec E [] (load_args (sp_Tmux s)) i)" for i
    by (intro emits_rules) (simp add: load_args_def paste_args_def tmux_args_def)
  have one: "at_most (pastes (sp_Tmux s)) 1 (sExec E [] a i)" for a i
    by (simp add: at_most_def runs_def sExec_def call_def)
  have paste: "at_most (pastes (sp_Tmux s)) 1 (SendText E (sp_Tmux s) txt)"
    unfolding SendText_def tmux_run_def tryE_def
    by (rule at_most_quiet_bind [OF load], simp only: split_def, intro at_most_cases at_most_bind_quiet one) (intro at_most_emits emits_rules; simp)+
  have submit: "at_most (pastes (sp_Tmux s)) 1 (bindI (SendText E (sp_Tmux s) txt) (\<lambda>res.
      case res of Inl e \<Rightarrow> ret (Some (rejected e)) | Inr _ \<Rightarrow> ret None))"
    by (rule at_most_bind_quiet [OF paste]) (intro emits_rules)
  show ?thesis
    unfolding SendInput_def SendInputFrom_def
    by (rule submit | rule at_most_cases | rule no_paste | rule at_most_quiet_bind | (rule at_most_emits, rule emits_rules))+
qed

lemma no_paste_TurnState: "emits (\<lambda>e. \<not> pastes t e) (sup_TurnState E s)"
  unfolding sup_TurnState_def TurnStateFrom_def latestTranscript_def by (intro emits_rules; simp)

lemma at_most_healing_request:
  assumes "\<And>h. sp_Tmux (shared h) = t"
  shows "at_most (pastes t) 1 (healing_request E shared prompt)"
proof -
  let ?T = fixRequestTimeout and ?P = testRunPollInterval
  have wait: "emits (\<lambda>e. \<not> pastes t e) (poll_loop n E d p c late (request_round E shared l before))" for n d p l before late
      and c :: "SEvent list \<Rightarrow> unit result option"
    unfolding request_round_def by (intro emits_rules no_paste_TurnState; simp)
  have sent: "at_most (pastes t) 1 (bindI (SendInput E (shared h) prompt) f)"
    if "\<And>x. emits (\<lambda>e. \<not> pastes t e) (f x)" for h and f :: "SendError option \<Rightarrow> unit result option sact"
    by (rule at_most_bind_quiet [OF at_most_SendInput [of "shared h", unfolded assms] that])
  show ?thesis
    unfolding healing_request_def session_Request_def
    by (intro at_most_bind_quiet at_most_peek at_most_quiet_bind no_paste_TurnState at_most_cases at_most_emits sent emits_rules wait; simp)
qed

lemma no_paste_loop_run:
  assumes "rn_WorkingDir (lp_Runner l) \<noteq> []"
  shows "emits (\<lambda>e. \<not> pastes t e) (loop_run E l sid n only)"
  unfolding loop_run_def Execute_def execute_run_def unit_suite_def e2e_suite_def with_app_def runner_step_def collectFailures_def
    attachScreenshots_def imagesUnderReportDir_def heal_writeJSON_def loop_publish_def Publish_def publish_upload_def PutFile_def signed_request_def
  using assms by (intro emits_rules; simp)

lemma at_most_heal_rounds:
  assumes "rn_WorkingDir (lp_Runner l) \<noteq> []" and "\<And>p. at_most (pastes t) 1 (lp_Request l p)"
  shows "at_most (pastes t) k (heal_rounds E l sid k n res)"
proof (induction k arbitrary: n res)
  case 0
  then show ?case by (auto intro: at_most_emits emits_rules)
next
  case (Suc k)
  have again: "at_most (pastes t) k (bindI (loop_run E l sid (n + 1) (nextOnly res)) (\<lambda>r.
      case r of Inl e \<Rightarrow> ret (no_result, Some e) | Inr res' \<Rightarrow> heal_rounds E l sid k (n + 1) res'))"
    by (intro at_most_quiet_bind no_paste_loop_run assms(1) at_most_cases Suc.IH) (intro at_most_emits emits_rules)
  have "at_most (pastes t) (1 + k) (bindI (lp_Request l (fixPrompt (runner_Dir (lp_Runner l) (test_runId sid n)))) (\<lambda>sent.
      case sent of Inl e \<Rightarrow> ret (res, Some e)
      | Inr _ \<Rightarrow> bindI (loop_run E l sid (n + 1) (nextOnly res)) (\<lambda>r.
          case r of Inl e \<Rightarrow> ret (no_result, Some e) | Inr res' \<Rightarrow> heal_rounds E l sid k (n + 1) res')))"
    by (intro at_most_bindI assms(2) at_most_cases again) (intro at_most_emits emits_rules)
  note round = this [unfolded plus_1_eq_Suc]
  show ?case unfolding heal_rounds.simps
    by (rule at_most_cases(1)) ((rule at_most_emits, intro emits_rules), rule round)
qed

text \<open>C12. Self-healing is bounded, whatever the tests do.  One healing session of the loop \<^verbatim>\<open>main.go\<close> builds
  submits at most \<open>MaxHealingAttempts\<close> prompts to the Claude Code session, for any outcome of the suites,
  of the requests and of the transcript; so a failure that is classified wrongly cannot drive the session forever.\<close>
theorem healing_types_at_most_three_prompts:
  assumes "\<And>h. sp_Tmux (shared h) = t" and "workingDir \<noteq> []"
    and "Heal E (healing_loop E shared publisher mountRoot workingDir workspace hermesURL cfg) sid h = (y, h')"
  shows "\<exists>evs. h' = h @ evs \<and> length (filter (pastes t) evs) \<le> 3"
proof -
  let ?l = "healing_loop E shared publisher mountRoot workingDir workspace hermesURL cfg"
  have wd: "rn_WorkingDir (lp_Runner ?l) \<noteq> []" using assms(2) by (simp add: healing_loop_def)
  have req: "at_most (pastes t) 1 (lp_Request ?l p)" for p
    using at_most_healing_request [OF assms(1)] by (simp add: healing_loop_def)
  have rep: "emits (\<lambda>e. \<not> pastes t e) (loop_report ?l res)" for res
    unfolding loop_report_def healing_loop_def healing_notify_def NotifyHermes_def by (simp, intro conjI impI emits_rules; simp)
  have "at_most (pastes t) MaxHealingAttempts (Heal E ?l sid)"
    unfolding Heal_def
    by (intro at_most_quiet_bind no_paste_loop_run wd at_most_cases at_most_bind_quiet at_most_heal_rounds req emits_rules rep)
       (auto intro: at_most_emits emits_rules rep)
  then have "runs (Heal E ?l sid) h (\<lambda>_ evs. length (filter (pastes t) evs) \<le> MaxHealingAttempts)" by (simp add: at_most_def)
  then show ?thesis using assms(3) by (auto simp: runs_def MaxHealingAttempts_def)
qed

theorem healing_types_at_most_three_prompts_witness:
  "\<exists>y h'. Heal test_senv (healing_loop test_senv (\<lambda>h. supervisor0) None ''/m'' ''/w'' ''ws'' [] config0) ''s'' [] = (y, h') \<and>
     length (filter (pastes (sp_Tmux supervisor0)) h') \<le> 3"
proof -
  obtain y h' where r: "Heal test_senv (healing_loop test_senv (\<lambda>h. supervisor0) None ''/m'' ''/w'' ''ws'' [] config0) ''s'' [] = (y, h')"
    by (metis prod.collapse)
  from healing_types_at_most_three_prompts [OF _ _ r] r show ?thesis by auto
qed

subsection \<open>Where narrowing goes wrong\<close>

text \<open>An end-to-end suite that fails before it reaches a test leaves one failure named after the step, so the next
  attempt asks the runner for a test of that name.\<close>
theorem unparsed_e2e_failure_narrows_to_nothing:
  assumes "parseFailures out = []" and "E2ETestFilter (rn_Config r) \<noteq> []"
    and "res = new_result run\<lparr>Steps := [\<lparr>st_Name = StepE2E, st_Argv = E2ETest (rn_Config r), st_Output = out, st_Failed = True\<rparr>],
      Passed := False, Failures := fst (collectFailures E (rn_WorkingDir r) (rn_Config r)
        [\<lparr>st_Name = StepE2E, st_Argv = E2ETest (rn_Config r), st_Output = out, st_Failed = True\<rparr>] h)\<rparr>"
  shows "e2eArgv r (nextOnly res) = E2ETestFilter (rn_Config r) @ [''e2e'']"
proof -
  let ?s = "\<lparr>st_Name = StepE2E, st_Argv = E2ETest (rn_Config r), st_Output = out, st_Failed = True\<rparr>"
  obtain images h' where c: "collectFailures E (rn_WorkingDir r) (rn_Config r) [?s] h =
      (map (with_screenshot images) (merge_failures (concat (map step_failures [?s]))), h')"
    using attachScreenshots_form unfolding collectFailures_def by blast
  have "merge_failures (concat (map step_failures [?s])) = [whole_step ?s]"
    by (simp add: step_failures_def assms(1) merge_failures_def merge_entries_def merge_step_def)
  then have names: "map TestName (Failures res) = [StepE2E]"
    by (simp add: assms(3) c with_screenshot_keeps whole_step_def Let_def)
  have "\<not> list_ex (\<lambda>s. st_Name s = StepUnit \<and> st_Failed s) (Steps res)"
    by (simp add: assms(3) StepE2E_def StepUnit_def)
  then have "nextOnly res = [''e2e'']" by (simp add: nextOnly_def failedTests_def names StepE2E_def)
  then show ?thesis using assms(2) by (simp add: e2eArgv_def)
qed

text \<open>An exhausted session made three fix requests, and its message counts four attempts.\<close>

lemma loop_run_attempt: "loop_run E l sid n only h = (Inr res, h') \<Longrightarrow> rs_Attempt res = int n"
  unfolding loop_run_def Execute_def execute_run_def unit_suite_def e2e_suite_def with_app_def runner_step_def Let_def
  by (auto dest!: tryE_InrD simp: bindI_def ok_def fail_def ret_def new_result_def add_step_def split: prod.splits sum.splits if_splits option.splits)

lemma heal_rounds_exhausted:
  "heal_rounds E l sid k n res h = ((res', None), h') \<Longrightarrow> rs_Attempt res = int n \<Longrightarrow> \<not> Passed res' \<Longrightarrow> rs_Attempt res' = int (n + k)"
proof (induction k arbitrary: n res h)
  case (Suc k)
  show ?case
  proof (cases "Passed res")
    case True
    then show ?thesis using Suc.prems by (simp add: ret_def)
  next
    case False
    then obtain u h1 res1 h2 where "lp_Request l (fixPrompt (runner_Dir (lp_Runner l) (test_runId sid n))) h = (Inr u, h1)"
      and run: "loop_run E l sid (n + 1) (nextOnly res) h1 = (Inr res1, h2)"
      and rest: "heal_rounds E l sid k (n + 1) res1 h2 = ((res', None), h')"
      using Suc.prems(1) by (auto simp: bindI_def ret_def split: prod.splits sum.splits)
    from Suc.IH [OF rest loop_run_attempt [OF run] Suc.prems(3)] show ?thesis by simp
  qed
qed (simp add: ret_def)

theorem exhausted_message_counts_runs:
  assumes "Heal E l sid h = ((res, None), h')" and "\<not> Passed res"
  shows "rs_Attempt res = int MaxHealingAttempts + 1" and "prefix ''4 attempts exhausted'' (exhaustedDetail res)"
proof -
  obtain res1 h1 where first: "loop_run E l sid 1 [] h = (Inr res1, h1)" and "\<exists>h2. heal_rounds E l sid MaxHealingAttempts 1 res1 h1 = ((res, None), h2)"
    using assms(1) by (auto simp: Heal_def bindI_def ret_def split: prod.splits sum.splits option.splits)
  then obtain h2 where "heal_rounds E l sid MaxHealingAttempts 1 res1 h1 = ((res, None), h2)" by blast
  from heal_rounds_exhausted [OF this loop_run_attempt [OF first] assms(2)]
  show "rs_Attempt res = int MaxHealingAttempts + 1" by simp
  moreover have "digit_char 4 = CHR ''4''" by (simp add: digit_char_def char_of_def bit_iff_odd)
  ultimately show "prefix ''4 attempts exhausted'' (exhaustedDetail res)"
    by (simp add: exhaustedDetail_def MaxHealingAttempts_def Itoa_def decimal.simps digit_char_def)
qed

text \<open>The durable record is written before the address of the report is known.\<close>

lemma Execute_ReportUrl: "Execute E r run h = (Inr res, h') \<Longrightarrow> ReportUrl res = []"
  unfolding Execute_def execute_run_def unit_suite_def e2e_suite_def with_app_def runner_step_def
  by (auto dest!: tryE_InrD simp: bindI_def ok_def fail_def ret_def new_result_def add_step_def split: prod.splits sum.splits if_splits option.splits)

theorem result_file_has_no_report_address:
  assumes "Execute E r run h = (Inr res, h')"
  shows "result_json res = JObject [(''runId'', JString (rs_RunId res)), (''attempt'', JNum (of_int (rs_Attempt res))),
    (''passed'', JBool (Passed res)), (''failures'', failures_json (Failures res)), (''reportUrl'', JString [])]"
  by (simp add: result_json_def Execute_ReportUrl [OF assms])

end
