(* ===== verification/SupervisorStart.thy ===== *)
theory SupervisorStart
  imports SupervisorTests SupervisorHttp "HOL-Library.List_Lexorder" "HOL-Library.Char_ord"
begin

text \<open>
  How a supervisor comes up: \<^verbatim>\<open>cache.go\<close>, \<^verbatim>\<open>bootstrap.go\<close>, \<^verbatim>\<open>prompt.go\<close>,
  \<^verbatim>\<open>commit.go\<close>, \<^verbatim>\<open>sshd.go\<close> and the entry points of \<^verbatim>\<open>main.go\<close>.  Shown: nothing is
  started or configured before the working directory's lock is held, the seeded state keeps what was there,
  the environment handed over names no other billing route, and the push hook refuses exactly what would
  lose commits.
\<close>

subsection \<open>The layout of the volume (cache.go)\<close>

definition checkoutDirName :: string where
  "checkoutDirName = ''repo''"

definition configDirName :: string where
  "configDirName = ''.claude-config''"

definition cacheDirName :: string where
  "cacheDirName = ''.cache''"

definition Paths :: "string \<Rightarrow> string \<times> string \<times> string" where
  "Paths mountRoot = (path_Join mountRoot checkoutDirName, path_Join mountRoot configDirName, path_Join mountRoot cacheDirName)"

definition cacheVars :: "(string \<times> string) list" where
  "cacheVars =
     [(''npm_config_cache'', ''npm''), (''YARN_CACHE_FOLDER'', ''yarn''), (''PIP_CACHE_DIR'', ''pip''),
      (''GOMODCACHE'', ''go/mod''), (''GOCACHE'', ''go/build'')]"

text \<open>The name of an entry of an environment, if it has one.\<close>

definition var_name :: "string \<Rightarrow> string option" where
  "var_name e = (case Cut e (CHR ''='') of (name, _, found) \<Rightarrow> if found then Some name else None)"

definition assign :: "string \<Rightarrow> string \<Rightarrow> string" where
  "assign name val = name @ ''='' @ val"

definition CacheEnv :: "string list \<Rightarrow> string \<Rightarrow> string list" where
  "CacheEnv base cacheDir =
     (let names = map fst cacheVars @ [''XDG_CACHE_HOME''] in
      sort (filter (\<lambda>e. case var_name e of None \<Rightarrow> False | Some n \<Rightarrow> n \<notin> set names) base @
            assign ''XDG_CACHE_HOME'' cacheDir # map (\<lambda>(n, sub). assign n (path_Join cacheDir sub)) cacheVars))"

text \<open>\<open>order\<close> is the order in which the runtime iterates over the map.\<close>

definition EnsureCacheDirs :: "SEnv \<Rightarrow> (string \<times> string) list \<Rightarrow> string \<Rightarrow> unit result sact" where
  "EnsureCacheDirs E order cacheDir = forE order (\<lambda>(_, sub). sDo E (MkdirAll (path_Join cacheDir sub)))"

subsection \<open>The configuration area (bootstrap.go, prompt.go)\<close>

definition nonSubscriptionAuthVars :: "string list" where
  "nonSubscriptionAuthVars =
     [''ANTHROPIC_API_KEY'', ''ANTHROPIC_AUTH_TOKEN'', ''ANTHROPIC_BASE_URL'', ''ANTHROPIC_BEDROCK_BASE_URL'',
      ''ANTHROPIC_VERTEX_BASE_URL'', ''AWS_BEARER_TOKEN_BEDROCK'', ''CLAUDE_CODE_USE_BEDROCK'', ''CLAUDE_CODE_USE_VERTEX'']"

definition ClaudeEnv :: "string list \<Rightarrow> string \<Rightarrow> string list" where
  "ClaudeEnv base configDir =
     filter (\<lambda>e. case var_name e of
         None \<Rightarrow> False
       | Some n \<Rightarrow> n \<noteq> ''CLAUDE_CONFIG_DIR'' \<and> n \<noteq> ''DISABLE_AUTOUPDATER'' \<and> n \<notin> set nonSubscriptionAuthVars) base @
     [assign ''CLAUDE_CONFIG_DIR'' configDir, ''DISABLE_AUTOUPDATER=1'']"

text \<open>A map of JSON values is an association list without repeated keys; of a repeated key in a text the last
  value counts.\<close>

definition json_entries :: "(string \<times> Json) list \<Rightarrow> (string \<times> Json) list" where
  "json_entries kvs = foldl (\<lambda>m (k, v). AList.update k v m) [] kvs"

definition as_map :: "Json option \<Rightarrow> (string \<times> Json) list" where
  "as_map j = (case j of Some (JObject kvs) \<Rightarrow> json_entries kvs | _ \<Rightarrow> [])"

definition trusted :: "(string \<times> Json) list \<Rightarrow> (string \<times> Json) list" where
  "trusted project =
     AList.update ''hasClaudeMdExternalIncludesWarningShown'' (JBool True)
       (AList.update ''hasClaudeMdExternalIncludesApproved'' (JBool True)
         (AList.update ''hasTrustDialogAccepted'' (JBool True) project))"

definition seeded_projects :: "string \<Rightarrow> (string \<times> Json) list \<Rightarrow> (string \<times> Json) list" where
  "seeded_projects workingDir projects =
     AList.update workingDir (JObject (trusted (as_map (map_of projects workingDir)))) projects"

definition seeded_state :: "string \<Rightarrow> (string \<times> Json) list \<Rightarrow> (string \<times> Json) list" where
  "seeded_state workingDir state =
     (let st = AList.update ''autoUpdates'' (JBool False)
                 (AList.update ''hasSeenTasksHint'' (JBool True) (AList.update ''hasCompletedOnboarding'' (JBool True) state)) in
      AList.update ''projects'' (JObject (seeded_projects workingDir (as_map (map_of st ''projects'')))) st)"

text \<open>What is in the file: \<open>None\<close> is the nil map that the text \<^verbatim>\<open>null\<close> leaves behind.\<close>

definition old_state :: "Json option \<Rightarrow> (string \<times> Json) list option" where
  "old_state j = (case j of Some JNull \<Rightarrow> None | _ \<Rightarrow> Some (as_map j))"

definition state_path :: "string \<Rightarrow> string" where
  "state_path configDir = path_Join configDir ''.claude.json''"

text \<open>An assignment to a nil map ends the process.\<close>

definition nil_map :: error where
  "nil_map = Err ''panic: assignment to entry in nil map''"

definition seedGlobalState :: "SEnv \<Rightarrow> string \<Rightarrow> string \<Rightarrow> unit result sact" where
  "seedGlobalState E configDir workingDir =
     bindI (sFile E (ReadFile (state_path configDir))) (\<lambda>r.
       case (case r of Inr b \<Rightarrow> Inr (old_state (s_Unmarshal E b)) | Inl e \<Rightarrow> if IsNotFound e then Inr (Some []) else Inl e) of
         Inl e \<Rightarrow> fail e
       | Inr None \<Rightarrow> fail nil_map
       | Inr (Some state) \<Rightarrow>
           sDo E (WriteFile (state_path configDir) (s_MarshalIndent E (JObject (seeded_state workingDir state)))))"

definition personalConfigEntries :: "string list" where
  "personalConfigEntries = [''CLAUDE.md'', ''settings.local.json'', ''plugins'']"

definition canonicalSettings :: Json where
  "canonicalSettings = JObject [(''env'', JObject [(''DISABLE_AUTOUPDATER'', JString ''1'')])]"

definition EnforcePromptIsolation :: "SEnv \<Rightarrow> string \<Rightarrow> unit result sact" where
  "EnforcePromptIsolation E configDir =
     tryE (sDo E (WriteFile (path_Join configDir ''settings.json'') (s_MarshalIndent E canonicalSettings))) (\<lambda>_.
       forE personalConfigEntries (\<lambda>name.
         bindI (sFile E (RemoveAll (path_Join configDir name))) (\<lambda>r.
           case r of Inl e \<Rightarrow> if IsNotFound e then ok () else fail e | Inr _ \<Rightarrow> ok ())))"

definition PrepareConfigDir :: "SEnv \<Rightarrow> string \<Rightarrow> string \<Rightarrow> unit result sact" where
  "PrepareConfigDir E configDir workingDir =
     tryE (sDo E (MkdirAll configDir)) (\<lambda>_.
     tryE (sDo E (Chmod configDir)) (\<lambda>_.
     tryE (seedGlobalState E configDir workingDir) (\<lambda>_. EnforcePromptIsolation E configDir)))"

subsection \<open>The commit policy (commit.go)\<close>

definition hookMarker :: string where
  "hookMarker = ''# devplatform-managed''"

record CommitIdentity =
  ci_Name :: string
  ci_Email :: string

definition gitConfig :: "SEnv \<Rightarrow> string \<Rightarrow> string \<Rightarrow> string \<Rightarrow> unit result sact" where
  "gitConfig E workingDir key val =
     bindI (sExec E workingDir [''git'', ''config'', ''--local'', key, val] []) (\<lambda>(out, e).
       case e of
         None \<Rightarrow> ok ()
       | Some e \<Rightarrow> fail (Err (''supervisor: git config '' @ key @ '': '' @ Error e @ '': '' @ TrimSpace out)))"

definition hooksDir :: "SEnv \<Rightarrow> string \<Rightarrow> string result sact" where
  "hooksDir E workingDir =
     bindI (sExec E workingDir [''git'', ''rev-parse'', ''--git-path'', ''hooks''] []) (\<lambda>(out, e).
       case e of
         Some e \<Rightarrow> fail (wrap ''supervisor: locate hooks dir: '' e)
       | None \<Rightarrow> (let path = TrimSpace out in ok (if is_rooted path then path else path_Join workingDir path)))"

definition writeHook :: "SEnv \<Rightarrow> string \<Rightarrow> string \<Rightarrow> unit result sact" where
  "writeHook E path body =
     bindI (sFile E (ReadFile path)) (\<lambda>r.
       case r of
         Inr existing \<Rightarrow>
           (if \<not> Contains existing hookMarker
            then fail (Err (''supervisor: '' @ path @ '' already exists and is not ours; the commit policy would be unenforced''))
            else sDo E (WriteFile path body))
       | Inl e \<Rightarrow> if \<not> IsNotFound e then fail e else sDo E (WriteFile path body))"

definition script :: "string list \<Rightarrow> string" where
  "script ls = concat (map (\<lambda>l. l @ [newline]) ls)"

definition tab :: string where
  "tab = [CHR 0x09]"

definition dq :: "string \<Rightarrow> string" where
  "dq s = [CHR 0x22] @ s @ [CHR 0x22]"

definition prepareCommitMsgHook :: "Tmux \<Rightarrow> string" where
  "prepareCommitMsgHook t = script
     [''#!/bin/sh'', hookMarker, ''set -eu'', ''origin=autonomous'',
      ''if tmux -L '' @ shellQuote (tm_Socket t) @ '' list-clients -t '' @ shellQuote (tm_Session t) @ '' -F '' @
        shellQuote ''#{client_readonly}'' @ '' 2>/dev/null | grep -qx 0; then'',
      tab @ ''origin=manual'', ''fi'',
      ''git interpret-trailers --in-place --if-exists doNothing --trailer '' @ dq ''Devplatform-Origin=$origin'' @ '' '' @ dq ''$1'']"

text \<open>What the script \<^verbatim>\<open>pre-push\<close> decides on the lines git feeds it; \<open>is_ancestor\<close> is
  \<^verbatim>\<open>git merge-base --is-ancestor\<close>.\<close>

record PushRef =
  local_sha :: string
  remote_sha :: string

definition some_nonzero :: "string \<Rightarrow> bool" where
  "some_nonzero s \<longleftrightarrow> (\<exists>c \<in> set s. c \<noteq> CHR ''0'')"

fun pre_push :: "(string \<Rightarrow> string \<Rightarrow> bool) \<Rightarrow> PushRef list \<Rightarrow> bool" where
  "pre_push is_ancestor [] = True"
| "pre_push is_ancestor (p # ps) =
     (if \<not> some_nonzero (local_sha p) then False
      else if \<not> some_nonzero (remote_sha p) then pre_push is_ancestor ps
      else if \<not> is_ancestor (remote_sha p) (local_sha p) then False
      else pre_push is_ancestor ps)"

definition prePushHook :: string where
  "prePushHook = script
     [''#!/bin/sh'', hookMarker, ''set -eu'', ''while read -r local_ref local_sha remote_ref remote_sha; do'',
      tab @ ''case '' @ dq ''$local_sha'' @ '' in'', tab @ ''*[!0]*) ;;'', tab @ ''*)'',
      tab @ tab @ ''echo '' @ dq ''devplatform: refusing to delete $remote_ref'' @ '' >&2'', tab @ tab @ ''exit 1'', tab @ tab @ '';;'',
      tab @ ''esac'', tab @ ''# An all-zero remote sha means the branch is new there, so nothing can be lost.'',
      tab @ ''case '' @ dq ''$remote_sha'' @ '' in'', tab @ ''*[!0]*) ;;'', tab @ ''*) continue ;;'', tab @ ''esac'',
      tab @ ''if ! git merge-base --is-ancestor '' @ dq ''$remote_sha'' @ '' '' @ dq ''$local_sha'' @ ''; then'',
      tab @ tab @ ''echo '' @ dq ''devplatform: refusing non-fast-forward push to $remote_ref'' @ '' >&2'', tab @ tab @ ''exit 1'',
      tab @ ''fi'', ''done'']"

definition ConfigureCommitPolicy :: "SEnv \<Rightarrow> string \<Rightarrow> CommitIdentity \<Rightarrow> Tmux \<Rightarrow> unit result sact" where
  "ConfigureCommitPolicy E workingDir cid t =
     tryE (gitConfig E workingDir ''user.name'' (ci_Name cid)) (\<lambda>_.
     tryE (gitConfig E workingDir ''user.email'' (ci_Email cid)) (\<lambda>_.
     tryE (hooksDir E workingDir) (\<lambda>hooks.
     tryE (sDo E (MkdirAll hooks)) (\<lambda>_.
     tryE (writeHook E (path_Join hooks ''prepare-commit-msg'') (prepareCommitMsgHook t)) (\<lambda>_.
       writeHook E (path_Join hooks ''pre-push'') prePushHook)))))"

subsection \<open>The SSH endpoint (sshd.go)\<close>

definition sshStateDirName :: string where
  "sshStateDirName = ''.ssh-endpoint''"

definition SSHStateDir :: "string \<Rightarrow> string" where
  "SSHStateDir mountRoot = path_Join mountRoot sshStateDirName"

record SSHEndpoint =
  ep_WorkspaceID :: string
  StateDir :: string
  CAPublicKey :: string
  ep_Port :: int
  Binary :: string
  KeygenBinary :: string

definition caPublicKey :: "SSHEndpoint \<Rightarrow> string" where
  "caPublicKey e = (if CAPublicKey e = [] then ''/run/devplatform/ssh-ca/ca.pub'' else CAPublicKey e)"

definition sshd_config :: "SSHEndpoint \<Rightarrow> string \<Rightarrow> string \<Rightarrow> string" where
  "sshd_config e caKey principals = script
     [''Port '' @ Itoa (if ep_Port e = 0 then DefaultSSHPort else ep_Port e),
      ''HostKey '' @ path_Join (StateDir e) ''ssh_host_ed25519_key'',
      ''TrustedUserCAKeys '' @ caKey,
      ''AuthorizedPrincipalsFile '' @ principals,
      ''AuthorizedKeysFile none'', ''AuthorizedKeysCommand none'', ''PubkeyAuthentication yes'', ''PasswordAuthentication no'',
      ''KbdInteractiveAuthentication no'', ''PermitEmptyPasswords no'', ''PermitRootLogin prohibit-password'', ''UsePAM no'',
      ''AllowTcpForwarding no'', ''AllowAgentForwarding no'', ''X11Forwarding no'', ''PrintMotd no'', ''Subsystem sftp internal-sftp'']"

definition ensureHostKey :: "SEnv \<Rightarrow> SSHEndpoint \<Rightarrow> unit result sact" where
  "ensureHostKey E e =
     (let path = path_Join (StateDir e) ''ssh_host_ed25519_key'';
          keygen = (if KeygenBinary e = [] then ''/usr/bin/ssh-keygen'' else KeygenBinary e) in
      bindI (sFile E (Stat path)) (\<lambda>r.
        case r of
          Inr _ \<Rightarrow> ok ()
        | Inl err \<Rightarrow>
          (if \<not> IsNotFound err then fail err
           else bindI (sExec E [] [keygen, ''-f'', path, ''-t'', ''ed25519'', ''-N'', [], ''-q''] []) (\<lambda>(out, x).
             case x of
               None \<Rightarrow> ok ()
             | Some x \<Rightarrow> fail (Err (''session: generate ssh host key: '' @ Error x @ '': '' @ out))))))"

definition ssh_files :: "SEnv \<Rightarrow> SSHEndpoint \<Rightarrow> string result sact" where
  "ssh_files E e =
     (let principals = path_Join (StateDir e) ''authorized_principals''; configPath = path_Join (StateDir e) ''sshd_config'' in
      tryE (sDo E (WriteFile principals (ep_WorkspaceID e @ [newline]))) (\<lambda>_.
      tryE (sDo E (WriteFile configPath (sshd_config e (caPublicKey e) principals))) (\<lambda>_. ok configPath)))"

text \<open>\<open>denied\<close> tells a permission error.\<close>

definition ssh_Prepare :: "SEnv \<Rightarrow> (error \<Rightarrow> bool) \<Rightarrow> SSHEndpoint \<Rightarrow> string result sact" where
  "ssh_Prepare E denied e =
     (if ep_WorkspaceID e = [] then fail (Err ''session: ssh endpoint without a workspace identifier'')
      else bindI (sFile E (Stat (caPublicKey e))) (\<lambda>r.
        case r of
          Inl x \<Rightarrow> fail (wrap ''session: ssh certificate authority key: '' x)
        | Inr _ \<Rightarrow>
          tryE (sDo E (MkdirAll (StateDir e))) (\<lambda>_.
          bindI (sDo E (MkdirAll ''/run/sshd'')) (\<lambda>r.
            case r of
              Inl x \<Rightarrow>
                if \<not> denied x then fail x
                else tryE (ensureHostKey E e) (\<lambda>_. ssh_files E e)
            | Inr _ \<Rightarrow> tryE (ensureHostKey E e) (\<lambda>_. ssh_files E e)))))"

definition ssh_binary :: "SSHEndpoint \<Rightarrow> string" where
  "ssh_binary e = (if Binary e = [] then ''/usr/sbin/sshd'' else Binary e)"

definition ssh_Run :: "SEnv \<Rightarrow> (error \<Rightarrow> bool) \<Rightarrow> SSHEndpoint \<Rightarrow> unit result sact" where
  "ssh_Run E denied e =
     tryE (ssh_Prepare E denied e) (\<lambda>configPath.
     bindI (sExec E [] [ssh_binary e, ''-D'', ''-e'', ''-f'', configPath] []) (\<lambda>(_, x).
       case x of None \<Rightarrow> ok () | Some x \<Rightarrow> fail x))"

definition Kill :: "SEnv \<Rightarrow> Tmux \<Rightarrow> unit result sact" where
  "Kill E t = tryE (tmux_run E t [''kill-server'']) (\<lambda>_. ok ())"

subsection \<open>Entry points (main.go)\<close>

text \<open>The environment of the process: its variables by name, the empty string for one that is not set, and the
  list of them.\<close>

record ProcEnv =
  getenv :: "string \<Rightarrow> string"
  environ :: "string list"

definition env_or :: "ProcEnv \<Rightarrow> string \<Rightarrow> string \<Rightarrow> string" where
  "env_or pe name fallback = (if getenv pe name \<noteq> [] then getenv pe name else fallback)"

definition mount_root :: "ProcEnv \<Rightarrow> string" where
  "mount_root pe = env_or pe ''WORKSPACE_MOUNT'' ''/workspace''"

definition workingDirFromEnv :: "ProcEnv \<Rightarrow> string" where
  "workingDirFromEnv pe = env_or pe ''WORKSPACE_DIR'' (fst (Paths (mount_root pe)))"

definition configDirFromEnv :: "ProcEnv \<Rightarrow> string" where
  "configDirFromEnv pe = env_or pe ''CLAUDE_CONFIG_DIR'' (fst (snd (Paths (mount_root pe))))"

definition cacheDirFromEnv :: "ProcEnv \<Rightarrow> string" where
  "cacheDirFromEnv pe = env_or pe ''WORKSPACE_CACHE_DIR'' (snd (snd (Paths (mount_root pe))))"

definition newEvacuationAgent :: "ProcEnv \<Rightarrow> string \<Rightarrow> Agent" where
  "newEvacuationAgent pe workingDir =
     \<lparr>ag_WorkingDir = workingDir, ag_WorkspaceId = env_or pe ''WORKSPACE_ID'' (getenv pe ''WORKSPACE_NAME''),
      ag_Store = Some \<lparr>s3_Endpoint = getenv pe ''EVACUATION_ENDPOINT'', s3_Bucket = getenv pe ''EVACUATION_BUCKET'',
        s3_Region = env_or pe ''EVACUATION_REGION'' ''garage'', s3_AccessKey = getenv pe ''EVACUATION_ACCESS_KEY'',
        s3_SecretKey = getenv pe ''EVACUATION_SECRET_KEY''\<rparr>\<rparr>"

definition main_restore :: "SEnv \<Rightarrow> ProcEnv \<Rightarrow> unit result sact" where
  "main_restore E pe =
     (if getenv pe ''EVACUATION_ENDPOINT'' = [] then ok ()
      else Restore E (newEvacuationAgent pe (workingDirFromEnv pe)))"

definition databaseWait :: duration where
  "databaseWait = 5 * 60 * Second"

definition databasePollInterval :: duration where
  "databasePollInterval = 2 * Second"

definition eventDatabaseBootstrapFailed :: string where
  "eventDatabaseBootstrapFailed = ''DatabaseBootstrapFailed''"

text \<open>\<^verbatim>\<open>net.JoinHostPort\<close>\<close>

definition JoinHostPort :: "string \<Rightarrow> string \<Rightarrow> string" where
  "JoinHostPort host port = (if CHR '':'' \<in> set host then ''['' @ host @ '']:'' @ port else host @ '':'' @ port)"

definition the_bootstrap :: "ProcEnv \<Rightarrow> Config \<Rightarrow> Bootstrap" where
  "the_bootstrap pe cfg =
     \<lparr>bo_WorkingDir = workingDirFromEnv pe, bo_Config = cfg, Addr = JoinHostPort (getenv pe ''PGHOST'') (env_or pe ''PGPORT'' ''5432''),
      bo_Wait = databaseWait, bo_Poll = databasePollInterval, SeedMarker = path_Join (configDirFromEnv pe) ''db-seeded''\<rparr>"

definition dbboot_health :: "ProcEnv \<Rightarrow> Health" where
  "dbboot_health pe = \<lparr>he_ConfigDir = configDirFromEnv pe, he_Source = ''dbboot'', unusable = []\<rparr>"

text \<open>\<open>None\<close> is a bootstrap still waiting for the database.\<close>

definition bootstrapDatabase :: "SEnv \<Rightarrow> ProcEnv \<Rightarrow> unit result option sact" where
  "bootstrapDatabase E pe =
     bindI (tryE (config_Load E (workingDirFromEnv pe)) (\<lambda>cfg. tryE (sDo E (MkdirAll (configDirFromEnv pe))) (\<lambda>_. ok cfg))) (\<lambda>r.
       case r of
         Inl e \<Rightarrow> ret (Some (Inl e))
       | Inr cfg \<Rightarrow>
         bindI (db_Run (db_fuel (the_bootstrap pe cfg)) E (\<lambda>_. None) (the_bootstrap pe cfg)) (\<lambda>res.
           case res of
             None \<Rightarrow> ret None
           | Some (Inl e) \<Rightarrow>
             bindI (MarkUnusable E (dbboot_health pe) (Error e)) (\<lambda>_.
             bindI (NotifyHermes E (getenv pe ''HERMES_NOTIFY_URL'')
               \<lparr>ev_Kind = eventDatabaseBootstrapFailed, ev_Workspace = getenv pe ''WORKSPACE_NAME'', ev_Detail = Error e, ev_At = []\<rparr>) (\<lambda>_.
             ret (Some (Inr ()))))
           | Some (Inr _) \<Rightarrow> bindI (ClearUnusable E (dbboot_health pe)) (\<lambda>_. ret (Some (Inr ())))))"

definition main_tmux :: Tmux where
  "main_tmux = \<lparr>tm_Socket = ''devplatform'', tm_Session = ''workspace''\<rparr>"

definition session_lock :: "ProcEnv \<Rightarrow> string" where
  "session_lock pe = path_Join (configDirFromEnv pe) ''session.lock''"

definition new_supervisor :: "ProcEnv \<Rightarrow> Supervisor" where
  "new_supervisor pe =
     \<lparr>sp_Tmux = main_tmux, sp_ConfigDir = configDirFromEnv pe, sp_OutputLog = path_Join (configDirFromEnv pe) ''session-output.log'',
      sp_WorkingDir = workingDirFromEnv pe, ClaudeMDSource = getenv pe ''BLACKBOARD_CLAUDE_MD'', SSHPort = 0,
      LongLivedAuth = (getenv pe ''CLAUDE_CODE_OAUTH_TOKEN'' \<noteq> []), failure = [], held = []\<rparr>"

definition session_config :: "ProcEnv \<Rightarrow> StartConfig" where
  "session_config pe =
     \<lparr>sc_WorkingDir = workingDirFromEnv pe, sc_Command = [env_or pe ''CLAUDE_COMMAND'' ''claude''],
      sc_Env = CacheEnv (ClaudeEnv (environ pe) (configDirFromEnv pe)) (cacheDirFromEnv pe),
      sc_OutputLog = path_Join (configDirFromEnv pe) ''session-output.log'', sc_HistoryLimit = 50000\<rparr>"

definition commit_identity :: "ProcEnv \<Rightarrow> CommitIdentity" where
  "commit_identity pe =
     \<lparr>ci_Name = env_or pe ''COMMIT_AUTHOR_NAME'' ''devplatform'', ci_Email = env_or pe ''COMMIT_AUTHOR_EMAIL'' ''devplatform@fickledev.com''\<rparr>"

definition the_publisher :: "ProcEnv \<Rightarrow> Publisher option" where
  "the_publisher pe =
     newReportPublisher (getenv pe ''REPORT_ENDPOINT'') (getenv pe ''REPORT_BASE_URL'') (getenv pe ''REPORT_BUCKET'')
       (getenv pe ''REPORT_REGION'') (getenv pe ''REPORT_ACCESS_KEY'') (getenv pe ''REPORT_SECRET_KEY'')
       (env_or pe ''WORKSPACE_ID'' (getenv pe ''WORKSPACE_NAME''))"

text \<open>What \<^verbatim>\<open>serve\<close> does under the lock before it starts its goroutines and its server: the
  healing loop it got; \<open>shared\<close> is the supervisor as the goroutines see it.\<close>

definition serve_locked :: "SEnv \<Rightarrow> ProcEnv \<Rightarrow> (SEvent list \<Rightarrow> Supervisor) \<Rightarrow> Loop option result sact" where
  "serve_locked E pe shared =
     tryE (PrepareConfigDir E (configDirFromEnv pe) (workingDirFromEnv pe)) (\<lambda>_.
     tryE (ConfigureCommitPolicy E (workingDirFromEnv pe) (commit_identity pe) main_tmux) (\<lambda>_.
     tryE (Start E main_tmux (session_config pe)) (\<lambda>_.
       newHealingLoop E shared (the_publisher pe) (mount_root pe) (workingDirFromEnv pe) (getenv pe ''WORKSPACE_NAME'')
         (getenv pe ''HERMES_NOTIFY_URL''))))"

text \<open>The lock is released when \<^verbatim>\<open>serve\<close> gives up.\<close>

definition serve_start :: "SEnv \<Rightarrow> (string \<times> string) list \<Rightarrow> ProcEnv \<Rightarrow> (SEvent list \<Rightarrow> Supervisor) \<Rightarrow> Loop option result sact" where
  "serve_start E order pe shared =
     tryE (sDo E (MkdirAll (configDirFromEnv pe))) (\<lambda>_.
     tryE (EnsureCacheDirs E order (cacheDirFromEnv pe)) (\<lambda>_.
     tryE (AcquireWorkingDirLock E (session_lock pe)) (\<lambda>_.
     bindI (serve_locked E pe shared) (\<lambda>r.
       case r of
         Inl e \<Rightarrow> bindI (sUnlock (session_lock pe)) (\<lambda>_. fail e)
       | Inr healer \<Rightarrow> ok healer))))"

definition authProbe_config :: "ProcEnv \<Rightarrow> ProbeConfig" where
  "authProbe_config pe =
     \<lparr>pc_Prompt = ''Reply with the single word: ok'', pc_Timeout = 2 * 60 * Second, pc_Poll = 2 * Second, Settle = 10 * Second,
      pc_Workspace = getenv pe ''WORKSPACE_NAME'', HermesURL = getenv pe ''HERMES_NOTIFY_URL''\<rparr>"

text \<open>The healing loop, seen for \<open>n\<close> ticks, comes after a probe that succeeded.\<close>

definition probeAuth ::
  "nat \<Rightarrow> SEnv \<Rightarrow> (SEvent list \<Rightarrow> bool) \<Rightarrow> (SEvent list \<Rightarrow> Supervisor) \<Rightarrow> Health \<Rightarrow> Loop option \<Rightarrow> ProbeConfig \<Rightarrow> (unit result \<times> Health) option sact" where
  "probeAuth n E cancelled shared hl healer cfg =
     bindI (AuthProbe (request_fuel (pc_Timeout cfg) (pc_Poll cfg)) E shared hl cfg) (\<lambda>r.
       case r of
         None \<Rightarrow> ret None
       | Some (Inl e, hl') \<Rightarrow> ret (Some (Inl e, hl'))
       | Some (Inr u, hl') \<Rightarrow>
         bindI (peek shared) (\<lambda>s.
         bindI (ReleaseContext E s) (\<lambda>_.
         case healer of
           None \<Rightarrow> ret (Some (Inr u, hl'))
         | Some l \<Rightarrow> bindI (heal_Watch n E cancelled l) (\<lambda>_. ret (Some (Inr u, hl'))))))"

definition the_trigger :: "ProcEnv \<Rightarrow> Trigger" where
  "the_trigger pe =
     \<lparr>tg_Agent = newEvacuationAgent pe (workingDirFromEnv pe), tg_Poll = 5 * Second, tg_Wait = 10 * 60 * Second\<rparr>"

definition the_endpoint :: "ProcEnv \<Rightarrow> SSHEndpoint" where
  "the_endpoint pe =
     \<lparr>ep_WorkspaceID = env_or pe ''WORKSPACE_ID'' (getenv pe ''WORKSPACE_NAME''), StateDir = SSHStateDir (mount_root pe),
      CAPublicKey = env_or pe ''SSH_CA_PUBLIC_KEY'' ''/run/devplatform/ssh-ca/ca.pub'', ep_Port = 0, Binary = [], KeygenBinary = []\<rparr>"

text \<open>A developer's own client: read-only unless write access is asked for.\<close>

definition attach_argv :: "Tmux \<Rightarrow> bool \<Rightarrow> string list" where
  "attach_argv t readOnly = tmux_args t ([''attach-session'', ''-t'', tm_Session t] @ (if readOnly then [''-r''] else []))"

definition main_attach :: "bool \<Rightarrow> string list" where
  "main_attach takeover = attach_argv main_tmux (\<not> takeover)"

datatype Command = AttachCommand "string list" | RestoreCommand | DbbootCommand | ServeCommand

definition main_command :: "string list \<Rightarrow> Command" where
  "main_command argv =
     (case argv of
        _ # a # rest \<Rightarrow>
          (if a = ''attach'' then AttachCommand rest
           else if a = ''restore'' then RestoreCommand
           else if a = ''dbboot'' then DbbootCommand
           else ServeCommand)
      | _ \<Rightarrow> ServeCommand)"

subsection \<open>Nothing before the lock\<close>

text \<open>What may happen without the lock: directories, and the lock itself.\<close>

fun preparatory :: "SEvent \<Rightarrow> bool" where
  "preparatory (SvFile (MkdirAll p) r) = True"
| "preparatory (SvFile (OpenFile p) r) = True"
| "preparatory (SvLock p r) = True"
| "preparatory e = False"

definition after_lock :: "string \<Rightarrow> SEvent list \<Rightarrow> SEvent \<Rightarrow> bool" where
  "after_lock path p e \<longleftrightarrow> preparatory e \<or> SvLock path None \<in> set p"

lemma emits_serve_locked: "emits (\<lambda>_. True) (serve_locked E pe shared)"
  unfolding serve_locked_def PrepareConfigDir_def seedGlobalState_def EnforcePromptIsolation_def ConfigureCommitPolicy_def gitConfig_def
    hooksDir_def writeHook_def Start_def HasSession_def tmux_run_def start_session_def newHealingLoop_def config_Load_def
  by (intro emits_rules; simp)

lemma guarded_preparatory: "list_all preparatory evs \<Longrightarrow> guarded (after_lock path) evs"
  by (rule guarded_free) (auto simp: after_lock_def list_all_iff)

definition unsuccessful :: "string \<Rightarrow> SEvent \<Rightarrow> bool" where
  "unsuccessful path e \<longleftrightarrow> preparatory e \<and> e \<noteq> SvLock path None"

lemma runs_acquire:
  "runs (AcquireWorkingDirLock E path) h (\<lambda>x evs. list_all preparatory evs \<and> (SvLock path None \<in> set evs \<longleftrightarrow> x = Inr ()))"
  by (auto simp: runs_def AcquireWorkingDirLock_def tryE_def bindI_def sDo_def sFile_def sLock_def call_def ok_def fail_def ret_def
      split: sum.splits option.splits prod.splits)

text \<open>C20. A second supervisor on a working directory does nothing to it.  Until \<^verbatim>\<open>serve\<close> holds the lock of
  the working directory it creates directories and the lock file and nothing else: no file is seeded, no hook written, no
  git or tmux command run before it; and when it gives up after it got the lock, releasing it is the last thing it does.\<close>
theorem nothing_before_the_working_directory_lock:
  "\<exists>evs. snd (serve_start E order pe shared h) = h @ evs \<and>
     guarded (after_lock (session_lock pe)) evs \<and>
     (isl (fst (serve_start E order pe shared h)) \<and> SvLock (session_lock pe) None \<in> set evs \<longrightarrow>
        last evs = SvUnlock (session_lock pe))"
proof -
  let ?p = "session_lock pe"
  let ?Q = "\<lambda>x evs. guarded (after_lock ?p) evs \<and> (isl x \<and> SvLock ?p None \<in> set evs \<longrightarrow> last evs = SvUnlock ?p)"
  have quiet: "?Q x evs" if "list_all (unsuccessful ?p) evs" for x :: "Loop option result" and evs
    using that guarded_preparatory [of evs] by (auto simp: list_all_iff unsuccessful_def)
  have pre: "?Q x (evs @ evs')" if "list_all (unsuccessful ?p) evs" "?Q x evs'" for x :: "Loop option result" and evs evs'
  proof -
    have "guarded (\<lambda>p. after_lock ?p (evs @ p)) evs'" using that(2) by (auto intro!: guarded_shift simp: after_lock_def)
    moreover have "guarded (after_lock ?p) evs" using that(1) guarded_preparatory [of evs] by (auto simp: list_all_iff unsuccessful_def)
    ultimately show ?thesis using that by (cases "evs' = []") (auto simp: list_all_iff unsuccessful_def)
  qed
  have locked: "runs (tryE (AcquireWorkingDirLock E ?p) (\<lambda>_. bindI (serve_locked E pe shared) (\<lambda>r.
      case r of Inl e \<Rightarrow> bindI (sUnlock ?p) (\<lambda>_. fail e) | Inr healer \<Rightarrow> ok healer))) h ?Q" for h
  proof (rule runs_tryE [OF runs_acquire])
    fix u evs
    assume a: "list_all preparatory evs \<and> (SvLock ?p None \<in> set evs) = ((Inr u :: unit result) = Inr ())"
    then have held: "SvLock ?p None \<in> set evs" by simp
    obtain r evs1 where s: "serve_locked E pe shared (h @ evs) = (r, (h @ evs) @ evs1)"
      using emits_prefix [OF emits_serve_locked] by (metis prod.collapse)
    have rest: "guarded (after_lock ?p) (evs @ evs')" for evs'
      using a held guarded_free [of "\<lambda>q. after_lock ?p (evs @ q)" evs'] guarded_preparatory [of evs]
      by (auto simp: after_lock_def list_all_iff)
    show "runs (bindI (serve_locked E pe shared) (\<lambda>r. case r of Inl e \<Rightarrow> bindI (sUnlock ?p) (\<lambda>_. fail e) | Inr healer \<Rightarrow> ok healer)) (h @ evs)
        (\<lambda>y evs'. ?Q y (evs @ evs'))"
    proof (cases r)
      case (Inl e)
      then show ?thesis using s rest [of "evs1 @ [SvUnlock ?p]"]
        by (auto simp: runs_def bindI_def sUnlock_def call_def fail_def ret_def)
    next
      case (Inr l)
      then show ?thesis using s rest [of evs1] by (auto simp: runs_def bindI_def ok_def ret_def)
    qed
  qed (auto intro: guarded_preparatory)
  have stage: "runs (tryE m f) h ?Q" if "emits (unsuccessful ?p) m" "\<And>x h. runs (f x) h ?Q"
    for m :: "unit result sact" and f :: "unit \<Rightarrow> Loop option result sact" and h
    by (rule runs_emits_try [OF that(1)]) (use quiet in blast, rule runs_mono [OF that(2)], use pre in blast)
  have "runs (serve_start E order pe shared) h ?Q"
    unfolding serve_start_def
  proof (rule stage, goal_cases)
    case 1
    show ?case by (intro emits_rules) (simp add: unsuccessful_def)
  next
    case 2
    show ?case
    proof (rule stage [OF _ locked])
      show "emits (unsuccessful ?p) (EnsureCacheDirs E order (cacheDirFromEnv pe))"
        unfolding EnsureCacheDirs_def by (intro emits_rules) (simp add: unsuccessful_def)
    qed
  qed
  then show ?thesis by (simp add: runs_def)
qed

subsection \<open>The environment of Claude Code\<close>

lemma var_name_assign: "CHR ''='' \<notin> set n \<Longrightarrow> var_name (assign n v) = Some n"
  by (simp add: var_name_def assign_def Cut_def takeWhile_append)

lemma var_names [simp]:
  "var_name (assign ''CLAUDE_CONFIG_DIR'' v) = Some ''CLAUDE_CONFIG_DIR''" "var_name ''DISABLE_AUTOUPDATER=1'' = Some ''DISABLE_AUTOUPDATER''"
  "var_name (assign ''XDG_CACHE_HOME'' v) = Some ''XDG_CACHE_HOME''" "(n, sub) \<in> set cacheVars \<Longrightarrow> var_name (assign n v) = Some n"
  by (auto simp: var_name_assign cacheVars_def) (simp add: var_name_def Cut_def)

lemma cache_names: "n \<in> fst ` set cacheVars \<Longrightarrow> n \<noteq> ''CLAUDE_CONFIG_DIR'' \<and> n \<notin> set nonSubscriptionAuthVars"
  by (auto simp: cacheVars_def nonSubscriptionAuthVars_def)

lemma set_ClaudeEnv:
  "e \<in> set (ClaudeEnv base c) \<longleftrightarrow> e = assign ''CLAUDE_CONFIG_DIR'' c \<or> e = ''DISABLE_AUTOUPDATER=1'' \<or>
     e \<in> set base \<and> (\<exists>n. var_name e = Some n \<and> n \<notin> set nonSubscriptionAuthVars \<and> n \<noteq> ''CLAUDE_CONFIG_DIR'' \<and> n \<noteq> ''DISABLE_AUTOUPDATER'')"
  by (auto simp: ClaudeEnv_def split: option.splits)

lemma set_CacheEnv:
  "e \<in> set (CacheEnv base d) \<longleftrightarrow> e = assign ''XDG_CACHE_HOME'' d \<or> (\<exists>(n, sub) \<in> set cacheVars. e = assign n (path_Join d sub)) \<or>
     e \<in> set base \<and> (\<exists>n. var_name e = Some n \<and> n \<notin> fst ` set cacheVars \<and> n \<noteq> ''XDG_CACHE_HOME'')"
  by (auto simp: CacheEnv_def Let_def split: option.splits)

lemma session_env_names:
  "e \<in> set (sc_Env (session_config pe)) \<Longrightarrow> \<exists>n. var_name e = Some n \<and> n \<notin> set nonSubscriptionAuthVars"
  using cache_names by (fastforce simp: session_config_def set_CacheEnv set_ClaudeEnv nonSubscriptionAuthVars_def)

text \<open>The environment handed to the session names the subscription and nothing else.  Whatever the container's
  environment holds, the list given to the multiplexer has no entry for another provider or a raw key and exactly one
  for the configuration area, its own; and every variable the platform does not own is passed on unchanged.\<close>
theorem session_environment:
  "let env = sc_Env (session_config pe) in
     (\<forall>e \<in> set env. \<forall>n \<in> set nonSubscriptionAuthVars. var_name e \<noteq> Some n) \<and>
     filter (\<lambda>e. var_name e = Some ''CLAUDE_CONFIG_DIR'') env = [assign ''CLAUDE_CONFIG_DIR'' (configDirFromEnv pe)] \<and>
     {e \<in> set (environ pe). \<exists>n. var_name e = Some n \<and> n \<notin> set (nonSubscriptionAuthVars @ map fst cacheVars @
        [''XDG_CACHE_HOME'', ''CLAUDE_CONFIG_DIR'', ''DISABLE_AUTOUPDATER''])} \<subseteq> set env"
proof -
  let ?c = "configDirFromEnv pe"
  let ?env = "sc_Env (session_config pe)"
  have env: "?env = CacheEnv (ClaudeEnv (environ pe) ?c) (cacheDirFromEnv pe)" by (simp add: session_config_def)
  have own: "\<exists>n. var_name e = Some n \<and> n \<notin> set nonSubscriptionAuthVars" if "e \<in> set ?env" for e
    by (rule session_env_names [OF that])
  have "filter (\<lambda>e. var_name e = Some ''CLAUDE_CONFIG_DIR'') (ClaudeEnv (environ pe) ?c) = [assign ''CLAUDE_CONFIG_DIR'' ?c]"
    by (auto simp: ClaudeEnv_def filter_empty_conv split: option.splits)
  moreover have "filter (\<lambda>e. var_name e = Some ''CLAUDE_CONFIG_DIR'') (CacheEnv base d) =
      sort (filter (\<lambda>e. var_name e = Some ''CLAUDE_CONFIG_DIR'') base)" for base d
  proof -
    have vars: "filter (\<lambda>e. var_name e = Some ''CLAUDE_CONFIG_DIR'') (map (\<lambda>(n, sub). assign n (path_Join d sub)) cacheVars) = []"
      using cache_names by (force simp: filter_empty_conv)
    have "filter (\<lambda>e. var_name e = Some ''CLAUDE_CONFIG_DIR'')
        (filter (\<lambda>e. case var_name e of None \<Rightarrow> False | Some n \<Rightarrow> n \<notin> set (map fst cacheVars @ [''XDG_CACHE_HOME''])) base) =
        filter (\<lambda>e. var_name e = Some ''CLAUDE_CONFIG_DIR'') base"
      using cache_names by (force simp: filter_filter intro!: filter_cong)
    then show ?thesis by (simp add: CacheEnv_def Let_def filter_sort vars)
  qed
  ultimately have conf: "filter (\<lambda>e. var_name e = Some ''CLAUDE_CONFIG_DIR'') ?env = [assign ''CLAUDE_CONFIG_DIR'' ?c]"
    by (simp add: env)
  have rest: "{e \<in> set (environ pe). \<exists>n. var_name e = Some n \<and> n \<notin> set (nonSubscriptionAuthVars @ map fst cacheVars @
        [''XDG_CACHE_HOME'', ''CLAUDE_CONFIG_DIR'', ''DISABLE_AUTOUPDATER''])} \<subseteq> set ?env"
    unfolding env by (auto simp: set_CacheEnv set_ClaudeEnv)
  show ?thesis unfolding Let_def using own conf rest by fastforce
qed

subsection \<open>What seeding keeps\<close>

lemma map_of_AList_update [simp]: "map_of (AList.update k v m) = (map_of m)(k \<mapsto> v)"
  by (rule update_conv')

text \<open>Seeding answers the first-run dialogs and keeps the rest.  When the global state could be seeded, the file was written
  with the dialogs answered and the project trusted, and every other entry, every other project and every other setting of
  the project as the file had them.\<close>
theorem seeding_keeps_the_rest:
  assumes "seedGlobalState E configDir workingDir h = (Inr u, h')" and "s_file E h (ReadFile (state_path configDir)) = Inr b"
  shows "\<exists>old st ps p. old_state (s_Unmarshal E b) = Some old \<and>
    (\<exists>evs x. h' = h @ evs @ [SvFile (WriteFile (state_path configDir) (s_MarshalIndent E (JObject st))) (Inr x)]) \<and>
    map_of st ''hasCompletedOnboarding'' = Some (JBool True) \<and> map_of st ''projects'' = Some (JObject ps) \<and>
    map_of ps workingDir = Some (JObject p) \<and> map_of p ''hasTrustDialogAccepted'' = Some (JBool True) \<and>
    (\<forall>k. k \<notin> {''hasCompletedOnboarding'', ''hasSeenTasksHint'', ''autoUpdates'', ''projects''} \<longrightarrow> map_of st k = map_of old k) \<and>
    (\<forall>w. w \<noteq> workingDir \<longrightarrow> map_of ps w = map_of (as_map (map_of old ''projects'')) w) \<and>
    (\<forall>k. k \<notin> {''hasTrustDialogAccepted'', ''hasClaudeMdExternalIncludesApproved'', ''hasClaudeMdExternalIncludesWarningShown''} \<longrightarrow>
       map_of p k = map_of (as_map (map_of (as_map (map_of old ''projects'')) workingDir)) k)"
proof -
  obtain old where old: "old_state (s_Unmarshal E b) = Some old"
    using assms by (auto simp: seedGlobalState_def bindI_def sFile_def call_def fail_def ret_def split: option.splits)
  then have "sDo E (WriteFile (state_path configDir) (s_MarshalIndent E (JObject (seeded_state workingDir old))))
      (h @ [SvFile (ReadFile (state_path configDir)) (Inr b)]) = (Inr u, h')"
    using assms by (simp add: seedGlobalState_def bindI_def sFile_def call_def)
  then obtain x where "h' = h @ [SvFile (ReadFile (state_path configDir)) (Inr b)] @
      [SvFile (WriteFile (state_path configDir) (s_MarshalIndent E (JObject (seeded_state workingDir old)))) (Inr x)]"
    by (auto simp: sDo_def bindI_def sFile_def call_def ret_def map_sum_def split: sum.splits)
  then have written: "\<exists>evs x. h' = h @ evs @ [SvFile (WriteFile (state_path configDir) (s_MarshalIndent E (JObject (seeded_state workingDir old)))) (Inr x)]"
    by blast
  let ?projects = "as_map (map_of old ''projects'')"
  let ?p = "trusted (as_map (map_of ?projects workingDir))"
  have st: "map_of (seeded_state workingDir old) = (map_of old)(''hasCompletedOnboarding'' \<mapsto> JBool True, ''hasSeenTasksHint'' \<mapsto> JBool True,
      ''autoUpdates'' \<mapsto> JBool False, ''projects'' \<mapsto> JObject (seeded_projects workingDir ?projects))"
    by (simp add: seeded_state_def Let_def)
  have ps: "map_of (seeded_projects workingDir ?projects) = (map_of ?projects)(workingDir \<mapsto> JObject ?p)"
    by (simp add: seeded_projects_def)
  have p: "map_of ?p = (map_of (as_map (map_of ?projects workingDir)))(''hasTrustDialogAccepted'' \<mapsto> JBool True,
      ''hasClaudeMdExternalIncludesApproved'' \<mapsto> JBool True, ''hasClaudeMdExternalIncludesWarningShown'' \<mapsto> JBool True)"
    by (simp add: trusted_def)
  show ?thesis
    apply (rule exI [of _ old])
    apply (rule exI [of _ "seeded_state workingDir old"])
    apply (rule exI [of _ "seeded_projects workingDir ?projects"])
    apply (rule exI [of _ ?p])
    apply (intro conjI)
    using old written by (simp_all add: st ps p)
qed

theorem seeding_keeps_the_rest_witness:
  "\<exists>u h' b. seedGlobalState test_senv ''/c'' ''/w'' [] = (Inr u, h') \<and> s_file test_senv [] (ReadFile (state_path ''/c'')) = Inr b \<and> h' \<noteq> []"
proof -
  have b: "s_file test_senv h op = Inr []" for h op by (simp add: test_senv_def)
  obtain u h' where r: "seedGlobalState test_senv ''/c'' ''/w'' [] = (Inr u, h')"
    by (simp add: seedGlobalState_def bindI_def sFile_def sDo_def call_def b old_state_def test_senv_def senv0_def ret_def)
  from seeding_keeps_the_rest [OF r b] r b show ?thesis by auto
qed

text \<open>A state file that holds \<^verbatim>\<open>null\<close> stops the supervisor at every start.\<close>
theorem null_state_stops_the_supervisor:
  assumes "s_file E h (ReadFile (state_path configDir)) = Inr b" and "s_Unmarshal E b = Some JNull"
  shows "fst (seedGlobalState E configDir workingDir h) = Inl nil_map"
  using assms by (simp add: seedGlobalState_def bindI_def sFile_def call_def old_state_def fail_def ret_def)

text \<open>tmux documents that a new pane gets the server's global environment, which is that of the process that started the
  server, with the session's own on top.  A stripped variable is then still there.\<close>

definition pane_environment :: "(string \<rightharpoonup> string) \<Rightarrow> string list \<Rightarrow> string \<rightharpoonup> string" where
  "pane_environment inherited own =
     foldl (\<lambda>m e. case Cut e (CHR ''='') of (n, v, _) \<Rightarrow> m(n \<mapsto> v)) inherited own"

lemma pane_environment_keeps:
  "\<forall>e \<in> set own. var_name e \<noteq> Some n \<Longrightarrow> \<forall>e \<in> set own. var_name e \<noteq> None \<Longrightarrow> pane_environment inherited own n = inherited n"
  unfolding pane_environment_def
  by (induction own arbitrary: inherited) (auto simp: var_name_def split: prod.splits if_splits)

text \<open>So the list Start is given does not keep a raw key of the container from Claude Code: the server
  is started by a \<^verbatim>\<open>tmux\<close> command that inherits the supervisor's own environment.\<close>
theorem stripped_variable_reaches_the_session:
  assumes "n \<in> set nonSubscriptionAuthVars"
  shows "pane_environment inherited (sc_Env (session_config pe)) n = inherited n"
proof (rule pane_environment_keeps)
  show "\<forall>e \<in> set (sc_Env (session_config pe)). var_name e \<noteq> Some n"
    using session_env_names assms by fastforce
  show "\<forall>e \<in> set (sc_Env (session_config pe)). var_name e \<noteq> None"
    using session_env_names by fastforce
qed

text \<open>What the push hook refuses.\<close>

lemma pre_push_iff:
  "pre_push is_ancestor ps \<longleftrightarrow>
     (\<forall>p \<in> set ps. some_nonzero (local_sha p) \<and> (some_nonzero (remote_sha p) \<longrightarrow> is_ancestor (remote_sha p) (local_sha p)))"
  by (induction ps) auto

text \<open>A volume whose permissions cannot be changed: the start fails under the lock.\<close>

definition locked_senv :: SEnv where
  "locked_senv = senv0\<lparr>s_file := \<lambda>h op. case op of Chmod p \<Rightarrow> Inl (Err ''denied'') | _ \<Rightarrow> Inr []\<rparr>"

definition bare_env :: ProcEnv where
  "bare_env = \<lparr>getenv = (\<lambda>n. []), environ = []\<rparr>"

theorem nothing_before_the_working_directory_lock_witness:
  "\<exists>h'. serve_start locked_senv [] bare_env (\<lambda>h. supervisor0) [] = (Inl (Err ''denied''), h') \<and> last h' = SvUnlock (session_lock bare_env)"
proof -
  have answers: "s_file locked_senv h (MkdirAll p) = Inr []" "s_file locked_senv h (OpenFile p) = Inr []"
    "s_file locked_senv h (Chmod p) = Inl (Err ''denied'')" "s_lock locked_senv h p = None" for h p
    by (simp_all add: locked_senv_def senv0_def)
  have "wp (serve_start locked_senv [] bare_env (\<lambda>h. supervisor0)) (\<lambda>r h'. r = Inl (Err ''denied'') \<and> SvLock (session_lock bare_env) None \<in> set h') []"
    by (simp add: serve_start_def EnsureCacheDirs_def AcquireWorkingDirLock_def serve_locked_def PrepareConfigDir_def answers wp_simps)
  then obtain h' where r: "serve_start locked_senv [] bare_env (\<lambda>h. supervisor0) [] = (Inl (Err ''denied''), h')"
    and lock: "SvLock (session_lock bare_env) None \<in> set h'"
    by (auto simp: wp_def split: prod.splits)
  from nothing_before_the_working_directory_lock [of locked_senv "[]" bare_env "\<lambda>h. supervisor0" "[]"] r lock show ?thesis by auto
qed

end
