(* ===== verification/Platform.thy ===== *)
theory Platform
  imports GatewayHandover SupervisorStart Resources
begin

text \<open>
  The programs together: the gateway's requests answered by a supervisor's control API, and the Pod the
  controller builds as the environment the supervisor finds.  Shown: the control API implements the
  contract the gateway's output bridge relies on, a takeover the gateway declares is seen by every later
  handover and refused to the agent until it is released, and both containers of a Pod work on the same directories.
\<close>

subsection \<open>A request on the wire\<close>

text \<open>The address of a request, split by the server: the path, and the value of \<^verbatim>\<open>since\<close> in the query.\<close>

definition wire_request :: "string \<Rightarrow> string \<Rightarrow> string \<Rightarrow> SupRequest" where
  "wire_request endpoint verb u =
     (case Cut (drop (length endpoint) u) (CHR ''?'') of (path, query, _) \<Rightarrow>
        \<lparr>sq_Method = verb, sq_Path = path, sq_Since = drop (length ''since='') query, sq_Body = []\<rparr>)"

text \<open>The JSON value of a reply is the value the client decodes; texts are ASCII.\<close>

definition wire_response :: "SReply \<Rightarrow> Response" where
  "wire_response r = \<lparr>StatusCode = sr_Status r, StatusText = [], Body = sr_Body r, BodyText = []\<rparr>"

definition pod_answer ::
  "SEnv \<Rightarrow> Health \<Rightarrow> SReply sact \<Rightarrow> string \<Rightarrow> Supervisor \<Rightarrow> SEvent list \<Rightarrow> string \<Rightarrow> string \<Rightarrow> Supervisor \<times> Response" where
  "pod_answer E hl evacuate endpoint s h verb u =
     (case control_api E hl evacuate s (wire_request endpoint verb u) h of ((s', reply), _) \<Rightarrow> (s', wire_response reply))"

text \<open>The gateway's environment with a supervisor behind \<open>endpoint\<close>: its record and its own history are
  functions of the gateway's.\<close>

definition with_pod ::
  "GEnv \<Rightarrow> SEnv \<Rightarrow> Health \<Rightarrow> SReply sact \<Rightarrow> string \<Rightarrow> (GEvent list \<Rightarrow> Supervisor) \<Rightarrow> (GEvent list \<Rightarrow> SEvent list) \<Rightarrow> GEnv" where
  "with_pod G E hl evacuate endpoint sv own =
     G\<lparr>g_Do := \<lambda>h verb u body.
         if prefix endpoint u then Inr (snd (pod_answer E hl evacuate endpoint (sv h) (own h) verb u))
         else g_Do G h verb u body\<rparr>"

lemma with_pod_Do:
  "g_Do (with_pod G E hl evacuate endpoint sv own) h verb (endpoint @ u) body =
     Inr (snd (pod_answer E hl evacuate endpoint (sv h) (own h) verb (endpoint @ u)))"
  "g_NewRequest (with_pod G E hl evacuate endpoint sv own) = g_NewRequest G"
  by (simp_all add: with_pod_def)

subsection \<open>The output contract\<close>

lemma wire_output: "wire_request endpoint ''GET'' (output_url endpoint since) =
    \<lparr>sq_Method = ''GET'', sq_Path = ''/output'', sq_Since = Itoa since, sq_Body = []\<rparr>"
  by (simp add: wire_request_def output_url_def Cut_def)

lemma control_api_output:
  assumes "sq_Method r = ''GET''" and "sq_Path r = ''/output''"
  shows "control_api E hl evacuate s r = unchanged s (output_endpoint E s r)"
  using assms by (simp add: control_api_def session_Handler_def session_route_def session_routes_def route_segments_def allows_def)


lemma as_chunks_schunks: "as_chunks (JList (map schunk_json cs)) = Some (map (\<lambda>c. \<lparr>Seq = oc_Seq c, Data = oc_Data c\<rparr>) cs)"
proof -
  have "decode_struct chunk_fields (Some (schunk_json c)) \<lparr>Seq = 0, Data = []\<rparr> = Some \<lparr>Seq = oc_Seq c, Data = oc_Data c\<rparr>" for c
    by (simp add: schunk_json_def decode_struct_def find_setter_def chunk_fields_def EqualFold_def ToLower_def lower_char_def is_upper_def)
  then show ?thesis by (induction cs) simp_all
qed

lemma decode_output:
  "decode_struct output_fields (Some (JObject [(''chunks'', JList (map schunk_json cs))])) [] = Some (map (\<lambda>c. \<lparr>Seq = oc_Seq c, Data = oc_Data c\<rparr>) cs)"
  using as_chunks_schunks [of cs]
  by (simp add: decode_struct_def find_setter_def output_fields_def EqualFold_def del: as_chunks.simps)



subsection \<open>A takeover is seen by everyone\<close>

lemma hex_upper: "d < 16 \<Longrightarrow> hex_value (upper_hex d) = Some d"
  by (cases "d < 10") (simp_all add: upper_hex_def hex_value_def Let_def)

lemma upper_hex_plain: "d < 16 \<Longrightarrow> upper_hex d \<noteq> CHR ''/'' \<and> upper_hex d \<noteq> CHR ''?''"
proof -
  have "hex_value (CHR ''/'') = None" "hex_value (CHR ''?'') = None" by (simp_all add: hex_value_def)
  then show "d < 16 \<Longrightarrow> upper_hex d \<noteq> CHR ''/'' \<and> upper_hex d \<noteq> CHR ''?''" using hex_upper [of d] by auto
qed

lemma char_halves: "(of_char c :: nat) div 16 < 16" "(of_char c :: nat) mod 16 < 16"
  using nat_of_char_less_256 [of c] by (auto simp: less_mult_imp_div_less)

lemma not_segment_chars: "\<not> path_segment_char (CHR ''/'')" "\<not> path_segment_char (CHR ''?'')" "\<not> path_segment_char (CHR ''%'')"
  by code_simp+

lemma PathEscape_chars: "CHR ''/'' \<notin> set (PathEscape s) \<and> CHR ''?'' \<notin> set (PathEscape s)"
proof -
  have "CHR ''/'' \<notin> set (escape_char c) \<and> CHR ''?'' \<notin> set (escape_char c)" for c
    using upper_hex_plain [OF char_halves(1) [of c]] upper_hex_plain [OF char_halves(2) [of c]] not_segment_chars
    by (auto simp: escape_char_def dest: sym)
  then show ?thesis by (auto simp: PathEscape_def)
qed

lemma PathUnescape_PathEscape: "PathUnescape (PathEscape s) = Some s"
proof (induction s)
  case Nil
  then show ?case by (simp add: PathEscape_def)
next
  case (Cons c s)
  have esc: "PathEscape (c # s) = escape_char c @ PathEscape s" by (simp add: PathEscape_def)
  show ?case
  proof (cases "path_segment_char c")
    case True
    then have "c \<noteq> CHR ''%''" using not_segment_chars by auto
    then show ?thesis using Cons True by (simp add: esc escape_char_def)
  next
    case False
    have "char_of (16 * ((of_char c :: nat) div 16) + of_char c mod 16) = c" by simp
    then show ?thesis using Cons False hex_upper [OF char_halves(1)] hex_upper [OF char_halves(2)]
      by (simp add: esc escape_char_def)
  qed
qed

lemma PathEscape_Nil: "PathEscape s = [] \<longleftrightarrow> s = []"
  by (cases s) (auto simp: PathEscape_def escape_char_def)

lemma wire_client: "wire_request endpoint verb (client_url endpoint i) =
    \<lparr>sq_Method = verb, sq_Path = ''/clients/'' @ PathEscape i, sq_Since = [], sq_Body = []\<rparr>"
  using PathEscape_chars [of i] by (simp add: wire_request_def client_url_def Cut_def)

lemma client_segments: "route_segments (''/clients/'' @ PathEscape i) = [''clients'', i]"
proof -
  have "Split (CHR ''/'') (''/clients/'' @ PathEscape i) = [[], ''clients'', PathEscape i]"
    using PathEscape_chars [of i] Split_Join [of "[[], ''clients'', PathEscape i]" "CHR ''/''"] by simp
  then show ?thesis by (simp add: route_segments_def PathUnescape_PathEscape)
qed

lemma control_api_clients:
  assumes "i \<noteq> []"
  shows "control_api E hl evacuate s (wire_request endpoint ''POST'' (client_url endpoint i)) = hold_endpoint E s i"
    and "control_api E hl evacuate s (wire_request endpoint ''DELETE'' (client_url endpoint i)) = release_endpoint s i"
  using assms by (simp_all add: control_api_def wire_client client_segments [simplified] session_Handler_def session_route_def)

lemma decode_sclients:
  "decode_clients (Some (JList (map sclient_json cs))) = Some (map (\<lambda>c. \<lparr>cl_ID = cl_id c, cl_Writable = cl_writable c\<rparr>) cs)"
proof -
  have "decode_struct client_fields (Some (sclient_json c)) client0 = Some \<lparr>cl_ID = cl_id c, cl_Writable = cl_writable c\<rparr>" for c
    by (simp add: sclient_json_def client0_def decode_struct_def find_setter_def client_fields_def EqualFold_def ToLower_def lower_char_def is_upper_def)
  then show ?thesis by (induction cs) simp_all
qed

text \<open>With a declared writer, every handover is refused and so is the agent's input.\<close>

lemma held_listed: "map_of (held s) i = Some t \<Longrightarrow> \<exists>c \<in> set (heldClients E s). cl_writable c \<and> cl_id c = i"
  unfolding set_heldClients
  by (rule bexI [of _ "\<lparr>cl_id = i, cl_writable = True, cl_attachedAt = s_RFC3339 E t\<rparr>"])
     (auto intro: image_eqI [of _ _ "(i, t)"] dest: map_of_SomeD)

lemma held_refuses_handover:
  assumes "map_of (held s) i = Some t"
  shows "fst (refuseIfWritableClientPresent (with_pod G E hl evacuate endpoint (\<lambda>_. s) own) endpoint h) \<noteq> Inr ()"
proof -
  let ?G = "with_pod G E hl evacuate endpoint (\<lambda>_. s) own"
  let ?r = "\<lparr>sq_Method = ''GET'', sq_Path = ''/clients'', sq_Since = [], sq_Body = []\<rparr>"
  obtain res h1 where lc: "sup_ListClients E s (own h) = (res, h1)" by (cases "sup_ListClients E s (own h)")
  have wire: "wire_request endpoint ''GET'' (endpoint @ ''/clients'') = ?r" by (simp add: wire_request_def Cut_def)
  have api: "control_api E hl evacuate s ?r = unchanged s (clients_endpoint E s)"
    by (simp add: control_api_def session_Handler_def session_route_def session_routes_def route_segments_def allows_def)
  have answer: "g_Do ?G h ''GET'' (endpoint @ ''/clients'') None =
      Inr (wire_response (case res of Inl e \<Rightarrow> error_reply 500 e | Inr cs \<Rightarrow> writeJSONResponse 200 (JList (map sclient_json cs))))"
    unfolding with_pod_Do by (simp add: pod_answer_def wire api unchanged_def clients_endpoint_def replyE_def bindI_def ret_def lc)
  show ?thesis
  proof (cases res)
    case (Inl e)
    then show ?thesis using answer
      by (auto simp: refuseIfWritableClientPresent_def gHttp_def tryE_def bindI_def call_def fail_def ret_def wire_response_def error_reply_def
          writeJSONResponse_def split: option.splits)
  next
    case (Inr cs)
    have "\<exists>c \<in> set cs. cl_writable c" using held_listed [OF assms, of E] sup_ListClients_held [of E s "own h" cs h1] lc Inr by blast
    then have "List.find cl_Writable (map (\<lambda>c. \<lparr>cl_ID = cl_id c, cl_Writable = cl_writable c\<rparr>) cs) \<noteq> None"
      by (auto simp: find_None_iff)
    then show ?thesis using answer Inr decode_sclients [of cs]
      by (auto simp: refuseIfWritableClientPresent_def gHttp_def tryE_def bindI_def call_def fail_def ret_def wire_response_def
          writeJSONResponse_def simp del: decode_clients.simps split: option.splits)
  qed
qed

lemma held_refuses_agent:
  assumes "map_of (held s) i = Some t" and "i \<noteq> []"
  shows "fst (SendInput E s txt h) \<noteq> None"
proof -
  have writer: "firstWritableOther cs [] \<noteq> None" if "sup_ListClients E s h1 = (Inr cs, h2)" for cs h1 h2
  proof -
    have "\<exists>c \<in> set cs. cl_writable c \<and> cl_id c \<noteq> []"
      using sup_ListClients_held [OF that] held_listed [OF assms(1), of E] assms(2) by blast
    then show ?thesis unfolding firstWritableOther_def by (auto simp: find_None_iff)
  qed
  show ?thesis
    by (auto simp: SendInput_def SendInputFrom_def bindI_def ret_def dest: writer split: prod.splits sum.splits option.splits)
qed



subsection \<open>The Pod the controller builds\<close>

text \<open>Both containers of a Pod work on the same directories.  The supervisor, which is told the mount point of the volume
  and derives the rest, works on the checkout, the configuration area and the cache the controller names to the
  init container.\<close>
theorem containers_share_their_directories:
  assumes "getenv pe ''WORKSPACE_MOUNT'' = workspaceMountPath" and "getenv pe ''WORKSPACE_DIR'' = []"
    and "getenv pe ''CLAUDE_CONFIG_DIR'' = []" and "getenv pe ''WORKSPACE_CACHE_DIR'' = []"
  shows "workingDirFromEnv pe = workingDirPath \<and> configDirFromEnv pe = claudeConfigPath \<and> cacheDirFromEnv pe = cacheDirPath"
proof -
  have "path_Join ''/workspace'' checkoutDirName = ''/workspace/repo''" "path_Join ''/workspace'' configDirName = ''/workspace/.claude-config''"
    "path_Join ''/workspace'' cacheDirName = ''/workspace/.cache''"
    by code_simp+
  then show ?thesis using assms
    by (simp add: workingDirFromEnv_def configDirFromEnv_def cacheDirFromEnv_def env_or_def mount_root_def Paths_def workspaceMountPath_def
        workingDirPath_def claudeConfigPath_def cacheDirPath_def)
qed

text \<open>The environment the controller gives the supervisor names neither Hermes Agent nor a report store, so what
  the supervisor notifies goes nowhere and no test report is published.\<close>
theorem workspace_pods_notify_nobody:
  assumes "\<And>n. n \<notin> fst ` set (workspaceEnv ws tmpl resourceName) \<Longrightarrow> getenv pe n = []"
  shows "the_publisher pe = None" and "NotifyHermes E (getenv pe ''HERMES_NOTIFY_URL'') e h = (Inr (), h)"
proof -
  have "n \<notin> fst ` set (workspaceEnv ws tmpl resourceName)" if "n \<in> {''HERMES_NOTIFY_URL'', ''REPORT_ENDPOINT''}" for n
    using that by (auto simp: workspaceEnv_def secretEnv_def evacuationEnv_def gitCredentialEnv_def branchDatabaseEnv_def Let_def split: option.splits if_splits)
  then have "getenv pe ''HERMES_NOTIFY_URL'' = []" "getenv pe ''REPORT_ENDPOINT'' = []" using assms by blast+
  then show "the_publisher pe = None" and "NotifyHermes E (getenv pe ''HERMES_NOTIFY_URL'') e h = (Inr (), h)"
    by (simp_all add: the_publisher_def newReportPublisher_def NotifyHermes_def ok_def ret_def)
qed


theorem containers_share_their_directories_witness:
  "\<exists>pe. workingDirFromEnv pe = workingDirPath \<and> getenv pe ''WORKSPACE_MOUNT'' = workspaceMountPath"
proof -
  let ?pe = "\<lparr>getenv = (\<lambda>n. if n = ''WORKSPACE_MOUNT'' then workspaceMountPath else []), environ = []\<rparr>"
  from containers_share_their_directories [of ?pe] show ?thesis by (intro exI [of _ ?pe]) simp
qed

end
