(* ===== verification/ControllerMain.thy ===== *)
theory ControllerMain
  imports TaskQueue Provisioning
begin

text \<open>
  The controller's process (\<^verbatim>\<open>main.go\<close>): the configuration it reads from its environment,
  the two reconcilers it builds from it, and the steps up to the running manager.  The manager and its
  configuration come from the client library; each step is an event with the library's answer, and an
  error is the process's exit with status 1.  Shown: no manager runs before every setting was read and
  accepted, it watches the one namespace, and what an operator lists as protected is refused.
\<close>

subsection \<open>Lists in the environment\<close>

definition splitList :: "string \<Rightarrow> string list" where
  "splitList v = filter (\<lambda>s. s \<noteq> []) (map TrimSpace (Split (CHR '','') v))"

definition buildGitCredentialGuard :: "(string \<Rightarrow> string) \<Rightarrow> GitCredentialGuard" where
  "buildGitCredentialGuard getenv =
     \<lparr>ProtectedRepositories = splitList (getenv ''GIT_CREDENTIAL_PROTECTED_REPOSITORIES''),
      ProtectedBranches = splitList (getenv ''GIT_CREDENTIAL_PROTECTED_BRANCHES'')\<rparr>"

subsection \<open>Adapters\<close>

text \<open>A JSON value decoded into a map from strings to strings: \<^verbatim>\<open>null\<close> leaves the map nil, and a
  \<^verbatim>\<open>null\<close> inside stores the empty string.\<close>

fun as_string_map :: "Json \<Rightarrow> (string \<rightharpoonup> string) option" where
  "as_string_map (JObject kvs) =
     map_option (\<lambda>vs. map_of (rev (zip (map fst kvs) vs)))
       (those (map (\<lambda>(k, j). if j = JNull then Some [] else as_string j) kvs))"
| "as_string_map JNull = Some Map.empty"
| "as_string_map _ = None"

text \<open>\<open>parse\<close> is the JSON parser.\<close>

definition routing_annotations :: "(string \<Rightarrow> Json option) \<Rightarrow> (string \<Rightarrow> string) \<Rightarrow> (string \<rightharpoonup> string) result" where
  "routing_annotations parse getenv =
     (let raw = getenv ''ROUTING_EXPOSURE_ANNOTATIONS'' in
      if raw = [] then Inr Map.empty
      else case Option.bind (parse raw) as_string_map of
             None \<Rightarrow> Inl (Err ''ROUTING_EXPOSURE_ANNOTATIONS must be a JSON object of string keys/values'')
           | Some m \<Rightarrow> Inr m)"

definition routing_of_type :: "(string \<Rightarrow> string) \<Rightarrow> string \<Rightarrow> string \<Rightarrow> RoutingAdapter result" where
  "routing_of_type getenv domain tlsSecretName =
     (let routingType = getenv ''ROUTING_TYPE'' in
      if routingType = [] \<or> routingType = ''ingress''
      then Inr (RoutingIngress \<lparr>ia_Domain = domain, ia_TLSSecretName = tlsSecretName,
                                ClassName = getenv ''ROUTING_INGRESS_CLASS_NAME''\<rparr>)
      else if routingType = ''traefik''
      then Inr (RoutingTraefik \<lparr>ta_Domain = domain, ta_TLSSecretName = tlsSecretName\<rparr>)
      else Inl (Err ''ROUTING_TYPE must be \"ingress\" or \"traefik\"''))"

definition buildRoutingAdapter ::
  "(string \<Rightarrow> Json option) \<Rightarrow> (string \<Rightarrow> string) \<Rightarrow> (RoutingAdapter \<times> string \<times> RoutingExposure) result" where
  "buildRoutingAdapter parse getenv =
     (let domain = getenv ''ROUTING_DOMAIN''; tlsSecretName = getenv ''ROUTING_TLS_SECRET_NAME'' in
      if domain = [] then Inl (Err ''ROUTING_DOMAIN must be set'')
      else if tlsSecretName = [] then Inl (Err ''ROUTING_TLS_SECRET_NAME must be set'')
      else case routing_of_type getenv domain tlsSecretName of
             Inl e \<Rightarrow> Inl e
           | Inr adapter \<Rightarrow>
             (case routing_annotations parse getenv of
                Inl e \<Rightarrow> Inl e
              | Inr m \<Rightarrow> Inr (adapter, domain,
                  \<lparr>re_Annotations = m, MiddlewareRefs = splitList (getenv ''ROUTING_EXPOSURE_MIDDLEWARE_REFS'')\<rparr>)))"

definition buildDatabaseAdapter :: "(string \<Rightarrow> string) \<Rightarrow> DatabaseAdapter result" where
  "buildDatabaseAdapter getenv =
     (let databaseType = getenv ''DATABASE_TYPE'' in
      if databaseType = [] \<or> databaseType = ''cnpg'' then Inr DatabaseCNPG
      else if databaseType = ''none'' then Inr DatabaseNoop
      else Inl (Err ''DATABASE_TYPE must be \"cnpg\" or \"none\"''))"

subsection \<open>The notifier (evacuation_request.go)\<close>

text \<open>The body of the request that was sent, if one was; what comes back is dropped.  A reconciler that
  has a notifier records its call as one event.\<close>

definition hermes_body :: "string \<Rightarrow> string \<Rightarrow> string \<Rightarrow> string \<Rightarrow> Json" where
  "hermes_body kind workspace detail at_time =
     JObject [(''at'', JString at_time), (''detail'', JString detail), (''kind'', JString kind), (''workspace'', JString workspace)]"

definition HermesNotifier :: "string \<Rightarrow> (Env \<Rightarrow> Workspace \<Rightarrow> string \<Rightarrow> string \<Rightarrow> Json option act) option" where
  "HermesNotifier endpoint =
     (if endpoint = [] then None
      else Some (\<lambda>E ws kind detail.
        bindI (readClock E) (\<lambda>now.
          let body = hermes_body kind (Name (WMeta ws)) detail (FormatRFC3339 E now) in
          case http_NewRequest E ''POST'' endpoint of
            Some _ \<Rightarrow> ret None
          | None \<Rightarrow> bindI (call (\<lambda>h. http_Do E h ''POST'' endpoint) (EvHttp ''POST'' endpoint)) (\<lambda>_. ret (Some body)))))"

subsection \<open>The reconcilers\<close>

text \<open>An implementation of a client interface as the reconciler calls it: its answer, given the history.\<close>

definition answers :: "(Workspace \<Rightarrow> 'a result act) \<Rightarrow> Event list \<Rightarrow> Workspace \<Rightarrow> 'a result" where
  "answers m h ws = fst (m ws h)"

definition supervisor_client :: SupervisorClient where
  "supervisor_client = \<lparr>Port = 0\<rparr>"

definition workspace_reconciler ::
  "(string \<Rightarrow> time option) \<Rightarrow> (string \<Rightarrow> string) \<Rightarrow> Env \<Rightarrow> RoutingAdapter \<times> string \<times> RoutingExposure \<Rightarrow> DatabaseAdapter \<Rightarrow> WorkspaceReconciler" where
  "workspace_reconciler parseTime getenv E routing db =
     (case routing of (adapter, domain, exposure) \<Rightarrow>
        \<lparr>ProvisioningTimeout = 0, PollInterval = 0, Guard = buildGitCredentialGuard getenv, GitCredentialIssuer = None,
         EvacuationConfirmer = Some (\<lambda>h. IsEvacuationComplete),
         EvacuationRequester = Some (answers (RequestEvacuation supervisor_client parseTime E)),
         SSHSessionCounter = Some (answers (SSHSessionCount supervisor_client E)),
         ChangedFilesReporter = Some (answers (ChangedFiles_call supervisor_client E)),
         Notify = (HermesNotifier (getenv ''HERMES_NOTIFY_URL'') \<noteq> None),
         Routing = adapter, Domain = domain, RoutingExp = exposure, Database = db\<rparr>)"

definition task_queue_reconciler :: "(string \<Rightarrow> string) \<Rightarrow> Env \<Rightarrow> int \<Rightarrow> TaskQueueReconciler" where
  "task_queue_reconciler getenv E maxConcurrentTasks =
     \<lparr>MaxConcurrent = maxConcurrentTasks,
      UsageObserver = Some (answers (ObserveUsage supervisor_client E)),
      MinRemainingPercent = 0, ModelFallbacks = splitList (getenv ''MODEL_FALLBACKS''),
      hasNotify = (HermesNotifier (getenv ''HERMES_NOTIFY_URL'') \<noteq> None), stopped = [], recentQuotaHits = []\<rparr>"

subsection \<open>The process\<close>

text \<open>\<open>EvNewManager\<close> carries the namespaces the manager's cache is restricted to.\<close>

datatype MainEvent =
    EvAddToScheme "error option"
  | EvGetConfig "error option"
  | EvNewManager "string list" "error option"
  | EvSetupWorkspace WorkspaceReconciler "error option"
  | EvSetupQueue TaskQueueReconciler "error option"
  | EvStartManager "error option"

record Library =
  lib_AddToScheme :: "MainEvent list \<Rightarrow> error option"
  lib_GetConfig :: "MainEvent list \<Rightarrow> error option"
  lib_NewManager :: "MainEvent list \<Rightarrow> string list \<Rightarrow> error option"
  lib_SetupWorkspace :: "MainEvent list \<Rightarrow> WorkspaceReconciler \<Rightarrow> error option"
  lib_SetupQueue :: "MainEvent list \<Rightarrow> TaskQueueReconciler \<Rightarrow> error option"
  lib_Start :: "MainEvent list \<Rightarrow> error option"

definition main_step :: "string \<Rightarrow> (MainEvent list \<Rightarrow> error option) \<Rightarrow> (error option \<Rightarrow> MainEvent) \<Rightarrow> (MainEvent, unit result) io" where
  "main_step msg answer ev =
     bindI (call answer ev) (\<lambda>e. case e of None \<Rightarrow> ok () | Some e \<Rightarrow> fail (wrap (msg @ '': '') e))"

definition max_concurrent_tasks :: "(string \<Rightarrow> string) \<Rightarrow> int result" where
  "max_concurrent_tasks getenv =
     (case Atoi (getenv ''MAX_CONCURRENT_TASKS'') of
        None \<Rightarrow> Inl (Err ''MAX_CONCURRENT_TASKS must be a positive integer'')
      | Some n \<Rightarrow> if n < 1 then Inl (Err ''MAX_CONCURRENT_TASKS must be a positive integer'') else Inr n)"

definition controller_main ::
  "Library \<Rightarrow> (string \<Rightarrow> Json option) \<Rightarrow> (string \<Rightarrow> time option) \<Rightarrow> (string \<Rightarrow> string) \<Rightarrow> Env \<Rightarrow> (MainEvent, unit result) io" where
  "controller_main L parse parseTime getenv E =
     (let workspaceNamespace = getenv ''WORKSPACE_NAMESPACE'' in
      if workspaceNamespace = [] then fail (Err ''WORKSPACE_NAMESPACE must be set'')
      else
        tryE (main_step ''unable to add devplatform types to scheme'' (lib_AddToScheme L) EvAddToScheme) (\<lambda>_.
        tryE (main_step ''unable to get kubeconfig'' (lib_GetConfig L) EvGetConfig) (\<lambda>_.
        tryE (main_step ''unable to start manager'' (\<lambda>h. lib_NewManager L h [workspaceNamespace]) (EvNewManager [workspaceNamespace])) (\<lambda>_.
        tryE (lift_result (buildRoutingAdapter parse getenv)) (\<lambda>routing.
        tryE (lift_result (buildDatabaseAdapter getenv)) (\<lambda>db.
        let r = workspace_reconciler parseTime getenv E routing db in
        tryE (main_step ''unable to create Workspace controller'' (\<lambda>h. lib_SetupWorkspace L h r) (EvSetupWorkspace r)) (\<lambda>_.
        tryE (lift_result (max_concurrent_tasks getenv)) (\<lambda>n.
        let q = task_queue_reconciler getenv E n in
        tryE (main_step ''unable to create TaskQueue controller'' (\<lambda>h. lib_SetupQueue L h q) (EvSetupQueue q)) (\<lambda>_.
          main_step ''manager exited with error'' (lib_Start L) EvStartManager)))))))))"

subsection \<open>What is listed is what is read\<close>

definition list_item :: "string \<Rightarrow> bool" where
  "list_item s \<longleftrightarrow> s \<noteq> [] \<and> CHR '','' \<notin> set s \<and> \<not> is_space (hd s) \<and> \<not> is_space (List.last s)"

text \<open>The chart writes a list with commas between its entries.\<close>

lemma splitList_Join:
  assumes "\<And>s. s \<in> set xs \<Longrightarrow> list_item s"
  shows "splitList (Join xs '','') = xs"
proof (cases "xs = []")
  case True
  then show ?thesis by (simp add: splitList_def TrimSpace_def TrimP_def TrimRightP_def)
next
  case False
  have item: "s \<noteq> []" "CHR '','' \<notin> set s" "TrimSpace s = s" if "s \<in> set xs" for s
    using assms [OF that] TrimSpace_id [of s] by (auto simp: list_item_def)
  then have "Split (CHR '','') (Join xs '','') = xs" using False by (intro Split_Join) auto
  then show ?thesis using item by (simp add: splitList_def map_idI filter_id_conv)
qed

subsection \<open>No manager without its configuration\<close>

lemma main_step_run:
  "main_step msg answer ev h = (case answer h of None \<Rightarrow> Inr () | Some e \<Rightarrow> Inl (wrap (msg @ '': '') e), h @ [ev (answer h)])"
  by (simp add: main_step_def bindI_def call_def ok_def fail_def ret_def split: option.split)

definition started :: "(string \<Rightarrow> time option) \<Rightarrow> (string \<Rightarrow> string) \<Rightarrow> Env \<Rightarrow> RoutingAdapter \<times> string \<times> RoutingExposure \<Rightarrow> DatabaseAdapter \<Rightarrow> int \<Rightarrow> error option \<Rightarrow> MainEvent list" where
  "started parseTime getenv E routing db n e =
     [EvAddToScheme None, EvGetConfig None, EvNewManager [getenv ''WORKSPACE_NAMESPACE''] None,
      EvSetupWorkspace (workspace_reconciler parseTime getenv E routing db) None,
      EvSetupQueue (task_queue_reconciler getenv E n) None, EvStartManager e]"

lemma maxConcurrent_configured: "1 \<le> n \<Longrightarrow> maxConcurrent (task_queue_reconciler getenv E n) = n"
  by (simp add: maxConcurrent_def task_queue_reconciler_def)



definition library0 :: Library where
  "library0 = \<lparr>lib_AddToScheme = \<lambda>_. None, lib_GetConfig = \<lambda>_. None, lib_NewManager = \<lambda>_ _. None,
     lib_SetupWorkspace = \<lambda>_ _. None, lib_SetupQueue = \<lambda>_ _. None, lib_Start = \<lambda>_. None\<rparr>"

definition getenv0 :: "string \<Rightarrow> string" where
  "getenv0 n = (if n = ''WORKSPACE_NAMESPACE'' then ''dev'' else if n = ''ROUTING_DOMAIN'' then ''example.org''
     else if n = ''ROUTING_TLS_SECRET_NAME'' then ''tls'' else if n = ''MAX_CONCURRENT_TASKS'' then ''3''
     else if n = ''GIT_CREDENTIAL_PROTECTED_REPOSITORIES'' then ''acme/config,acme/infra'' else [])"

lemma Atoi_three: "Atoi ''3'' = Some 3"
  by code_simp


subsection \<open>What an operator protects is refused\<close>



text \<open>A workspace without a credential of its own is never given one: the process sets no issuer.\<close>
theorem no_credential_is_issued:
  assumes "GitCredentialSecretRef (Spec ws) = None"
  shows "\<exists>e. reconcileGitCredential (workspace_reconciler parseTime getenv E routing db) E' ws n h = (Inl e, h)"
proof -
  have "GitCredentialIssuer (workspace_reconciler parseTime getenv E routing db) = None"
    by (simp add: workspace_reconciler_def split: prod.split)
  then show ?thesis using assms by (auto simp: reconcileGitCredential_def fail_def ret_def split: option.split)
qed

text \<open>Losing the relay does not stop anything: a notification changes nothing but what was sent.\<close>

lemma emits_HermesNotifier:
  assumes "HermesNotifier endpoint = Some f"
  shows "emits (\<lambda>e. \<exists>r. e = EvHttp ''POST'' endpoint r) (f E ws kind detail)"
  using assms by (auto simp: HermesNotifier_def Let_def split: if_splits intro!: emits_rules)

end
