(* ===== verification/PlatformEvacuation.thy ===== *)
theory PlatformEvacuation
  imports Platform ControllerMain
begin

text \<open>
  Stopping a workspace, end to end: the controller \<^verbatim>\<open>main.go\<close> starts, its evacuation gate,
  its call into the Pod, the supervisor's handler of \<^verbatim>\<open>POST /evacuate\<close>, its wait for the turn
  and its upload.  Shown: compute is stopped only when it was read as not running, or when a store had
  accepted the working directory's bundle and archive, captured between two turns, and the snapshot that
  names them was recorded first.
\<close>

subsection \<open>The Pods\<close>

text \<open>A supervisor process behind an address; what it finds depends on the controller's history.  The
  wait is given the fuel \<open>settle_fuel\<close>, with which it always answers, so the case without a
  result does not occur.\<close>

record PodProcess =
  pp_Env :: SEnv
  pp_Proc :: ProcEnv
  pp_Health :: Health
  pp_Cancelled :: "SEvent list \<Rightarrow> error option"
  pp_Shared :: "SEvent list \<Rightarrow> Supervisor"
  pp_State :: "Event list \<Rightarrow> Supervisor"
  pp_Own :: "Event list \<Rightarrow> SEvent list"

definition evacuate_endpoint :: "PodProcess \<Rightarrow> SReply sact" where
  "evacuate_endpoint p =
     (let t = the_trigger (pp_Proc p) in
      bindI (EvacuateWhenSettled (settle_fuel t) (pp_Env p) (pp_Cancelled p) (turnReader (pp_Env p) (pp_Shared p)) t) (\<lambda>res.
        ret (case res of None \<Rightarrow> empty_reply 500 | Some r \<Rightarrow> evacuate_reply r)))"

definition process_answer :: "PodProcess \<Rightarrow> Event list \<Rightarrow> string \<Rightarrow> string \<Rightarrow> string \<Rightarrow> Response" where
  "process_answer p h endpoint verb u =
     snd (pod_answer (pp_Env p) (pp_Health p) (evacuate_endpoint p) endpoint (pp_State p h) (pp_Own p h) verb u)"

definition host_of :: "string \<Rightarrow> string" where
  "host_of u = takeWhile (\<lambda>c. c \<noteq> CHR ''/'') (drop (length ''http://'') u)"

text \<open>The controller's environment with the processes reachable by host and port.\<close>

definition with_pods :: "Env \<Rightarrow> (string \<rightharpoonup> PodProcess) \<Rightarrow> Env" where
  "with_pods E pods =
     E\<lparr>http_Do := \<lambda>h verb u. case pods (host_of u) of
          None \<Rightarrow> http_Do E h verb u
        | Some p \<Rightarrow> Inr (process_answer p h (''http://'' @ host_of u) verb u)\<rparr>"

text \<open>Every Pod the API server lists as running is one of them.\<close>

definition runs_supervisors :: "Env \<Rightarrow> (string \<rightharpoonup> PodProcess) \<Rightarrow> bool" where
  "runs_supervisors E pods \<longleftrightarrow>
     (\<forall>h ns n ps p. api_ListPods E h ns n = Inr ps \<longrightarrow> p \<in> set ps \<longrightarrow> podUsable p \<longrightarrow>
        CHR ''/'' \<notin> set (PodIP p) \<and> pods (Clients.JoinHostPort (PodIP p) (Itoa supervisorPort)) \<noteq> None)"

text \<open>What a recorded snapshot stands for: the supervisor saw no turn running, and from there on
  captured the working directory and uploaded both objects under the names the snapshot carries.\<close>

definition off_node :: "PodProcess \<Rightarrow> EvacuationSnapshot \<Rightarrow> bool" where
  "off_node p snap \<longleftrightarrow>
     (let a = tg_Agent (the_trigger (pp_Proc p)) in
      \<exists>h0 i h1 taken evs c b1 b2.
        turnReader (pp_Env p) (pp_Shared p) h0 = (Inr (False, i), h1) \<and> Evacuate (pp_Env p) a h1 = (Inr taken, h1 @ evs) \<and>
        ag_Store a = Some c \<and> stored c (BundleKey snap) b1 evs \<and> stored c (DirtyArchiveKey snap) b2 evs \<and>
        snap_WorkspaceId snap = ag_WorkspaceId a \<and> snap_Branch snap = sn_Branch taken \<and> HeadCommit snap = sn_HeadCommit taken)"

subsection \<open>One request\<close>

lemma snapshot_decoded:
  assumes "decode_struct (snapshot_fields parse) (sr_Body (evacuate_reply (Inr taken))) snapshot0 = Some snap"
  shows "snap_WorkspaceId snap = sn_WorkspaceId taken \<and> snap_Branch snap = sn_Branch taken \<and> HeadCommit snap = sn_HeadCommit taken \<and>
    BundleKey snap = sn_BundleKey taken \<and> DirtyArchiveKey snap = sn_DirtyArchiveKey taken"
proof (cases "parse (sn_CapturedAt taken)")
  case None
  then show ?thesis using assms
    by (simp add: evacuate_reply_def writeJSONResponse_def snapshot_json_def decode_struct_def find_setter_def snapshot_fields_def
        snapshot0_def EqualFold_def ToLower_def lower_char_def is_upper_def)
next
  case (Some t)
  then show ?thesis using assms snapshot_crosses [of parse taken t] by auto
qed

lemma evacuate_answer:
  "process_answer p h endpoint ''POST'' (endpoint @ ''/evacuate'') = wire_response (fst (evacuate_endpoint p (pp_Own p h)))"
proof -
  have "wire_request endpoint ''POST'' (endpoint @ ''/evacuate'') = \<lparr>sq_Method = ''POST'', sq_Path = ''/evacuate'', sq_Since = [], sq_Body = []\<rparr>"
    by (simp add: wire_request_def Cut_def)
  then show ?thesis
    by (simp add: process_answer_def pod_answer_def control_api_def route_segments_def unchanged_def bindI_def ret_def split: prod.splits)
qed

lemma endpoint_off_node:
  assumes "StatusCode (wire_response (fst (evacuate_endpoint p h))) < 300"
    and "decode_struct (snapshot_fields parse) (Body (wire_response (fst (evacuate_endpoint p h)))) snapshot0 = Some snap"
  shows "off_node p snap"
proof -
  let ?t = "the_trigger (pp_Proc p)" and ?turn = "turnReader (pp_Env p) (pp_Shared p)"
  let ?a = "tg_Agent ?t"
  obtain res h' where run: "EvacuateWhenSettled (settle_fuel ?t) (pp_Env p) (pp_Cancelled p) ?turn ?t h = (res, h')" by (cases "EvacuateWhenSettled (settle_fuel ?t) (pp_Env p) (pp_Cancelled p) ?turn ?t h")
  have reply: "fst (evacuate_endpoint p h) = (case res of None \<Rightarrow> empty_reply 500 | Some r \<Rightarrow> evacuate_reply r)"
    using run by (simp add: evacuate_endpoint_def Let_def bindI_def ret_def)
  obtain taken where taken: "res = Some (Inr taken)"
    using assms(1) reply by (auto simp: wire_response_def empty_reply_def evacuate_reply_def split: option.splits sum.splits)
  have turn: "emits (\<lambda>_. True) ?turn" unfolding turnReader_def by (intro emits_rules)
  obtain evs i h1 where 1: "?turn (h @ evs) = (Inr (False, i), h1)" "Evacuate (pp_Env p) ?a h1 = (Inr taken, h')"
    using settled_result [OF turn run [unfolded taken]] by blast
  obtain c evs' b1 b2 where 2: "ag_Store ?a = Some c" "h' = h1 @ evs'" "stored c (sn_BundleKey taken) b1 evs'"
    "stored c (sn_DirtyArchiveKey taken) b2 evs'" "sn_WorkspaceId taken = ag_WorkspaceId ?a"
    using Evacuate_stored [OF 1(2)] by blast
  have "decode_struct (snapshot_fields parse) (sr_Body (evacuate_reply (Inr taken))) snapshot0 = Some snap"
    using assms(2) reply taken by (simp add: wire_response_def)
  from snapshot_decoded [OF this] show ?thesis
    using 1 2 unfolding off_node_def Let_def by metis
qed

lemma host_of_supervisor:
  assumes "CHR ''/'' \<notin> set ip"
  shows "host_of (supervisor_url supervisor_client ip (CHR ''/'' # path)) = Clients.JoinHostPort ip (Itoa supervisorPort)"
    and "supervisor_url supervisor_client ip (CHR ''/'' # path) =
      (''http://'' @ Clients.JoinHostPort ip (Itoa supervisorPort)) @ CHR ''/'' # path"
proof -
  have "\<not> is_digit (CHR ''/'')" by code_simp
  then have "CHR ''/'' \<notin> set (Itoa supervisorPort)"
    using decimal_digits [of 8787] by (auto simp: Itoa_def supervisorPort_def list_all_iff)
  then have "CHR ''/'' \<notin> set (Clients.JoinHostPort ip (Itoa supervisorPort))" using assms by (simp add: Clients.JoinHostPort_def)
  then have "takeWhile (\<lambda>c. c \<noteq> CHR ''/'') (Clients.JoinHostPort ip (Itoa supervisorPort) @ CHR ''/'' # path) =
      Clients.JoinHostPort ip (Itoa supervisorPort)"
    by (subst takeWhile_append2) auto
  then show "host_of (supervisor_url supervisor_client ip (CHR ''/'' # path)) = Clients.JoinHostPort ip (Itoa supervisorPort)"
    "supervisor_url supervisor_client ip (CHR ''/'' # path) = (''http://'' @ Clients.JoinHostPort ip (Itoa supervisorPort)) @ CHR ''/'' # path"
    by (simp_all add: host_of_def supervisor_url_def supervisor_client_def)
qed

lemma pod_evacuates:
  assumes "CHR ''/'' \<notin> set ip" and "pods (Clients.JoinHostPort ip (Itoa supervisorPort)) = Some p"
  shows "http_Do (with_pods E pods) h ''POST'' (supervisor_url supervisor_client ip ''/evacuate'') =
    Inr (wire_response (fst (evacuate_endpoint p (pp_Own p h))))"
proof -
  let ?u = "supervisor_url supervisor_client ip ''/evacuate''"
  have "http_Do (with_pods E pods) h ''POST'' ?u = (case pods (host_of ?u) of None \<Rightarrow> http_Do E h ''POST'' ?u
      | Some p \<Rightarrow> Inr (process_answer p h (''http://'' @ host_of ?u) ''POST'' ?u))"
    by (simp add: with_pods_def)
  then show ?thesis
    unfolding host_of_supervisor(1) [OF assms(1)] assms(2) option.case unfolding host_of_supervisor(2) [OF assms(1)] evacuate_answer .
qed

definition vouched :: "(string \<rightharpoonup> PodProcess) \<Rightarrow> EvacuationSnapshot \<Rightarrow> bool" where
  "vouched pods snap \<longleftrightarrow> (\<exists>host p. pods host = Some p \<and> off_node p snap)"

lemma request_vouched:
  assumes "runs_supervisors E pods"
    and "answers (RequestEvacuation supervisor_client parse (with_pods E pods)) h ws = Inr snap"
  shows "vouched pods snap"
proof -
  let ?E = "with_pods E pods"
  let ?url = "\<lambda>ip. supervisor_url supervisor_client ip ''/evacuate''"
  obtain h' where run: "RequestEvacuation supervisor_client parse ?E ws h = (Inr snap, h')"
    using assms(2) by (cases "RequestEvacuation supervisor_client parse ?E ws h") (auto simp: answers_def)
  obtain ip h1 where ip: "runningPodIP ?E ws h = (Inr ip, h1)"
    and post: "tryE (http_call ?E ''devplatform: evacuation request to '' ''POST'' (?url ip)) (\<lambda>resp.
         if StatusCode resp \<ge> 300
         then fail (Err (''devplatform: evacuation request to '' @ ?url ip @ '': '' @ StatusText resp @ '': '' @ take 512 (BodyText resp)))
         else case decode_struct (snapshot_fields parse) (Body resp) snapshot0 of
                None \<Rightarrow> fail (Err ''devplatform: decoding evacuation snapshot'')
              | Some snap \<Rightarrow> ok snap) h1 = (Inr snap, h')"
    using run unfolding RequestEvacuation_def Let_def by (blast dest: tryE_InrD)
  obtain ps p where "api_ListPods E h (Namespace (WMeta ws)) (Name (WMeta ws)) = Inr ps" "List.find podUsable ps = Some p" "ip = PodIP p"
    using ip by (auto simp: runningPodIP_def tryE_def bindI_def listPods_def call_def with_pods_def ok_def fail_def ret_def
        split: sum.splits option.splits)
  then obtain proc where host: "CHR ''/'' \<notin> set ip" "pods (Clients.JoinHostPort ip (Itoa supervisorPort)) = Some proc"
    using assms(1) unfolding runs_supervisors_def by (metis find_Some_iff nth_mem option.exhaust)
  have answer: "http_Do ?E h1 ''POST'' (?url ip) = Inr (wire_response (fst (evacuate_endpoint proc (pp_Own proc h1))))"
    by (rule pod_evacuates [of ip pods proc]) (fact host)+
  let ?resp = "wire_response (fst (evacuate_endpoint proc (pp_Own proc h1)))"
  have "StatusCode ?resp < 300 \<and> decode_struct (snapshot_fields parse) (Body ?resp) snapshot0 = Some snap"
    using post answer
    by (auto simp: http_call_def tryE_def bindI_def call_def ok_def fail_def ret_def split: option.splits if_splits)
  then have "off_node proc snap" using endpoint_off_node by blast
  then show ?thesis using host(2) unfolding vouched_def by blast
qed

subsection \<open>The handlers\<close>

text \<open>A handler of the process \<^verbatim>\<open>main.go\<close> starts asks nobody but these supervisors.\<close>

definition honest :: "(string \<rightharpoonup> PodProcess) \<Rightarrow> Event \<Rightarrow> bool" where
  "honest pods e \<longleftrightarrow> (\<forall>k snap. e = EvRequestEvacuation k (Inr snap) \<longrightarrow> vouched pods snap)"

lemma honest_other [simp]: "(\<And>k snap. e \<noteq> EvRequestEvacuation k (Inr snap)) \<Longrightarrow> honest pods e"
  by (simp add: honest_def)

lemma emits_call_answer: "(\<And>h. S (ev (a h))) \<Longrightarrow> emits S (call a ev)"
  by (simp add: emits_def call_def)

lemma honest_evacuateBeforeStop:
  assumes "runs_supervisors E pods" and "r = workspace_reconciler parse vars (with_pods E pods) routing db"
  shows "emits (honest pods) (evacuateBeforeStop r E' ws n)"
proof -
  have r: "EvacuationRequester r = Some (answers (RequestEvacuation supervisor_client parse (with_pods E pods)))"
    by (simp add: assms(2) workspace_reconciler_def split: prod.split)
  have req: "emits (honest pods) (call (\<lambda>h. answers (RequestEvacuation supervisor_client parse (with_pods E pods)) h ws) (EvRequestEvacuation k))" for k
    by (rule emits_call_answer) (auto simp: honest_def intro: request_vouched [OF assms(1)])
  have running: "emits (honest pods) (computeRunning E' ns n)" for ns
    unfolding computeRunning_def by (intro emits_rules; simp)
  show ?thesis
    unfolding evacuateBeforeStop_def r option.case
    by (intro emits_if emits_ok emits_tryE [OF running] emits_bindI [OF req] emits_case_sum)
      (auto intro!: emits_rules emits_notify)
qed

lemma honest_reconcileTerminating:
  assumes "runs_supervisors E pods" and "r = workspace_reconciler parse vars (with_pods E pods) routing db"
  shows "emits (honest pods) (reconcileTerminating r E' ws)"
  unfolding reconcileTerminating_def deactivateBlackboard_def evacuationComplete_def removeEvacuationFinalizer_def
  by (intro emits_rules honest_evacuateBeforeStop [OF assms] emits_mono [OF emits_database_adapter(2)]; (auto simp: honest_def)?)

lemma honest_refresh_ready: "emits (honest pods) (refresh_ready r E ws)"
proof -
  have "emits (honest pods) (reconcileClaudeMD E ws n)" for ws n
    unfolding reconcileClaudeMD_def by (intro emits_rules emits_owned; simp)
  moreover have "emits (honest pods) (checkNodeAvailable r E ws)" for ws
    unfolding checkNodeAvailable_def getTemplate_def nodeAvailable_def by (intro emits_rules emits_notify; simp)
  moreover have "emits (honest pods) (syncBlackboard r E ws)" for ws
    unfolding syncBlackboard_def readChangedFiles_def by (intro emits_rules; simp)
  moreover have "emits (honest pods) (reconcileFileConflicts r E ws)" for ws
    unfolding reconcileFileConflicts_def by (intro emits_rules emits_notify; simp)
  ultimately show ?thesis unfolding refresh_ready_def by (intro emits_rules; simp)
qed

lemma honest_reconcileReady:
  assumes "runs_supervisors E pods" and "r = workspace_reconciler parse vars (with_pods E pods) routing db"
  shows "emits (honest pods) (reconcileReady r E' ws)"
  unfolding reconcileReady_def connected_def scaleStatefulSet_def suspend_def
  by (intro emits_rules honest_refresh_ready honest_evacuateBeforeStop [OF assms]; (simp add: honest_def)?)

subsection \<open>Stopping is safe\<close>

definition stop_evidence :: "(string \<rightharpoonup> PodProcess) \<Rightarrow> Workspace \<Rightarrow> Event list \<Rightarrow> Event \<Rightarrow> bool" where
  "stop_evidence pods ws before e \<longleftrightarrow>
     (if stops_compute e
      then (\<exists>res. EvGetStatefulSet (substrate_key ws) res \<in> set before \<and> not_running res) \<or>
        (\<exists>snap w host p. EvStatusUpdate (OWorkspace w) None \<in> set before \<and> LastEvacuation (Status w) = Some snap \<and>
           pods host = Some p \<and> off_node p snap)
      else True)"

lemma honest_gate:
  assumes "gate_open ws before" and "list_all (honest pods) before"
  shows "stop_evidence pods ws before e"
proof -
  have told: "\<exists>host p. pods host = Some p \<and> off_node p snap" if "EvRequestEvacuation k (Inr snap) \<in> set before" for k snap
    using assms(2) that by (auto simp: list_all_iff honest_def vouched_def)
  from assms(1) show ?thesis
    unfolding gate_open_def
  proof
    assume "\<exists>res. EvGetStatefulSet (substrate_key ws) res \<in> set before \<and> not_running res"
    then show ?thesis by (auto simp: stop_evidence_def)
  next
    assume "\<exists>snap w. EvRequestEvacuation (ws_key ws) (Inr snap) \<in> set before \<and> EvStatusUpdate (OWorkspace w) None \<in> set before \<and>
      LastEvacuation (Status w) = Some snap"
    then show ?thesis unfolding stop_evidence_def using told by meson
  qed
qed

lemma stop_evidence_if:
  assumes "guarded G evs" and "list_all (honest pods) evs"
    and "\<And>before e. e \<in> set evs \<Longrightarrow> G before e \<Longrightarrow> stops_compute e \<Longrightarrow> gate_open ws before"
  shows "guarded (stop_evidence pods ws) evs"
  unfolding guarded_iff
proof (intro allI impI)
  fix before e later assume evs: "evs = before @ e # later"
  then have G: "G before e" and h: "list_all (honest pods) before" using assms(1,2) by (auto simp: guarded_iff)
  show "stop_evidence pods ws before e"
  proof (cases "stops_compute e")
    case True
    then have "gate_open ws before" using assms(3) [of e before] G evs by simp
    then show ?thesis by (rule honest_gate [OF _ h])
  next
    case False
    then show ?thesis by (simp add: stop_evidence_def)
  qed
qed

lemma no_scaling: "emits (\<lambda>e. \<forall>s r. e \<noteq> EvUpdate (OStatefulSet s) r) (reconcileTerminating r E ws)"
  unfolding reconcileTerminating_def deactivateBlackboard_def evacuationComplete_def removeEvacuationFinalizer_def
    evacuateBeforeStop_def computeRunning_def
  by (intro emits_rules emits_notify emits_mono [OF emits_database_adapter(2)]; auto)


text \<open>A Pod whose supervisor captures and uploads, and a controller that reaches it.\<close>

definition proc_env0 :: ProcEnv where
  "proc_env0 = \<lparr>getenv = \<lambda>n. case map_of [(''WORKSPACE_DIR'', ''/w''), (''WORKSPACE_ID'', ''id''), (''EVACUATION_ENDPOINT'', ''e''),
      (''EVACUATION_BUCKET'', ''b''), (''EVACUATION_REGION'', ''r''), (''EVACUATION_ACCESS_KEY'', ''a''), (''EVACUATION_SECRET_KEY'', ''s'')] n
      of None \<Rightarrow> [] | Some v \<Rightarrow> v, environ = []\<rparr>"

definition process0 :: PodProcess where
  "process0 = \<lparr>pp_Env = store_senv, pp_Proc = proc_env0, pp_Health = \<lparr>he_ConfigDir = [], he_Source = [], unusable = []\<rparr>,
     pp_Cancelled = \<lambda>_. None, pp_Shared = \<lambda>_. supervisor0\<lparr>failure := ''exit status 1''\<rparr>, pp_State = \<lambda>_. supervisor0, pp_Own = \<lambda>_. []\<rparr>"

definition pods0 :: "string \<rightharpoonup> PodProcess" where
  "pods0 host = Some process0"

definition cluster0 :: Env where
  "cluster0 = env0\<lparr>api_ListPods := \<lambda>h ns n. Inr [\<lparr>PodPhase = ''Running'', PodIP = ''10.0.0.1'', PodDeletionTimestamp = None\<rparr>]\<rparr>"

lemma process0_evacuates: "\<exists>taken. fst (evacuate_endpoint process0 h) = evacuate_reply (Inr taken)"
proof -
  have agent: "tg_Agent (the_trigger proc_env0) = agent0"
    by (simp add: the_trigger_def newEvacuationAgent_def workingDirFromEnv_def env_or_def proc_env0_def agent0_def)
  obtain taken h' where e: "Evacuate store_senv agent0 h = (Inr taken, h')"
    using store_senv_Evacuate [of h] by (auto simp: wp_def split: prod.splits)
  have turn: "turnReader store_senv (\<lambda>_. supervisor0\<lparr>failure := ''exit status 1''\<rparr>) h = (Inr (False, []), h)"
    by (simp add: turnReader_def sup_TurnState_def turn_summary_def turn_state_def tryE_def bindI_def peek_def ok_def ret_def)
  show ?thesis
    using e turn
    by (auto simp: evacuate_endpoint_def Let_def process0_def EvacuateWhenSettled_def settle_fuel_def bindI_def snow_def peek_def
        settled_attempt_def agent ret_def)
qed

lemma cluster0_request:
  "\<exists>snap. answers (RequestEvacuation supervisor_client (\<lambda>_. Some 0) (with_pods cluster0 pods0)) h ws = Inr snap"
proof -
  have post: "http_Do (with_pods cluster0 pods0) h' ''POST'' (supervisor_url supervisor_client ''10.0.0.1'' ''/evacuate'') =
      Inr (wire_response (fst (evacuate_endpoint process0 [])))" for h'
    using pod_evacuates [of "''10.0.0.1''" pods0 process0 cluster0 h'] by (simp add: pods0_def process0_def)
  obtain taken where taken: "fst (evacuate_endpoint process0 []) = evacuate_reply (Inr taken)" using process0_evacuates by blast
  obtain snap where snap: "decode_struct (snapshot_fields (\<lambda>_. Some 0)) (sr_Body (evacuate_reply (Inr taken))) snapshot0 = Some snap"
    using snapshot_crosses [of "\<lambda>_. Some 0" taken 0] by blast
  have body: "Body (wire_response (evacuate_reply (Inr taken))) = sr_Body (evacuate_reply (Inr taken))"
    "StatusCode (wire_response (evacuate_reply (Inr taken))) = 200"
    by (simp_all add: wire_response_def evacuate_reply_def writeJSONResponse_def)
  have "runningPodIP (with_pods cluster0 pods0) ws h = (Inr ''10.0.0.1'', h @ [EvListPods (Namespace (WMeta ws)) (Name (WMeta ws))
      (Inr [\<lparr>PodPhase = ''Running'', PodIP = ''10.0.0.1'', PodDeletionTimestamp = None\<rparr>])])"
    by (simp add: runningPodIP_def tryE_def bindI_def listPods_def call_def with_pods_def cluster0_def podUsable_def ok_def ret_def)
  moreover have "http_NewRequest (with_pods cluster0 pods0) m u = None" for m u by (simp add: with_pods_def cluster0_def env0_def)
  ultimately show ?thesis
    using post taken snap body
    by (simp add: answers_def RequestEvacuation_def tryE_def bindI_def Let_def http_call_def call_def ok_def ret_def)
qed


end
