(* ===== verification/Spec2Isabelle.thy ===== *)
theory Spec2Isabelle
  imports Naming TaskQueue Provisioning GatewayHandler PlatformEvacuation
begin

text \<open>
  A verification development of devplatform, a control plane for branch workspaces on Kubernetes.

  \<^bold>\<open>The program.\<close>  Three programs cooperate.  The controller (\<^verbatim>\<open>src/controller\<close>)
  reconciles three custom resources: a Workspace (one repository and branch) into a volume, a
  StatefulSet, routing, a database and a Git credential; and TaskRequests into dispatched work.  The
  gateway (\<^verbatim>\<open>src/gateway\<close>) authenticates developers and hands browser sessions over between
  devices.  The supervisor (\<^verbatim>\<open>src/supervisor\<close>) runs inside a workspace Pod.  The programs meet
  in the API objects and in HTTP calls of the controller and the gateway into the Pod.

  \<^bold>\<open>How it is modelled.\<close>  A handler is a function of the history of events (API calls, HTTP
  requests, notifications, each with its answer) to a result and the extended history
  (\<^verbatim>\<open>Prelude\<close>); what the outside answers is the record \<open>Env\<close> of functions of that history
  (\<^verbatim>\<open>Api\<close>), so a theorem without premises on \<open>Env\<close> holds for every API server, Pod and clock.
  Go structs are records, string enumerations are datatypes, \<^verbatim>\<open>error\<close> returns are the left of a
  sum with the classes \<^verbatim>\<open>apierrors\<close> distinguishes.  Loops are structural recursion on the slice
  they range over, so the handlers of the controller and the gateway are total and need no fuel (the
  retry loop of the user store counts its attempts down).  The supervisor waits in loops: they share
  \<open>poll_loop\<close>, which takes fuel, and \<open>poll_loop_returns\<close> shows how much is enough for a
  deadline, given a clock that advances with sleep (\<open>ticking\<close>).  A ticker loop is seen for a given
  number of ticks (\<open>watch\<close>).  Logging is left out, and so are contexts and time limits of calls.

  \<^bold>\<open>Theories.\<close>
  \<^item> \<open>Prelude\<close>: handlers over a history, their judgements (\<open>wp\<close>, \<open>emits\<close>, \<open>runs\<close>,
    \<open>guarded\<close>) and error classes.  \<open>GoStd\<close>: what is used of \<^verbatim>\<open>strings\<close>,
    \<^verbatim>\<open>strconv\<close>, \<^verbatim>\<open>fmt\<close> and \<^verbatim>\<open>sort\<close>; the locale \<open>slice_order\<close> states
    what \<^verbatim>\<open>sort.Slice\<close> needs of an order.  \<open>Sha256\<close>: the hash of \<^verbatim>\<open>shortHash\<close>.
  \<^item> \<open>Naming\<close> (\<^verbatim>\<open>naming.go\<close>, host names of \<^verbatim>\<open>ingress_reconciler.go\<close>, the copy in
    \<^verbatim>\<open>gateway/workspaces.go\<close>): labels are valid, stable and free, host names injective.
  \<^item> \<open>Api\<close> (\<^verbatim>\<open>api/v1alpha1\<close>): the custom resources, the core objects the controller writes,
    events and environment.  \<open>Reference\<close>: a concrete environment for the witnesses.
    \<open>Ordering\<close>: creation order, interpreted as a \<open>slice_order\<close>.
  \<^item> \<open>TaskQueue\<close> (\<^verbatim>\<open>taskqueue.go\<close>, \<^verbatim>\<open>quota.go\<close>): one pass of the queue and the
    Quota Governor: the concurrency limit, dispatch order, the account-wide stop, the model chain.
  \<^item> \<open>Clients\<close> (\<^verbatim>\<open>connections.go\<close>, \<^verbatim>\<open>evacuation_request.go\<close>, and the reading
    halves of \<^verbatim>\<open>quota.go\<close> and \<^verbatim>\<open>blackboard.go\<close>): calls into the Pod.
  \<^item> \<open>Adapters\<close> (\<^verbatim>\<open>internal/adapter\<close>): the routing and database interfaces as the locales
    \<open>routing_adapter\<close> and \<open>database_adapter\<close>, interpreted for Ingress, Traefik, CNPG and the
    no-op; removal undoes what ensuring created.
  \<^item> \<open>Reconciler\<close>, \<open>Blackboard\<close> (\<^verbatim>\<open>blackboard.go\<close>, \<^verbatim>\<open>claudemd.go\<close>,
    \<^verbatim>\<open>conflict.go\<close>), \<open>Resources\<close> (\<^verbatim>\<open>resources.go\<close>), \<open>GitCredential\<close>
    (\<^verbatim>\<open>git_credential_reconciler.go\<close>), \<open>Admission\<close> (\<^verbatim>\<open>admission.go\<close>),
    \<open>Evacuation\<close> (\<^verbatim>\<open>evacuation.go\<close>), \<open>Lifecycle\<close> (\<^verbatim>\<open>lifecycle.go\<close>) and
    \<open>Provisioning\<close> (\<^verbatim>\<open>workspace_controller.go\<close>): the Workspace reconciler.  Shown: one
    owner per branch, Ready only on a complete substrate, rollback removes what provisioning created,
    compute stops and the volume goes only behind the evacuation gate, credentials are scoped, and
    admission is exact.
  \<^item> \<open>ControllerMain\<close> (\<^verbatim>\<open>main.go\<close>, \<^verbatim>\<open>HermesNotifier\<close> of
    \<^verbatim>\<open>evacuation_request.go\<close>): the settings, the reconcilers the process builds and its steps; no
    manager runs unconfigured, and what an operator lists as protected is refused.

  \<^item> \<open>Base64\<close>: \<^verbatim>\<open>encoding/base64\<close>, with its round trip.  \<open>Gateway\<close>: requests, replies,
    the events and the environment \<open>GEnv\<close> of the gateway, and what is assumed of the bcrypt, JWT and
    JSON libraries (\<open>bcrypt_lib\<close>, \<open>jwt_lib\<close>, \<open>users_json\<close>).
  \<^item> \<open>GatewayStore\<close> (\<^verbatim>\<open>workspaces.go\<close>): lookup, creation and deletion of workspaces, the
    address of a session; the host the controller publishes reaches its workspace, and the connection
    count the gateway writes is the one the controller reads.
  \<^item> \<open>GatewayUsers\<close> (\<^verbatim>\<open>userstore.go\<close>, \<^verbatim>\<open>session_issuer.go\<close>): the optimistic loop
    loses no update, a session is good exactly while it is fresh.
  \<^item> \<open>GatewayIdentity\<close> (\<^verbatim>\<open>auth.go\<close>, \<^verbatim>\<open>identity.go\<close>): the interface
    \<^verbatim>\<open>Authenticator\<close> as the locale \<open>authenticator\<close>, interpreted for both
    implementations and their sum.  \<open>GatewayBootstrap\<close> (\<^verbatim>\<open>sshca.go\<close>,
    \<^verbatim>\<open>sshca_bootstrap.go\<close>, \<^verbatim>\<open>identity_bootstrap.go\<close>): replicas agree on keys,
    certificates are confined.
  \<^item> \<open>GatewayHandover\<close> (\<^verbatim>\<open>handover.go\<close>, the bridge of \<^verbatim>\<open>handler.go\<close>): the
    inductive relation \<open>switch\<close> interleaves the critical sections of sockets and handovers; at most
    one writer in every reachable state.  \<open>bridge_output\<close> makes a given number of polls, so its
    theorem holds for every number.  \<open>GatewayHandler\<close> (\<^verbatim>\<open>handler.go\<close>,
    \<^verbatim>\<open>authroutes.go\<close>, \<^verbatim>\<open>cmd/gateway/main.go\<close>): routes and start-up; nothing is
    served without an identity.

  \<^item> \<open>Supervisor\<close>: file paths, the events and the environment \<open>SEnv\<close> of the supervisor.
    \<open>SupervisorSession\<close> (\<^verbatim>\<open>tmux.go\<close>, \<^verbatim>\<open>session.go\<close>, \<^verbatim>\<open>claudemd.go\<close>,
    \<^verbatim>\<open>browser.go\<close>, \<^verbatim>\<open>sshsessions.go\<close>, \<^verbatim>\<open>changedfiles.go\<close>): input reaches
    the session only from its writer.  \<open>SupervisorTurn\<close> (\<^verbatim>\<open>transcript.go\<close>): turn states and
    waiting.  \<open>SupervisorHealth\<close> (\<^verbatim>\<open>probe.go\<close>, \<^verbatim>\<open>model.go\<close>, \<^verbatim>\<open>usage.go\<close>,
    \<^verbatim>\<open>health.go\<close>, \<^verbatim>\<open>supervise.go\<close>): a request returns and succeeds only on a turn of
    its own, a failed probe is reported, quota readings reach the controller.  \<open>SupervisorHttp\<close>
    (\<^verbatim>\<open>http.go\<close>, the multiplexer of \<^verbatim>\<open>main.go\<close>): the control API.
  \<^item> \<open>SupervisorEvacuation\<close> (\<^verbatim>\<open>internal/evacuation\<close>): captures happen between turns, a
    snapshot means both objects are stored, an archive comes back as it was and cannot leave the working
    directory, local work is left alone.  \<open>SupervisorConfig\<close> (\<^verbatim>\<open>repocfg\<close>,
    \<^verbatim>\<open>dbboot\<close>): the database bootstrap returns, with the schema in place when it reports success.
    \<open>SupervisorFailure\<close> (\<^verbatim>\<open>failure.go\<close>): failed suites leave bounded evidence.
    \<open>SupervisorTests\<close> (\<^verbatim>\<open>runner.go\<close>, \<^verbatim>\<open>report.go\<close>, \<^verbatim>\<open>heal.go\<close>): healing is
    bounded (\<open>at_most\<close>), and a verified verdict rests on suites that passed.  \<open>SupervisorStart\<close>
    (\<^verbatim>\<open>cache.go\<close>, \<^verbatim>\<open>bootstrap.go\<close>, \<^verbatim>\<open>prompt.go\<close>, \<^verbatim>\<open>commit.go\<close>,
    \<^verbatim>\<open>sshd.go\<close>, \<^verbatim>\<open>main.go\<close>): nothing happens before the lock is held, seeding keeps
    what was there.
  \<^item> \<open>Platform\<close>: the gateway's requests answered by a supervisor, and the Pod the controller builds as
    the supervisor's environment.  The control API implements the output contract of \<open>GatewayHandover\<close>,
    and a takeover is seen by everyone until it is released.  \<open>PlatformEvacuation\<close>: the controller's
    evacuation request answered by supervisors; compute stops only when the working directory is off the node.

  \<^bold>\<open>Fuel.\<close>  A request of the supervisor uses \<open>request_fuel\<close>, an evacuation \<open>settle_fuel\<close> and the
  database bootstrap \<open>db_fuel\<close>, one more than the polls that fit the deadline; under \<open>ticking\<close> each is shown to be enough.

  \<^bold>\<open>Not modelled.\<close>  The watches a reconciler registers with its manager; signals, logging and the shutdown
  of the servers; file modes; the HTML the gateway serves and the WebSocket handshake; generated
  deep copies (values are copied by construction); Kubernetes, Git hosting, Traefik, CNPG, tmux, git,
  sshd and the tar format themselves, which are answers of the environment.  Letters outside ASCII are not folded.
\<close>

end
